(* ===== verification/Simon_Prelude.thy ===== *)
theory Simon_Prelude
  imports Main "HOL-Library.Word" "HOL-Library.Monad_Syntax" "HOL-Library.Signed_Division"
begin

text \<open>
  Shared vocabulary of the development: the C integer types as words, plain \<open>char\<close> as HOL's
  \<open>char\<close> read with its sign, the C conditionals on bytes, the heap block a \<open>malloc\<close> returns,
  the C string functions the program calls, and the generic run of a machine with a partial
  step. A C execution with undefined behaviour (an access outside a block, a use after
  \<open>free\<close>, a read of an indeterminate value that matters) is the value \<open>None\<close> of an
  \<open>option\<close>; every other execution is \<open>Some\<close>.
\<close>

unbundle bit_operations_syntax

named_theorems c_simps \<open>unfolding of the C-level helpers\<close>
named_theorems frame_simps \<open>what an operation leaves unchanged\<close>

section \<open>Integer types\<close>

type_synonym u8 = "8 word"
type_synonym u16 = "16 word"
type_synonym u32 = "32 word"

definition BIT :: "nat \<Rightarrow> 'a::len word" where
  "BIT n = push_bit n 1"

text \<open>The truth value C gives a byte in a condition or in a conversion to \<open>bool\<close>.\<close>

definition truth :: "'a::len word \<Rightarrow> bool" where
  "truth w \<longleftrightarrow> w \<noteq> 0"

text \<open>The operand \<open>!x\<close> of C: 1 for zero, 0 otherwise.\<close>

definition lnot :: "'a::len word \<Rightarrow> 'a word" where
  "lnot w = (if w = 0 then 1 else 0)"

text \<open>Plain \<open>char\<close> is signed on the target: its value after the integer promotion.\<close>

definition c_int :: "char \<Rightarrow> int" where
  "c_int c = (let n = (of_char c :: int) in if n < 128 then n else n - 256)"

definition int_char :: "int \<Rightarrow> char" where
  "int_char i = char_of i"

declare BIT_def [c_simps] truth_def [c_simps] lnot_def [c_simps] c_int_def [c_simps]
  int_char_def [c_simps]

lemma truth_and_BIT: "n < LENGTH('a) \<Longrightarrow> truth (w AND BIT n) \<longleftrightarrow> bit w n" for w :: "'a::len word"
  by (auto simp: truth_def BIT_def bit_eq_iff [of "_ AND _"] bit_simps)

lemma bit_or_BIT: "bit (w OR BIT n) m \<longleftrightarrow> bit w m \<or> (n = m \<and> m < LENGTH('a))" for w :: "'a::len word"
  by (auto simp: BIT_def bit_simps)

lemma bit_and_not_BIT: "bit (w AND NOT (BIT n)) m \<longleftrightarrow> bit w m \<and> n \<noteq> m" for w :: "'a::len word"
  by (auto simp: BIT_def bit_simps dest: bit_imp_le_length)

lemma lnot_BIT [simp]: "n < LENGTH('a) \<Longrightarrow> lnot (BIT n :: 'a::len word) = 0"
  by (auto simp: lnot_def BIT_def bit_eq_iff bit_simps)

lemma sint_word_of_int_16:
  "- 32768 \<le> k \<Longrightarrow> k < 32768 \<Longrightarrow> sint (word_of_int k :: 16 word) = k"
  unfolding sint_sbintrunc' by (rule signed_take_bit_int_eq_self) simp_all

lemma sint_word_of_int_32:
  "- 2147483648 \<le> k \<Longrightarrow> k < 2147483648 \<Longrightarrow> sint (word_of_int k :: u32) = k"
  unfolding sint_sbintrunc' by (rule signed_take_bit_int_eq_self) simp_all

lemma uint_word_of_int_16:
  "0 \<le> k \<Longrightarrow> k < 65536 \<Longrightarrow> uint (word_of_int k :: u16) = k"
  by (simp add: uint_word_of_int)

lemma u8_range: "- 256 \<le> uint (w :: u8)" "uint w < 256"
  using uint_bounded [of w] order_trans [OF _ uint_nonnegative, of "- 256" w] by simp_all

lemma unat_ucast_u8_u32 [simp]: "unat (ucast (w :: u8) :: u32) = unat w"
  unfolding unsigned_ucast_eq by (rule take_bit_nat_eq_self) (use unsigned_less [where ?'a = nat, of w] in simp)

lemma unat_ucast_u16_u32 [simp]: "unat (ucast (w :: u16) :: u32) = unat w"
  unfolding unsigned_ucast_eq by (rule take_bit_nat_eq_self) (use unsigned_less [where ?'a = nat, of w] in simp)

text \<open>C's truncating division and remainder on non-negative operands.\<close>

lemma smod_nonneg [simp]: "0 \<le> a \<Longrightarrow> 0 < b \<Longrightarrow> (a :: int) smod b = a mod b"
  by (cases "a = 0") (auto simp: signed_modulo_int_def sgn_if)

lemma sdiv_nonneg [simp]: "0 \<le> a \<Longrightarrow> 0 < b \<Longrightarrow> (a :: int) sdiv b = a div b"
  by (cases "a = 0") (auto simp: signed_divide_int_def sgn_if)

section \<open>Heap blocks\<close>

text \<open>
  What a pointer obtained from \<open>malloc\<close> refers to: nothing (\<open>NULL\<close>), a block already
  released, or a live block whose cells are indeterminate (\<open>None\<close>) until written.
\<close>

datatype 'a block = Null | Freed | Alloc "'a option list"

fun blk_read :: "'a block \<Rightarrow> int \<Rightarrow> 'a option" where
  "blk_read (Alloc cs) i = (if 0 \<le> i \<and> i < int (length cs) then cs ! nat i else None)"
| "blk_read _ i = None"

fun blk_write :: "'a block \<Rightarrow> int \<Rightarrow> 'a \<Rightarrow> 'a block option" where
  "blk_write (Alloc cs) i v =
     (if 0 \<le> i \<and> i < int (length cs) then Some (Alloc (cs[nat i := Some v])) else None)"
| "blk_write _ i v = None"

fun blk_free :: "'a block \<Rightarrow> 'a block option" where
  "blk_free Null = Some Null"
| "blk_free Freed = None"
| "blk_free (Alloc cs) = Some Freed"

definition blk_malloc :: "bool \<Rightarrow> int \<Rightarrow> 'a block" where
  "blk_malloc ok n = (if ok then Alloc (replicate (nat n) None) else Null)"

text \<open>The block holds the values \<open>xs\<close> in its first cells and has \<open>n\<close> cells in all.\<close>

definition blk_holds :: "'a block \<Rightarrow> nat \<Rightarrow> 'a list \<Rightarrow> bool" where
  "blk_holds b n xs \<longleftrightarrow>
     (\<exists>cs. b = Alloc cs \<and> length cs = n \<and> length xs \<le> n \<and> take (length xs) cs = map Some xs)"

lemma blk_holds_read:
  "blk_holds b n xs \<Longrightarrow> 0 \<le> i \<Longrightarrow> i < int (length xs) \<Longrightarrow> blk_read b i = Some (xs ! nat i)"
proof -
  assume h: "blk_holds b n xs" and i: "0 \<le> i" "i < int (length xs)"
  from h obtain cs where cs: "b = Alloc cs" "length cs = n" "length xs \<le> n"
      "take (length xs) cs = map Some xs"
    by (auto simp: blk_holds_def)
  from i have k: "nat i < length xs" by simp
  then have "cs ! nat i = take (length xs) cs ! nat i" by simp
  also have "\<dots> = Some (xs ! nat i)" using cs(4) k by simp
  finally show ?thesis using cs i by simp
qed

lemma blk_holds_write:
  "blk_holds b n xs \<Longrightarrow> length xs < n \<Longrightarrow>
   \<exists>b'. blk_write b (int (length xs)) v = Some b' \<and> blk_holds b' n (xs @ [v])"
proof -
  assume h: "blk_holds b n xs" and l: "length xs < n"
  from h obtain cs where cs: "b = Alloc cs" "length cs = n"
      "take (length xs) cs = map Some xs"
    by (auto simp: blk_holds_def)
  have "take (Suc (length xs)) (cs[length xs := Some v]) = map Some xs @ [Some v]"
    using cs l by (simp add: take_Suc_conv_app_nth)
  then show ?thesis using cs l by (auto simp: blk_holds_def)
qed

lemma blk_write_None: "blk_holds b n xs \<Longrightarrow> int n \<le> i \<Longrightarrow> blk_write b i v = None"
  by (auto simp: blk_holds_def)

lemma blk_holds_malloc: "blk_holds (blk_malloc True (int n)) n []"
  by (simp add: blk_holds_def blk_malloc_def)

lemma blk_holds_free: "blk_holds b n xs \<Longrightarrow> blk_free b = Some Freed"
  by (auto simp: blk_holds_def)

section \<open>C strings in fixed arrays\<close>

abbreviation NUL :: char where "NUL \<equiv> CHR 0x00"

text \<open>The string a \<open>char\<close> array holds; an array with no terminator has none.\<close>

definition cstr :: "char list \<Rightarrow> string option" where
  "cstr a = (if NUL \<in> set a then Some (takeWhile (\<lambda>c. c \<noteq> NUL) a) else None)"

lemma cstr_append_NUL: "NUL \<notin> set xs \<Longrightarrow> cstr (xs @ NUL # ys) = Some xs"
  unfolding cstr_def by (subst takeWhile_append2) auto

lemma cstr_no_NUL: "cstr a = Some xs \<Longrightarrow> NUL \<notin> set xs"
  unfolding cstr_def by (auto split: if_splits dest: set_takeWhileD)

lemma cstr_length: "cstr a = Some xs \<Longrightarrow> length xs < length a"
proof -
  assume "cstr a = Some xs"
  then have i: "NUL \<in> set a" and xs: "xs = takeWhile (\<lambda>c. c \<noteq> NUL) a"
    by (auto simp: cstr_def split: if_splits)
  have "takeWhile (\<lambda>c. c \<noteq> NUL) a \<noteq> a"
    using i by (metis set_takeWhileD)
  then show ?thesis unfolding xs
    by (metis length_takeWhile_le le_neq_implies_less takeWhile_eq_take take_all order_refl)
qed

text \<open>\<open>memcpy\<close> of \<open>n\<close> bytes to the start of an array; both arrays must have \<open>n\<close> bytes.\<close>

definition memcpy :: "'a list \<Rightarrow> 'a list \<Rightarrow> nat \<Rightarrow> 'a list option" where
  "memcpy dst src n =
     (if n \<le> length dst \<and> n \<le> length src then Some (take n src @ drop n dst) else None)"

lemma memcpy_whole: "length dst = n \<Longrightarrow> length src = n \<Longrightarrow> memcpy dst src n = Some src"
  by (simp add: memcpy_def)

section \<open>Decimal numerals\<close>

text \<open>The text \<open>printf\<close> writes for the conversion \<open>%d\<close>, and the value of a digit string.\<close>

definition digit_char :: "nat \<Rightarrow> char" where
  "digit_char d = char_of (48 + d)"

fun show_nat :: "nat \<Rightarrow> string" where
  "show_nat n = (if n < 10 then [digit_char n] else show_nat (n div 10) @ [digit_char (n mod 10)])"

declare show_nat.simps [simp del]

definition show_int :: "int \<Rightarrow> string" where
  "show_int i = (if i < 0 then CHR ''-'' # show_nat (nat (- i)) else show_nat (nat i))"

definition is_digit :: "char \<Rightarrow> bool" where
  "is_digit c \<longleftrightarrow> 48 \<le> c_int c \<and> c_int c \<le> 57"

definition digits_val :: "string \<Rightarrow> int" where
  "digits_val ds = foldl (\<lambda>v c. 10 * v + (c_int c - 48)) 0 ds"

lemma c_int_digit_char: "d < 10 \<Longrightarrow> c_int (digit_char d) = 48 + int d"
proof -
  assume d: "d < 10"
  have "(of_char (char_of (48 + d) :: char) :: int) = int (of_char (char_of (48 + d) :: char))"
    by (rule of_nat_of_char [symmetric])
  also have "\<dots> = 48 + int d" using d by (simp only: of_char_of) simp
  finally show ?thesis using d by (simp add: c_int_def digit_char_def)
qed

lemma digits_val_snoc [simp]: "digits_val (ds @ [c]) = 10 * digits_val ds + (c_int c - 48)"
  by (simp add: digits_val_def)

lemma digits_val_show_nat: "digits_val (show_nat n) = int n"
proof (induction n rule: show_nat.induct)
  case (1 n)
  show ?case
  proof (cases "n < 10")
    case True
    then show ?thesis by (simp add: show_nat.simps [of n] digits_val_def c_int_digit_char)
  next
    case False
    then have "digits_val (show_nat n) = 10 * int (n div 10) + int (n mod 10)"
      using 1 by (simp add: show_nat.simps [of n] c_int_digit_char)
    also have "\<dots> = int n" by (simp add: zdiv_int zmod_int)
    finally show ?thesis .
  qed
qed

lemma show_nat_digits: "list_all is_digit (show_nat n)"
proof (induction n rule: show_nat.induct)
  case (1 n)
  have "is_digit (digit_char (n mod 10))" by (simp add: is_digit_def c_int_digit_char)
  moreover have "n < 10 \<Longrightarrow> is_digit (digit_char n)" by (simp add: is_digit_def c_int_digit_char)
  ultimately show ?case using 1 by (subst show_nat.simps) simp
qed

lemma show_nat_nonempty [simp]: "show_nat n \<noteq> []"
  by (subst show_nat.simps) simp

lemma length_show_nat: "0 < k \<Longrightarrow> n < 10 ^ k \<Longrightarrow> length (show_nat n) \<le> k"
proof (induction k arbitrary: n)
  case 0
  then show ?case by simp
next
  case (Suc k)
  show ?case
  proof (cases "n < 10")
    case True
    then show ?thesis by (simp add: show_nat.simps [of n])
  next
    case False
    then have "0 < k" using Suc.prems by (cases k) auto
    moreover have "n div 10 < 10 ^ k" using Suc.prems by (simp add: less_mult_imp_div_less mult.commute)
    ultimately have "length (show_nat (n div 10)) \<le> k" by (rule Suc.IH)
    then show ?thesis using False by (simp add: show_nat.simps [of n])
  qed
qed

section \<open>Running a machine with a partial step\<close>

fun run_steps :: "('e \<Rightarrow> 's \<Rightarrow> 's option) \<Rightarrow> 'e list \<Rightarrow> 's \<Rightarrow> 's option" where
  "run_steps step [] s = Some s"
| "run_steps step (e # es) s = Option.bind (step e s) (run_steps step es)"

text \<open>
  The states a machine gets to from a start state by events it may receive there. The contract
  of a component whose handlers keep an invariant: an event that may be received in a state of
  the invariant has a defined outcome, and the outcome is in the invariant again.
\<close>

inductive reaches :: "('e \<Rightarrow> 's \<Rightarrow> 's option) \<Rightarrow> ('e \<Rightarrow> 's \<Rightarrow> bool) \<Rightarrow> 's \<Rightarrow> 's \<Rightarrow> bool"
  for step :: "'e \<Rightarrow> 's \<Rightarrow> 's option" and allowed :: "'e \<Rightarrow> 's \<Rightarrow> bool" and s0 :: 's where
  reaches_start: "reaches step allowed s0 s0"
| reaches_step: "reaches step allowed s0 s \<Longrightarrow> allowed e s \<Longrightarrow> step e s = Some s' \<Longrightarrow> reaches step allowed s0 s'"

locale safe_machine =
  fixes step :: "'e \<Rightarrow> 's \<Rightarrow> 's option"
    and inv :: "'s \<Rightarrow> bool"
    and allowed :: "'e \<Rightarrow> 's \<Rightarrow> bool"
  assumes step_safe: "inv s \<Longrightarrow> allowed e s \<Longrightarrow> \<exists>s'. step e s = Some s' \<and> inv s'"
begin

lemma reaches_inv: "reaches step allowed s0 s \<Longrightarrow> inv s0 \<Longrightarrow> inv s"
proof (induction rule: reaches.induct)
  case reaches_start
  then show ?case by simp
next
  case (reaches_step s e s')
  then show ?case using step_safe by fastforce
qed

lemma reaches_defined:
  "reaches step allowed s0 s \<Longrightarrow> inv s0 \<Longrightarrow> allowed e s \<Longrightarrow> \<exists>s'. step e s = Some s' \<and> inv s'"
  using reaches_inv step_safe by blast

end

lemma run_steps_Nil [simp]: "run_steps step [] = Some"
  by (rule ext) simp

lemma run_steps_append:
  "run_steps step (xs @ ys) s = Option.bind (run_steps step xs s) (run_steps step ys)"
  by (induction xs arbitrary: s) (auto split: Option.bind_split)

end
