(* ===== verification/Platform.thy ===== *)
theory Platform
  imports Simon_Prelude
begin

text \<open>
  The machine the program runs on and \<open>src/proj/utils.c\<close>. Code outside the repository (the
  Minix kernel calls, the LCF library, the C library's allocator, generator and files) is the
  record \<open>'d env\<close> of functions over an abstract device state \<open>'d\<close>, passed to every
  definition that uses it. The globals of the program form one state record that grows by one
  translation unit per theory; its first layer, here, holds the device state. Every operation
  is polymorphic in the layers above it, so it applies to the whole program's state as it is.
  Console output (\<open>printf\<close>, LCF's \<open>kbd_print_scancode\<close>) is not part of the state.
\<close>

section \<open>Images as the LCF library delivers them\<close>

datatype xpm_image_type = XPM_INDEXED | XPM_1_5_5_5 | XPM_5_6_5 | XPM_8_8_8 | XPM_8_8_8_8
  | XPM_GRAY_1_5_5_5 | XPM_GRAY_5_6_5 | XPM_GRAY_8_8_8 | XPM_GRAY_8_8_8_8 | INVALID_XPM

record xpm_image_t =
  img_type :: xpm_image_type
  width :: u16
  height :: u16
  img_bytes :: "u8 list"

section \<open>Messages of the kernel\<close>

record message =
  m_source_hardware :: bool
  interrupts :: u32

record vbe_mode_info_t =
  XResolution :: u16
  YResolution :: u16
  BitsPerPixel :: u8
  MemoryModel :: u8
  RedMaskSize :: u8
  RedFieldPosition :: u8
  GreenMaskSize :: u8
  GreenFieldPosition :: u8
  BlueMaskSize :: u8
  BlueFieldPosition :: u8
  PhysBasePtr :: u32

section \<open>The external functions\<close>

text \<open>
  \<open>sys_inb\<close> and \<open>sys_outb\<close> access an I/O port; the word \<open>sys_inb\<close> returns is what it
  leaves in a location that held 0. \<open>sys_irqsetpolicy\<close> takes the line, the policy and the
  hook identifier and returns the status and the new hook identifier. \<open>malloc\<close> is
  the number of usable bytes of a block requested with the given size, \<open>None\<close> for \<open>NULL\<close>;
  \<open>uninit\<close> is the content of an
  uninitialised automatic variable, \<open>read_file\<close> and \<open>write_file\<close> are the file that
  \<open>fopen\<close> opens (\<open>None\<close> where it returns \<open>NULL\<close>), \<open>xpm_load\<close> the conversion of the
  named image. \<open>driver_receive\<close> returns its status, whether the message is a notification,
  and the message.
\<close>

record 'd env =
  sys_inb :: "int \<Rightarrow> 'd \<Rightarrow> (int \<times> u32) \<times> 'd"
  sys_outb :: "int \<Rightarrow> u32 \<Rightarrow> 'd \<Rightarrow> int \<times> 'd"
  sys_irqsetpolicy :: "int \<Rightarrow> u32 \<Rightarrow> int \<Rightarrow> 'd \<Rightarrow> (int \<times> int) \<times> 'd"
  sys_irqrmpolicy :: "int \<Rightarrow> 'd \<Rightarrow> int \<times> 'd"
  sys_irqenable :: "int \<Rightarrow> 'd \<Rightarrow> int \<times> 'd"
  sys_irqdisable :: "int \<Rightarrow> 'd \<Rightarrow> int \<times> 'd"
  micros_to_ticks :: "int \<Rightarrow> int"
  tickdelay :: "int \<Rightarrow> 'd \<Rightarrow> 'd"
  rand :: "'d \<Rightarrow> int \<times> 'd"
  srand_time :: "'d \<Rightarrow> 'd"
  malloc :: "int \<Rightarrow> 'd \<Rightarrow> nat option"
  uninit :: "'d \<Rightarrow> u8"
  read_file :: "string \<Rightarrow> 'd \<Rightarrow> string option"
  write_file :: "string \<Rightarrow> string \<Rightarrow> 'd \<Rightarrow> 'd option"
  xpm_load :: "string \<Rightarrow> xpm_image_type \<Rightarrow> xpm_image_t"
  xpm_transparency_color :: "xpm_image_type \<Rightarrow> u32"
  vbe_get_mode_info :: "u16 \<Rightarrow> 'd \<Rightarrow> vbe_mode_info_t \<times> 'd"
  sys_int86 :: "u8 \<Rightarrow> u8 \<Rightarrow> u16 \<Rightarrow> u8 \<Rightarrow> 'd \<Rightarrow> int \<times> 'd"
  sys_privctl_add_mem :: "u32 \<Rightarrow> u32 \<Rightarrow> 'd \<Rightarrow> int \<times> 'd"
  vm_map_phys_ok :: "u32 \<Rightarrow> u32 \<Rightarrow> 'd \<Rightarrow> bool \<times> 'd"
  vg_exit :: "'d \<Rightarrow> int \<times> 'd"
  driver_receive :: "'d \<Rightarrow> (int \<times> bool \<times> message) \<times> 'd"

text \<open>
  The allocator of low memory, \<open>liblm.h\<close>, as the video modules use it: \<open>lm_alloc\<close> gives what a block of
  the size of a \<open>vbe_mode_info_t\<close> holds, read as that structure, and \<open>None\<close> where it returns \<open>NULL\<close>.
\<close>

record 'd liblm =
  lm_alloc :: "'d \<Rightarrow> vbe_mode_info_t option \<times> 'd"
  lm_free :: "'d \<Rightarrow> 'd"

section \<open>The first layer of the program state\<close>

record 'd machine =
  dev :: 'd

text \<open>
  The contract of a driver operation: it changes the device and nothing else of the program.
\<close>

definition only_dev :: "('d, 'z) machine_scheme \<Rightarrow> ('d, 'z) machine_scheme \<Rightarrow> bool" where
  "only_dev s s' \<longleftrightarrow> s' = s\<lparr>dev := dev s'\<rparr>"

lemma only_dev_refl [simp]: "only_dev s s"
  by (simp add: only_dev_def)

lemma only_dev_upd [simp]: "only_dev s (s\<lparr>dev := d\<rparr>)"
  by (simp add: only_dev_def)

lemma only_dev_upd_iff [simp]: "only_dev s (s'\<lparr>dev := d\<rparr>) \<longleftrightarrow> only_dev s s'"
  by (cases s; cases s') (auto simp: only_dev_def)

lemma only_dev_upd_iff' [simp]: "only_dev (s\<lparr>dev := d\<rparr>) s' \<longleftrightarrow> only_dev s s'"
  by (cases s; cases s') (auto simp: only_dev_def)

lemma only_dev_trans: "only_dev s s' \<Longrightarrow> only_dev s' s'' \<Longrightarrow> only_dev s s''"
  by (cases s; cases s'; cases s'') (auto simp: only_dev_def)

lemma only_dev_sym: "only_dev s s' \<Longrightarrow> only_dev s' s"
  by (cases s; cases s') (auto simp: only_dev_def)

lemma only_dev_cong: "only_dev t t' \<Longrightarrow> only_dev s t' \<longleftrightarrow> only_dev s t"
  by (blast intro: only_dev_trans only_dev_sym)

lemma only_devE: "only_dev s s' \<Longrightarrow> (\<And>d. s' = s\<lparr>dev := d\<rparr> \<Longrightarrow> P) \<Longrightarrow> P"
  by (auto simp: only_dev_def)

text \<open>The device after an operation, as an opaque function of the operation and the state.\<close>

definition dev_after :: "(('d, 'z) machine_scheme \<Rightarrow> 'r \<times> ('d, 'z) machine_scheme) \<Rightarrow> ('d, 'z) machine_scheme \<Rightarrow> 'd" where
  "dev_after op s = dev (snd (op s))"

definition dev_to :: "(('d, 'z) machine_scheme \<Rightarrow> ('d, 'z) machine_scheme) \<Rightarrow> ('d, 'z) machine_scheme \<Rightarrow> 'd" where
  "dev_to cmd s = dev (cmd s)"

locale driver_op =
  fixes op :: "('d, 'z) machine_scheme \<Rightarrow> 'r \<times> ('d, 'z) machine_scheme"
  assumes dev_frame: "only_dev s (snd (op s))"
begin

lemma frame_iff [simp]: "only_dev t (snd (op s)) \<longleftrightarrow> only_dev t s"
  by (rule only_dev_cong [OF dev_frame])

lemma snd_op [frame_simps]: "snd (op s) = s\<lparr>dev := dev_after op s\<rparr>"
  using dev_frame [of s] by (simp add: only_dev_def dev_after_def)

end

text \<open>The same contract for an operation with no result.\<close>

locale driver_cmd =
  fixes cmd :: "('d, 'z) machine_scheme \<Rightarrow> ('d, 'z) machine_scheme"
  assumes cmd_frame: "only_dev s (cmd s)"
begin

lemma cmd_frame_iff [simp]: "only_dev t (cmd s) \<longleftrightarrow> only_dev t s"
  by (rule only_dev_cong [OF cmd_frame])

lemma cmd_state [frame_simps]: "cmd s = s\<lparr>dev := dev_to cmd s\<rparr>"
  using cmd_frame [of s] by (simp add: only_dev_def dev_to_def)

end

section \<open>utils.c\<close>

text \<open>
  \<open>util_get_LSB\<close> and \<open>util_get_MSB\<close> take the pointed-to byte as an option, \<open>None\<close> for a
  \<open>NULL\<close> pointer, and return the status with the byte after the call.
\<close>

definition util_get_LSB :: "u16 \<Rightarrow> u8 option \<Rightarrow> int \<times> u8 option" where
  "util_get_LSB val lsb = (case lsb of None \<Rightarrow> (1, None) | Some _ \<Rightarrow> (0, Some (ucast (val AND 0xFF))))"

definition util_get_MSB :: "u16 \<Rightarrow> u8 option \<Rightarrow> int \<times> u8 option" where
  "util_get_MSB val msb =
     (case msb of None \<Rightarrow> (1, None) | Some _ \<Rightarrow> (0, Some (ucast (drop_bit 8 (val AND 0xFF00)))))"

text \<open>Every call passes the address of a variable, so the \<open>NULL\<close> test never fires.\<close>

definition util_sys_inb :: "'d env \<Rightarrow> int \<Rightarrow> ('d, 'z) machine_scheme \<Rightarrow> (int \<times> u8) \<times> ('d, 'z) machine_scheme" where
  "util_sys_inb E port s =
     (let ((call_back, word), d) = sys_inb E port (dev s)
      in ((call_back, ucast (word AND 0xff)), s\<lparr>dev := d\<rparr>))"

definition cpl2_9_to_16 :: "u8 \<Rightarrow> bool \<Rightarrow> 16 word" where
  "cpl2_9_to_16 value sign_bit =
     (if sign_bit then word_of_int (- (2 ^ 8) + uint value) else word_of_int (uint value))"

text \<open>Port output, and the byte read without its status, as most callers use them.\<close>

definition outb :: "'d env \<Rightarrow> int \<Rightarrow> u32 \<Rightarrow> ('d, 'z) machine_scheme \<Rightarrow> int \<times> ('d, 'z) machine_scheme" where
  "outb E port v s = (let (r, d) = sys_outb E port v (dev s) in (r, s\<lparr>dev := d\<rparr>))"

definition out :: "'d env \<Rightarrow> int \<Rightarrow> u8 \<Rightarrow> ('d, 'z) machine_scheme \<Rightarrow> ('d, 'z) machine_scheme" where
  "out E port v s = snd (outb E port (ucast v) s)"

definition inb :: "'d env \<Rightarrow> int \<Rightarrow> ('d, 'z) machine_scheme \<Rightarrow> u8 \<times> ('d, 'z) machine_scheme" where
  "inb E port s = (let ((_, b), s) = util_sys_inb E port s in (b, s))"

interpretation util_sys_inb: driver_op "util_sys_inb E port"
  by unfold_locales (simp add: util_sys_inb_def split_beta Let_def)

interpretation inb: driver_op "inb E port"
  by unfold_locales (simp add: inb_def util_sys_inb_def split_beta Let_def)

interpretation outb: driver_op "outb E port v"
  by unfold_locales (simp add: outb_def split_beta Let_def)

interpretation out: driver_cmd "out E port v"
  by unfold_locales (simp add: out_def)

text \<open>The two halves of a 16-bit word make the word again.\<close>

lemma and_0xFF: "(v :: u16) AND 0xFF = take_bit 8 v"
proof -
  have "(0xFF :: u16) = mask 8" by (simp add: mask_eq_exp_minus_1)
  then show ?thesis by (simp only: take_bit_eq_mask)
qed

lemma drop_bit_and_0xFF00: "drop_bit 8 ((v :: u16) AND 0xFF00) = drop_bit 8 v"
proof -
  have "drop_bit 8 (0xFF00 :: u16) = mask 8" by (simp add: mask_eq_exp_minus_1 drop_bit_eq_div)
  then show ?thesis
    by (auto simp: bit_eq_iff bit_simps drop_bit_and dest: bit_imp_le_length)
qed

lemma LSB_MSB_recombine:
  "push_bit 8 (ucast (the (snd (util_get_MSB v (Some a))))) OR ucast (the (snd (util_get_LSB v (Some b)))) = v"
  by (rule bit_word_eqI)
    (auto simp: util_get_MSB_def util_get_LSB_def and_0xFF drop_bit_and_0xFF00 bit_simps)

text \<open>The signed value of the 16-bit result is the 9-bit two's complement number.\<close>

lemma sint_cpl2_9_to_16: "sint (cpl2_9_to_16 v sg) = (if sg then uint v - 256 else uint v)"
proof -
  have b: "0 \<le> uint v" "uint v < 256" using uint_bounded [of v] by simp_all
  show ?thesis
  proof (cases sg)
    case True
    then have "sint (cpl2_9_to_16 v sg) = sint (word_of_int (uint v - 256) :: 16 word)"
      by (simp add: cpl2_9_to_16_def)
    also have "\<dots> = uint v - 256" using b by (intro sint_word_of_int_16; linarith)
    finally show ?thesis using True by simp
  next
    case False
    then have "sint (cpl2_9_to_16 v sg) = sint (word_of_int (uint v) :: 16 word)"
      by (simp add: cpl2_9_to_16_def)
    also have "\<dots> = uint v" using b by (intro sint_word_of_int_16; linarith)
    finally show ?thesis using False by simp
  qed
qed

end
