(* ===== verification/Uart.thy ===== *)
theory Uart
  imports Platform
begin

text \<open>
  The serial port driver, \<open>src/proj/uart.c\<close> with the register constants of
  \<open>src/proj/uart.h\<close>. The driver keeps no state of its own: every operation reads and writes
  the ports of COM1, so its contract is the frame \<open>driver_op\<close> plus what it writes.
\<close>

section \<open>Registers\<close>

definition COM1 :: int where "COM1 = 0x3F8"
definition THR :: int where "THR = 0"
definition SER_DATA :: int where "SER_DATA = 0"
definition IER :: int where "IER = 1"
definition IIR :: int where "IIR = 2"
definition LCR :: int where "LCR = 3"
definition LSR :: int where "LSR = 5"

definition LCR_DLAB :: u8 where "LCR_DLAB = BIT 7"
definition LSR_REC_DATA :: u8 where "LSR_REC_DATA = BIT 0"
definition LSR_THR :: u8 where "LSR_THR = BIT 5"
definition LSR_FIFO_ERROR :: u8 where "LSR_FIFO_ERROR = BIT 7"
definition IER_DATA_INT :: u8 where "IER_DATA_INT = BIT 0"
definition IER_TRANS_EMPTY_INT :: u8 where "IER_TRANS_EMPTY_INT = BIT 1"

definition IIR_MOD_STAT :: u8 where "IIR_MOD_STAT = 0"
definition IIR_TRANS_EMPTY :: u8 where "IIR_TRANS_EMPTY = 1"
definition IIR_REC_DATA :: u8 where "IIR_REC_DATA = 2"
definition IIR_LINE_STAT :: u8 where "IIR_LINE_STAT = 3"
definition IIR_CHAR_TIMEOUT :: u8 where "IIR_CHAR_TIMEOUT = 4"
definition UART_IRQ :: int where "UART_IRQ = 4"

text \<open>The policy bits of the kernel call, from the Minix headers.\<close>

definition IRQ_REENABLE :: u32 where "IRQ_REENABLE = 1"
definition IRQ_EXCLUSIVE :: u32 where "IRQ_EXCLUSIVE = 2"

lemmas uart_regs = COM1_def THR_def SER_DATA_def IER_def IIR_def LCR_def LSR_def
lemmas uart_bits = LCR_DLAB_def LSR_REC_DATA_def LSR_THR_def LSR_FIFO_ERROR_def
  IER_DATA_INT_def IER_TRANS_EMPTY_INT_def
lemmas uart_iir = IIR_MOD_STAT_def IIR_TRANS_EMPTY_def IIR_REC_DATA_def IIR_LINE_STAT_def
  IIR_CHAR_TIMEOUT_def

section \<open>Operations\<close>

text \<open>Subscription returns \<open>(call_back, bit_no, notification)\<close>.\<close>

definition uart_subscribe ::
  "'d env \<Rightarrow> ('d, 'z) machine_scheme \<Rightarrow> (int \<times> u8 \<times> int) \<times> ('d, 'z) machine_scheme" where
  "uart_subscribe E s =
     (let hook_id = UART_IRQ;
          bit_no = word_of_int hook_id;
          ((call_back, hook_id), d) = sys_irqsetpolicy E UART_IRQ (IRQ_REENABLE OR IRQ_EXCLUSIVE) hook_id (dev s);
          notification = hook_id;
          (_, d) = sys_irqenable E notification d
      in ((call_back, bit_no, notification), s\<lparr>dev := d\<rparr>))"

definition uart_unsubscribe :: "'d env \<Rightarrow> int \<Rightarrow> ('d, 'z) machine_scheme \<Rightarrow> int \<times> ('d, 'z) machine_scheme" where
  "uart_unsubscribe E notification s =
     (let (_, d) = sys_irqrmpolicy E notification (dev s);
          (_, d) = sys_irqdisable E notification d
      in (0, s\<lparr>dev := d\<rparr>))"

definition check_thr_emtpy :: "'d env \<Rightarrow> ('d, 'z) machine_scheme \<Rightarrow> bool \<times> ('d, 'z) machine_scheme" where
  "check_thr_emtpy E s = (let (lsr, s) = inb E (COM1 + LSR) s in (truth (lsr AND LSR_THR), s))"

definition check_buffer :: "'d env \<Rightarrow> ('d, 'z) machine_scheme \<Rightarrow> int \<times> ('d, 'z) machine_scheme" where
  "check_buffer E s =
     (let (lsr, s) = inb E (COM1 + LSR) s;
          error = truth (lsr AND LSR_FIFO_ERROR);
          empty = (if truth (lsr AND LSR_REC_DATA) then False else True)
      in (if error then 1 else if empty then 2 else 0, s))"

definition check_data_dlab :: "'d env \<Rightarrow> ('d, 'z) machine_scheme \<Rightarrow> bool \<times> ('d, 'z) machine_scheme" where
  "check_data_dlab E s = (let (lcr, s) = inb E (COM1 + LCR) s in (truth (lcr AND lnot LCR_DLAB), s))"

definition set_data_dlab :: "'d env \<Rightarrow> ('d, 'z) machine_scheme \<Rightarrow> ('d, 'z) machine_scheme" where
  "set_data_dlab E s =
     (let (lcr, s) = inb E (COM1 + LCR) s;
          lcr = lcr AND NOT LCR_DLAB
      in out E (COM1 + LCR) lcr s)"

definition serial_write_byte :: "'d env \<Rightarrow> u8 \<Rightarrow> ('d, 'z) machine_scheme \<Rightarrow> bool \<times> ('d, 'z) machine_scheme" where
  "serial_write_byte E byte s =
     (let (data_mode, s) = check_data_dlab E s;
          s = (if \<not> data_mode then set_data_dlab E s else s);
          (thr_empty, s) = check_thr_emtpy E s
      in if thr_empty then (True, out E (COM1 + SER_DATA) byte s) else (False, s))"

text \<open>The loop of \<open>serial_write_message\<close>: it goes on after a byte that was not sent.\<close>

fun serial_write_message :: "'d env \<Rightarrow> u8 list \<Rightarrow> bool \<Rightarrow> ('d, 'z) machine_scheme \<Rightarrow> bool \<times> ('d, 'z) machine_scheme" where
  "serial_write_message E [] success s = (success, s)"
| "serial_write_message E (b # bytes) success s =
     (let (ok, s) = serial_write_byte E b s in serial_write_message E bytes (success \<and> ok) s)"

definition seria_write_ack :: "'d env \<Rightarrow> ('d, 'z) machine_scheme \<Rightarrow> bool \<times> ('d, 'z) machine_scheme" where
  "seria_write_ack E s = serial_write_byte E 0 s"

definition serial_read_byte :: "'d env \<Rightarrow> ('d, 'z) machine_scheme \<Rightarrow> (bool \<times> u8) \<times> ('d, 'z) machine_scheme" where
  "serial_read_byte E s =
     (let (byte, s) = inb E (COM1 + SER_DATA) s; (e, s) = check_thr_emtpy E s in ((e, byte), s))"

definition get_int_origin :: "'d env \<Rightarrow> ('d, 'z) machine_scheme \<Rightarrow> u8 \<times> ('d, 'z) machine_scheme" where
  "get_int_origin E s = (let (iir, s) = inb E (COM1 + IIR) s in (drop_bit 1 iir AND 0x7, s))"

text \<open>
  The handler returns the interrupt's origin and the data byte, which it overwrites only for a
  received byte; the other origins are told apart and nothing is done for them.
\<close>

definition uart_handler :: "'d env \<Rightarrow> u8 \<Rightarrow> ('d, 'z) machine_scheme \<Rightarrow> (u8 \<times> u8) \<times> ('d, 'z) machine_scheme" where
  "uart_handler E data s =
     (let (orig, s) = get_int_origin E s
      in if orig = IIR_MOD_STAT then ((orig, data), s)
         else if orig = IIR_TRANS_EMPTY then ((orig, data), s)
         else if orig = IIR_REC_DATA then
           (let ((_, data), s) = serial_read_byte E s in ((orig, data), s))
         else ((orig, data), s))"

definition enable_received_data_int :: "'d env \<Rightarrow> ('d, 'z) machine_scheme \<Rightarrow> ('d, 'z) machine_scheme" where
  "enable_received_data_int E s =
     (let (ier, s) = inb E (COM1 + IER) s in out E (COM1 + IER) (ier OR IER_DATA_INT) s)"

definition disable_received_data_int :: "'d env \<Rightarrow> ('d, 'z) machine_scheme \<Rightarrow> ('d, 'z) machine_scheme" where
  "disable_received_data_int E s =
     (let (ier, s) = inb E (COM1 + IER) s in out E (COM1 + IER) (ier AND NOT (lnot IER_DATA_INT)) s)"

definition enable_trans_empty_int :: "'d env \<Rightarrow> ('d, 'z) machine_scheme \<Rightarrow> ('d, 'z) machine_scheme" where
  "enable_trans_empty_int E s =
     (let (ier, s) = inb E (COM1 + IER) s in out E (COM1 + IER) (ier OR IER_TRANS_EMPTY_INT) s)"

definition disable_trans_empty_int :: "'d env \<Rightarrow> ('d, 'z) machine_scheme \<Rightarrow> ('d, 'z) machine_scheme" where
  "disable_trans_empty_int E s =
     (let (ier, s) = inb E (COM1 + IER) s in out E (COM1 + IER) (ier AND NOT (lnot IER_TRANS_EMPTY_INT)) s)"

section \<open>The frame of the driver\<close>

interpretation check_thr: driver_op "check_thr_emtpy E"
  by unfold_locales (simp add: check_thr_emtpy_def split_beta Let_def)

interpretation check_buf: driver_op "check_buffer E"
  by unfold_locales (simp add: check_buffer_def split_beta Let_def)

interpretation check_dlab: driver_op "check_data_dlab E"
  by unfold_locales (simp add: check_data_dlab_def split_beta Let_def)

interpretation set_dlab: driver_cmd "set_data_dlab E"
  by unfold_locales (simp add: set_data_dlab_def Let_def split_beta)

interpretation serial_write: driver_op "serial_write_byte E b"
  by unfold_locales (simp add: serial_write_byte_def split_beta Let_def)

lemma serial_write_message_frame: "only_dev t (snd (serial_write_message E bs ok s)) \<longleftrightarrow> only_dev t s"
  by (induction bs arbitrary: ok s) (simp_all add: split_beta Let_def)

interpretation serial_message: driver_op "serial_write_message E bs ok"
  by unfold_locales (simp add: serial_write_message_frame)

interpretation serial_read: driver_op "serial_read_byte E"
  by unfold_locales (simp add: serial_read_byte_def split_beta Let_def)

interpretation uart_sub: driver_op "uart_subscribe E"
  by unfold_locales (simp add: uart_subscribe_def split_beta Let_def)

interpretation uart_unsub: driver_op "uart_unsubscribe E n"
  by unfold_locales (simp add: uart_unsubscribe_def split_beta Let_def)

interpretation uart_int: driver_op "uart_handler E data"
  by unfold_locales (simp add: uart_handler_def get_int_origin_def split_beta Let_def)

section \<open>What the operations do\<close>

text \<open>The test for data mode masks with \<open>!LCR_DLAB\<close>, which is 0, so it never succeeds.\<close>

lemma check_data_dlab_False [simp]: "fst (check_data_dlab E s) = False"
  by (simp add: check_data_dlab_def LCR_DLAB_def truth_def split_beta Let_def)

lemma serial_write_byte_eq:
  "serial_write_byte E b s =
     (let s2 = set_data_dlab E (snd (check_data_dlab E s));
          (e, s3) = check_thr_emtpy E s2
      in if e then (True, out E (COM1 + SER_DATA) b s3) else (False, s3))"
  by (simp add: serial_write_byte_def split_beta Let_def)

lemma get_int_origin_range: "unat (fst (get_int_origin E s)) < 8"
proof -
  have "drop_bit 1 w AND 7 \<le> (7 :: u8)" for w :: u8
    by (rule word_and_le1)
  then have "unat (fst (get_int_origin E s)) \<le> unat (7 :: u8)"
    by (simp add: get_int_origin_def split_beta Let_def word_le_nat_alt)
  then show ?thesis by simp
qed

end
