(* ===== verification/Rtc.thy ===== *)
theory Rtc
  imports Uart
begin

text \<open>
  The real-time clock driver, \<open>src/proj/rtc.c\<close> with the constants, the interrupt kinds and
  the date of \<open>src/proj/rtc.h\<close>. A register is selected through the address port and read
  or written through the data port. \<open>get_date\<close> polls until no update is in progress; it is a
  \<open>partial_function\<close>, with \<open>None\<close> where the poll never ends. The static \<open>previous\<close> of
  \<open>rtc_handler\<close> is written and never read, so it is not part of the state.
\<close>

section \<open>Registers and data\<close>

definition RTC_ADDR_REG :: int where "RTC_ADDR_REG = 0x70"
definition RTC_DATA_REG :: int where "RTC_DATA_REG = 0x71"
definition RTC_IRQ :: int where "RTC_IRQ = 8"

definition SECONDS_REG :: u8 where "SECONDS_REG = 0"
definition SECONDS_ALARM :: u8 where "SECONDS_ALARM = 1"
definition MINUTES_ALARM :: u8 where "MINUTES_ALARM = 3"
definition HOURS_ALARM :: u8 where "HOURS_ALARM = 5"
definition DAY_REG :: u8 where "DAY_REG = 7"
definition MONTH_REG :: u8 where "MONTH_REG = 8"
definition YEAR_REG :: u8 where "YEAR_REG = 9"
definition REGISTER_A :: u8 where "REGISTER_A = 10"
definition REGISTER_B :: u8 where "REGISTER_B = 11"
definition REGISTER_C :: u8 where "REGISTER_C = 12"

definition UIP :: nat where "UIP = 7"
definition UIE :: nat where "UIE = 4"
definition AIE :: nat where "AIE = 5"
definition SET :: nat where "SET = 7"
definition PF :: nat where "PF = 6"
definition AF :: nat where "AF = 5"
definition UF :: nat where "UF = 4"

lemmas rtc_ports = RTC_ADDR_REG_def RTC_DATA_REG_def
lemmas rtc_regs = SECONDS_REG_def SECONDS_ALARM_def MINUTES_ALARM_def HOURS_ALARM_def DAY_REG_def
  MONTH_REG_def YEAR_REG_def REGISTER_A_def REGISTER_B_def REGISTER_C_def
lemmas rtc_bits = UIP_def UIE_def AIE_def SET_def PF_def AF_def UF_def

datatype rtc_int_t = PERIODIC | ALARM | UPDATE | RTC_NO_INT

record date =
  year :: int
  month :: int
  day :: int

section \<open>Operations\<close>

definition rtc_subscribe ::
  "'d env \<Rightarrow> ('d, 'z) machine_scheme \<Rightarrow> (int \<times> u8 \<times> int) \<times> ('d, 'z) machine_scheme" where
  "rtc_subscribe E s =
     (let hook_id = RTC_IRQ;
          bit_no = word_of_int hook_id;
          ((call_back, hook_id), d) = sys_irqsetpolicy E RTC_IRQ IRQ_REENABLE hook_id (dev s);
          (_, d) = sys_irqenable E hook_id d;
          notification = hook_id
      in ((call_back, bit_no, notification), s\<lparr>dev := d\<rparr>))"

definition rtc_unsubscribe :: "'d env \<Rightarrow> int \<Rightarrow> ('d, 'z) machine_scheme \<Rightarrow> ('d, 'z) machine_scheme" where
  "rtc_unsubscribe E notification s =
     (let (_, d) = sys_irqrmpolicy E notification (dev s);
          (_, d) = sys_irqdisable E notification d
      in s\<lparr>dev := d\<rparr>)"

text \<open>Select a register and read it; select a register and write it.\<close>

definition rtc_read :: "'d env \<Rightarrow> u8 \<Rightarrow> ('d, 'z) machine_scheme \<Rightarrow> u8 \<times> ('d, 'z) machine_scheme" where
  "rtc_read E reg s = inb E RTC_DATA_REG (out E RTC_ADDR_REG reg s)"

definition rtc_write :: "'d env \<Rightarrow> u8 \<Rightarrow> u8 \<Rightarrow> ('d, 'z) machine_scheme \<Rightarrow> ('d, 'z) machine_scheme" where
  "rtc_write E reg v s = out E RTC_DATA_REG v (out E RTC_ADDR_REG reg s)"

definition enable_updates :: "'d env \<Rightarrow> ('d, 'z) machine_scheme \<Rightarrow> ('d, 'z) machine_scheme" where
  "enable_updates E s =
     (let (reg_b, s) = rtc_read E REGISTER_B s in rtc_write E REGISTER_B (reg_b AND NOT (BIT SET)) s)"

definition disable_updates :: "'d env \<Rightarrow> ('d, 'z) machine_scheme \<Rightarrow> ('d, 'z) machine_scheme" where
  "disable_updates E s =
     (let (reg_b, s) = rtc_read E REGISTER_B s in rtc_write E REGISTER_B (reg_b AND NOT (BIT UIE)) s)"

definition clear_interruptions :: "'d env \<Rightarrow> ('d, 'z) machine_scheme \<Rightarrow> u8 \<times> ('d, 'z) machine_scheme" where
  "clear_interruptions E s = rtc_read E REGISTER_C s"

definition rtc_handler :: "'d env \<Rightarrow> ('d, 'z) machine_scheme \<Rightarrow> rtc_int_t \<times> ('d, 'z) machine_scheme" where
  "rtc_handler E s =
     (let (byte, s) = clear_interruptions E s
      in (if truth (byte AND BIT AF) then ALARM
          else if truth (byte AND BIT UF) then UPDATE
          else if truth (byte AND BIT PF) then PERIODIC
          else RTC_NO_INT, s))"

definition bcd_to_int :: "u8 \<Rightarrow> int" where
  "bcd_to_int number = uint (number AND 0x0F) + uint (drop_bit 4 number) * 10"

definition int_to_bcd :: "int \<Rightarrow> u8" where
  "int_to_bcd number = (let lo = word_of_int (number smod 10) :: u8; hi = word_of_int (number sdiv 10) :: u8
     in word_of_int (or (uint lo) (push_bit 4 (uint hi))))"

text \<open>\<open>None\<close> is the return value \<open>false\<close>: an update is in progress.\<close>

definition read_date :: "'d env \<Rightarrow> ('d, 'z) machine_scheme \<Rightarrow> date option \<times> ('d, 'z) machine_scheme" where
  "read_date E s =
     (let (reg_a, s) = rtc_read E REGISTER_A s
      in if truth (reg_a AND BIT UIP) then (None, s)
         else let (y, s) = rtc_read E YEAR_REG s;
                  (m, s) = rtc_read E MONTH_REG s;
                  (d, s) = rtc_read E DAY_REG s
              in (Some \<lparr>year = bcd_to_int y, month = bcd_to_int m, day = bcd_to_int d\<rparr>, s))"

definition get_date_body :: "'d env \<Rightarrow> ('d, 'z) machine_scheme \<Rightarrow> date option \<times> ('d, 'z) machine_scheme" where
  "get_date_body E s =
     (let s = disable_updates E s;
          (got_date, s) = read_date E s;
          s = enable_updates E s
      in (got_date, s))"

partial_function (option) get_date ::
  "'d env \<Rightarrow> ('d, 'z) machine_scheme \<Rightarrow> (date \<times> ('d, 'z) machine_scheme) option" where
  "get_date E s =
     (case get_date_body E s of (None, s') \<Rightarrow> get_date E s' | (Some new_date, s') \<Rightarrow> Some (new_date, s'))"

definition set_seconds_alarm :: "'d env \<Rightarrow> ('d, 'z) machine_scheme \<Rightarrow> ('d, 'z) machine_scheme" where
  "set_seconds_alarm E s =
     (let byte = 0xC0;
          s = rtc_write E SECONDS_ALARM byte s;
          s = rtc_write E MINUTES_ALARM byte s
      in rtc_write E HOURS_ALARM byte s)"

definition set_timed_alarm :: "'d env \<Rightarrow> u8 \<Rightarrow> ('d, 'z) machine_scheme \<Rightarrow> ('d, 'z) machine_scheme" where
  "set_timed_alarm E seconds s =
     (let byte = 0xC0;
          (data, s) = rtc_read E SECONDS_REG s;
          now = bcd_to_int data;
          s = rtc_write E SECONDS_ALARM (int_to_bcd ((now + uint seconds) smod 60)) s;
          s = rtc_write E MINUTES_ALARM byte s
      in rtc_write E HOURS_ALARM byte s)"

definition disable_periodic_int :: "'d env \<Rightarrow> ('d, 'z) machine_scheme \<Rightarrow> ('d, 'z) machine_scheme" where
  "disable_periodic_int E s =
     (let (reg_b, s) = rtc_read E REGISTER_B s in rtc_write E REGISTER_B (reg_b AND NOT (BIT UIE)) s)"

definition enable_alarm_int :: "'d env \<Rightarrow> ('d, 'z) machine_scheme \<Rightarrow> ('d, 'z) machine_scheme" where
  "enable_alarm_int E s =
     (let (reg_b, s) = rtc_read E REGISTER_B s in rtc_write E REGISTER_B (reg_b OR BIT AIE) s)"

text \<open>The last write passes the address of \<open>reg_b\<close>, the parameter \<open>addr\<close>, not its value.\<close>

definition disable_alarm_int :: "'d env \<Rightarrow> u32 \<Rightarrow> ('d, 'z) machine_scheme \<Rightarrow> ('d, 'z) machine_scheme" where
  "disable_alarm_int E addr s =
     (let (reg_b, s) = rtc_read E REGISTER_B s;
          reg_b = reg_b AND NOT (BIT AIE);
          s = out E RTC_ADDR_REG REGISTER_B s
      in snd (outb E RTC_DATA_REG addr s))"

section \<open>The frame of the driver\<close>

interpretation rtc_rd: driver_op "rtc_read E reg"
  by unfold_locales (simp add: rtc_read_def)

interpretation rtc_wr: driver_cmd "rtc_write E reg v"
  by unfold_locales (simp add: rtc_write_def)

interpretation enable_upd: driver_cmd "enable_updates E"
  by unfold_locales (simp add: enable_updates_def Let_def split_beta)

interpretation disable_upd: driver_cmd "disable_updates E"
  by unfold_locales (simp add: disable_updates_def Let_def split_beta)

interpretation disable_per: driver_cmd "disable_periodic_int E"
  by unfold_locales (simp add: disable_periodic_int_def Let_def split_beta)

interpretation enable_alarm: driver_cmd "enable_alarm_int E"
  by unfold_locales (simp add: enable_alarm_int_def Let_def split_beta)

interpretation rtc_sub: driver_op "rtc_subscribe E"
  by unfold_locales (simp add: rtc_subscribe_def split_beta Let_def)

interpretation rtc_unsub: driver_cmd "rtc_unsubscribe E n"
  by unfold_locales (simp add: rtc_unsubscribe_def split_beta Let_def)

interpretation rtc_int: driver_op "rtc_handler E"
  by unfold_locales (simp add: rtc_handler_def clear_interruptions_def Let_def split_beta)

interpretation rtc_date: driver_op "read_date E"
  by unfold_locales (simp add: read_date_def Let_def split_beta)

interpretation rtc_date_body: driver_op "get_date_body E"
  by unfold_locales (simp add: get_date_body_def Let_def split_beta)

interpretation seconds_alarm: driver_cmd "set_seconds_alarm E"
  by unfold_locales (simp add: set_seconds_alarm_def Let_def split_beta)

interpretation timed_alarm: driver_cmd "set_timed_alarm E n"
  by unfold_locales (simp add: set_timed_alarm_def Let_def split_beta)

section \<open>Binary-coded decimal\<close>

lemma int_to_bcd_uint: "0 \<le> n \<Longrightarrow> n < 100 \<Longrightarrow> uint (int_to_bcd n) = n mod 10 + 16 * (n div 10)"
proof -
  assume n: "0 \<le> n" "n < 100"
  let ?lo = "n mod 10" and ?hi = "n div 10"
  have d: "n smod 10 = ?lo" "n sdiv 10 = ?hi"
    using n by simp_all
  have r: "0 \<le> ?lo" "?lo < 10" "0 \<le> ?hi" "?hi < 10" using n by simp_all
  have u: "uint (word_of_int ?lo :: u8) = ?lo" "uint (word_of_int ?hi :: u8) = ?hi"
    using r by (simp_all add: uint_word_of_int)
  have "or ?lo (push_bit 4 ?hi) = ?lo + push_bit 4 ?hi"
  proof (rule disjunctive_add [symmetric])
    fix k
    show "\<not> bit ?lo k \<or> \<not> bit (push_bit 4 ?hi) k"
    proof (cases "k < 4")
      case True
      then show ?thesis by (simp add: bit_push_bit_iff_int)
    next
      case False
      have "(2 :: int) ^ 4 \<le> 2 ^ k" using False by (intro power_increasing) auto
      then have "?lo < 2 ^ k" using r by simp
      then have "?lo div 2 ^ k = 0" using r by simp
      then have "\<not> bit ?lo k" by (simp add: bit_iff_odd)
      then show ?thesis ..
    qed
  qed
  then have "or ?lo (push_bit 4 ?hi) = ?lo + 16 * ?hi" by (simp add: push_bit_eq_mult)
  moreover have "int_to_bcd n = word_of_int (or ?lo (push_bit 4 ?hi))"
    by (simp only: int_to_bcd_def Let_def d u)
  ultimately have "uint (int_to_bcd n) = uint (word_of_int (?lo + 16 * ?hi) :: u8)" by simp
  also have "\<dots> = (?lo + 16 * ?hi) mod 256" unfolding uint_word_of_int by simp
  also have "\<dots> = ?lo + 16 * ?hi" using r by (intro mod_pos_pos_trivial) linarith+
  finally show ?thesis .
qed

lemma and_0x0F: "(w :: u8) AND 0x0F = take_bit 4 w"
proof -
  have "(0x0F :: u8) = mask 4" by (simp add: mask_eq_exp_minus_1)
  then show ?thesis by (simp only: take_bit_eq_mask)
qed

lemma bcd_to_int_eq: "bcd_to_int w = uint w mod 16 + 10 * (uint w div 16)"
  by (simp add: bcd_to_int_def and_0x0F take_bit_eq_mod drop_bit_eq_div uint_mod uint_div)

lemma bcd_roundtrip: "0 \<le> n \<Longrightarrow> n < 100 \<Longrightarrow> bcd_to_int (int_to_bcd n) = n"
proof -
  assume n: "0 \<le> n" "n < 100"
  have u: "uint (int_to_bcd n) = n mod 10 + 16 * (n div 10)" using n by (rule int_to_bcd_uint)
  have "(n mod 10 + 16 * (n div 10)) mod 16 = n mod 10" by simp
  moreover have "(n mod 10 + 16 * (n div 10)) div 16 = n div 10" by simp
  ultimately show ?thesis by (simp add: bcd_to_int_eq u)
qed

section \<open>Polling for the date\<close>

text \<open>The state after \<open>n\<close> unsuccessful polls.\<close>

fun polls :: "'d env \<Rightarrow> nat \<Rightarrow> ('d, 'z) machine_scheme \<Rightarrow> ('d, 'z) machine_scheme" where
  "polls E 0 s = s"
| "polls E (Suc n) s = polls E n (snd (get_date_body E s))"

lemma get_date_polls:
  assumes "\<forall>k<n. fst (get_date_body E (polls E k s)) = None"
    and "get_date_body E (polls E n s) = (Some dt, s')"
  shows "get_date E s = Some (dt, s')"
  using assms
proof (induction n arbitrary: s)
  case 0
  then show ?case by (subst get_date.simps) simp
next
  case (Suc n)
  have first: "fst (get_date_body E s) = None" using Suc.prems(1) [rule_format, of 0] by simp
  have "get_date E (snd (get_date_body E s)) = Some (dt, s')"
  proof (rule Suc.IH)
    show "\<forall>k<n. fst (get_date_body E (polls E k (snd (get_date_body E s)))) = None"
      using Suc.prems(1) by (metis Suc_less_eq polls.simps(2))
    show "get_date_body E (polls E n (snd (get_date_body E s))) = (Some dt, s')"
      using Suc.prems(2) by simp
  qed
  then show ?case using first
    by (subst get_date.simps) (cases "get_date_body E s", simp)
qed

lemma get_date_frame_snd: "get_date E s = Some r \<Longrightarrow> only_dev s (snd r)"
proof (erule get_date.raw_induct [rotated, of _ _ _ "\<lambda>_ s r. only_dev s (snd r)"])
  fix f :: "'d env \<Rightarrow> ('d, 'z) machine_scheme \<Rightarrow> (date \<times> ('d, 'z) machine_scheme) option"
    and E s r
  assume IH: "\<And>E s r. f E s = Some r \<Longrightarrow> only_dev s (snd r)"
    and body: "(case get_date_body E s of (None, s') \<Rightarrow> f E s' | (Some new_date, s') \<Rightarrow> Some (new_date, s')) = Some r"
  have b: "only_dev s (snd (get_date_body E s))" by simp
  show "only_dev s (snd r)"
  proof (cases "fst (get_date_body E s)")
    case None
    then have "f E (snd (get_date_body E s)) = Some r" using body by (simp add: split_beta)
    then have "only_dev (snd (get_date_body E s)) (snd r)" by (rule IH)
    then show ?thesis by (rule only_dev_trans [OF b])
  next
    case (Some d)
    then have "snd r = snd (get_date_body E s)" using body by (auto simp: split_beta)
    then show ?thesis using b by simp
  qed
qed

lemma get_date_frame: "get_date E s = Some (dt, s') \<Longrightarrow> only_dev s s'"
  using get_date_frame_snd by fastforce

end
