(* ===== verification/Keyboard.thy ===== *)
theory Keyboard
  imports Rtc
begin

text \<open>
  The keyboard driver, \<open>src/proj/keyboard.c\<close>, with the break codes, the special key codes
  and the \<open>key_press\<close> structure of \<open>src/proj/keyboard.h\<close> and the controller's constants
  of \<open>src/proj/i8042.h\<close>. The layer holds the file's globals and the two statics of
  \<open>keyboard_handler\<close>; the two-byte array \<open>bytes\<close> is a pair.
\<close>

section \<open>Constants and data\<close>

definition KBD_IRQ :: int where "KBD_IRQ = 1"
definition MOUSE_IRQ :: int where "MOUSE_IRQ = 12"
definition KBC_OUT_BUF :: int where "KBC_OUT_BUF = 0x60"
definition KBC_ARG_REG :: int where "KBC_ARG_REG = 0x60"
definition KBC_CMD_REG :: int where "KBC_CMD_REG = 0x64"
definition KBC_STAT_REG :: int where "KBC_STAT_REG = 0x64"
definition KBC_STAT_REG_PAR :: u8 where "KBC_STAT_REG_PAR = BIT 7"
definition KBC_STAT_REG_TIMEOUT :: u8 where "KBC_STAT_REG_TIMEOUT = BIT 6"
definition KBC_STAT_REG_IBF :: u8 where "KBC_STAT_REG_IBF = BIT 1"
definition KBC_STAT_REG_OBF :: u8 where "KBC_STAT_REG_OBF = BIT 0"
definition TWO_BYTE_SCANCODE_PREFIX :: u8 where "TWO_BYTE_SCANCODE_PREFIX = 0xE0"
definition ESC_BREAK_CODE :: u8 where "ESC_BREAK_CODE = 0x81"
definition DELAY_US :: int where "DELAY_US = 20000"

definition UP_ARROW :: char where "UP_ARROW = CHR 0x13"
definition DOWN_ARROW :: char where "DOWN_ARROW = CHR 0x14"
definition ENTER :: char where "ENTER = CHR 0x0A"
definition BACKSPACE :: char where "BACKSPACE = CHR 0x08"
definition ESC :: char where "ESC = CHR 0x1B"

lemmas kbd_chars = UP_ARROW_def DOWN_ARROW_def ENTER_def BACKSPACE_def ESC_def

text \<open>The cases of the switch on a one-byte code, each a break code with the character it gives.\<close>

definition letter_keys :: "(u8 \<times> char) list" where
  "letter_keys =
    [
     (0x9e, CHR ''a''), (0xb0, CHR ''b''), (0xae, CHR ''c''), (0xa0, CHR ''d''),
     (0x92, CHR ''e''), (0xa1, CHR ''f''), (0xa2, CHR ''g''), (0xa3, CHR ''h''),
     (0x97, CHR ''i''), (0xa4, CHR ''j''), (0xa5, CHR ''k''), (0xa6, CHR ''l''),
     (0xb2, CHR ''m''), (0xb1, CHR ''n''), (0x98, CHR ''o''), (0x99, CHR ''p''),
     (0x90, CHR ''q''), (0x93, CHR ''r''), (0x9f, CHR ''s''), (0x94, CHR ''t''),
     (0x96, CHR ''u''), (0xaf, CHR ''v''), (0x91, CHR ''w''), (0xad, CHR ''x''),
     (0x95, CHR ''y''), (0xac, CHR ''z'')]"

definition digit_keys :: "(u8 \<times> char) list" where
  "digit_keys =
    [
     (0x82, CHR ''1''), (0x83, CHR ''2''), (0x84, CHR ''3''), (0x85, CHR ''4''),
     (0x86, CHR ''5''), (0x87, CHR ''6''), (0x88, CHR ''7''), (0x89, CHR ''8''),
     (0x8a, CHR ''9''), (0x8b, CHR ''0'')]"

definition special_keys :: "(u8 \<times> char) list" where
  "special_keys = [(0x81, ESC), (0x9c, ENTER), (0x8e, BACKSPACE)]"

text \<open>The cases of the switch on the second byte of a two-byte code.\<close>

definition arrow_keys :: "(u8 \<times> char) list" where
  "arrow_keys = [(0xc8, UP_ARROW), (0xd0, DOWN_ARROW)]"

lemmas key_tables = letter_keys_def digit_keys_def special_keys_def arrow_keys_def

record key_press =
  key :: char
  down :: bool

record 'd kbd = "'d machine" +
  kbc_ih_output :: u8
  kbc_ih_stat_reg :: u8
  kbc_ih_err :: bool
  kbc_ih_obf :: bool
  kbc_ih_ibf :: bool
  assemblied_word :: bool
  kbd_bytes :: "u8 \<times> u8"

section \<open>Operations\<close>

definition keyboard_subscribe ::
  "'d env \<Rightarrow> ('d, 'z) machine_scheme \<Rightarrow> (int \<times> u8 \<times> int) \<times> ('d, 'z) machine_scheme" where
  "keyboard_subscribe E s =
     (let hook_id = KBD_IRQ;
          bin_no = word_of_int hook_id;
          ((call_back, hook_id), d) = sys_irqsetpolicy E KBD_IRQ (IRQ_REENABLE OR IRQ_EXCLUSIVE) hook_id (dev s);
          notification = hook_id
      in ((call_back, bin_no, notification), s\<lparr>dev := d\<rparr>))"

definition keyboard_unsubscribe :: "'d env \<Rightarrow> int \<Rightarrow> ('d, 'z) machine_scheme \<Rightarrow> int \<times> ('d, 'z) machine_scheme" where
  "keyboard_unsubscribe E notification s =
     (let (r, d) = sys_irqrmpolicy E notification (dev s) in (r, s\<lparr>dev := d\<rparr>))"

definition kbc_ih :: "'d env \<Rightarrow> ('d, 'z) kbd_scheme \<Rightarrow> ('d, 'z) kbd_scheme" where
  "kbc_ih E s =
     (let (stat_reg, s) = inb E KBC_STAT_REG s;
          error = truth (stat_reg AND (KBC_STAT_REG_PAR OR KBC_STAT_REG_TIMEOUT));
          obf = truth (stat_reg AND KBC_STAT_REG_OBF);
          ibf = truth (stat_reg AND KBC_STAT_REG_IBF);
          (byte, s) = (if obf then inb E KBC_OUT_BUF s else (0, s))
      in s\<lparr>kbc_ih_err := error, kbc_ih_obf := obf, kbc_ih_ibf := ibf, kbc_ih_stat_reg := stat_reg,
           kbc_ih_output := byte\<rparr>)"

text \<open>Returns whether the scancode is complete, and the array after the call.\<close>

definition keyboard_get_scancode :: "u8 \<times> u8 \<Rightarrow> u8 \<Rightarrow> bool \<Rightarrow> bool \<times> (u8 \<times> u8)" where
  "keyboard_get_scancode bs this_byte word_done =
     (if \<not> word_done \<and> fst bs = TWO_BYTE_SCANCODE_PREFIX then (True, (fst bs, this_byte))
      else if word_done \<and> this_byte = TWO_BYTE_SCANCODE_PREFIX then (False, (this_byte, snd bs))
      else (True, (this_byte, snd bs)))"

text \<open>
  \<open>junk\<close> is the content of the uninitialised local \<open>key\<close>: a two-byte code that is no arrow
  leaves \<open>key.key\<close> unset.
\<close>

definition assemble_key_press :: "char \<Rightarrow> bool \<Rightarrow> nat \<Rightarrow> u8 \<times> u8 \<Rightarrow> key_press" where
  "assemble_key_press junk is_make sz bs =
     (let byte = (if sz = 1 then fst bs else snd bs) in
      if sz = 1 then
        (case map_of (letter_keys @ digit_keys @ special_keys) byte of
           Some c \<Rightarrow> \<lparr>key = c, down = is_make\<rparr>
         | None \<Rightarrow> \<lparr>key = CHR 0x00, down = is_make\<rparr>)
      else if sz = 2 then
        (case map_of arrow_keys byte of
           Some c \<Rightarrow> \<lparr>key = c, down = is_make\<rparr>
         | None \<Rightarrow> \<lparr>key = junk, down = is_make\<rparr>)
      else \<lparr>key = junk, down = is_make\<rparr>)"

definition scancode_is_make :: "u8 \<Rightarrow> bool" where
  "scancode_is_make data_byte \<longleftrightarrow> \<not> truth (data_byte AND BIT 7)"

definition scancode_get_size :: "u8 \<Rightarrow> nat" where
  "scancode_get_size previous_byte = (if previous_byte = TWO_BYTE_SCANCODE_PREFIX then 2 else 1)"

definition scancode_is_esc_break :: "('d, 'z) kbd_scheme \<Rightarrow> bool" where
  "scancode_is_esc_break s \<longleftrightarrow> kbc_ih_output s = ESC_BREAK_CODE"

text \<open>Returns the handler's result and the pointed-to key press after the call.\<close>

definition keyboard_handler ::
  "'d env \<Rightarrow> key_press \<Rightarrow> ('d, 'z) kbd_scheme \<Rightarrow> (bool \<times> key_press) \<times> ('d, 'z) kbd_scheme" where
  "keyboard_handler E k s =
     (let s = kbc_ih E s in
      if kbc_ih_err s \<or> \<not> kbc_ih_obf s then ((False, k), s)
      else
        let (word_done, bs) = keyboard_get_scancode (kbd_bytes s) (kbc_ih_output s) (assemblied_word s);
            s = s\<lparr>assemblied_word := word_done, kbd_bytes := bs\<rparr>
        in if word_done then
             let sz = scancode_get_size (fst bs);
                 is_make = scancode_is_make (if sz = 1 then fst bs else snd bs)
             in ((True, assemble_key_press (int_char (uint (uninit E (dev s)))) is_make sz bs), s)
           else ((True, k), s))"

interpretation kbd_sub: driver_op "keyboard_subscribe E"
  by unfold_locales (simp add: keyboard_subscribe_def split_beta Let_def)

interpretation kbd_unsub: driver_op "keyboard_unsubscribe E n"
  by unfold_locales (simp add: keyboard_unsubscribe_def split_beta Let_def)

section \<open>The scancode decoder\<close>

text \<open>
  What the decoder has to recognise: one-byte codes other than the prefix, and two-byte codes,
  the prefix and any byte.
\<close>

datatype scancode = One u8 | Two u8

fun wf_code :: "scancode \<Rightarrow> bool" where
  "wf_code (One b) \<longleftrightarrow> b \<noteq> TWO_BYTE_SCANCODE_PREFIX"
| "wf_code (Two b) \<longleftrightarrow> True"

fun code_bytes :: "scancode \<Rightarrow> u8 list" where
  "code_bytes (One b) = [b]"
| "code_bytes (Two b) = [TWO_BYTE_SCANCODE_PREFIX, b]"

text \<open>Run the decoder over received bytes and collect the codes it completes.\<close>

definition completed :: "u8 \<times> u8 \<Rightarrow> scancode" where
  "completed bs = (if scancode_get_size (fst bs) = 2 then Two (snd bs) else One (fst bs))"

fun decode :: "bool \<Rightarrow> u8 \<times> u8 \<Rightarrow> u8 list \<Rightarrow> scancode list" where
  "decode word_done bs [] = []"
| "decode word_done bs (b # rest) =
     (let (word_done', bs') = keyboard_get_scancode bs b word_done
      in (if word_done' then [completed bs'] else []) @ decode word_done' bs' rest)"

lemma decode_code: "wf_code c \<Longrightarrow>
  \<exists>bs'. decode True bs (code_bytes c @ rest) = c # decode True bs' rest"
  by (cases c) (auto simp: keyboard_get_scancode_def completed_def scancode_get_size_def)

lemma decode_codes: "list_all wf_code cs \<Longrightarrow> decode True bs (concat (map code_bytes cs)) = cs"
proof (induction cs arbitrary: bs)
  case Nil
  then show ?case by simp
next
  case (Cons c cs)
  then obtain bs' where "decode True bs (code_bytes c @ concat (map code_bytes cs)) =
      c # decode True bs' (concat (map code_bytes cs))"
    using decode_code by fastforce
  then show ?case using Cons by simp
qed

text \<open>Before the first byte the decoder is in its reset state, with no code completed.\<close>

lemma decode_reset: "c \<noteq> TWO_BYTE_SCANCODE_PREFIX \<Longrightarrow> bs = (0, 0) \<Longrightarrow>
  decode False bs (c # rest) = One c # decode True (c, 0) rest"
  by (auto simp: keyboard_get_scancode_def completed_def scancode_get_size_def
      TWO_BYTE_SCANCODE_PREFIX_def)

section \<open>The key tables\<close>

lemma one_byte_keys_distinct:
  "distinct (map fst (letter_keys @ digit_keys @ special_keys))"
  "distinct (map snd (letter_keys @ digit_keys @ special_keys))"
  by (simp_all add: key_tables kbd_chars)

lemma one_byte_keys_break: "(b, c) \<in> set (letter_keys @ digit_keys @ special_keys) \<Longrightarrow> bit b 7"
proof -
  have "list_all (\<lambda>(b, c). bit b 7) (letter_keys @ digit_keys @ special_keys)"
    by code_simp
  then show "(b, c) \<in> set (letter_keys @ digit_keys @ special_keys) \<Longrightarrow> bit b 7"
    unfolding list_all_iff by blast
qed

lemma one_byte_keys_nonzero: "(b, c) \<in> set (letter_keys @ digit_keys @ special_keys) \<Longrightarrow> c \<noteq> CHR 0x00"
  by (auto simp: key_tables kbd_chars)

lemma scancode_is_make_bit: "scancode_is_make b \<longleftrightarrow> \<not> bit b 7"
  by (simp add: scancode_is_make_def truth_and_BIT)

lemma assemble_one_byte:
  "key (assemble_key_press j mk 1 (b, b')) = c \<Longrightarrow> c \<noteq> CHR 0x00 \<Longrightarrow>
   (b, c) \<in> set (letter_keys @ digit_keys @ special_keys)"
  by (auto simp: assemble_key_press_def Let_def split: option.splits dest: map_of_SomeD)

end
