(* ===== verification/Mouse.thy ===== *)
theory Mouse
  imports Keyboard
begin

text \<open>
  The mouse driver, \<open>src/proj/mouse.c\<close>, with the cursor state of \<open>src/proj/mouse.h\<close> and
  the packet flags of \<open>src/proj/i8042.h\<close>. The globals of \<open>mouse.c\<close> have the names of the
  keyboard driver's static ones but are different variables, so they carry the prefix \<open>m_\<close>.
  The retry loops count down the attempts that are left.
\<close>

section \<open>Constants and data\<close>

definition MOUSE_PACKET_SIZE :: nat where "MOUSE_PACKET_SIZE = 3"
definition KBD_STAT_REG_AUX :: u8 where "KBD_STAT_REG_AUX = BIT 5"
definition BYTE_TO_MOUSE_CMD :: u8 where "BYTE_TO_MOUSE_CMD = 0xD4"
definition BYTE_TO_MOUSE_SUCCESS :: u8 where "BYTE_TO_MOUSE_SUCCESS = 0xFA"
definition MOUSE_DIS_DATA_REP :: u8 where "MOUSE_DIS_DATA_REP = 0xF5"
definition MOUSE_ENAB_DATA_REP :: u8 where "MOUSE_ENAB_DATA_REP = 0xF4"
definition PACKET_Y_OVFL :: u8 where "PACKET_Y_OVFL = BIT 7"
definition PACKET_X_OVFL :: u8 where "PACKET_X_OVFL = BIT 6"
definition PACKET_Y_MSB :: u8 where "PACKET_Y_MSB = BIT 5"
definition PACKET_X_MSB :: u8 where "PACKET_X_MSB = BIT 4"
definition PACKET_MB :: u8 where "PACKET_MB = BIT 2"
definition PACKET_RB :: u8 where "PACKET_RB = BIT 1"
definition PACKET_LB :: u8 where "PACKET_LB = BIT 0"

lemmas packet_bits = PACKET_Y_OVFL_def PACKET_X_OVFL_def PACKET_Y_MSB_def PACKET_X_MSB_def
  PACKET_MB_def PACKET_RB_def PACKET_LB_def

text \<open>The packet structure of the LCF library.\<close>

record packet =
  pk_bytes :: "u8 list"
  rb :: bool
  mb :: bool
  lb :: bool
  delta_x :: "16 word"
  delta_y :: "16 word"
  x_ov :: bool
  y_ov :: bool

record mouse_state =
  x_pos :: u16
  y_pos :: u16
  left_hold :: bool
  left_click :: bool

record 'd mouse_drv = "'d kbd" +
  m_kbc_ih_output :: u8
  m_kbc_ih_err :: bool
  m_kbc_ih_obf :: bool
  m_kbc_ih_ibf :: bool
  m_kbc_ih_aux :: bool
  mouse_bytes :: "u8 list"
  byte_count :: int

section \<open>Operations\<close>

definition mouse_subscribe ::
  "'d env \<Rightarrow> ('d, 'z) machine_scheme \<Rightarrow> (int \<times> u8 \<times> int) \<times> ('d, 'z) machine_scheme" where
  "mouse_subscribe E s =
     (let hook_id = MOUSE_IRQ;
          bit_no = word_of_int hook_id;
          ((call_back, hook_id), d) = sys_irqsetpolicy E MOUSE_IRQ (IRQ_REENABLE OR IRQ_EXCLUSIVE) hook_id (dev s);
          notification = hook_id
      in ((call_back, bit_no, notification), s\<lparr>dev := d\<rparr>))"

definition mouse_unsubscribe :: "'d env \<Rightarrow> int \<Rightarrow> ('d, 'z) machine_scheme \<Rightarrow> int \<times> ('d, 'z) machine_scheme" where
  "mouse_unsubscribe E notification s =
     (let (r, d) = sys_irqrmpolicy E notification (dev s) in (r, s\<lparr>dev := d\<rparr>))"

definition mouse_get_state :: "'d env \<Rightarrow> ('d, 'z) mouse_drv_scheme \<Rightarrow> ('d, 'z) mouse_drv_scheme" where
  "mouse_get_state E s =
     (let (stat_reg, s) = inb E KBC_STAT_REG s;
          error = truth (stat_reg AND (KBC_STAT_REG_PAR OR KBC_STAT_REG_TIMEOUT));
          obf = truth (stat_reg AND KBC_STAT_REG_OBF);
          ibf = truth (stat_reg AND KBC_STAT_REG_IBF);
          aux = truth (stat_reg AND KBD_STAT_REG_AUX);
          (byte, s) = (if obf then inb E KBC_OUT_BUF s else (0, s))
      in s\<lparr>m_kbc_ih_err := error, m_kbc_ih_obf := obf, m_kbc_ih_aux := aux, m_kbc_ih_ibf := ibf,
           m_kbc_ih_output := byte\<rparr>)"

definition mouse_is_synched :: "u8 list \<Rightarrow> int \<Rightarrow> bool" where
  "mouse_is_synched bs sz = (if sz = 1 then truth ((bs ! 0) AND BIT 3) else True)"

definition assembly_packet :: "u8 list \<Rightarrow> packet" where
  "assembly_packet bs =
     \<lparr>pk_bytes = [bs ! 0, bs ! 1, bs ! 2],
      rb = truth (bs ! 0 AND PACKET_RB),
      mb = truth (bs ! 0 AND PACKET_MB),
      lb = truth (bs ! 0 AND PACKET_LB),
      delta_x = cpl2_9_to_16 (bs ! 1) (truth (bs ! 0 AND PACKET_X_MSB)),
      delta_y = cpl2_9_to_16 (bs ! 2) (truth (bs ! 0 AND PACKET_Y_MSB)),
      x_ov = truth (bs ! 0 AND PACKET_X_OVFL),
      y_ov = truth (bs ! 0 AND PACKET_Y_OVFL)\<rparr>"

text \<open>
  The part of \<open>mouse_handler\<close> after the controller was read. The write \<open>bytes[byte_count]\<close>
  outside the three-byte array is undefined.
\<close>

definition mouse_assemble :: "packet \<Rightarrow> ('d, 'z) mouse_drv_scheme \<Rightarrow> ((bool \<times> packet) \<times> ('d, 'z) mouse_drv_scheme) option" where
  "mouse_assemble pk s =
     (if m_kbc_ih_err s \<or> \<not> m_kbc_ih_obf s \<or> \<not> m_kbc_ih_aux s
      then Some ((False, pk), s\<lparr>byte_count := 0\<rparr>)
      else if \<not> (0 \<le> byte_count s \<and> byte_count s < int (length (mouse_bytes s))) then None
      else
        let s = s\<lparr>mouse_bytes := (mouse_bytes s)[nat (byte_count s) := m_kbc_ih_output s]\<rparr> in
        if \<not> mouse_is_synched (mouse_bytes s) (byte_count s)
        then Some ((False, pk), s\<lparr>byte_count := 0\<rparr>)
        else
          let s = s\<lparr>byte_count := byte_count s + 1\<rparr> in
          if byte_count s < 3 then Some ((False, pk), s)
          else Some ((True, assembly_packet (mouse_bytes s)), s\<lparr>byte_count := 0\<rparr>))"

definition mouse_handler ::
  "'d env \<Rightarrow> packet \<Rightarrow> ('d, 'z) mouse_drv_scheme \<Rightarrow> ((bool \<times> packet) \<times> ('d, 'z) mouse_drv_scheme) option" where
  "mouse_handler E pk s = mouse_assemble pk (mouse_get_state E s)"

definition mouse_delay :: "'d env \<Rightarrow> ('d, 'z) machine_scheme \<Rightarrow> ('d, 'z) machine_scheme" where
  "mouse_delay E s = s\<lparr>dev := tickdelay E (micros_to_ticks E DELAY_US) (dev s)\<rparr>"

definition mouse_write_byte_ack :: "'d env \<Rightarrow> ('d, 'z) machine_scheme \<Rightarrow> bool \<times> ('d, 'z) machine_scheme" where
  "mouse_write_byte_ack E s =
     (let s = mouse_delay E s;
          (ack, s) = inb E KBC_OUT_BUF s
      in (ack = BYTE_TO_MOUSE_SUCCESS, s))"

fun mouse_write_byte_loop :: "'d env \<Rightarrow> u8 \<Rightarrow> nat \<Rightarrow> ('d, 'z) mouse_drv_scheme \<Rightarrow> bool \<times> ('d, 'z) mouse_drv_scheme" where
  "mouse_write_byte_loop E byte 0 s = (False, s)"
| "mouse_write_byte_loop E byte (Suc tries) s =
     (let s = mouse_get_state E s in
      if \<not> m_kbc_ih_err s \<and> \<not> m_kbc_ih_obf s \<and> \<not> m_kbc_ih_ibf s then
        (let s = out E KBC_ARG_REG byte s;
             s = out E KBC_CMD_REG BYTE_TO_MOUSE_CMD s
         in mouse_write_byte_ack E s)
      else mouse_write_byte_loop E byte tries (mouse_delay E s))"

definition mouse_write_byte :: "'d env \<Rightarrow> u8 \<Rightarrow> ('d, 'z) mouse_drv_scheme \<Rightarrow> bool \<times> ('d, 'z) mouse_drv_scheme" where
  "mouse_write_byte E byte s = mouse_write_byte_loop E byte 10 s"

fun mouse_write_args :: "'d env \<Rightarrow> u8 list \<Rightarrow> ('d, 'z) mouse_drv_scheme \<Rightarrow> bool \<times> ('d, 'z) mouse_drv_scheme" where
  "mouse_write_args E [] s = (True, s)"
| "mouse_write_args E (a # args) s =
     (let (ok, s) = mouse_write_byte E a s in if \<not> ok then (False, s) else mouse_write_args E args s)"

text \<open>Returns the result and the return argument after the call.\<close>

definition mouse_write_command ::
  "'d env \<Rightarrow> u8 \<Rightarrow> u8 list \<Rightarrow> u8 \<Rightarrow> bool \<Rightarrow> ('d, 'z) mouse_drv_scheme \<Rightarrow> (bool \<times> u8) \<times> ('d, 'z) mouse_drv_scheme" where
  "mouse_write_command E command args ret_arg has_ret s =
     (let (ok, s) = mouse_write_byte E command s in
      if \<not> ok then ((False, ret_arg), s)
      else
        let (ok, s) = mouse_write_args E args s in
        if \<not> ok then ((False, ret_arg), s)
        else if has_ret then
          let s = mouse_get_state E (mouse_delay E s) in
          if \<not> m_kbc_ih_err s \<and> m_kbc_ih_obf s \<and> m_kbc_ih_aux s
          then ((True, m_kbc_ih_output s), s)
          else ((False, ret_arg), s)
        else ((True, ret_arg), s))"

fun try_mouse_operation ::
  "'d env \<Rightarrow> u8 \<Rightarrow> u8 list \<Rightarrow> u8 \<Rightarrow> bool \<Rightarrow> nat \<Rightarrow> ('d, 'z) mouse_drv_scheme \<Rightarrow> (bool \<times> u8) \<times> ('d, 'z) mouse_drv_scheme" where
  "try_mouse_operation E command args ret_arg has_ret 0 s = ((False, ret_arg), s)"
| "try_mouse_operation E command args ret_arg has_ret (Suc tries) s =
     (let ((ok, ret_arg), s) = mouse_write_command E command args ret_arg has_ret s in
      if ok then ((True, ret_arg), s)
      else try_mouse_operation E command args ret_arg has_ret tries (mouse_delay E s))"

definition mouse_data_reporting_enable :: "'d env \<Rightarrow> ('d, 'z) mouse_drv_scheme \<Rightarrow> bool \<times> ('d, 'z) mouse_drv_scheme" where
  "mouse_data_reporting_enable E s =
     (let ((ok, _), s) = try_mouse_operation E MOUSE_ENAB_DATA_REP [] (uninit E (dev s)) False 10 s in (ok, s))"

definition mouse_data_reporting_disable :: "'d env \<Rightarrow> ('d, 'z) mouse_drv_scheme \<Rightarrow> bool \<times> ('d, 'z) mouse_drv_scheme" where
  "mouse_data_reporting_disable E s =
     (let ((ok, _), s) = try_mouse_operation E MOUSE_DIS_DATA_REP [] (uninit E (dev s)) False 10 s in (ok, s))"

interpretation mouse_sub: driver_op "mouse_subscribe E"
  by unfold_locales (simp add: mouse_subscribe_def split_beta Let_def)

interpretation mouse_unsub: driver_op "mouse_unsubscribe E n"
  by unfold_locales (simp add: mouse_unsubscribe_def split_beta Let_def)

section \<open>Packets\<close>

lemma assembly_packet_deltas:
  "sint (delta_x (assembly_packet bs)) = (if bit (bs ! 0) 4 then uint (bs ! 1) - 256 else uint (bs ! 1))"
  "sint (delta_y (assembly_packet bs)) = (if bit (bs ! 0) 5 then uint (bs ! 2) - 256 else uint (bs ! 2))"
  by (simp_all add: assembly_packet_def sint_cpl2_9_to_16 packet_bits truth_and_BIT)

lemma assembly_packet_flags:
  "lb (assembly_packet bs) = bit (bs ! 0) 0" "rb (assembly_packet bs) = bit (bs ! 0) 1"
  "mb (assembly_packet bs) = bit (bs ! 0) 2" "x_ov (assembly_packet bs) = bit (bs ! 0) 6"
  "y_ov (assembly_packet bs) = bit (bs ! 0) 7"
  by (simp_all add: assembly_packet_def packet_bits truth_and_BIT)

text \<open>The deltas of every packet are 9-bit two's complement numbers.\<close>

lemma assembly_packet_bounds:
  "- 256 \<le> sint (delta_x (assembly_packet bs))" "sint (delta_x (assembly_packet bs)) \<le> 255"
  "- 256 \<le> sint (delta_y (assembly_packet bs))" "sint (delta_y (assembly_packet bs)) \<le> 255"
  unfolding assembly_packet_deltas
  using u8_range [of "bs ! 1"] u8_range [of "bs ! 2"] by (auto split: if_split)

section \<open>The packet assembler\<close>

text \<open>The invariant of the handler's two statics.\<close>

definition mouse_inv :: "('d, 'z) mouse_drv_scheme \<Rightarrow> bool" where
  "mouse_inv s \<longleftrightarrow> length (mouse_bytes s) = MOUSE_PACKET_SIZE \<and> 0 \<le> byte_count s \<and> byte_count s < 3"

lemma mouse_get_state_statics [simp]:
  "mouse_bytes (mouse_get_state E s) = mouse_bytes s"
  "byte_count (mouse_get_state E s) = byte_count s"
  by (simp_all add: mouse_get_state_def Let_def split_beta frame_simps)

lemma mouse_assemble_safe:
  "mouse_inv s \<Longrightarrow> \<exists>r pk' s'. mouse_assemble pk s = Some ((r, pk'), s') \<and> mouse_inv s'"
  by (auto simp: mouse_inv_def mouse_assemble_def MOUSE_PACKET_SIZE_def Let_def)

lemma mouse_handler_safe:
  "mouse_inv s \<Longrightarrow> \<exists>r pk' s'. mouse_handler E pk s = Some ((r, pk'), s') \<and> mouse_inv s'"
  unfolding mouse_handler_def
  by (rule mouse_assemble_safe) (simp add: mouse_inv_def)

text \<open>The handler as a machine whose events are the packets its caller passes in: it never leaves its invariant.\<close>

definition mouse_step :: "'d env \<Rightarrow> packet \<Rightarrow> ('d, 'z) mouse_drv_scheme \<Rightarrow> ('d, 'z) mouse_drv_scheme option" where
  "mouse_step E pk s = map_option snd (mouse_handler E pk s)"

interpretation mouse_machine: safe_machine "mouse_step E" mouse_inv "\<lambda>_ _. True"
  by unfold_locales (use mouse_handler_safe in \<open>fastforce simp: mouse_step_def\<close>)

text \<open>One good byte from the mouse, as the controller read leaves it in the globals.\<close>

definition mouse_sample :: "u8 \<Rightarrow> ('d, 'z) mouse_drv_scheme \<Rightarrow> ('d, 'z) mouse_drv_scheme" where
  "mouse_sample b s = s\<lparr>m_kbc_ih_err := False, m_kbc_ih_obf := True, m_kbc_ih_aux := True, m_kbc_ih_output := b\<rparr>"

fun feed_bytes :: "u8 list \<Rightarrow> packet \<Rightarrow> ('d, 'z) mouse_drv_scheme \<Rightarrow> (bool list \<times> packet \<times> ('d, 'z) mouse_drv_scheme) option" where
  "feed_bytes [] pk s = Some ([], pk, s)"
| "feed_bytes (b # bs) pk s =
     do { ((r, pk'), s') \<leftarrow> mouse_assemble pk (mouse_sample b s);
          (rs, pk'', s'') \<leftarrow> feed_bytes bs pk' s';
          Some (r # rs, pk'', s'') }"

lemma length_3E: "length xs = 3 \<Longrightarrow> (\<And>a b c. xs = [a, b, c] \<Longrightarrow> P) \<Longrightarrow> P"
  by (auto simp: length_Suc_conv numeral_3_eq_3)

lemma feed_packet:
  assumes "mouse_inv s" and "byte_count s = 0" and "bit b0 3"
  shows "\<exists>s'. feed_bytes [b0, b1, b2] pk s = Some ([False, False, True], assembly_packet [b0, b1, b2], s')
    \<and> mouse_inv s' \<and> byte_count s' = 0"
proof -
  obtain x y z where m: "mouse_bytes s = [x, y, z]"
    using assms(1) by (auto simp: mouse_inv_def MOUSE_PACKET_SIZE_def elim: length_3E)
  show ?thesis using assms m
    by (simp add: mouse_inv_def MOUSE_PACKET_SIZE_def mouse_assemble_def mouse_sample_def
        mouse_is_synched_def truth_and_BIT Let_def)
qed

lemma feed_unsynched:
  assumes "mouse_inv s" and "byte_count s = 0" and "\<not> bit b0 3"
  shows "\<exists>s'. feed_bytes [b0, b1] pk s = Some ([False, False], pk, s') \<and> mouse_inv s' \<and> byte_count s' = 0"
proof -
  obtain x y z where m: "mouse_bytes s = [x, y, z]"
    using assms(1) by (auto simp: mouse_inv_def MOUSE_PACKET_SIZE_def elim: length_3E)
  show ?thesis using assms m
    by (simp add: mouse_inv_def MOUSE_PACKET_SIZE_def mouse_assemble_def mouse_sample_def
        mouse_is_synched_def truth_and_BIT Let_def)
qed

end
