(* ===== verification/Props.thy ===== *)
theory Props
  imports Mouse
begin

text \<open>
  The timer subscription of \<open>src/proj/timer.c\<close> and the glyph images of
  \<open>src/proj/num_and_letters.c\<close> and \<open>num_and_letters.h\<close>. The loaders fill the static
  image arrays from the named pixmaps; a pointer to a glyph is the array and the index it
  points at, and reading through it is defined only inside the array.
\<close>

section \<open>timer.c\<close>

definition TIMER0_IRQ :: int where "TIMER0_IRQ = 0"

record 'd timer_st = "'d mouse_drv" +
  timer_freq_counter :: int
  timer_hook_id :: int

definition timer_subscribe_int ::
  "'d env \<Rightarrow> ('d, 'z) timer_st_scheme \<Rightarrow> (int \<times> u8) \<times> ('d, 'z) timer_st_scheme" where
  "timer_subscribe_int E s =
     (let hook_id = TIMER0_IRQ;
          bit_no = word_of_int hook_id;
          ((call_back, hook_id), d) = sys_irqsetpolicy E TIMER0_IRQ IRQ_REENABLE hook_id (dev s)
      in ((call_back, bit_no), s\<lparr>dev := d, timer_hook_id := hook_id\<rparr>))"

definition timer_unsubscribe_int :: "'d env \<Rightarrow> ('d, 'z) timer_st_scheme \<Rightarrow> int \<times> ('d, 'z) timer_st_scheme" where
  "timer_unsubscribe_int E s =
     (let (r, d) = sys_irqrmpolicy E (timer_hook_id s) (dev s) in (r, s\<lparr>dev := d\<rparr>))"

section \<open>num_and_letters.c\<close>

datatype glyph = Letter nat | Number nat | LilLetter nat | LilNumber nat

record 'd props_st = "'d timer_st" +
  letters :: "xpm_image_t list"
  numbers :: "xpm_image_t list"
  lilletters :: "xpm_image_t list"
  lilnumbers :: "xpm_image_t list"
  mouse_img :: xpm_image_t

text \<open>The pixmaps in the order in which the loaders store them.\<close>

definition number_xpms :: "string list" where
  "number_xpms =
     [
      ''Zero_xpm'', ''One_xpm'', ''Two_xpm'', ''Three_xpm'', ''Four_xpm'', ''Five_xpm'',
      ''Six_xpm'', ''Seven_xpm'', ''Eight_xpm'', ''Nine_xpm'']"

definition letter_xpms :: "string list" where
  "letter_xpms =
     [
      ''A_xpm'', ''B_xpm'', ''C_xpm'', ''D_xpm'', ''E_xpm'', ''F_xpm'', ''G_xpm'', ''H_xpm'',
      ''I_xpm'', ''J_xpm'', ''K_xpm'', ''L_xpm'', ''M_xpm'', ''N_xpm'', ''O_xpm'', ''P_xpm'',
      ''Q_xpm'', ''R_xpm'', ''S_xpm'', ''T_xpm'', ''U_xpm'', ''V_xpm'', ''W_xpm'', ''X_xpm'',
      ''Y_xpm'', ''Z_xpm'', ''SPACE_xpm'', ''empty_xpm'']"

definition lilnumber_xpms :: "string list" where
  "lilnumber_xpms =
     [
      ''Zero_lil_xpm'', ''One_lil_xpm'', ''Two_lil_xpm'', ''Three_lil_xpm'', ''Four_lil_xpm'',
      ''Five_lil_xpm'', ''Six_lil_xpm'', ''Seven_lil_xpm'', ''Eight_lil_xpm'', ''Nine_lil_xpm'']"

definition lilletter_xpms :: "string list" where
  "lilletter_xpms =
     [
      ''A_lil_xpm'', ''B_lil_xpm'', ''C_lil_xpm'', ''D_lil_xpm'', ''E_lil_xpm'', ''F_lil_xpm'',
      ''G_lil_xpm'', ''H_lil_xpm'', ''I_lil_xpm'', ''J_lil_xpm'', ''K_lil_xpm'', ''L_lil_xpm'',
      ''M_lil_xpm'', ''N_lil_xpm'', ''O_lil_xpm'', ''P_lil_xpm'', ''Q_lil_xpm'', ''R_lil_xpm'',
      ''S_lil_xpm'', ''T_lil_xpm'', ''U_lil_xpm'', ''V_lil_xpm'', ''W_lil_xpm'', ''X_lil_xpm'',
      ''Y_lil_xpm'', ''Z_lil_xpm'', ''Bar_xpm'']"

definition load_xpms :: "'d env \<Rightarrow> string list \<Rightarrow> xpm_image_t list" where
  "load_xpms E names = map (\<lambda>n. xpm_load E n XPM_5_6_5) names"

definition loadnums :: "'d env \<Rightarrow> ('d, 'z) props_st_scheme \<Rightarrow> ('d, 'z) props_st_scheme" where
  "loadnums E s = s\<lparr>numbers := load_xpms E number_xpms\<rparr>"

definition loadlet :: "'d env \<Rightarrow> ('d, 'z) props_st_scheme \<Rightarrow> ('d, 'z) props_st_scheme" where
  "loadlet E s = s\<lparr>letters := load_xpms E letter_xpms\<rparr>"

definition loadlilnums :: "'d env \<Rightarrow> ('d, 'z) props_st_scheme \<Rightarrow> ('d, 'z) props_st_scheme" where
  "loadlilnums E s = s\<lparr>lilnumbers := load_xpms E lilnumber_xpms\<rparr>"

definition loadlilet :: "'d env \<Rightarrow> ('d, 'z) props_st_scheme \<Rightarrow> ('d, 'z) props_st_scheme" where
  "loadlilet E s = s\<lparr>lilletters := load_xpms E lilletter_xpms\<rparr>"

definition get_prop_from_char :: "char \<Rightarrow> glyph" where
  "get_prop_from_char byte =
     (if c_int byte \<ge> c_int CHR ''a'' \<and> c_int byte \<le> c_int CHR ''z''
      then Letter (nat (c_int byte - c_int CHR ''a''))
      else if byte = CHR '' '' then Letter 26
      else if c_int byte \<ge> c_int CHR ''0'' \<and> c_int byte \<le> c_int CHR ''9''
      then Number (nat (c_int byte - c_int CHR ''0''))
      else if byte = CHR ''/'' then Letter 28
      else Letter 26)"

definition get_lilprop_from_char :: "char \<Rightarrow> glyph" where
  "get_lilprop_from_char byte =
     (if byte = CHR ''i'' then LilLetter 8
      else if byte = CHR ''3'' then LilNumber 3
      else if c_int byte \<ge> c_int CHR ''a'' \<and> c_int byte \<le> c_int CHR ''z''
      then LilLetter (nat (c_int byte - c_int CHR ''a''))
      else if c_int byte \<ge> c_int CHR ''0'' \<and> c_int byte \<le> c_int CHR ''9''
      then LilNumber (nat (c_int byte - c_int CHR ''0''))
      else if byte = CHR ''/'' then LilLetter 26
      else LilLetter 26)"

definition is_numerical :: "char \<Rightarrow> bool" where
  "is_numerical byte \<longleftrightarrow> c_int byte \<ge> c_int CHR ''0'' \<and> c_int byte \<le> c_int CHR ''9''"

definition is_alpha_numberical :: "char \<Rightarrow> bool" where
  "is_alpha_numberical byte =
     (if c_int byte \<ge> c_int CHR ''a'' \<and> c_int byte \<le> c_int CHR ''z'' then True
      else if is_numerical byte then True
      else if byte = CHR '' '' then True
      else False)"

text \<open>Reading the image a glyph pointer refers to.\<close>

definition nth_img :: "xpm_image_t list \<Rightarrow> nat \<Rightarrow> xpm_image_t option" where
  "nth_img xs i = (if i < length xs then Some (xs ! i) else None)"

fun deref :: "('d, 'z) props_st_scheme \<Rightarrow> glyph \<Rightarrow> xpm_image_t option" where
  "deref s (Letter i) = nth_img (letters s) i"
| "deref s (Number i) = nth_img (numbers s) i"
| "deref s (LilLetter i) = nth_img (lilletters s) i"
| "deref s (LilNumber i) = nth_img (lilnumbers s) i"

definition get_empty :: "('d, 'z) props_st_scheme \<Rightarrow> xpm_image_t option" where
  "get_empty s = nth_img (letters s) 27"

definition get_mouse :: "'d env \<Rightarrow> ('d, 'z) props_st_scheme \<Rightarrow> xpm_image_t \<times> ('d, 'z) props_st_scheme" where
  "get_mouse E s = (let s = s\<lparr>mouse_img := xpm_load E ''mouse_xpm'' XPM_5_6_5\<rparr> in (mouse_img s, s))"

section \<open>Properties of the glyph lookup\<close>

definition props_ok :: "('d, 'z) props_st_scheme \<Rightarrow> bool" where
  "props_ok s \<longleftrightarrow> length (letters s) = 28 \<and> length (numbers s) = 10 \<and> length (lilletters s) = 27
     \<and> length (lilnumbers s) = 10"

lemma load_sizes [simp]:
  "length (load_xpms E ns) = length ns" "length number_xpms = 10" "length letter_xpms = 28"
  "length lilnumber_xpms = 10" "length lilletter_xpms = 27"
  by (simp_all add: load_xpms_def number_xpms_def letter_xpms_def lilnumber_xpms_def lilletter_xpms_def)

lemma props_ok_load: "props_ok (loadlilet E (loadlilnums E (loadlet E (loadnums E s))))"
  by (simp add: props_ok_def loadlilet_def loadlilnums_def loadlet_def loadnums_def)

lemma c_int_literals [simp]:
  "c_int CHR ''a'' = 97" "c_int CHR ''z'' = 122" "c_int CHR ''0'' = 48" "c_int CHR ''9'' = 57"
  by (simp_all add: c_int_def)

lemma is_numerical_iff: "is_numerical c \<longleftrightarrow> 48 \<le> c_int c \<and> c_int c \<le> 57"
  by (simp add: is_numerical_def)

text \<open>
  Every character but the slash has a glyph inside its array; the slash points one past the end
  of \<open>letters\<close>.
\<close>

lemma get_prop_from_char_defined: "props_ok s \<Longrightarrow> c \<noteq> CHR ''/'' \<Longrightarrow> \<exists>img. deref s (get_prop_from_char c) = Some img"
  by (auto simp: get_prop_from_char_def props_ok_def nth_img_def nat_less_iff)

lemma get_prop_from_slash: "props_ok s \<Longrightarrow> deref s (get_prop_from_char CHR ''/'') = None"
  by (simp add: get_prop_from_char_def props_ok_def nth_img_def c_int_def)

lemma get_lilprop_from_char_defined: "props_ok s \<Longrightarrow> \<exists>img. deref s (get_lilprop_from_char c) = Some img"
  by (auto simp: get_lilprop_from_char_def props_ok_def nth_img_def nat_less_iff)

end
