(* ===== verification/Vc.thy ===== *)
theory Vc
  imports Props
begin

text \<open>
  The video card module, \<open>src/proj/vc.c\<close> with the globals and the text box of
  \<open>src/proj/vc.h\<close>: mode setting, the secondary buffer all drawing goes to, the pixel and
  image routines, and the text boxes. The buffers are byte lists of the size of their blocks
  (the empty list for \<open>NULL\<close>); an access outside a block is \<open>None\<close>. \<open>get_mode_info\<close>
  can also end in \<open>panic\<close>, the left summand of its result.
\<close>

section \<open>Data\<close>

definition VIDEO_INT :: u8 where "VIDEO_INT = 0x10"
definition VBE :: u8 where "VBE = 0x02"
definition MAX_TEXT_BOX_SIZE :: nat where "MAX_TEXT_BOX_SIZE = 20"
definition WIDTH :: int where "WIDTH = 800"
definition HEIGHT :: int where "HEIGHT = 600"

record text_box =
  char_prop :: "glyph option list"
  xi :: u16
  yi :: u16
  max_x :: u16
  min_x :: u16
  cursor_x :: u16
  char_size :: int
  char_max_size :: int

record 'd vc_st = "'d props_st" +
  bppixel :: u32
  x_res :: u32
  y_res :: u32
  bytes_per_pixel :: u32
  vram_base :: u32
  vram_size :: u32
  video_mem :: "u8 list"
  buffer :: "u8 list"

section \<open>Mode setting\<close>

text \<open>
  \<open>vbe_get_mode_inf\<close> prepares the registers of a BIOS call and does not make it: what it returns is
  what the block of low memory held. Nothing calls it. Where no block was allocated the structure
  with its address is not set, and the read through it is undefined.
\<close>

definition vbe_get_mode_inf :: "'d liblm \<Rightarrow> u16 \<Rightarrow> ('d, 'z) machine_scheme \<Rightarrow> ((int \<times> vbe_mode_info_t) \<times> ('d, 'z) machine_scheme) option" where
  "vbe_get_mode_inf LM mode s =
     (let (block, d) = lm_alloc LM (dev s) in
      case block of None \<Rightarrow> None | Some content \<Rightarrow> Some ((0, content), s\<lparr>dev := lm_free LM d\<rparr>))"

definition set_vbe_mode :: "'d env \<Rightarrow> u16 \<Rightarrow> ('d, 'z) vc_st_scheme \<Rightarrow> int \<times> ('d, 'z) vc_st_scheme" where
  "set_vbe_mode E mode s =
     (let (r, d) = sys_int86 E 0x4f VBE (BIT 14 OR mode) VIDEO_INT (dev s)
      in (if r = 1 then 1 else 0, s\<lparr>dev := d\<rparr>))"

definition get_mode_info :: "'d env \<Rightarrow> u16 \<Rightarrow> ('d, 'z) vc_st_scheme \<Rightarrow> string + (int \<times> ('d, 'z) vc_st_scheme)" where
  "get_mode_info E mode s =
     (let (mode_info, d) = vbe_get_mode_info E mode (dev s);
          s = s\<lparr>dev := d, x_res := ucast (XResolution mode_info), y_res := ucast (YResolution mode_info),
                bppixel := ucast (BitsPerPixel mode_info)\<rparr>;
          s = s\<lparr>bytes_per_pixel := bppixel s div 8, vram_base := PhysBasePtr mode_info\<rparr>;
          s = s\<lparr>vram_size := x_res s * y_res s * bytes_per_pixel s\<rparr>;
          (r, d) = sys_privctl_add_mem E (vram_base s) (vram_base s + vram_size s) (dev s);
          s = s\<lparr>dev := d\<rparr>
      in if r \<noteq> 0 then Inl ''sys_privctl (ADD_MEM) failed''
         else
           let (mapped, d) = vm_map_phys_ok E (vram_base s) (vram_size s) (dev s);
               s = s\<lparr>dev := d\<rparr>;
               n = unat (x_res s * y_res s * bytes_per_pixel s);
               s = s\<lparr>video_mem := replicate (unat (vram_size s)) (uninit E (dev s)),
                     buffer := (if malloc E (int n) (dev s) \<noteq> None then replicate n (uninit E (dev s)) else [])\<rparr>
           in if \<not> mapped then Inl ''Could not map video memory'' else Inr (0, s))"

definition get_mode_width :: int where "get_mode_width = WIDTH"
definition get_mode_height :: int where "get_mode_height = HEIGHT"

section \<open>Drawing\<close>

text \<open>The local \<open>bytes_per_pixel\<close> of \<open>draw_pixel\<close>, rounded up.\<close>

definition bytes_per_pixel_ceil :: "u32 \<Rightarrow> u8" where
  "bytes_per_pixel_ceil bpp = word_of_nat ((unat bpp + 7) div 8)"

definition buf_write :: "nat \<Rightarrow> u8 \<Rightarrow> ('d, 'z) vc_st_scheme \<Rightarrow> ('d, 'z) vc_st_scheme option" where
  "buf_write i v s = (if i < length (buffer s) then Some (s\<lparr>buffer := (buffer s)[i := v]\<rparr>) else None)"

fun pixel_bytes :: "nat \<Rightarrow> nat \<Rightarrow> u32 \<Rightarrow> ('d, 'z) vc_st_scheme \<Rightarrow> ('d, 'z) vc_st_scheme option" where
  "pixel_bytes 0 i color s = Some s"
| "pixel_bytes (Suc n) i color s =
     do { s \<leftarrow> buf_write i (ucast color) s; pixel_bytes n (Suc i) (drop_bit 8 color) s }"

definition draw_pixel :: "u16 \<Rightarrow> u16 \<Rightarrow> u32 \<Rightarrow> ('d, 'z) vc_st_scheme \<Rightarrow> (int \<times> ('d, 'z) vc_st_scheme) option" where
  "draw_pixel x y color s =
     (if ucast y \<ge> y_res s \<or> ucast x \<ge> x_res s then Some (1, s)
      else
        let bpp = bytes_per_pixel_ceil (bppixel s) in
        if bpp = 1 then
          do { s \<leftarrow> buf_write (unat (ucast y * x_res s * ucast bpp) + unat x * unat bpp) (ucast color) s;
               Some (0, s) }
        else
          do { s \<leftarrow> pixel_bytes (unat bpp) (unat (ucast bpp * ucast y * x_res s) + unat x * unat bpp) color s;
               Some (0, s) })"

text \<open>The number of bytes of a screen, as the \<open>memcpy\<close> and \<open>memset\<close> calls compute it.\<close>

definition screen_bytes :: "('d, 'z) vc_st_scheme \<Rightarrow> nat" where
  "screen_bytes s = unat (x_res s * y_res s * bytes_per_pixel s)"

definition copy_to_video :: "('d, 'z) vc_st_scheme \<Rightarrow> ('d, 'z) vc_st_scheme option" where
  "copy_to_video s =
     do { v \<leftarrow> memcpy (video_mem s) (buffer s) (screen_bytes s);
          b \<leftarrow> memcpy (buffer s) (replicate (screen_bytes s) 0) (screen_bytes s);
          Some (s\<lparr>video_mem := v, buffer := b\<rparr>) }"

definition draw_xpm :: "xpm_image_t \<Rightarrow> ('d, 'z) vc_st_scheme \<Rightarrow> ('d, 'z) vc_st_scheme option" where
  "draw_xpm screen s =
     do { b \<leftarrow> memcpy (buffer s) (img_bytes screen) (screen_bytes s); Some (s\<lparr>buffer := b\<rparr>) }"

text \<open>\<open>((uint16_t *)(img.bytes))[i]\<close>, little endian.\<close>

definition pixel16 :: "xpm_image_t \<Rightarrow> nat \<Rightarrow> u16 option" where
  "pixel16 img i =
     (if 2 * i + 1 < length (img_bytes img)
      then Some (ucast (img_bytes img ! (2 * i)) OR push_bit 8 (ucast (img_bytes img ! (2 * i + 1))))
      else None)"

fun xpm_loop :: "'d env \<Rightarrow> xpm_image_t \<Rightarrow> (int \<times> int) list \<Rightarrow> nat \<Rightarrow> ('d, 'z) vc_st_scheme \<Rightarrow> ('d, 'z) vc_st_scheme option" where
  "xpm_loop E img [] bcount s = Some s"
| "xpm_loop E img ((j, i) # ps) bcount s =
     do { c \<leftarrow> pixel16 img bcount;
          s \<leftarrow> (if ucast c \<noteq> xpm_transparency_color E (img_type img)
               then map_option snd (draw_pixel (word_of_int j) (word_of_int i) (ucast c) s)
               else Some s);
          xpm_loop E img ps (Suc bcount) s }"

text \<open>The iterations of the two nested loops of \<open>draw_xpm_x_y\<close>, in their order.\<close>

definition xpm_pixels :: "xpm_image_t \<Rightarrow> u16 \<Rightarrow> u16 \<Rightarrow> (int \<times> int) list" where
  "xpm_pixels img x y =
     [(j, i). i \<leftarrow> [uint y .. uint (height img) + uint y - 1], j \<leftarrow> [uint x .. uint (width img) + uint x - 1]]"

definition draw_xpm_x_y :: "'d env \<Rightarrow> xpm_image_t \<Rightarrow> u16 \<Rightarrow> u16 \<Rightarrow> ('d, 'z) vc_st_scheme \<Rightarrow> ('d, 'z) vc_st_scheme option" where
  "draw_xpm_x_y E img x y s = xpm_loop E img (xpm_pixels img x y) 0 s"

section \<open>Text boxes\<close>

definition create_writeable_text_box :: "u16 \<Rightarrow> u16 \<Rightarrow> u16 \<Rightarrow> u16 \<Rightarrow> int \<Rightarrow> text_box" where
  "create_writeable_text_box c_x c_y mn_x mx_x max_size =
     \<lparr>char_prop = replicate MAX_TEXT_BOX_SIZE None, xi = c_x, yi = c_y, max_x = mx_x, min_x = mn_x,
      cursor_x = c_x, char_size = 0, char_max_size = max_size\<rparr>"

text \<open>The cell \<open>char_prop[i]\<close>, and the image it points at; a store outside the array is undefined.\<close>

definition put_prop :: "int \<Rightarrow> glyph \<Rightarrow> text_box \<Rightarrow> text_box option" where
  "put_prop i g box =
     (if 0 \<le> i \<and> i < int (length (char_prop box))
      then Some (box\<lparr>char_prop := (char_prop box)[nat i := Some g]\<rparr>) else None)"

definition get_prop :: "('d, 'z) props_st_scheme \<Rightarrow> int \<Rightarrow> text_box \<Rightarrow> xpm_image_t option" where
  "get_prop s i box =
     (if 0 \<le> i \<and> i < int (length (char_prop box))
      then Option.bind (char_prop box ! nat i) (deref s) else None)"

definition add_to_text_box :: "('d, 'z) props_st_scheme \<Rightarrow> char \<Rightarrow> text_box \<Rightarrow> (bool \<times> text_box) option" where
  "add_to_text_box s byte box =
     (if char_size box = char_max_size box then Some (False, box)
      else do {
        img \<leftarrow> deref s (get_prop_from_char byte);
        if uint (cursor_x box) + uint (width img) > uint (max_x box) then Some (False, box)
        else do {
          box \<leftarrow> put_prop (char_size box) (get_prop_from_char byte) box;
          Some (True, box\<lparr>char_size := char_size box + 1, cursor_x := cursor_x box + width img\<rparr>) } })"

fun static_box_loop :: "('d, 'z) props_st_scheme \<Rightarrow> char list \<Rightarrow> text_box \<Rightarrow> text_box option" where
  "static_box_loop s [] box = Some box"
| "static_box_loop s (c # cs) box = do { (_, box) \<leftarrow> add_to_text_box s c box; static_box_loop s cs box }"

text \<open>The array argument holds at least \<open>size\<close> characters at every call.\<close>

definition create_static_text_box :: "('d, 'z) props_st_scheme \<Rightarrow> u16 \<Rightarrow> u16 \<Rightarrow> char list \<Rightarrow> nat \<Rightarrow> text_box option" where
  "create_static_text_box s x y char_props sz =
     (if sz \<le> length char_props
      then static_box_loop s (take sz char_props) (create_writeable_text_box x y 0 0xFFFF (int sz)) else None)"

fun draw_text_loop :: "'d env \<Rightarrow> text_box \<Rightarrow> nat \<Rightarrow> nat \<Rightarrow> int \<Rightarrow> ('d, 'z) vc_st_scheme \<Rightarrow> ('d, 'z) vc_st_scheme option" where
  "draw_text_loop E box 0 i x s = Some s"
| "draw_text_loop E box (Suc n) i x s =
     do { img \<leftarrow> get_prop s (int i) box;
          s \<leftarrow> draw_xpm_x_y E img (word_of_int x) (yi box) s;
          draw_text_loop E box n (Suc i) (x + uint (width img)) s }"

definition draw_text_box :: "'d env \<Rightarrow> text_box \<Rightarrow> ('d, 'z) vc_st_scheme \<Rightarrow> ('d, 'z) vc_st_scheme option" where
  "draw_text_box E box s = draw_text_loop E box (nat (char_size box)) 0 (uint (xi box)) s"

fun erase_text_loop :: "'d env \<Rightarrow> xpm_image_t \<Rightarrow> u16 \<Rightarrow> nat \<Rightarrow> int \<Rightarrow> ('d, 'z) vc_st_scheme \<Rightarrow> ('d, 'z) vc_st_scheme option" where
  "erase_text_loop E e_img y 0 x s = Some s"
| "erase_text_loop E e_img y (Suc n) x s =
     do { s \<leftarrow> draw_xpm_x_y E e_img (word_of_int x) y s;
          erase_text_loop E e_img y n (x + uint (width e_img)) s }"

definition erase_text_box :: "'d env \<Rightarrow> text_box \<Rightarrow> ('d, 'z) vc_st_scheme \<Rightarrow> ('d, 'z) vc_st_scheme option" where
  "erase_text_box E box s =
     do { e_img \<leftarrow> get_empty s;
          erase_text_loop E e_img (yi box) (nat (char_size box)) (uint (xi box)) s }"

definition add_to_centered_text_box :: "('d, 'z) props_st_scheme \<Rightarrow> char \<Rightarrow> text_box \<Rightarrow> (bool \<times> text_box) option" where
  "add_to_centered_text_box s byte box =
     (if char_size box = char_max_size box then Some (False, box)
      else do {
        img \<leftarrow> deref s (get_prop_from_char byte);
        if uint (cursor_x box) + uint (width img) div 2 > uint (max_x box) then Some (False, box)
        else if uint (xi box) - (uint (width img) + 1 div 2) < uint (min_x box) then Some (False, box)
        else do {
          box \<leftarrow> put_prop (char_size box) (get_prop_from_char byte) box;
          Some (True, box\<lparr>char_size := char_size box + 1,
                          cursor_x := cursor_x box + word_of_int (uint (width img) div 2),
                          xi := xi box - word_of_int ((uint (width img) + 1) div 2)\<rparr>) } })"

definition remove_from_centered_text_box ::
  "'d env \<Rightarrow> text_box \<Rightarrow> ('d, 'z) vc_st_scheme \<Rightarrow> (text_box \<times> ('d, 'z) vc_st_scheme) option" where
  "remove_from_centered_text_box E box s =
     (if char_size box = 0 then Some (box, s)
      else do {
        s \<leftarrow> erase_text_box E box s;
        img \<leftarrow> get_prop s (char_size box - 1) box;
        Some (box\<lparr>char_size := char_size box - 1,
                  cursor_x := cursor_x box - word_of_int (uint (width img) div 2),
                  xi := xi box + word_of_int ((uint (width img) + 1) div 2)\<rparr>, s) })"

section \<open>Memory safety of the drawing routines\<close>

text \<open>
  The invariant of the video state: both buffers have the size of the screen, whose size in
  bytes fits the 32-bit computation, the depth is a whole number of bytes, and every glyph
  image has two bytes per pixel.
\<close>

definition img_ok :: "xpm_image_t \<Rightarrow> bool" where
  "img_ok img \<longleftrightarrow> 2 * (unat (width img) * unat (height img)) \<le> length (img_bytes img)"

definition glyphs_ok :: "('d, 'z) props_st_scheme \<Rightarrow> bool" where
  "glyphs_ok s \<longleftrightarrow> props_ok s \<and>
     list_all img_ok (letters s @ numbers s @ lilletters s @ lilnumbers s)"

definition gfx_ok :: "('d, 'z) vc_st_scheme \<Rightarrow> bool" where
  "gfx_ok s \<longleftrightarrow>
     unat (x_res s) * unat (y_res s) * unat (bytes_per_pixel s) < 2 ^ 32 \<and>
     length (buffer s) = unat (x_res s) * unat (y_res s) * unat (bytes_per_pixel s) \<and>
     length (video_mem s) = length (buffer s) \<and>
     unat (bytes_per_pixel_ceil (bppixel s)) = unat (bytes_per_pixel s) \<and>
     glyphs_ok s"

text \<open>A drawing operation changes the contents of the secondary buffer and nothing else.\<close>

definition only_buffer :: "('d, 'z) vc_st_scheme \<Rightarrow> ('d, 'z) vc_st_scheme \<Rightarrow> bool" where
  "only_buffer s s' \<longleftrightarrow> (\<exists>b. length b = length (buffer s) \<and> s' = s\<lparr>buffer := b\<rparr>)"

lemma only_buffer_refl [simp]: "only_buffer s s"
  unfolding only_buffer_def by (rule exI [of _ "buffer s"]) simp

lemma only_buffer_upd [simp]: "only_buffer s (s\<lparr>buffer := b\<rparr>) \<longleftrightarrow> length b = length (buffer s)"
  unfolding only_buffer_def by (metis vc_st.select_convs(8) vc_st.surjective vc_st.update_convs(8))

lemma only_buffer_trans: "only_buffer s s' \<Longrightarrow> only_buffer s' s'' \<Longrightarrow> only_buffer s s''"
  by (auto simp: only_buffer_def)

lemma only_bufferE: "only_buffer s s' \<Longrightarrow> (\<And>b. length b = length (buffer s) \<Longrightarrow> s' = s\<lparr>buffer := b\<rparr> \<Longrightarrow> P) \<Longrightarrow> P"
  by (auto simp: only_buffer_def)

lemma gfx_ok_only_buffer: "only_buffer s s' \<Longrightarrow> gfx_ok s' \<longleftrightarrow> gfx_ok s"
  by (auto simp: only_buffer_def gfx_ok_def glyphs_ok_def props_ok_def)

lemma glyphs_ok_deref: "glyphs_ok s \<Longrightarrow> deref s g = Some img \<Longrightarrow> img_ok img"
  by (cases g) (auto simp: glyphs_ok_def nth_img_def list_all_iff split: if_splits)

lemma pixel_bytes_safe:
  "i + n \<le> length (buffer s) \<Longrightarrow> \<exists>s'. pixel_bytes n i c s = Some s' \<and> only_buffer s s'"
proof (induction n arbitrary: i c s)
  case 0
  then show ?case by simp
next
  case (Suc n)
  let ?s = "s\<lparr>buffer := (buffer s)[i := ucast c]\<rparr>"
  obtain s' where s': "pixel_bytes n (Suc i) (drop_bit 8 c) ?s = Some s'" "only_buffer ?s s'"
    using Suc.IH [of "Suc i" ?s "drop_bit 8 c"] Suc.prems by auto
  have "only_buffer s ?s" by simp
  then have "only_buffer s s'" using s'(2) by (rule only_buffer_trans)
  then show ?case using Suc.prems s'(1) by (simp add: buf_write_def)
qed

lemma pixel_offset:
  assumes "x < X" and "y < Y"
  shows "y * X * b + x * b + b \<le> X * Y * (b :: nat)"
proof -
  have "y * X + x + 1 \<le> y * X + X" using assms by simp
  also have "\<dots> = Suc y * X" by simp
  also have "\<dots> \<le> Y * X" using assms by (intro mult_right_mono) simp_all
  finally have "(y * X + x + 1) * b \<le> Y * X * b" by (rule mult_right_mono) simp
  then show ?thesis by (simp add: algebra_simps)
qed

lemma unat_mult3:
  "unat (a :: u32) * unat b * unat c < 2 ^ 32 \<Longrightarrow> 0 < unat c \<Longrightarrow> unat (a * b * c) = unat a * unat b * unat c"
proof -
  assume h: "unat a * unat b * unat c < 2 ^ 32" and c: "0 < unat c"
  have "unat a * unat b \<le> unat a * unat b * unat c" using c by simp
  then have "unat a * unat b < 2 ^ 32" using h by linarith
  then have "unat (a * b) = unat a * unat b" by (simp add: unat_word_ariths)
  then show ?thesis using h by (simp add: unat_word_ariths)
qed

text \<open>The byte offset \<open>draw_pixel\<close> computes, without wrap-around.\<close>

lemma draw_pixel_offset:
  fixes x y :: u16
  assumes g: "gfx_ok s" and y: "ucast y < y_res s" and x: "ucast x < x_res s"
  shows "unat (ucast y * x_res s * ucast (bytes_per_pixel_ceil (bppixel s))) + unat x * unat (bytes_per_pixel_ceil (bppixel s))
      + unat (bytes_per_pixel s) \<le> length (buffer s)"
    and "unat (ucast (bytes_per_pixel_ceil (bppixel s)) * ucast y * x_res s) + unat x * unat (bytes_per_pixel_ceil (bppixel s))
      + unat (bytes_per_pixel s) \<le> length (buffer s)"
proof -
  let ?b = "bytes_per_pixel_ceil (bppixel s)" and ?n = "unat (bytes_per_pixel s)"
  let ?X = "unat (x_res s)" and ?Y = "unat (y_res s)"
  have b: "unat ?b = ?n" and sz: "?X * ?Y * ?n < 2 ^ 32" and l: "length (buffer s) = ?X * ?Y * ?n"
    using g by (simp_all add: gfx_ok_def)
  have ub: "unat (ucast ?b :: u32) = ?n" using b by simp
  have xy: "unat x < ?X" "unat y < ?Y" using x y by (simp_all add: word_less_nat_alt)
  have le: "unat y * ?X * ?n + unat x * ?n + ?n \<le> ?X * ?Y * ?n" using xy by (rule pixel_offset)
  have "unat (ucast y * x_res s * ucast ?b :: u32) = unat y * ?X * ?n"
  proof (cases "?n = 0")
    case True
    then show ?thesis using ub by (simp add: unat_word_ariths)
  next
    case False
    have "unat (ucast y :: u32) * ?X * unat (ucast ?b :: u32) < 2 ^ 32"
      using le sz by (simp only: unat_ucast_u16_u32 ub)
    then show ?thesis using False ub by (subst unat_mult3) simp_all
  qed
  then show f: "unat (ucast y * x_res s * ucast ?b) + unat x * unat ?b + ?n \<le> length (buffer s)"
    using le b l by simp
  have c: "ucast ?b * ucast y * x_res s = ucast y * x_res s * (ucast ?b :: u32)" by (simp add: ac_simps)
  show "unat (ucast ?b * ucast y * x_res s) + unat x * unat ?b + ?n \<le> length (buffer s)"
    unfolding c by (rule f)
qed

lemma draw_pixel_safe:
  assumes "gfx_ok s"
  shows "\<exists>r s'. draw_pixel x y c s = Some (r, s') \<and> only_buffer s s'"
proof (cases "ucast y \<ge> y_res s \<or> ucast x \<ge> x_res s")
  case True
  then show ?thesis by (auto simp: draw_pixel_def)
next
  case False
  then have yx: "ucast y < y_res s" "ucast x < x_res s" by (simp_all add: not_le)
  note o = draw_pixel_offset [OF assms yx]
  have b: "unat (bytes_per_pixel s) = unat (bytes_per_pixel_ceil (bppixel s))"
    using assms by (simp add: gfx_ok_def)
  show ?thesis
  proof (cases "bytes_per_pixel_ceil (bppixel s) = 1")
    case True
    then show ?thesis using False o(1) b by (auto simp: draw_pixel_def buf_write_def)
  next
    case n1: False
    obtain s' where "pixel_bytes (unat (bytes_per_pixel_ceil (bppixel s)))
        (unat (ucast (bytes_per_pixel_ceil (bppixel s)) * ucast y * x_res s)
          + unat x * unat (bytes_per_pixel_ceil (bppixel s))) c s = Some s'" "only_buffer s s'"
      using pixel_bytes_safe [OF o(2) [unfolded b], of c] by blast
    then show ?thesis using False n1 by (simp add: draw_pixel_def Let_def)
  qed
qed

lemma pixel16_defined: "2 * i + 1 < length (img_bytes img) \<Longrightarrow> \<exists>c. pixel16 img i = Some c"
  by (simp add: pixel16_def)

lemma xpm_loop_safe:
  "gfx_ok s \<Longrightarrow> 2 * (bcount + length ps) \<le> length (img_bytes img) \<Longrightarrow>
   \<exists>s'. xpm_loop E img ps bcount s = Some s' \<and> only_buffer s s'"
proof (induction ps arbitrary: bcount s)
  case Nil
  then show ?case by simp
next
  case (Cons p ps)
  obtain j i where p: "p = (j, i)" by (cases p)
  from Cons.prems(2) have "2 * bcount + 1 < length (img_bytes img)" by simp
  then obtain c where c: "pixel16 img bcount = Some c" using pixel16_defined by blast
  obtain s1 where s1: "(if ucast c \<noteq> xpm_transparency_color E (img_type img)
      then map_option snd (draw_pixel (word_of_int j) (word_of_int i) (ucast c) s) else Some s) = Some s1"
    "only_buffer s s1"
    using draw_pixel_safe [OF Cons.prems(1), of "word_of_int j" "word_of_int i" "ucast c"]
    by (cases "ucast c \<noteq> xpm_transparency_color E (img_type img)") auto
  have "gfx_ok s1" using s1(2) Cons.prems(1) gfx_ok_only_buffer by blast
  moreover have "2 * (Suc bcount + length ps) \<le> length (img_bytes img)" using Cons.prems(2) by simp
  ultimately obtain s2 where "xpm_loop E img ps (Suc bcount) s1 = Some s2" "only_buffer s1 s2"
    using Cons.IH by blast
  then show ?case using p c s1 by (auto intro: only_buffer_trans)
qed

lemma length_xpm_pixels: "length (xpm_pixels img x y) = unat (width img) * unat (height img)"
proof -
  have "length [(j, i). i \<leftarrow> rows, j \<leftarrow> cols] = length rows * length cols" for rows cols :: "int list"
    by (induction rows) auto
  then show ?thesis by (simp add: xpm_pixels_def)
qed

lemma draw_xpm_x_y_safe:
  "gfx_ok s \<Longrightarrow> img_ok img \<Longrightarrow> \<exists>s'. draw_xpm_x_y E img x y s = Some s' \<and> only_buffer s s'"
  unfolding draw_xpm_x_y_def
  by (rule xpm_loop_safe) (simp_all add: img_ok_def length_xpm_pixels)

section \<open>The contract of a drawing routine\<close>

text \<open>
  What every screen relies on: from a video state in the invariant and a precondition that only
  the buffer cannot break, the routine has a defined outcome and touches only the buffer.
\<close>

locale drawing =
  fixes draw :: "('d, 'z) vc_st_scheme \<Rightarrow> ('d, 'z) vc_st_scheme option"
    and pre :: "('d, 'z) vc_st_scheme \<Rightarrow> bool"
  assumes draw_ok: "gfx_ok s \<Longrightarrow> pre s \<Longrightarrow> \<exists>s'. draw s = Some s' \<and> only_buffer s s'"
    and pre_stable: "only_buffer s s' \<Longrightarrow> pre s \<Longrightarrow> pre s'"
begin

lemma draw_again: "gfx_ok s \<Longrightarrow> pre s \<Longrightarrow> draw s = Some s' \<Longrightarrow> gfx_ok s' \<and> pre s' \<and> only_buffer s s'"
  using draw_ok pre_stable gfx_ok_only_buffer by (metis option.inject)

lemma drawing_then: "drawing next pre \<Longrightarrow> drawing (\<lambda>s. Option.bind (draw s) next) pre"
proof (unfold_locales)
  assume n: "drawing next pre"
  fix s assume g: "gfx_ok s" and p: "pre s"
  obtain s1 where s1: "draw s = Some s1" "only_buffer s s1" using draw_ok g p by blast
  then have "gfx_ok s1" "pre s1" using draw_again g p by blast+
  then obtain s2 where "next s1 = Some s2" "only_buffer s1 s2" using drawing.draw_ok [OF n] by blast
  then show "\<exists>s'. Option.bind (draw s) next = Some s' \<and> only_buffer s s'"
    using s1 by (auto intro: only_buffer_trans)
qed (rule pre_stable)

end

lemma drawing_Some: "(\<And>s s'. only_buffer s s' \<Longrightarrow> pre s \<Longrightarrow> pre s') \<Longrightarrow> drawing Some pre"
  by unfold_locales auto

lemma drawing_mono: "drawing d pre \<Longrightarrow> (\<And>s. pre' s \<Longrightarrow> pre s) \<Longrightarrow>
  (\<And>s s'. only_buffer s s' \<Longrightarrow> pre' s \<Longrightarrow> pre' s') \<Longrightarrow> drawing d pre'"
  unfolding drawing_def by blast

lemma drawing_if: "drawing d1 pre \<Longrightarrow> drawing d2 pre \<Longrightarrow> drawing (\<lambda>s. if c s then d1 s else d2 s) pre"
  unfolding drawing_def by auto

lemma screen_bytes_eq: "gfx_ok s \<Longrightarrow> screen_bytes s = length (buffer s)"
proof -
  assume g: "gfx_ok s"
  show ?thesis
  proof (cases "unat (bytes_per_pixel s) = 0")
    case True
    then show ?thesis using g by (simp add: gfx_ok_def screen_bytes_def unat_word_ariths)
  next
    case False
    then show ?thesis using g by (simp add: gfx_ok_def screen_bytes_def unat_mult3)
  qed
qed

lemma draw_xpm_eq:
  "gfx_ok s \<Longrightarrow> length (buffer s) \<le> length (img_bytes img) \<Longrightarrow>
   draw_xpm img s = Some (s\<lparr>buffer := take (length (buffer s)) (img_bytes img)\<rparr>)"
  by (simp add: draw_xpm_def screen_bytes_eq memcpy_def)

lemma copy_to_video_eq:
  "gfx_ok s \<Longrightarrow> copy_to_video s =
     Some (s\<lparr>video_mem := buffer s, buffer := replicate (length (buffer s)) 0\<rparr>)"
  by (simp add: copy_to_video_def screen_bytes_eq memcpy_whole gfx_ok_def)

lemma gfx_ok_copy_to_video: "gfx_ok s \<Longrightarrow> copy_to_video s = Some s' \<Longrightarrow> gfx_ok s'"
  by (auto simp: copy_to_video_eq gfx_ok_def glyphs_ok_def props_ok_def)

section \<open>Text boxes: invariant and behaviour\<close>

definition box_ok :: "('d, 'z) props_st_scheme \<Rightarrow> text_box \<Rightarrow> bool" where
  "box_ok s b \<longleftrightarrow> length (char_prop b) = MAX_TEXT_BOX_SIZE \<and> 0 \<le> char_size b \<and>
     char_size b \<le> char_max_size b \<and> char_max_size b \<le> int MAX_TEXT_BOX_SIZE \<and>
     (\<forall>i < nat (char_size b). \<exists>img. get_prop s (int i) b = Some img)"

lemma get_prop_only_buffer: "only_buffer s s' \<Longrightarrow> get_prop s' i b = get_prop s i b"
proof -
  assume "only_buffer s s'"
  then have "deref s' g = deref s g" for g by (cases g) (auto elim!: only_bufferE)
  then show ?thesis by (simp add: get_prop_def fun_eq_iff cong: Option.bind_cong)
qed

lemma box_ok_only_buffer: "only_buffer s s' \<Longrightarrow> box_ok s' b \<longleftrightarrow> box_ok s b"
  by (simp add: box_ok_def get_prop_only_buffer)

text \<open>
  The two invariants read the layers up to this one only: an update of a field of a later layer
  does not touch them.
\<close>

lemma gfx_ok_frame: "vc_st.truncate s' = vc_st.truncate s \<Longrightarrow> gfx_ok s' \<longleftrightarrow> gfx_ok s"
  by (cases s; cases s') (simp add: vc_st.truncate_def gfx_ok_def glyphs_ok_def props_ok_def)

lemma deref_frame: "vc_st.truncate s' = vc_st.truncate s \<Longrightarrow> deref s' g = deref s g"
  by (cases g; cases s; cases s') (simp_all add: vc_st.truncate_def)

lemma box_ok_frame: "vc_st.truncate s' = vc_st.truncate s \<Longrightarrow> box_ok s' b \<longleftrightarrow> box_ok s b"
  using deref_frame [of s' s] by (simp add: box_ok_def get_prop_def fun_eq_iff cong: Option.bind_cong)

lemma box_ok_create: "0 \<le> n \<Longrightarrow> n \<le> 20 \<Longrightarrow> box_ok s (create_writeable_text_box x y mn mx n)"
  by (simp add: box_ok_def create_writeable_text_box_def MAX_TEXT_BOX_SIZE_def)

lemma get_prop_img_ok: "gfx_ok s \<Longrightarrow> get_prop s i b = Some img \<Longrightarrow> img_ok img"
  by (auto simp: get_prop_def gfx_ok_def split: if_splits Option.bind_splits dest: glyphs_ok_deref)

lemma get_prop_put: "put_prop i g b = Some b' \<Longrightarrow>
  get_prop s j b' = (if j = i then deref s g else get_prop s j b)"
  by (auto simp: put_prop_def get_prop_def nth_list_update split: if_splits)

lemma get_prop_fields [simp]:
  "get_prop s i (b\<lparr>char_size := n\<rparr>) = get_prop s i b"
  "get_prop s i (b\<lparr>cursor_x := c\<rparr>) = get_prop s i b"
  "get_prop s i (b\<lparr>xi := c\<rparr>) = get_prop s i b"
  by (simp_all add: get_prop_def)

lemma draw_text_loop_safe:
  "gfx_ok s \<Longrightarrow> \<forall>k < n. \<exists>img. get_prop s (int (i + k)) b = Some img \<Longrightarrow>
   \<exists>s'. draw_text_loop E b n i x s = Some s' \<and> only_buffer s s'"
proof (induction n arbitrary: i x s)
  case 0
  then show ?case by simp
next
  case (Suc n)
  from Suc.prems(2) obtain img where img: "get_prop s (int i) b = Some img" by fastforce
  then have "img_ok img" by (rule get_prop_img_ok [OF Suc.prems(1)])
  then obtain s1 where s1: "draw_xpm_x_y E img (word_of_int x) (yi b) s = Some s1" "only_buffer s s1"
    using draw_xpm_x_y_safe [OF Suc.prems(1)] by blast
  have g1: "gfx_ok s1" using s1(2) Suc.prems(1) gfx_ok_only_buffer by blast
  have "\<forall>k < n. \<exists>img. get_prop s1 (int (Suc i + k)) b = Some img"
    using Suc.prems(2) s1(2) by (metis Suc_less_eq add_Suc_shift get_prop_only_buffer)
  then obtain s2 where "draw_text_loop E b n (Suc i) (x + uint (width img)) s1 = Some s2" "only_buffer s1 s2"
    using Suc.IH [OF g1] by blast
  then show ?case using img s1 by (auto intro: only_buffer_trans)
qed

lemma draw_text_box_safe:
  "gfx_ok s \<Longrightarrow> box_ok s b \<Longrightarrow> \<exists>s'. draw_text_box E b s = Some s' \<and> only_buffer s s'"
  unfolding draw_text_box_def by (rule draw_text_loop_safe) (simp_all add: box_ok_def)

interpretation draw_box: drawing "draw_text_box E b" "\<lambda>s. box_ok s b"
  by unfold_locales (auto simp: draw_text_box_safe box_ok_only_buffer)

lemma erase_text_loop_safe:
  "gfx_ok s \<Longrightarrow> img_ok img \<Longrightarrow> \<exists>s'. erase_text_loop E img y n x s = Some s' \<and> only_buffer s s'"
proof (induction n arbitrary: x s)
  case 0
  then show ?case by simp
next
  case (Suc n)
  obtain s1 where s1: "draw_xpm_x_y E img (word_of_int x) y s = Some s1" "only_buffer s s1"
    using draw_xpm_x_y_safe [OF Suc.prems] by blast
  then have "gfx_ok s1" using Suc.prems(1) gfx_ok_only_buffer by blast
  then show ?case using Suc.IH Suc.prems(2) s1 by (fastforce intro: only_buffer_trans)
qed

lemma erase_text_box_safe: "gfx_ok s \<Longrightarrow> \<exists>s'. erase_text_box E b s = Some s' \<and> only_buffer s s'"
proof -
  assume g: "gfx_ok s"
  then have l: "27 < length (letters s)" and a: "list_all img_ok (letters s)"
    by (simp_all add: gfx_ok_def glyphs_ok_def props_ok_def)
  then have "img_ok (letters s ! 27)" by (simp add: list_all_length)
  then show ?thesis using erase_text_loop_safe [OF g] l
    by (simp add: erase_text_box_def get_empty_def nth_img_def)
qed

text \<open>A character is appended, or the box is unchanged because it is full or out of room.\<close>

lemma add_to_centered_cases:
  assumes g: "gfx_ok s" and b: "box_ok s b" and c: "c \<noteq> CHR ''/''"
  obtains "add_to_centered_text_box s c b = Some (False, b)"
  | img b' where "add_to_centered_text_box s c b = Some (True, b')" "deref s (get_prop_from_char c) = Some img"
      "char_size b < char_max_size b" "box_ok s b'"
      "b' = b\<lparr>char_prop := (char_prop b)[nat (char_size b) := Some (get_prop_from_char c)],
              char_size := char_size b + 1,
              cursor_x := cursor_x b + word_of_int (uint (width img) div 2),
              xi := xi b - word_of_int ((uint (width img) + 1) div 2)\<rparr>"
proof (cases "char_size b = char_max_size b")
  case True
  then show ?thesis using that by (simp add: add_to_centered_text_box_def)
next
  case False
  have p: "props_ok s" using g by (simp add: gfx_ok_def glyphs_ok_def)
  obtain img where img: "deref s (get_prop_from_char c) = Some img"
    using get_prop_from_char_defined [OF p c] by blast
  have lt: "char_size b < char_max_size b" using False b by (simp add: box_ok_def)
  then have room: "0 \<le> char_size b \<and> char_size b < int (length (char_prop b))"
    using b by (simp add: box_ok_def)
  let ?b = "b\<lparr>char_prop := (char_prop b)[nat (char_size b) := Some (get_prop_from_char c)]\<rparr>"
  let ?b' = "?b\<lparr>char_size := char_size b + 1, cursor_x := cursor_x b + word_of_int (uint (width img) div 2),
    xi := xi b - word_of_int ((uint (width img) + 1) div 2)\<rparr>"
  have put: "put_prop (char_size b) (get_prop_from_char c) b = Some ?b"
    using room by (simp add: put_prop_def)
  have old: "\<exists>img. get_prop s (int i) b = Some img" if "i < nat (char_size b)" for i
    using b that by (simp add: box_ok_def)
  have "\<exists>img'. get_prop s (int i) ?b = Some img'" if "i < nat (char_size b + 1)" for i
  proof (cases "int i = char_size b")
    case True
    then show ?thesis using img by (simp add: get_prop_put [OF put])
  next
    case False
    then have "i < nat (char_size b)" using that by linarith
    then show ?thesis using old False by (simp add: get_prop_put [OF put])
  qed
  then have ok: "box_ok s ?b'" using b lt by (simp add: box_ok_def)
  let ?wide = "uint (cursor_x b) + uint (width img) div 2 > uint (max_x b) \<or>
    uint (xi b) - (uint (width img) + 1 div 2) < uint (min_x b)"
  show ?thesis
  proof (cases ?wide)
    case True
    then have "add_to_centered_text_box s c b = Some (False, b)"
      using False img by (auto simp: add_to_centered_text_box_def)
    then show ?thesis by (rule that(1))
  next
    case fits: False
    then have "add_to_centered_text_box s c b = Some (True, ?b')"
      using False img put by (auto simp: add_to_centered_text_box_def)
    then show ?thesis using that(2) [OF _ img lt ok] by simp
  qed
qed

lemma remove_from_centered_cases:
  assumes g: "gfx_ok s" and b: "box_ok s b"
  obtains "char_size b = 0" "remove_from_centered_text_box E b s = Some (b, s)"
  | s' img where "0 < char_size b" "get_prop s (char_size b - 1) b = Some img" "only_buffer s s'"
      "remove_from_centered_text_box E b s =
         Some (b\<lparr>char_size := char_size b - 1, cursor_x := cursor_x b - word_of_int (uint (width img) div 2),
                 xi := xi b + word_of_int ((uint (width img) + 1) div 2)\<rparr>, s')"
proof (cases "char_size b = 0")
  case True
  then show ?thesis using that by (simp add: remove_from_centered_text_box_def)
next
  case False
  then have pos: "0 < char_size b" using b by (simp add: box_ok_def)
  obtain s' where s': "erase_text_box E b s = Some s'" "only_buffer s s'"
    using erase_text_box_safe [OF g] by blast
  have "nat (char_size b - 1) < nat (char_size b)" using pos by simp
  then obtain img where "get_prop s (int (nat (char_size b - 1))) b = Some img"
    using b unfolding box_ok_def by blast
  then have img: "get_prop s (char_size b - 1) b = Some img" using pos by simp
  then have "get_prop s' (char_size b - 1) b = Some img" using get_prop_only_buffer [OF s'(2)] by simp
  then show ?thesis
    using that(2) [OF pos img s'(2)] s'(1) False by (simp add: remove_from_centered_text_box_def)
qed

lemma box_ok_remove:
  "box_ok s b \<Longrightarrow> 0 < char_size b \<Longrightarrow> box_ok s (b\<lparr>char_size := char_size b - 1, cursor_x := c, xi := x\<rparr>)"
  by (simp add: box_ok_def)

end
