(* ===== verification/Screen.thy ===== *)
theory Screen
  imports Vc
begin

text \<open>
  The screens, \<open>src/proj/screen.c\<close> and \<open>screen.h\<close>: the full-screen images and the mode
  of the program, the two members of the global \<open>game\<close>.
\<close>

datatype Game_Modes = MENU | HOW_TO_PLAY | LEADERBOARD | NUM_ROUNDS | GAME | HIGHSCORE | HOST | MP_GAME | EXIT

record 'd screen_st = "'d vc_st" +
  screens :: "xpm_image_t list"
  mode :: Game_Modes

definition screen_xpms :: "string list" where
  "screen_xpms =
     [
      ''play_menu_xpm'', ''how_to_play_xpm'', ''leaderboard_menu_xpm'', ''exit_menu_xpm'',
      ''leaderboard_xpm'', ''instructions_xpm'', ''winner1_xpm'', ''winner2_xpm'',
      ''VS_activated_xpm'', ''default_xpm'', ''green_pressed_xpm'', ''yellow_pressed_xpm'',
      ''purple_pressed_xpm'', ''blue_pressed_xpm'', ''red_pressed_xpm'', ''white_pressed_xpm'',
      ''hiscore_xpm'', ''number_of_rounds_xpm'', ''tie_xpm'', ''OnePC_xpm'', ''TwoPC_xpm'',
      ''how_to_play_serial_port_xpm'', ''leaderboard_serial_port_xpm'',
      ''exit_serial_port_xpm'', ''host_xpm'', ''connect_xpm'']"

text \<open>The global \<open>game\<close> is assigned the result.\<close>

definition loadscreens :: "'d env \<Rightarrow> ('d, 'z) screen_st_scheme \<Rightarrow> ('d, 'z) screen_st_scheme" where
  "loadscreens E s = s\<lparr>screens := load_xpms E screen_xpms, mode := MENU\<rparr>"

text \<open>\<open>draw_xpm(game.s[k])\<close>.\<close>

definition draw_screen :: "nat \<Rightarrow> ('d, 'z) screen_st_scheme \<Rightarrow> ('d, 'z) screen_st_scheme option" where
  "draw_screen k s = do { img \<leftarrow> nth_img (screens s) k; draw_xpm img s }"

text \<open>Every screen image fills the buffer.\<close>

definition screens_ok :: "('d, 'z) screen_st_scheme \<Rightarrow> bool" where
  "screens_ok s \<longleftrightarrow> length (screens s) = 26 \<and>
     list_all (\<lambda>img. length (buffer s) \<le> length (img_bytes img)) (screens s)"

lemma screens_ok_only_buffer: "only_buffer s s' \<Longrightarrow> screens_ok s' \<longleftrightarrow> screens_ok s"
  by (auto simp: only_buffer_def screens_ok_def)

lemma screens_ok_frame: "screen_st.truncate s' = screen_st.truncate s \<Longrightarrow> screens_ok s' \<longleftrightarrow> screens_ok s"
  by (cases s; cases s') (simp add: screen_st.truncate_def screens_ok_def)

lemma mode_frame [simp]:
  "gfx_ok (s\<lparr>mode := m\<rparr>) \<longleftrightarrow> gfx_ok s" "box_ok (s\<lparr>mode := m\<rparr>) b \<longleftrightarrow> box_ok s b"
  "screens_ok (s\<lparr>mode := m\<rparr>) \<longleftrightarrow> screens_ok s"
  by (auto intro!: gfx_ok_frame box_ok_frame simp: vc_st.truncate_def screens_ok_def)

lemma draw_screen_eq:
  "gfx_ok s \<Longrightarrow> screens_ok s \<Longrightarrow> k < 26 \<Longrightarrow>
   draw_screen k s = Some (s\<lparr>buffer := take (length (buffer s)) (img_bytes (screens s ! k))\<rparr>)"
  by (simp add: draw_screen_def nth_img_def screens_ok_def draw_xpm_eq list_all_length)

lemma drawing_screen: "k < 26 \<Longrightarrow> drawing (draw_screen k) screens_ok"
proof unfold_locales
  fix s :: "('d, 'z) screen_st_scheme"
  assume k: "k < 26" and s: "gfx_ok s" "screens_ok s"
  then have "length (buffer s) \<le> length (img_bytes (screens s ! k))"
    by (simp add: screens_ok_def list_all_length)
  then show "\<exists>s'. draw_screen k s = Some s' \<and> only_buffer s s'"
    using s k by (simp add: draw_screen_eq)
next
  fix s s' :: "('d, 'z) screen_st_scheme"
  assume "only_buffer s s'" and "screens_ok s"
  then show "screens_ok s'" by (simp add: screens_ok_only_buffer)
qed

end
