(* ===== verification/Leaderboard.thy ===== *)
theory Leaderboard
  imports Screen
begin

text \<open>
  The leaderboard, \<open>src/proj/leaderboard.c\<close> and \<open>leaderboard.h\<close>: the five best scores in
  memory, the insertion of a new one, the text file they are kept in between runs, and the
  screen that shows them. The character arrays of \<open>cont_winner\<close> are lists of eleven
  characters, so the whole-array \<open>memcpy\<close> calls are assignments; the file is the string
  that \<open>fprintf\<close> produces and \<open>fscanf\<close> consumes.
\<close>

section \<open>Data\<close>

definition SIZE :: nat where "SIZE = 5"

record cont_winner =
  w_date :: "char list"
  w_name :: "char list"
  int_score :: int

record 'd board_st = "'d screen_st" +
  dummy :: cont_winner
  leaderboard :: "cont_winner list"
  newWinner :: cont_winner

definition leaderboard_txt :: string where
  "leaderboard_txt = ''home/lcom/labs/g06/proj/leaderboard.txt''"

section \<open>The scores in memory\<close>

definition loadDummySt :: "('d, 'z) board_st_scheme \<Rightarrow> ('d, 'z) board_st_scheme" where
  "loadDummySt s =
     s\<lparr>dummy := \<lparr>w_date = replicate 10 CHR ''0'' @ drop 10 (w_date (dummy s)),
                w_name = replicate 10 CHR ''0'' @ drop 10 (w_name (dummy s)), int_score = 0\<rparr>\<rparr>"

definition getNewHiScorePos :: "('d, 'z) board_st_scheme \<Rightarrow> nat" where
  "getNewHiScorePos s =
     (if int_score (newWinner s) > int_score (leaderboard s ! 0) then 0
      else if int_score (newWinner s) > int_score (leaderboard s ! 1) then 1
      else if int_score (newWinner s) > int_score (leaderboard s ! 2) then 2
      else if int_score (newWinner s) > int_score (leaderboard s ! 3) then 3
      else if int_score (newWinner s) > int_score (leaderboard s ! 4) then 4
      else 4)"

text \<open>The loop \<open>while (i < 5)\<close>; \<open>temp\<close> is the three temporaries.\<close>

function update_loop :: "nat \<Rightarrow> cont_winner \<Rightarrow> ('d, 'z) board_st_scheme \<Rightarrow> ('d, 'z) board_st_scheme" where
  "update_loop i temp s =
     (if i < 5 then
        let s = s\<lparr>newWinner := leaderboard s ! i\<rparr>;
            s = s\<lparr>leaderboard := (leaderboard s)[i := temp]\<rparr>;
            temp = newWinner s
        in update_loop (i + 1) temp s
      else s)"
  by pat_completeness auto
termination by (relation "measure (\<lambda>(i, _). 5 - i)") auto

declare update_loop.simps [simp del]

definition updateData :: "('d, 'z) board_st_scheme \<Rightarrow> ('d, 'z) board_st_scheme" where
  "updateData s =
     (let i = getNewHiScorePos s;
          temp = leaderboard s ! i;
          s = s\<lparr>leaderboard := (leaderboard s)[i := newWinner s]\<rparr>
      in update_loop (i + 1) temp s)"

definition getLowestHiScore :: "('d, 'z) board_st_scheme \<Rightarrow> int" where
  "getLowestHiScore s = int_score (leaderboard s ! 4)"

section \<open>The file\<close>

definition entry_text :: "cont_winner \<Rightarrow> string option" where
  "entry_text w =
     do { n \<leftarrow> cstr (w_name w); d \<leftarrow> cstr (w_date w);
          Some (n @ [CHR 0x0A] @ show_int (int_score w) @ [CHR 0x0A] @ d @ [CHR 0x0A, CHR 0x0A]) }"

fun board_text :: "cont_winner list \<Rightarrow> string option" where
  "board_text [] = Some []"
| "board_text (w # ws) = do { t \<leftarrow> entry_text w; ts \<leftarrow> board_text ws; Some (t @ ts) }"

definition saveData :: "'d env \<Rightarrow> ('d, 'z) board_st_scheme \<Rightarrow> ('d, 'z) board_st_scheme option" where
  "saveData E s =
     do { text \<leftarrow> board_text (leaderboard s);
          d \<leftarrow> write_file E leaderboard_txt text (dev s);
          Some (s\<lparr>dev := d\<rparr>) }"

text \<open>
  \<open>fscanf\<close> with \<open>%s\<close> and \<open>%d\<close>, each followed by a white-space directive: the item read,
  \<open>None\<close> where the conversion fails and nothing is assigned, and the input that is left.
\<close>

definition is_space :: "char \<Rightarrow> bool" where
  "is_space c \<longleftrightarrow> c \<in> set [CHR '' '', CHR 0x09, CHR 0x0A, CHR 0x0B, CHR 0x0C, CHR 0x0D]"

definition scan_s :: "string \<Rightarrow> string option \<times> string" where
  "scan_s inp =
     (let t = dropWhile is_space inp; w = takeWhile (\<lambda>c. \<not> is_space c) t
      in if w = [] then (None, t)
         else (Some w, dropWhile is_space (dropWhile (\<lambda>c. \<not> is_space c) t)))"

definition scan_d :: "string \<Rightarrow> int option \<times> string" where
  "scan_d inp =
     (let t = dropWhile is_space inp;
          (sg, t) = (case t of [] \<Rightarrow> (1, t)
            | c # cs \<Rightarrow> if c = CHR ''-'' then (- 1, cs) else if c = CHR ''+'' then (1, cs) else (1, t));
          ds = takeWhile is_digit t
      in if ds = [] then (None, t)
         else (Some (sg * digits_val ds), dropWhile is_space (dropWhile is_digit t)))"

text \<open>
  The stores of the conversions: a word longer than the array, or a number that is no
  \<open>int\<close>, is undefined.
\<close>

definition store_s :: "string option \<Rightarrow> char list \<Rightarrow> char list option" where
  "store_s item a = (case item of None \<Rightarrow> Some a
     | Some w \<Rightarrow> if length w < length a then Some (w @ NUL # drop (Suc (length w)) a) else None)"

definition store_d :: "int option \<Rightarrow> int \<Rightarrow> int option" where
  "store_d item v = (case item of None \<Rightarrow> Some v
     | Some n \<Rightarrow> if - (2 ^ 31) \<le> n \<and> n < 2 ^ 31 then Some n else None)"

text \<open>The entries read for the given old ones; \<open>name\<close> and \<open>date\<close> are the local arrays.\<close>

fun retrieve_loop :: "char list \<Rightarrow> char list \<Rightarrow> string \<Rightarrow> cont_winner list \<Rightarrow> cont_winner list option" where
  "retrieve_loop name date inp [] = Some []"
| "retrieve_loop name date inp (w # ws) =
     do { let (item, inp) = scan_s inp;
          name \<leftarrow> store_s item name;
          let w = w\<lparr>w_name := name\<rparr>;
          let (num, inp) = scan_d inp;
          score \<leftarrow> store_d num (int_score w);
          let w = w\<lparr>int_score := score\<rparr>;
          let (item, inp) = scan_s inp;
          date \<leftarrow> store_s item date;
          let w = w\<lparr>w_date := date\<rparr>;
          ws \<leftarrow> retrieve_loop name date inp ws;
          Some (w # ws) }"

definition retrieveData :: "'d env \<Rightarrow> ('d, 'z) board_st_scheme \<Rightarrow> ('d, 'z) board_st_scheme option" where
  "retrieveData E s =
     (let s = loadDummySt s; junk = int_char (uint (uninit E (dev s))) in
      do { inp \<leftarrow> read_file E leaderboard_txt (dev s);
           ws \<leftarrow> retrieve_loop (replicate 11 junk) (replicate 11 junk) inp (leaderboard s);
           Some (s\<lparr>leaderboard := ws\<rparr>) })"

section \<open>The screen\<close>

text \<open>The rows of the five places; the first date stands two pixels lower than its name.\<close>

definition name_rows :: "nat list" where "name_rows = [143, 215, 287, 358, 426]"
definition round_rows :: "nat list" where "round_rows = [143, 215, 287, 358, 426]"
definition date_rows :: "nat list" where "date_rows = [145, 215, 287, 358, 426]"

fun draw_lil_text :: "'d env \<Rightarrow> nat \<Rightarrow> nat \<Rightarrow> nat \<Rightarrow> string \<Rightarrow> ('d, 'z) vc_st_scheme \<Rightarrow> ('d, 'z) vc_st_scheme option" where
  "draw_lil_text E x y j [] s = Some s"
| "draw_lil_text E x y j (c # cs) s =
     do { img \<leftarrow> deref s (get_lilprop_from_char c);
          s \<leftarrow> draw_xpm_x_y E img (word_of_nat (x + j * 22)) (word_of_nat y) s;
          draw_lil_text E x y (Suc j) cs s }"

text \<open>\<open>sprintf(round, "%d", n)\<close> into a four-byte array.\<close>

definition sprintf_d :: "nat \<Rightarrow> int \<Rightarrow> string option" where
  "sprintf_d n v = (if length (show_int v) < n then Some (show_int v) else None)"

definition draw_place :: "'d env \<Rightarrow> nat \<Rightarrow> ('d, 'z) board_st_scheme \<Rightarrow> ('d, 'z) board_st_scheme option" where
  "draw_place E i s =
     do { round \<leftarrow> sprintf_d 4 (int_score (leaderboard s ! i));
          name \<leftarrow> cstr (w_name (leaderboard s ! i));
          s \<leftarrow> draw_lil_text E 98 (name_rows ! i) 0 name s;
          s \<leftarrow> draw_lil_text E 357 (round_rows ! i) 0 round s;
          date \<leftarrow> cstr (w_date (leaderboard s ! i));
          draw_lil_text E 550 (date_rows ! i) 0 date s }"

definition draw_leaderboard_graphics :: "'d env \<Rightarrow> ('d, 'z) board_st_scheme \<Rightarrow> ('d, 'z) board_st_scheme option" where
  "draw_leaderboard_graphics E s =
     do { s \<leftarrow> draw_screen 4 s;
          s \<leftarrow> draw_place E 0 s; s \<leftarrow> draw_place E 1 s; s \<leftarrow> draw_place E 2 s;
          s \<leftarrow> draw_place E 3 s; draw_place E 4 s }"

definition leaderboard_update_status :: "key_press \<Rightarrow> ('d, 'z) board_st_scheme \<Rightarrow> ('d, 'z) board_st_scheme" where
  "leaderboard_update_status k s = (if key k = BACKSPACE then s\<lparr>mode := MENU\<rparr> else s)"

section \<open>Insertion into the ranking\<close>

text \<open>
  What the leaderboard promises: entries in descending order of score, a new entry placed
  before the first one it beats.
\<close>

definition ranked :: "cont_winner list \<Rightarrow> bool" where
  "ranked ws \<longleftrightarrow> sorted_wrt (\<lambda>a b. int_score b \<le> int_score a) ws"

fun hi_insert :: "cont_winner \<Rightarrow> cont_winner list \<Rightarrow> cont_winner list" where
  "hi_insert x [] = [x]"
| "hi_insert x (y # ys) = (if int_score y < int_score x then x # y # ys else y # hi_insert x ys)"

lemma length_hi_insert [simp]: "length (hi_insert x ws) = Suc (length ws)"
  by (induction ws) auto

lemma set_hi_insert [simp]: "set (hi_insert x ws) = insert x (set ws)"
  by (induction ws) auto

lemma ranked_hi_insert: "ranked ws \<Longrightarrow> ranked (hi_insert x ws)"
  by (induction ws) (auto simp: ranked_def)

lemma ranked_take: "ranked ws \<Longrightarrow> ranked (take n ws)"
  unfolding ranked_def by (rule sorted_wrt_take)

lemma hi_insert_kept: "\<exists>w \<in> set ws. int_score w < int_score x \<Longrightarrow> x \<in> set (take (length ws) (hi_insert x ws))"
  by (induction ws) (auto simp: neq_Nil_conv)

lemma ranked_last: "ranked ws \<Longrightarrow> w \<in> set ws \<Longrightarrow> int_score (last ws) \<le> int_score w"
proof (induction ws)
  case Nil
  then show ?case by simp
next
  case (Cons a ws)
  then show ?case by (cases "ws = []") (auto simp: ranked_def)
qed

lemma hd_hi_insert: "ranked ws \<Longrightarrow> ws \<noteq> [] \<Longrightarrow>
  int_score (hd (hi_insert x ws)) = max (int_score x) (int_score (hd ws))"
  by (cases ws) auto

text \<open>
  The contract of the score table towards the screens that register a score: the lowest score
  is the last one, and an entrant that beats it is ranked and one entry drops out.
\<close>

locale score_board =
  fixes entries :: "'s \<Rightarrow> cont_winner list"
    and entrant :: "'s \<Rightarrow> cont_winner"
    and lowest :: "'s \<Rightarrow> int"
    and register :: "'s \<Rightarrow> 's"
  assumes lowest_last: "length (entries s) = SIZE \<Longrightarrow> lowest s = int_score (last (entries s))"
    and register_entries: "length (entries s) = SIZE \<Longrightarrow> lowest s < int_score (entrant s) \<Longrightarrow>
      entries (register s) = take SIZE (hi_insert (entrant s) (entries s))"
begin

lemma register_size: "length (entries s) = SIZE \<Longrightarrow> lowest s < int_score (entrant s) \<Longrightarrow>
  length (entries (register s)) = SIZE"
  by (simp add: register_entries)

lemma register_ranked: "length (entries s) = SIZE \<Longrightarrow> lowest s < int_score (entrant s) \<Longrightarrow>
  ranked (entries s) \<Longrightarrow> ranked (entries (register s))"
  by (simp add: register_entries ranked_take ranked_hi_insert)

lemma register_present:
  assumes "length (entries s) = SIZE" and "lowest s < int_score (entrant s)"
  shows "entrant s \<in> set (entries (register s))"
proof -
  have "last (entries s) \<in> set (entries s)" using assms(1) by (intro last_in_set) (auto simp: SIZE_def)
  then have "\<exists>w \<in> set (entries s). int_score w < int_score (entrant s)"
    using assms lowest_last by auto
  then show ?thesis using assms hi_insert_kept [of "entries s"] by (simp add: register_entries)
qed

lemma register_lowest:
  assumes "length (entries s) = SIZE" and "lowest s < int_score (entrant s)" and "ranked (entries s)"
  shows "lowest s \<le> lowest (register s)"
proof -
  have ne: "entries (register s) \<noteq> []" using register_size [OF assms(1,2)] by (auto simp: SIZE_def)
  have "last (entries (register s)) \<in> set (take SIZE (hi_insert (entrant s) (entries s)))"
    using last_in_set [OF ne] assms by (simp add: register_entries)
  then have "last (entries (register s)) \<in> insert (entrant s) (set (entries s))"
    using set_take_subset by fastforce
  then show ?thesis
    using assms ranked_last lowest_last register_size [OF assms(1,2)] by fastforce
qed

lemma register_champion:
  assumes "length (entries s) = SIZE" and "lowest s < int_score (entrant s)" and "ranked (entries s)"
  shows "int_score (hd (entries (register s))) = max (int_score (entrant s)) (int_score (hd (entries s)))"
proof -
  have "entries s \<noteq> []" using assms(1) by (auto simp: SIZE_def)
  then show ?thesis using assms hd_hi_insert by (simp add: register_entries SIZE_def hd_take)
qed

end

lemma length_5E: "length xs = 5 \<Longrightarrow> (\<And>a b c d e. xs = [a, b, c, d, e] \<Longrightarrow> P) \<Longrightarrow> P"
  by (auto simp: length_Suc_conv eval_nat_numeral)

lemma getLowestHiScore_last: "length (leaderboard s) = SIZE \<Longrightarrow> getLowestHiScore s = int_score (last (leaderboard s))"
  by (auto simp: getLowestHiScore_def SIZE_def elim: length_5E)

lemma updateData_insert:
  assumes "length (leaderboard s) = SIZE" and "getLowestHiScore s < int_score (newWinner s)"
  shows "leaderboard (updateData s) = take SIZE (hi_insert (newWinner s) (leaderboard s))"
proof -
  obtain a b c d e where "leaderboard s = [a, b, c, d, e]"
    using assms(1) by (auto simp: SIZE_def elim: length_5E)
  then show ?thesis using assms(2)
    by (simp add: updateData_def getNewHiScorePos_def getLowestHiScore_def update_loop.simps SIZE_def)
qed

interpretation board: score_board leaderboard newWinner getLowestHiScore updateData
  by unfold_locales (simp_all add: getLowestHiScore_last updateData_insert)

text \<open>Of the state, the insertion changes the two globals of the leaderboard only.\<close>

lemma update_loop_frame: "\<exists>ws n. update_loop i temp s = s\<lparr>leaderboard := ws, newWinner := n\<rparr>"
proof (induction i temp s rule: update_loop.induct)
  case (1 i temp s)
  show ?case
  proof (cases "i < 5")
    case True
    then show ?thesis using 1 [OF True refl refl refl] by (subst update_loop.simps) (auto simp: Let_def)
  next
    case False
    then have "update_loop i temp s = s\<lparr>leaderboard := leaderboard s, newWinner := newWinner s\<rparr>"
      by (simp add: update_loop.simps)
    then show ?thesis by blast
  qed
qed

lemma updateData_frame: "\<exists>ws n. updateData s = s\<lparr>leaderboard := ws, newWinner := n\<rparr>"
proof -
  let ?i = "getNewHiScorePos s"
  let ?s = "s\<lparr>leaderboard := (leaderboard s)[?i := newWinner s]\<rparr>"
  obtain ws n where "update_loop (?i + 1) (leaderboard s ! ?i) ?s = ?s\<lparr>leaderboard := ws, newWinner := n\<rparr>"
    using update_loop_frame by blast
  then show ?thesis by (auto simp: updateData_def Let_def)
qed

text \<open>An entrant that beats nobody still takes the last place.\<close>

lemma updateData_no_beat:
  assumes "length (leaderboard s) = SIZE" and "\<forall>w \<in> set (leaderboard s). int_score (newWinner s) \<le> int_score w"
  shows "leaderboard (updateData s) = (leaderboard s)[4 := newWinner s]"
proof -
  obtain a b c d e where "leaderboard s = [a, b, c, d, e]"
    using assms(1) by (auto simp: SIZE_def elim: length_5E)
  then show ?thesis using assms(2)
    by (simp add: updateData_def getNewHiScorePos_def update_loop.simps)
qed

section \<open>The file round trip\<close>

definition entry_view :: "cont_winner \<Rightarrow> string option \<times> int \<times> string option" where
  "entry_view w = (cstr (w_name w), int_score w, cstr (w_date w))"

text \<open>An entry whose name and date are single words and whose score is a C integer.\<close>

definition word_array :: "char list \<Rightarrow> bool" where
  "word_array a \<longleftrightarrow> length a = 11 \<and>
     (case cstr a of None \<Rightarrow> False | Some w \<Rightarrow> w \<noteq> [] \<and> list_all (\<lambda>c. \<not> is_space c) w)"

definition entry_ok :: "cont_winner \<Rightarrow> bool" where
  "entry_ok w \<longleftrightarrow> word_array (w_name w) \<and> word_array (w_date w) \<and>
     - (2 ^ 31) \<le> int_score w \<and> int_score w < 2 ^ 31"

lemma word_arrayE:
  assumes "word_array a"
  obtains w where "cstr a = Some w" "w \<noteq> []" "list_all (\<lambda>c. \<not> is_space c) w" "length w < 11" "NUL \<notin> set w"
proof -
  obtain w where w: "cstr a = Some w" "w \<noteq> []" "list_all (\<lambda>c. \<not> is_space c) w" "length a = 11"
    using assms by (auto simp: word_array_def split: option.splits)
  show ?thesis using that [OF w(1-3)] cstr_length [OF w(1)] cstr_no_NUL [OF w(1)] w(4) by simp
qed

lemma is_space_newline [simp]: "is_space (CHR 0x0A)"
  by (simp add: is_space_def)

lemma dropWhile_space_word:
  "w \<noteq> [] \<Longrightarrow> list_all (\<lambda>c. \<not> is_space c) w \<Longrightarrow> dropWhile is_space (w @ r) = w @ r"
  by (cases w) auto

lemma takeWhile_all: "list_all P w \<Longrightarrow> \<not> P c \<Longrightarrow> takeWhile P (w @ c # r) = w"
  by (subst takeWhile_append2) (auto simp: list_all_iff)

lemma dropWhile_all: "list_all P w \<Longrightarrow> \<not> P c \<Longrightarrow> dropWhile P (w @ c # r) = c # r"
  by (subst dropWhile_append2) (auto simp: list_all_iff)

lemma scan_skip [simp]: "scan_s (dropWhile is_space inp) = scan_s inp" "scan_d (dropWhile is_space inp) = scan_d inp"
  by (simp_all add: scan_s_def scan_d_def dropWhile_idem)

lemma scan_s_word:
  assumes "w \<noteq> []" and "list_all (\<lambda>c. \<not> is_space c) w"
  shows "scan_s (w @ CHR 0x0A # r) = (Some w, dropWhile is_space r)"
  using assms takeWhile_all [OF assms(2), of "CHR 0x0A" r] dropWhile_all [OF assms(2), of "CHR 0x0A" r]
  by (simp add: scan_s_def dropWhile_space_word)

lemma digit_facts: "is_digit c \<Longrightarrow> \<not> is_space c \<and> c \<noteq> CHR ''-'' \<and> c \<noteq> CHR ''+''"
  by (auto simp: is_digit_def is_space_def c_int_def)

lemma newline_no_digit [simp]: "\<not> is_digit (CHR 0x0A)"
  by (simp add: is_digit_def c_int_def)

lemma show_natE: obtains c cs where "show_nat n = c # cs" "is_digit c"
  using show_nat_digits [of n] show_nat_nonempty [of n] by (cases "show_nat n") auto

lemma scan_d_show: "scan_d (show_int i @ CHR 0x0A # r) = (Some i, dropWhile is_space r)"
proof -
  note all = show_nat_digits newline_no_digit
  have t: "takeWhile is_digit (show_nat n @ CHR 0x0A # r) = show_nat n"
    and d: "dropWhile is_digit (show_nat n @ CHR 0x0A # r) = CHR 0x0A # r" for n
    by (rule takeWhile_all [OF all], rule dropWhile_all [OF all])
  show ?thesis
  proof (cases "i < 0")
    case True
    have "\<not> is_space CHR ''-''" by (simp add: is_space_def)
    then show ?thesis using True by (simp add: scan_d_def show_int_def t d digits_val_show_nat)
  next
    case False
    obtain c cs where c: "show_nat (nat i) = c # cs" "is_digit c" by (rule show_natE)
    note f = digit_facts [OF c(2)]
    have "scan_d (show_int i @ CHR 0x0A # r) =
        (Some (digits_val (show_nat (nat i))), dropWhile is_space r)"
      using t [of "nat i"] d [of "nat i"] f False c by (simp add: scan_d_def show_int_def)
    then show ?thesis using False by (simp add: digits_val_show_nat)
  qed
qed

lemma store_s_cstr:
  assumes "length w < 11" and "NUL \<notin> set w" and "length a = 11"
  shows "\<exists>a'. store_s (Some w) a = Some a' \<and> length a' = 11 \<and> cstr a' = Some w"
  using assms by (simp add: store_s_def cstr_append_NUL)

lemma retrieve_board_text:
  "list_all entry_ok ws \<Longrightarrow> length name = 11 \<Longrightarrow> length date = 11 \<Longrightarrow> length old = length ws \<Longrightarrow>
   \<exists>t ws'. board_text ws = Some t \<and> retrieve_loop name date (dropWhile is_space t) old = Some ws' \<and>
     map entry_view ws' = map entry_view ws"
proof (induction ws arbitrary: name date old)
  case Nil
  then show ?case by simp
next
  case (Cons w ws)
  obtain o1 os where old: "old = o1 # os" "length os = length ws" using Cons.prems by (cases old) auto
  have ok: "word_array (w_name w)" "word_array (w_date w)" "- (2 ^ 31) \<le> int_score w" "int_score w < 2 ^ 31"
    using Cons.prems(1) by (simp_all add: entry_ok_def)
  obtain n where n: "cstr (w_name w) = Some n" "n \<noteq> []" "list_all (\<lambda>c. \<not> is_space c) n" "length n < 11" "NUL \<notin> set n"
    using ok(1) by (rule word_arrayE)
  obtain d where d: "cstr (w_date w) = Some d" "d \<noteq> []" "list_all (\<lambda>c. \<not> is_space c) d" "length d < 11" "NUL \<notin> set d"
    using ok(2) by (rule word_arrayE)
  obtain na where na: "store_s (Some n) name = Some na" "length na = 11" "cstr na = Some n"
    using store_s_cstr n(4,5) Cons.prems(2) by blast
  obtain da where da: "store_s (Some d) date = Some da" "length da = 11" "cstr da = Some d"
    using store_s_cstr d(4,5) Cons.prems(3) by blast
  obtain t ws' where IH: "board_text ws = Some t" "retrieve_loop na da (dropWhile is_space t) os = Some ws'"
      "map entry_view ws' = map entry_view ws"
    using Cons.IH [of na da os] Cons.prems(1) na da old by auto
  let ?t = "n @ CHR 0x0A # show_int (int_score w) @ CHR 0x0A # d @ CHR 0x0A # CHR 0x0A # t"
  have bt: "board_text (w # ws) = Some ?t" using IH(1) n(1) d(1) by (simp add: entry_text_def)
  have "retrieve_loop name date (dropWhile is_space ?t) old =
      Some (o1\<lparr>w_name := na, int_score := int_score w, w_date := da\<rparr> # ws')"
    using n d na da IH ok(3,4) old(1)
    by (simp add: dropWhile_space_word scan_s_word scan_d_show store_d_def)
  moreover have "entry_view (o1\<lparr>w_name := na, int_score := int_score w, w_date := da\<rparr>) = entry_view w"
    using na da n d by (simp add: entry_view_def)
  ultimately show ?case using bt IH(3) by auto
qed

lemma retrieveData_text:
  assumes ok: "list_all entry_ok ws" and t: "board_text ws = Some t" "read_file E leaderboard_txt (dev s) = Some t"
    and n: "length (leaderboard s) = length ws"
  shows "\<exists>ws'. retrieveData E s = Some ((loadDummySt s)\<lparr>leaderboard := ws'\<rparr>) \<and> map entry_view ws' = map entry_view ws"
proof -
  let ?j = "replicate 11 (int_char (uint (uninit E (dev s))))"
  obtain ws' where ws': "retrieve_loop ?j ?j (dropWhile is_space t) (leaderboard s) = Some ws'" "map entry_view ws' = map entry_view ws"
    using retrieve_board_text [OF ok, of ?j ?j "leaderboard s"] t(1) n by auto
  have "retrieve_loop ?j ?j t (leaderboard s) = retrieve_loop ?j ?j (dropWhile is_space t) (leaderboard s)"
    by (cases "leaderboard s") simp_all
  then have "retrieveData E s = Some ((loadDummySt s)\<lparr>leaderboard := ws'\<rparr>)"
    using ws'(1) t(2) by (simp add: retrieveData_def loadDummySt_def Let_def)
  then show ?thesis using ws'(2) by blast
qed

section \<open>The screen\<close>

lemma draw_lil_text_safe:
  "gfx_ok s \<Longrightarrow> \<exists>s'. draw_lil_text E x y j cs s = Some s' \<and> only_buffer s s'"
proof (induction cs arbitrary: j s)
  case Nil
  then show ?case by simp
next
  case (Cons c cs)
  have g: "glyphs_ok s" using Cons.prems by (simp add: gfx_ok_def)
  then obtain img where img: "deref s (get_lilprop_from_char c) = Some img"
    using get_lilprop_from_char_defined by (auto simp: glyphs_ok_def)
  then have "img_ok img" using glyphs_ok_deref [OF g] by blast
  then obtain s1 where s1: "draw_xpm_x_y E img (word_of_nat (x + j * 22)) (word_of_nat y) s = Some s1" "only_buffer s s1"
    using draw_xpm_x_y_safe [OF Cons.prems] by blast
  then have "gfx_ok s1" using Cons.prems gfx_ok_only_buffer by blast
  then obtain s2 where "draw_lil_text E x y (Suc j) cs s1 = Some s2" "only_buffer s1 s2" using Cons.IH by blast
  then show ?case using img s1 by (auto intro: only_buffer_trans)
qed

text \<open>A board the screen can show: every string terminated and every score of at most three characters.\<close>

definition showable :: "cont_winner \<Rightarrow> bool" where
  "showable w \<longleftrightarrow> NUL \<in> set (w_name w) \<and> NUL \<in> set (w_date w) \<and> 0 \<le> int_score w \<and> int_score w < 1000"

definition board_drawable :: "('d, 'z) board_st_scheme \<Rightarrow> bool" where
  "board_drawable s \<longleftrightarrow> screens_ok s \<and> length (leaderboard s) = SIZE \<and> list_all showable (leaderboard s)"

lemma board_drawable_only_buffer: "only_buffer s s' \<Longrightarrow> board_drawable s' \<longleftrightarrow> board_drawable s"
  by (auto simp: board_drawable_def screens_ok_only_buffer elim: only_bufferE)

lemma sprintf_score: "0 \<le> n \<Longrightarrow> n < 1000 \<Longrightarrow> sprintf_d 4 n = Some (show_int n)"
  using length_show_nat [of 3 "nat n"] by (simp add: sprintf_d_def show_int_def nat_less_iff)

lemma draw_place_safe:
  assumes g: "gfx_ok s" and b: "board_drawable s" and i: "i < 5"
  shows "\<exists>s'. draw_place E i s = Some s' \<and> only_buffer s s'"
proof -
  let ?w = "leaderboard s ! i"
  have "showable ?w" using b i by (simp add: board_drawable_def SIZE_def list_all_length)
  then obtain n d where nd: "cstr (w_name ?w) = Some n" "cstr (w_date ?w) = Some d"
      "sprintf_d 4 (int_score ?w) = Some (show_int (int_score ?w))"
    by (auto simp: showable_def cstr_def sprintf_score)
  obtain s1 where s1: "draw_lil_text E 98 (name_rows ! i) 0 n s = Some s1" "only_buffer s s1"
    using draw_lil_text_safe [OF g] by blast
  then have g1: "gfx_ok s1" using g gfx_ok_only_buffer by blast
  obtain s2 where s2: "draw_lil_text E 357 (round_rows ! i) 0 (show_int (int_score ?w)) s1 = Some s2" "only_buffer s1 s2"
    using draw_lil_text_safe [OF g1] by blast
  then have g2: "gfx_ok s2" using g1 gfx_ok_only_buffer by blast
  obtain s3 where s3: "draw_lil_text E 550 (date_rows ! i) 0 d s2 = Some s3" "only_buffer s2 s3"
    using draw_lil_text_safe [OF g2] by blast
  have o: "only_buffer s s2" using s1(2) s2(2) by (rule only_buffer_trans)
  then have "leaderboard s2 = leaderboard s" by (auto elim: only_bufferE)
  then show ?thesis using nd s1 s2 s3 only_buffer_trans [OF o s3(2)] by (simp add: draw_place_def)
qed

lemma drawing_place: "i < 5 \<Longrightarrow> drawing (draw_place E i) board_drawable"
  by unfold_locales (auto simp: draw_place_safe board_drawable_only_buffer)

interpretation leaderboard_screen: drawing "draw_leaderboard_graphics E" board_drawable
proof -
  have s4: "drawing (draw_screen 4) board_drawable"
    by (rule drawing_mono [OF drawing_screen])
      (simp, simp add: board_drawable_def, simp add: board_drawable_only_buffer)
  show "drawing (draw_leaderboard_graphics E) board_drawable"
    unfolding draw_leaderboard_graphics_def
    by (intro drawing.drawing_then s4 drawing_place) simp_all
qed

end
