(* ===== verification/Highscore.thy ===== *)
theory Highscore
  imports Leaderboard
begin

text \<open>
  The screen that asks for the name of a new high score, \<open>src/proj/highscore.c\<close> and
  \<open>highscore.h\<close>. \<open>player\<close> is the eleven-byte array the name is typed into; the name box
  and the array are edited together but reset separately. \<open>getDate\<close> fills a block of the
  size \<open>malloc\<close> makes usable for a request of ten bytes.
\<close>

section \<open>Data and operations\<close>

record 'd hiscore_st = "'d board_st" +
  new_hiscore :: text_box
  player :: "char list"

definition draw_highscore_graph :: "'d env \<Rightarrow> ('d, 'z) hiscore_st_scheme \<Rightarrow> ('d, 'z) hiscore_st_scheme option" where
  "draw_highscore_graph E s = do { s \<leftarrow> draw_screen 16 s; draw_text_box E (new_hiscore s) s }"

definition create_name_box :: "('d, 'z) hiscore_st_scheme \<Rightarrow> ('d, 'z) hiscore_st_scheme" where
  "create_name_box s = s\<lparr>new_hiscore := create_writeable_text_box 400 330 0 (- 1) 10\<rparr>"

definition reset_hiscore :: "int \<Rightarrow> ('d, 'z) hiscore_st_scheme \<Rightarrow> ('d, 'z) hiscore_st_scheme" where
  "reset_hiscore score s = create_name_box (s\<lparr>newWinner := (newWinner s)\<lparr>int_score := score\<rparr>\<rparr>)"

text \<open>The copy loops of \<open>getDate\<close>: characters written from an index on, with the index after them.\<close>

fun write_chars :: "string \<Rightarrow> int \<times> char block \<Rightarrow> (int \<times> char block) option" where
  "write_chars [] (i, b) = Some (i, b)"
| "write_chars (c # cs) (i, b) = do { b \<leftarrow> blk_write b i c; write_chars cs (i + 1, b) }"

definition getDate :: "'d env \<Rightarrow> ('d, 'z) hiscore_st_scheme \<Rightarrow> (char block \<times> ('d, 'z) hiscore_st_scheme) option" where
  "getDate E s =
     (let date = (case malloc E 10 (dev s) of None \<Rightarrow> Null | Some n \<Rightarrow> Alloc (replicate n None)) in
      do { (d, s) \<leftarrow> get_date E s;
           let y1 = year d + 2000;
           dy \<leftarrow> sprintf_d 3 (day d);
           b \<leftarrow> write_chars dy (0, date);
           b \<leftarrow> write_chars ''/'' b;
           mo \<leftarrow> sprintf_d 3 (month d);
           b \<leftarrow> write_chars mo b;
           b \<leftarrow> write_chars ''/'' b;
           yr \<leftarrow> sprintf_d 5 y1;
           b \<leftarrow> write_chars yr b;
           b \<leftarrow> write_chars [NUL] b;
           Some (snd b, s) })"

text \<open>\<open>memcpy\<close> of \<open>n\<close> bytes from a block; a byte never written has some value.\<close>

definition blk_bytes :: "char \<Rightarrow> nat \<Rightarrow> char block \<Rightarrow> char list option" where
  "blk_bytes junk n b = (case b of
       Alloc cs \<Rightarrow> if n \<le> length cs then Some (map (\<lambda>c. case c of None \<Rightarrow> junk | Some v \<Rightarrow> v) (take n cs)) else None
     | _ \<Rightarrow> None)"

text \<open>\<open>strncat(player, &c, 1)\<close> and the \<open>memmove\<close> that drops the last character.\<close>

definition strncat1 :: "char list \<Rightarrow> char \<Rightarrow> char list option" where
  "strncat1 a c =
     do { w \<leftarrow> cstr a;
          if length w + 1 < length a then Some (a[length w := c, length w + 1 := NUL]) else None }"

definition drop_last_char :: "char list \<Rightarrow> char list option" where
  "drop_last_char a =
     do { w \<leftarrow> cstr a;
          let idxToDel = int (length w) - 1;
          if 0 \<le> idxToDel then Some (a[nat idxToDel := a ! (nat idxToDel + 1)]) else None }"

definition hiscore_enter :: "'d env \<Rightarrow> key_press \<Rightarrow> ('d, 'z) hiscore_st_scheme \<Rightarrow> ('d, 'z) hiscore_st_scheme option" where
  "hiscore_enter E k s =
     (if key k = ENTER then
        do { w \<leftarrow> cstr (player s);
             if length w \<noteq> 0 then
               do { let s = s\<lparr>newWinner := (newWinner s)\<lparr>w_name := player s\<rparr>\<rparr>;
                    (date, s) \<leftarrow> getDate E s;
                    bytes \<leftarrow> blk_bytes (int_char (uint (uninit E (dev s)))) 11 date;
                    let s = s\<lparr>newWinner := (newWinner s)\<lparr>w_date := bytes\<rparr>\<rparr>;
                    let s = updateData s;
                    Some (s\<lparr>mode := LEADERBOARD\<rparr>) }
             else Some s }
      else Some s)"

definition hiscore_type :: "key_press \<Rightarrow> ('d, 'z) hiscore_st_scheme \<Rightarrow> ('d, 'z) hiscore_st_scheme option" where
  "hiscore_type k s =
     (if is_alpha_numberical (key k) then
        do { (added, box) \<leftarrow> add_to_centered_text_box s (key k) (new_hiscore s);
             let s = s\<lparr>new_hiscore := box\<rparr>;
             if added then do { p \<leftarrow> strncat1 (player s) (key k); Some (s\<lparr>player := p\<rparr>) } else Some s }
      else Some s)"

definition hiscore_backspace :: "'d env \<Rightarrow> key_press \<Rightarrow> ('d, 'z) hiscore_st_scheme \<Rightarrow> ('d, 'z) hiscore_st_scheme option" where
  "hiscore_backspace E k s =
     (if key k = BACKSPACE then
        do { (box, s) \<leftarrow> remove_from_centered_text_box E (new_hiscore s) s;
             let s = s\<lparr>new_hiscore := box\<rparr>;
             p \<leftarrow> drop_last_char (player s);
             Some (s\<lparr>player := p\<rparr>) }
      else Some s)"

definition highscore_update_status :: "'d env \<Rightarrow> key_press \<Rightarrow> ('d, 'z) hiscore_st_scheme \<Rightarrow> ('d, 'z) hiscore_st_scheme option" where
  "highscore_update_status E k s =
     (if down k then Some s
      else do { s \<leftarrow> hiscore_enter E k s; s \<leftarrow> hiscore_type k s; hiscore_backspace E k s })"

section \<open>Typing a name\<close>

text \<open>The box and the array show the same number of characters.\<close>

definition name_ok :: "('d, 'z) hiscore_st_scheme \<Rightarrow> string \<Rightarrow> bool" where
  "name_ok s w \<longleftrightarrow> length (player s) = 11 \<and> cstr (player s) = Some w \<and>
     box_ok s (new_hiscore s) \<and> char_size (new_hiscore s) = int (length w) \<and> char_max_size (new_hiscore s) = 10"

lemma cstr_split: "cstr a = Some w \<Longrightarrow> \<exists>r. a = w @ NUL # r"
proof -
  assume c: "cstr a = Some w"
  then have w: "w = takeWhile (\<lambda>c. c \<noteq> NUL) a" by (auto simp: cstr_def split: if_splits)
  have "length w < length a" using c by (rule cstr_length)
  then have ne: "dropWhile (\<lambda>c. c \<noteq> NUL) a \<noteq> []"
    unfolding w by (metis append.right_neutral less_irrefl takeWhile_dropWhile_id)
  then obtain x r where xr: "dropWhile (\<lambda>c. c \<noteq> NUL) a = x # r" by (cases "dropWhile (\<lambda>c. c \<noteq> NUL) a") auto
  then have "x = NUL" using hd_dropWhile [OF ne] by simp
  then show ?thesis using xr w takeWhile_dropWhile_id [of "\<lambda>c. c \<noteq> NUL" a] by metis
qed

lemma strncat1_ok:
  assumes "cstr a = Some w" and "length w + 1 < length a" and "c \<noteq> NUL"
  shows "\<exists>a'. strncat1 a c = Some a' \<and> length a' = length a \<and> cstr a' = Some (w @ [c])"
proof -
  obtain r where a: "a = w @ NUL # r" using cstr_split assms(1) by blast
  then obtain x r' where r: "r = x # r'" using assms(2) by (cases r) auto
  have "a[length w := c, length w + 1 := NUL] = (w @ [c]) @ NUL # r'"
    using a r by (simp add: list_update_append)
  then show ?thesis using assms(2,3) a r cstr_no_NUL [OF assms(1)] cstr_append_NUL [of "w @ [c]" r'] assms(1)
    by (simp add: strncat1_def)
qed

lemma drop_last_char_ok:
  assumes "cstr a = Some (w @ [c])"
  shows "\<exists>a'. drop_last_char a = Some a' \<and> length a' = length a \<and> cstr a' = Some w"
proof -
  obtain r where a: "a = (w @ [c]) @ NUL # r" using cstr_split assms by blast
  then have "a[length w := a ! (length w + 1)] = w @ NUL # NUL # r"
    by (simp add: list_update_append nth_append)
  then show ?thesis using a assms cstr_no_NUL [OF assms] cstr_append_NUL [of w "NUL # r"]
    by (simp add: drop_last_char_def)
qed

text \<open>The backspace key on an empty name writes in front of the array.\<close>

lemma drop_last_char_empty: "cstr a = Some [] \<Longrightarrow> drop_last_char a = None"
  by (simp add: drop_last_char_def)

lemma hiscore_frame [simp]:
  "gfx_ok (s\<lparr>new_hiscore := b\<rparr>) \<longleftrightarrow> gfx_ok s" "gfx_ok (s\<lparr>player := p\<rparr>) \<longleftrightarrow> gfx_ok s"
  "box_ok (s\<lparr>new_hiscore := b\<rparr>) x \<longleftrightarrow> box_ok s x" "box_ok (s\<lparr>player := p\<rparr>) x \<longleftrightarrow> box_ok s x"
  by (auto intro!: gfx_ok_frame box_ok_frame simp: vc_st.truncate_def)

lemma alnum_char:
  assumes "is_alpha_numberical c"
  shows "c \<noteq> NUL" and "c \<noteq> CHR ''/''" and "c \<noteq> ENTER" and "c \<noteq> BACKSPACE"
  using assms by (auto simp: is_alpha_numberical_def is_numerical_def c_int_def kbd_chars)

text \<open>
  A typed character is appended to the name and to the box together, or, where the box has no
  room, to neither.
\<close>

lemma type_char:
  assumes g: "gfx_ok s" and n: "name_ok s w" and c: "is_alpha_numberical c"
  shows "\<exists>s' w'. highscore_update_status E \<lparr>key = c, down = False\<rparr> s = Some s' \<and> gfx_ok s' \<and>
    name_ok s' w' \<and> (w' = w @ [c] \<or> w' = w) \<and> mode s' = mode s"
proof -
  note cc = alnum_char [OF c]
  have b: "box_ok s (new_hiscore s)" using n by (simp add: name_ok_def)
  have eq: "highscore_update_status E \<lparr>key = c, down = False\<rparr> s = hiscore_type \<lparr>key = c, down = False\<rparr> s"
    using cc by (simp add: highscore_update_status_def hiscore_enter_def hiscore_backspace_def [abs_def] cong: if_cong)
  show ?thesis
  proof (rule add_to_centered_cases [OF g b cc(2)])
    assume "add_to_centered_text_box s c (new_hiscore s) = Some (False, new_hiscore s)"
    then have "highscore_update_status E \<lparr>key = c, down = False\<rparr> s = Some s"
      using c eq by (simp add: hiscore_type_def)
    then show ?thesis using g n by blast
  next
    fix img b'
    assume add: "add_to_centered_text_box s c (new_hiscore s) = Some (True, b')" and ok: "box_ok s b'"
      and lt: "char_size (new_hiscore s) < char_max_size (new_hiscore s)"
      and b': "b' = (new_hiscore s)\<lparr>char_prop := (char_prop (new_hiscore s))
              [nat (char_size (new_hiscore s)) := Some (get_prop_from_char c)],
            char_size := char_size (new_hiscore s) + 1,
            cursor_x := cursor_x (new_hiscore s) + word_of_int (uint (width img) div 2),
            xi := xi (new_hiscore s) - word_of_int ((uint (width img) + 1) div 2)\<rparr>"
    have "length w + 1 < length (player s)" using lt n by (simp add: name_ok_def)
    then obtain p where "strncat1 (player s) c = Some p" "length p = length (player s)" "cstr p = Some (w @ [c])"
      using strncat1_ok [of "player s" w c] n cc(1) by (auto simp: name_ok_def)
    then show ?thesis using add ok g n c eq b' by (simp add: hiscore_type_def name_ok_def)
  qed
qed

text \<open>Backspace on a non-empty name drops its last character, in the box and in the array.\<close>

lemma backspace_char:
  assumes g: "gfx_ok s" and n: "name_ok s (w @ [c])"
  shows "\<exists>s'. highscore_update_status E \<lparr>key = BACKSPACE, down = False\<rparr> s = Some s' \<and> gfx_ok s' \<and>
    name_ok s' w \<and> mode s' = mode s"
proof -
  have ne: "BACKSPACE \<noteq> ENTER" "\<not> is_alpha_numberical BACKSPACE"
    by (simp_all add: kbd_chars is_alpha_numberical_def is_numerical_def c_int_def)
  then have eq: "highscore_update_status E \<lparr>key = BACKSPACE, down = False\<rparr> s =
      hiscore_backspace E \<lparr>key = BACKSPACE, down = False\<rparr> s"
    by (simp add: highscore_update_status_def hiscore_enter_def hiscore_type_def)
  have b: "box_ok s (new_hiscore s)" using n by (simp add: name_ok_def)
  obtain p where p: "drop_last_char (player s) = Some p" "length p = length (player s)" "cstr p = Some w"
    using drop_last_char_ok [of "player s" w c] n by (auto simp: name_ok_def)
  show ?thesis
  proof (rule remove_from_centered_cases [OF g b, of E])
    assume "char_size (new_hiscore s) = 0"
    then show ?thesis using n by (simp add: name_ok_def)
  next
    fix s' img
    let ?b = "(new_hiscore s)\<lparr>char_size := char_size (new_hiscore s) - 1,
      cursor_x := cursor_x (new_hiscore s) - word_of_int (uint (width img) div 2),
      xi := xi (new_hiscore s) + word_of_int ((uint (width img) + 1) div 2)\<rparr>"
    assume pos: "0 < char_size (new_hiscore s)" and o: "only_buffer s s'"
      and rm: "remove_from_centered_text_box E (new_hiscore s) s = Some (?b, s')"
    have "player s' = player s" "mode s' = mode s" using o by (auto elim: only_bufferE)
    moreover have "gfx_ok s'" using gfx_ok_only_buffer [OF o] g by simp
    moreover have "box_ok s' ?b"
      using box_ok_remove [OF b pos] box_ok_only_buffer [OF o] by blast
    ultimately show ?thesis using eq rm p n
      by (simp add: hiscore_backspace_def name_ok_def)
  qed
qed

lemma backspace_empty:
  assumes g: "gfx_ok s" and n: "name_ok s []"
  shows "highscore_update_status E \<lparr>key = BACKSPACE, down = False\<rparr> s = None"
proof -
  have "BACKSPACE \<noteq> ENTER" "\<not> is_alpha_numberical BACKSPACE"
    by (simp_all add: kbd_chars is_alpha_numberical_def is_numerical_def c_int_def)
  then show ?thesis using n
    by (simp add: highscore_update_status_def hiscore_enter_def hiscore_type_def hiscore_backspace_def
        remove_from_centered_text_box_def name_ok_def drop_last_char_empty)
qed

text \<open>
  \<open>reset_hiscore\<close> empties the box but not the array: with a ten-character name left from an
  earlier game, the next accepted character does not fit.
\<close>

lemma stale_name_overflow:
  assumes g: "gfx_ok s" and p: "length (player s) = 11" "cstr (player s) = Some w" "length w = 10"
    and c: "is_alpha_numberical c"
    and img: "deref s (get_prop_from_char c) = Some img" "uint (width img) \<le> 400"
  shows "highscore_update_status E \<lparr>key = c, down = False\<rparr> (reset_hiscore n s) = None"
proof -
  note cc = alnum_char [OF c]
  let ?s = "reset_hiscore n s"
  have d: "deref ?s (get_prop_from_char c) = Some img"
    using img(1) by (cases "get_prop_from_char c") (simp_all add: reset_hiscore_def create_name_box_def)
  have w: "uint (width img) div 2 \<le> 200" using img(2) by linarith
  have m: "uint (- 1 :: u16) = 65535" by code_simp
  have "\<exists>b. add_to_centered_text_box ?s c (new_hiscore ?s) = Some (True, b)"
    using d w img(2) m
    by (simp add: add_to_centered_text_box_def reset_hiscore_def create_name_box_def
        create_writeable_text_box_def put_prop_def MAX_TEXT_BOX_SIZE_def)
  moreover have "player ?s = player s" by (simp add: reset_hiscore_def create_name_box_def)
  ultimately show ?thesis using p c cc
    by (auto simp: highscore_update_status_def hiscore_enter_def hiscore_type_def strncat1_def)
qed

section \<open>Registering the score\<close>

definition date_text :: "date \<Rightarrow> string" where
  "date_text d = show_int (day d) @ ''/'' @ show_int (month d) @ ''/'' @ show_int (year d + 2000)"

lemma write_chars_holds:
  "blk_holds b n xs \<Longrightarrow> length xs + length cs \<le> n \<Longrightarrow>
   \<exists>b'. write_chars cs (int (length xs), b) = Some (int (length (xs @ cs)), b') \<and> blk_holds b' n (xs @ cs)"
proof (induction cs arbitrary: b xs)
  case Nil
  then show ?case by simp
next
  case (Cons c cs)
  obtain b1 where b1: "blk_write b (int (length xs)) c = Some b1" "blk_holds b1 n (xs @ [c])"
    using blk_holds_write [OF Cons.prems(1)] Cons.prems(2) by fastforce
  then obtain b2 where "write_chars cs (int (length (xs @ [c])), b1) = Some (int (length ((xs @ [c]) @ cs)), b2)"
      "blk_holds b2 n ((xs @ [c]) @ cs)"
    using Cons.IH [OF b1(2)] Cons.prems(2) by auto
  then show ?case using b1(1) by (simp add: add.commute)
qed

lemma write_chars_append: "write_chars (xs @ ys) p = Option.bind (write_chars xs p) (write_chars ys)"
  by (induction xs p rule: write_chars.induct) (auto split: Option.bind_split)

lemma write_chars_Cons: "xs \<noteq> [] \<Longrightarrow> write_chars (c # xs) p = Option.bind (write_chars [c] p) (write_chars xs)"
  using write_chars_append [of "[c]" xs p] by simp

lemma show_int_nonempty [simp]: "show_int i \<noteq> []"
  by (simp add: show_int_def)

lemma blk_write_length: "blk_write (Alloc cs) i v = Some b \<Longrightarrow> \<exists>cs'. b = Alloc cs' \<and> length cs' = length cs"
  by (auto split: if_splits)

lemma write_chars_length:
  "write_chars xs (i, Alloc cs) = Some (j, b) \<Longrightarrow> \<exists>cs'. b = Alloc cs' \<and> length cs' = length cs"
proof (induction xs arbitrary: i cs)
  case Nil
  then show ?case by auto
next
  case (Cons x xs)
  obtain b1 where b1: "blk_write (Alloc cs) i x = Some b1" "write_chars xs (i + 1, b1) = Some (j, b)"
    using Cons.prems by (cases "blk_write (Alloc cs) i x") simp_all
  obtain cs1 where "b1 = Alloc cs1" "length cs1 = length cs" using blk_write_length [OF b1(1)] by blast
  then show ?case using Cons.IH [of "i + 1" cs1] b1(2) by simp
qed

lemma getDate_eq:
  assumes m: "malloc E 10 (dev s) = Some n" and d: "get_date E s = Some (dt, s')"
    and r: "0 \<le> day dt" "day dt < 100" "0 \<le> month dt" "month dt < 100" "0 \<le> year dt" "year dt < 100"
  shows "getDate E s =
    map_option (\<lambda>b. (snd b, s')) (write_chars (date_text dt @ [NUL]) (0, Alloc (replicate n None)))"
proof -
  have "sprintf_d 3 (day dt) = Some (show_int (day dt))" "sprintf_d 3 (month dt) = Some (show_int (month dt))"
    using r length_show_nat [of 2 "nat (day dt)"] length_show_nat [of 2 "nat (month dt)"]
    by (simp_all add: sprintf_d_def show_int_def nat_less_iff)
  moreover have "sprintf_d 5 (year dt + 2000) = Some (show_int (year dt + 2000))"
    using r length_show_nat [of 4 "nat (year dt + 2000)"]
    by (simp add: sprintf_d_def show_int_def nat_less_iff)
  ultimately show ?thesis using m d
    by (simp add: getDate_def date_text_def write_chars_append write_chars_Cons Option.map_conv_bind_option
        comp_def del: write_chars.simps)
qed

lemma date_text_length:
  assumes "0 \<le> day dt" "day dt < 100" "0 \<le> month dt" "month dt < 100" "0 \<le> year dt" "year dt < 100"
  shows "length (date_text dt) \<le> 10"
  using assms length_show_nat [of 2 "nat (day dt)"] length_show_nat [of 2 "nat (month dt)"]
    length_show_nat [of 4 "nat (year dt + 2000)"]
  by (simp add: date_text_def show_int_def nat_less_iff)

lemma digit_not_NUL: "is_digit c \<Longrightarrow> c \<noteq> NUL"
  by (auto simp: is_digit_def c_int_def)

lemma show_int_not_NUL: "0 \<le> i \<Longrightarrow> NUL \<notin> set (show_int i)"
  using show_nat_digits [of "nat i"] digit_not_NUL by (auto simp: show_int_def list_all_iff)

lemma date_text_not_NUL: "0 \<le> day dt \<Longrightarrow> 0 \<le> month dt \<Longrightarrow> 0 \<le> year dt \<Longrightarrow> NUL \<notin> set (date_text dt)"
  by (simp add: date_text_def show_int_not_NUL)

lemma blk_bytes_holds:
  assumes b: "blk_holds b n (w @ [NUL])" and n: "11 \<le> n" and w: "NUL \<notin> set w" "length w \<le> 10"
  shows "\<exists>a. blk_bytes j 11 b = Some a \<and> length a = 11 \<and> cstr a = Some w"
proof -
  let ?f = "\<lambda>c. case c of None \<Rightarrow> j | Some v \<Rightarrow> v"
  obtain cs where cs: "b = Alloc cs" "length cs = n" "take (Suc (length w)) cs = map Some (w @ [NUL])"
    using b by (auto simp: blk_holds_def)
  have "take 11 cs = take (Suc (length w)) cs @ take (10 - length w) (drop (Suc (length w)) cs)"
    using w(2) by (metis Suc_diff_Suc Suc_le_mono add_diff_cancel_left' eval_nat_numeral(3) le_add_diff_inverse
        numeral_eq_Suc plus_nat.simps(2) pred_numeral_simps(1) semiring_norm(26,28) take_add)
  then have "map ?f (take 11 cs) = w @ NUL # map ?f (take (10 - length w) (drop (Suc (length w)) cs))"
    using cs(3) by (simp add: comp_def)
  then show ?thesis using cs n w by (simp add: blk_bytes_def cstr_append_NUL)
qed

definition date_ok :: "date \<Rightarrow> bool" where
  "date_ok d \<longleftrightarrow> 0 \<le> day d \<and> day d < 100 \<and> 0 \<le> month d \<and> month d < 100 \<and> 0 \<le> year d \<and> year d < 100"

text \<open>Where the block has eleven usable bytes, the date arrives as text.\<close>

lemma getDate_text:
  assumes m: "malloc E 10 (dev s) = Some n" "11 \<le> n" and d: "get_date E s = Some (dt, s')" and r: "date_ok dt"
  shows "\<exists>b a. getDate E s = Some (b, s') \<and> blk_bytes j 11 b = Some a \<and> length a = 11 \<and> cstr a = Some (date_text dt)"
proof -
  note rs = r [unfolded date_ok_def, THEN conjunct1] r [unfolded date_ok_def]
  have len: "length (date_text dt) \<le> 10" using r by (intro date_text_length) (simp_all add: date_ok_def)
  have "blk_holds (Alloc (replicate n None)) n []" by (simp add: blk_holds_def)
  then obtain b where b: "write_chars (date_text dt @ [NUL]) (0, Alloc (replicate n None)) =
      Some (int (length (date_text dt @ [NUL])), b)" "blk_holds b n (date_text dt @ [NUL])"
    using write_chars_holds [of "Alloc (replicate n None)" n "[]" "date_text dt @ [NUL]"] len m(2) by auto
  have "getDate E s = Some (b, s')"
    using getDate_eq [OF m(1) d] r b(1) by (simp add: date_ok_def)
  moreover have "\<exists>a. blk_bytes j 11 b = Some a \<and> length a = 11 \<and> cstr a = Some (date_text dt)"
    using blk_bytes_holds [OF b(2) m(2) _ len] date_text_not_NUL r by (simp add: date_ok_def)
  ultimately show ?thesis by blast
qed

text \<open>
  Where it has the ten bytes that were asked for, the eleven bytes copied out of it reach past
  its end, whatever the date.
\<close>

lemma getDate_overrun:
  assumes m: "malloc E 10 (dev s) = Some 10" and g: "getDate E s = Some (b, s')"
  shows "blk_bytes j 11 b = None"
proof -
  obtain dt dy mo yr p1 p2 p3 p4 p5 j6 where w:
    "write_chars dy (0, Alloc (replicate 10 None)) = Some p1" "write_chars ''/'' p1 = Some p2"
    "write_chars mo p2 = Some p3" "write_chars ''/'' p3 = Some p4" "write_chars yr p4 = Some p5"
    "write_chars [NUL] p5 = Some (j6, b)"
    using g m unfolding getDate_def
    by (auto simp del: write_chars.simps split: Option.bind_splits prod.splits)
  then have "write_chars (dy @ ''/'' @ mo @ ''/'' @ yr @ [NUL]) (0, Alloc (replicate 10 None)) = Some (j6, b)"
    by (simp only: write_chars_append Option.bind.simps)
  then obtain cs where "b = Alloc cs" "length cs = 10"
    using write_chars_length by fastforce
  then show ?thesis by (simp add: blk_bytes_def)
qed

lemma highscore_enter_ok:
  assumes n: "cstr (player s) = Some w" "w \<noteq> []"
    and m: "malloc E 10 (dev s) = Some n" "11 \<le> n" 
    and d: "get_date E (s\<lparr>newWinner := (newWinner s)\<lparr>w_name := player s\<rparr>\<rparr>) = Some (dt, s1)"
    and r: "date_ok dt"
    and b: "length (leaderboard s) = SIZE" "getLowestHiScore s < int_score (newWinner s)"
  shows "\<exists>s' da. highscore_update_status E \<lparr>key = ENTER, down = False\<rparr> s = Some s' \<and> mode s' = LEADERBOARD \<and>
    cstr da = Some (date_text dt) \<and>
    leaderboard s' = take SIZE (hi_insert ((newWinner s)\<lparr>w_name := player s, w_date := da\<rparr>) (leaderboard s))"
proof -
  have key: "\<not> is_alpha_numberical ENTER" "ENTER \<noteq> BACKSPACE"
    by (simp_all add: kbd_chars is_alpha_numberical_def is_numerical_def c_int_def)
  let ?s1 = "s\<lparr>newWinner := (newWinner s)\<lparr>w_name := player s\<rparr>\<rparr>"
  obtain d' where s1: "s1 = ?s1\<lparr>dev := d'\<rparr>" using get_date_frame [OF d] by (rule only_devE)
  have gd: "get_date E ?s1 = Some (dt, ?s1\<lparr>dev := d'\<rparr>)" using d unfolding s1 .
  let ?s2 = "?s1\<lparr>dev := d'\<rparr>"
  have m1: "malloc E 10 (dev ?s1) = Some n" using m(1) by simp
  let ?j = "int_char (uint (uninit E d'))"
  obtain bl a where a: "getDate E ?s1 = Some (bl, ?s2)" "blk_bytes ?j 11 bl = Some a" "cstr a = Some (date_text dt)"
    using getDate_text [OF m1 m(2) gd r] by blast
  let ?s3 = "?s2\<lparr>newWinner := (newWinner ?s2)\<lparr>w_date := a\<rparr>\<rparr>"
  have en: "hiscore_enter E \<lparr>key = ENTER, down = False\<rparr> s = Some ((updateData ?s3)\<lparr>mode := LEADERBOARD\<rparr>)"
    using n a by (simp add: hiscore_enter_def)
  have "leaderboard (updateData ?s3) = take SIZE (hi_insert (newWinner ?s3) (leaderboard s))"
    using b updateData_insert [of ?s3] by (simp add: getLowestHiScore_def)
  then show ?thesis using en key a(3)
    by (auto simp add: highscore_update_status_def hiscore_type_def hiscore_backspace_def)
qed

lemma highscore_enter_overrun:
  assumes n: "cstr (player s) = Some w" "w \<noteq> []" and m: "malloc E 10 (dev s) = Some 10"
  shows "highscore_update_status E \<lparr>key = ENTER, down = False\<rparr> s = None"
proof -
  let ?s1 = "s\<lparr>newWinner := (newWinner s)\<lparr>w_name := player s\<rparr>\<rparr>"
  have "malloc E 10 (dev ?s1) = Some 10" using m by simp
  then have "blk_bytes j 11 b = None" if "getDate E ?s1 = Some (b, s')" for b s' j
    using getDate_overrun that by blast
  then have "hiscore_enter E \<lparr>key = ENTER, down = False\<rparr> s = None"
    using n by (auto simp: hiscore_enter_def split: Option.bind_splits)
  then show ?thesis by (simp add: highscore_update_status_def)
qed

section \<open>The screen\<close>

definition hiscore_drawable :: "('d, 'z) hiscore_st_scheme \<Rightarrow> bool" where
  "hiscore_drawable s \<longleftrightarrow> screens_ok s \<and> box_ok s (new_hiscore s)"

lemma hiscore_drawable_only_buffer: "only_buffer s s' \<Longrightarrow> hiscore_drawable s' \<longleftrightarrow> hiscore_drawable s"
  by (auto simp: hiscore_drawable_def screens_ok_only_buffer box_ok_only_buffer elim: only_bufferE)

interpretation hiscore_screen: drawing "draw_highscore_graph E" hiscore_drawable
proof -
  have s16: "drawing (draw_screen 16) hiscore_drawable"
    by (rule drawing_mono [OF drawing_screen])
      (simp, simp add: hiscore_drawable_def, simp add: hiscore_drawable_only_buffer)
  have box: "drawing (\<lambda>s. draw_text_box E (new_hiscore s) s) hiscore_drawable"
    by unfold_locales (simp add: draw_text_box_safe hiscore_drawable_def, simp add: hiscore_drawable_only_buffer)
  show "drawing (draw_highscore_graph E) hiscore_drawable"
    unfolding draw_highscore_graph_def by (rule drawing.drawing_then [OF s16 box])
qed

end
