(* ===== verification/Game.thy ===== *)
theory Game
  imports Highscore
begin

text \<open>
  The game of two players at one computer, \<open>src/proj/game.c\<close> and \<open>game.h\<close> with the
  constants and enumerations of \<open>consts.h\<close>. The sequence of buttons is a heap block that
  \<open>reset_game\<close> allocates and \<open>end_game\<close> releases; a click that writes outside it, or a
  second release, is undefined.
\<close>

section \<open>Constants and data\<close>

definition GREEN_X :: int where "GREEN_X = 218"
definition GREEN_Y :: int where "GREEN_Y = 218"
definition BLUE_X :: int where "BLUE_X = 507"
definition BLUE_Y :: int where "BLUE_Y = 413"
definition PURPLE_X :: int where "PURPLE_X = 293"
definition PURPLE_Y :: int where "PURPLE_Y = 413"
definition YELLOW_X :: int where "YELLOW_X = 583"
definition YELLOW_Y :: int where "YELLOW_Y = 225"
definition RED_X :: int where "RED_X = 400"
definition RED_Y :: int where "RED_Y = 92"
definition VS_X :: int where "VS_X = 400"
definition VS_Y :: int where "VS_Y = 260"
definition BUTTON_WIDTH :: int where "BUTTON_WIDTH = 89"
definition MOUSE_WIDTH :: int where "MOUSE_WIDTH = 42"
definition MOUSE_HEIGHT :: int where "MOUSE_HEIGHT = 44"
definition INTERVAL :: int where "INTERVAL = 3 + 1"
definition VS_INTERVAL :: int where "VS_INTERVAL = 5 + 1"

lemmas button_consts = GREEN_X_def GREEN_Y_def BLUE_X_def BLUE_Y_def PURPLE_X_def PURPLE_Y_def YELLOW_X_def
  YELLOW_Y_def RED_X_def RED_Y_def VS_X_def VS_Y_def BUTTON_WIDTH_def
lemmas mouse_consts = MOUSE_WIDTH_def MOUSE_HEIGHT_def get_mode_width_def get_mode_height_def WIDTH_def HEIGHT_def
lemmas intervals = INTERVAL_def VS_INTERVAL_def

datatype Play_Screens = DEFAULT | GREEN | YELLOW | PURPLE | BLUE | RED | VS | WHITE
datatype button_click_t = GREEN_B | YELLOW_B | PURPLE_B | BLUE_B | RED_B | VS_B | NO_BUTTON
datatype Winners = WINNER1 | WINNER2 | TIE

text \<open>The last four fields are the statics of \<open>draw_counter\<close> and \<open>draw_round\<close>.\<close>

record 'd game_st = "'d hiscore_st" +
  ws :: Winners
  buttons :: "button_click_t block"
  ps :: Play_Screens
  mouse :: mouse_state
  buttons_size :: int
  player_score :: int
  max_buttons_size :: int
  is_player_1 :: bool
  guessed :: int
  time_left_for_click :: int
  game_end :: bool
  VS_was_pressed :: bool
  is_vs_round :: bool
  counter_number :: xpm_image_t
  counter_previous_time :: int
  round_round :: int
  round_text :: text_box

section \<open>Drawing\<close>

definition draw_winner_graphics :: "('d, 'z) game_st_scheme \<Rightarrow> ('d, 'z) game_st_scheme option" where
  "draw_winner_graphics s = (case ws s of WINNER1 \<Rightarrow> draw_screen 6 s | WINNER2 \<Rightarrow> draw_screen 7 s | TIE \<Rightarrow> draw_screen 18 s)"

definition draw_buttons :: "('d, 'z) game_st_scheme \<Rightarrow> ('d, 'z) game_st_scheme option" where
  "draw_buttons s =
     (case ps s of DEFAULT \<Rightarrow> draw_screen 9 s | GREEN \<Rightarrow> draw_screen 10 s | YELLOW \<Rightarrow> draw_screen 11 s
      | PURPLE \<Rightarrow> draw_screen 12 s | BLUE \<Rightarrow> draw_screen 13 s | RED \<Rightarrow> draw_screen 14 s
      | VS \<Rightarrow> draw_screen 8 s | WHITE \<Rightarrow> draw_screen 15 s)"

definition draw_glyph :: "'d env \<Rightarrow> char \<Rightarrow> u16 \<Rightarrow> u16 \<Rightarrow> ('d, 'z) vc_st_scheme \<Rightarrow> ('d, 'z) vc_st_scheme option" where
  "draw_glyph E c x y s = do { img \<leftarrow> deref s (get_prop_from_char c); draw_xpm_x_y E img x y s }"

definition print_player1 :: "'d env \<Rightarrow> ('d, 'z) game_st_scheme \<Rightarrow> ('d, 'z) game_st_scheme option" where
  "print_player1 E s = draw_glyph E CHR ''1'' 0 0 s"

definition print_player2 :: "'d env \<Rightarrow> ('d, 'z) game_st_scheme \<Rightarrow> ('d, 'z) game_st_scheme option" where
  "print_player2 E s = draw_glyph E CHR ''2'' 0 0 s"

definition draw_player :: "'d env \<Rightarrow> ('d, 'z) game_st_scheme \<Rightarrow> ('d, 'z) game_st_scheme option" where
  "draw_player E s = (if is_player_1 s then print_player1 E s else print_player2 E s)"

definition draw_counter :: "'d env \<Rightarrow> ('d, 'z) game_st_scheme \<Rightarrow> ('d, 'z) game_st_scheme option" where
  "draw_counter E s =
     (let time_left = (if time_left_for_click s > 0 then time_left_for_click s else 0) in
      do { s \<leftarrow> (if counter_previous_time s \<noteq> time_left
                then do { img \<leftarrow> deref s (get_prop_from_char (int_char (c_int CHR ''0'' + time_left)));
                          Some (s\<lparr>counter_number := img, counter_previous_time := time_left\<rparr>) }
                else Some s);
           draw_xpm_x_y E (counter_number s) 700 0 s })"

text \<open>The loop of \<open>draw_round\<close> that fills the three characters with the digits, last digit first.\<close>

function round_digits :: "int \<Rightarrow> nat \<Rightarrow> char list \<Rightarrow> (nat \<times> char list) option" where
  "round_digits temp_round numbers_size chars =
     (if temp_round > 0 then
        if numbers_size < length chars
        then round_digits (temp_round sdiv 10) (numbers_size + 1)
               (chars[numbers_size := int_char (temp_round smod 10 + c_int CHR ''0'')])
        else None
      else Some (numbers_size, chars))"
  by pat_completeness auto
termination by (relation "measure (\<lambda>(t, _). nat t)") auto

declare round_digits.simps [simp del]

definition round_chars :: "int \<Rightarrow> (nat \<times> char list) option" where
  "round_chars round =
     do { (numbers_size, chars) \<leftarrow> round_digits round 0 [CHR ''0'', CHR ''0'', CHR ''0''];
          Some (if numbers_size = 0 then (1, chars)
                else if numbers_size = 2 then (2, chars[0 := chars ! 1, 1 := chars ! 0])
                else if numbers_size = 3 then (3, chars[0 := chars ! 2, 2 := chars ! 0])
                else (numbers_size, chars)) }"

definition draw_round :: "'d env \<Rightarrow> ('d, 'z) game_st_scheme \<Rightarrow> ('d, 'z) game_st_scheme option" where
  "draw_round E s =
     do { s \<leftarrow> (if round_round s \<noteq> buttons_size s
               then do { (numbers_size, chars) \<leftarrow> round_chars (buttons_size s);
                         box \<leftarrow> create_static_text_box s 0 50 chars numbers_size;
                         Some (s\<lparr>round_round := buttons_size s, round_text := box\<rparr>) }
               else Some s);
          draw_text_box E (round_text s) s }"

definition draw_mouse :: "'d env \<Rightarrow> ('d, 'z) game_st_scheme \<Rightarrow> ('d, 'z) game_st_scheme option" where
  "draw_mouse E s =
     (let (img, s) = get_mouse E s in draw_xpm_x_y E img (x_pos (mouse s)) (y_pos (mouse s)) s)"

definition draw_game_graphics :: "'d env \<Rightarrow> ('d, 'z) game_st_scheme \<Rightarrow> ('d, 'z) game_st_scheme option" where
  "draw_game_graphics E s =
     (if \<not> game_end s then
        do { s \<leftarrow> draw_buttons s; s \<leftarrow> draw_player E s; s \<leftarrow> draw_counter E s; s \<leftarrow> draw_round E s; draw_mouse E s }
      else draw_winner_graphics s)"

definition debugging :: "'d env \<Rightarrow> int \<Rightarrow> ('d, 'z) game_st_scheme \<Rightarrow> ('d, 'z) game_st_scheme option" where
  "debugging E i s = draw_glyph E CHR ''0'' 200 (word_of_int (200 + i * 40)) s"

section \<open>The cursor and the buttons\<close>

text \<open>Whether the cursor is within the radius of a centre.\<close>

definition in_disc :: "int \<Rightarrow> int \<Rightarrow> mouse_state \<Rightarrow> bool" where
  "in_disc cx cy m \<longleftrightarrow>
     (uint (x_pos m) - cx) * (uint (x_pos m) - cx) + (uint (y_pos m) - cy) * (uint (y_pos m) - cy)
       \<le> BUTTON_WIDTH * BUTTON_WIDTH"

definition get_red_click :: "('d, 'z) game_st_scheme \<Rightarrow> bool" where "get_red_click s = in_disc RED_X RED_Y (mouse s)"
definition get_green_click :: "('d, 'z) game_st_scheme \<Rightarrow> bool" where "get_green_click s = in_disc GREEN_X GREEN_Y (mouse s)"
definition get_purple_click :: "('d, 'z) game_st_scheme \<Rightarrow> bool" where "get_purple_click s = in_disc PURPLE_X PURPLE_Y (mouse s)"
definition get_blue_click :: "('d, 'z) game_st_scheme \<Rightarrow> bool" where "get_blue_click s = in_disc BLUE_X BLUE_Y (mouse s)"
definition get_yellow_click :: "('d, 'z) game_st_scheme \<Rightarrow> bool" where "get_yellow_click s = in_disc YELLOW_X YELLOW_Y (mouse s)"
definition get_vs_click :: "('d, 'z) game_st_scheme \<Rightarrow> bool" where "get_vs_click s = in_disc VS_X VS_Y (mouse s)"

definition get_button_click :: "('d, 'z) game_st_scheme \<Rightarrow> button_click_t" where
  "get_button_click s =
     (if get_red_click s then RED_B else if get_green_click s then GREEN_B else if get_purple_click s then PURPLE_B
      else if get_blue_click s then BLUE_B else if get_yellow_click s then YELLOW_B else if get_vs_click s then VS_B
      else NO_BUTTON)"

text \<open>The part of the mouse handlers that moves the cursor; \<open>mp_game.c\<close> repeats it word for word.\<close>

definition move_mouse :: "packet \<Rightarrow> mouse_state \<Rightarrow> mouse_state" where
  "move_mouse pk m =
     (let m = (if \<not> x_ov pk then
                 if uint (x_pos m) < - sint (delta_x pk) then m\<lparr>x_pos := 1\<rparr>
                 else if uint (x_pos m) + sint (delta_x pk) \<ge> get_mode_width - MOUSE_WIDTH
                 then m\<lparr>x_pos := word_of_int (get_mode_width - MOUSE_WIDTH)\<rparr>
                 else m\<lparr>x_pos := word_of_int (uint (x_pos m) + sint (delta_x pk))\<rparr>
               else m)
      in if \<not> y_ov pk then
           if uint (y_pos m) < sint (delta_y pk) then m\<lparr>y_pos := 1\<rparr>
           else if uint (y_pos m) - sint (delta_y pk) \<ge> get_mode_height - MOUSE_HEIGHT
           then m\<lparr>y_pos := word_of_int (get_mode_height - MOUSE_HEIGHT)\<rparr>
           else m\<lparr>y_pos := word_of_int (uint (y_pos m) - sint (delta_y pk))\<rparr>
         else m)"

definition press_mouse :: "packet \<Rightarrow> mouse_state \<Rightarrow> mouse_state" where
  "press_mouse pk m =
     (if lb pk then
        if left_hold m then m\<lparr>left_click := False\<rparr> else m\<lparr>left_click := True, left_hold := True\<rparr>
      else m\<lparr>left_hold := False, left_click := False\<rparr>)"

section \<open>The rules\<close>

definition is_VS_round :: "'d env \<Rightarrow> ('d, 'z) game_st_scheme \<Rightarrow> ('d, 'z) game_st_scheme" where
  "is_VS_round E s =
     (let (r, d) = rand E (dev s);
          random = r smod 10;
          s = s\<lparr>dev := d, VS_was_pressed := False\<rparr>
      in if random smod 2 = 0 then s\<lparr>is_vs_round := True\<rparr> else s\<lparr>is_vs_round := False\<rparr>)"

definition get_winner :: "('d, 'z) game_st_scheme \<Rightarrow> ('d, 'z) game_st_scheme" where
  "get_winner s = (if is_player_1 s then s\<lparr>ws := WINNER2\<rparr> else s\<lparr>ws := WINNER1\<rparr>)"

definition end_game :: "'d env \<Rightarrow> ('d, 'z) game_st_scheme \<Rightarrow> ('d, 'z) game_st_scheme option" where
  "end_game E s =
     (let s = s\<lparr>game_end := True\<rparr> in
      do { b \<leftarrow> blk_free (buttons s); Some (set_timed_alarm E 5 (s\<lparr>buttons := b\<rparr>)) })"

text \<open>\<open>buttons[buttons_size] = click; buttons_size++;\<close>\<close>

definition push_button :: "button_click_t \<Rightarrow> ('d, 'z) game_st_scheme \<Rightarrow> ('d, 'z) game_st_scheme option" where
  "push_button click s =
     do { b \<leftarrow> blk_write (buttons s) (buttons_size s) click;
          Some (s\<lparr>buttons := b, buttons_size := buttons_size s + 1\<rparr>) }"

definition click_button :: "'d env \<Rightarrow> button_click_t \<Rightarrow> ('d, 'z) game_st_scheme \<Rightarrow> ('d, 'z) game_st_scheme option" where
  "click_button E click s =
     (if click = NO_BUTTON then Some (s\<lparr>mouse := (mouse s)\<lparr>left_click := False\<rparr>\<rparr>)
      else if guessed s = buttons_size s \<or> VS_was_pressed s then
        let s = (if guessed s = buttons_size s then s\<lparr>player_score := buttons_size s\<rparr> else s) in
        if guessed s = max_buttons_size s then end_game E (s\<lparr>ws := TIE\<rparr>)
        else if is_vs_round s then
          if click = VS_B \<and> \<not> VS_was_pressed s then
            do { s \<leftarrow> push_button click (s\<lparr>VS_was_pressed := True\<rparr>);
                 Some (s\<lparr>time_left_for_click := VS_INTERVAL\<rparr>) }
          else
            do { s \<leftarrow> push_button click s;
                 let s = s\<lparr>guessed := 0\<rparr>;
                 Some (if \<not> VS_was_pressed s
                       then (is_VS_round E (s\<lparr>is_player_1 := \<not> is_player_1 s\<rparr>))\<lparr>time_left_for_click := INTERVAL\<rparr>
                       else s) }
        else
          do { s \<leftarrow> push_button click s;
               let s = s\<lparr>guessed := 0\<rparr>;
               Some (if \<not> VS_was_pressed s
                     then is_VS_round E (s\<lparr>is_player_1 := \<not> is_player_1 s, time_left_for_click := INTERVAL\<rparr>)
                     else s) }
      else
        do { b \<leftarrow> blk_read (buttons s) (guessed s);
             if b = click then
               let s = s\<lparr>guessed := guessed s + 1\<rparr> in
               Some (if guessed s = buttons_size s then s\<lparr>time_left_for_click := - 1\<rparr>
                     else s\<lparr>time_left_for_click := INTERVAL\<rparr>)
             else end_game E (get_winner s) })"

definition light_button :: "button_click_t \<Rightarrow> ('d, 'z) game_st_scheme \<Rightarrow> ('d, 'z) game_st_scheme" where
  "light_button click s =
     (case click of GREEN_B \<Rightarrow> s\<lparr>ps := GREEN\<rparr> | YELLOW_B \<Rightarrow> s\<lparr>ps := YELLOW\<rparr> | PURPLE_B \<Rightarrow> s\<lparr>ps := PURPLE\<rparr>
      | BLUE_B \<Rightarrow> s\<lparr>ps := BLUE\<rparr> | RED_B \<Rightarrow> s\<lparr>ps := RED\<rparr>
      | VS_B \<Rightarrow> if VS_was_pressed s \<and> time_left_for_click s = VS_INTERVAL then s\<lparr>ps := VS\<rparr> else s\<lparr>ps := WHITE\<rparr>
      | NO_BUTTON \<Rightarrow> s\<lparr>ps := DEFAULT\<rparr>)"

definition game_update_status_mouse :: "'d env \<Rightarrow> packet \<Rightarrow> ('d, 'z) game_st_scheme \<Rightarrow> ('d, 'z) game_st_scheme option" where
  "game_update_status_mouse E pk s =
     (if game_end s then Some s
      else
        let s = s\<lparr>mouse := press_mouse pk (move_mouse pk (mouse s))\<rparr>;
            click = (if left_click (mouse s) then get_button_click s else NO_BUTTON)
        in do { s \<leftarrow> click_button E click s; Some (light_button click s) })"

definition checkNewHiScore :: "('d, 'z) game_st_scheme \<Rightarrow> ('d, 'z) game_st_scheme" where
  "checkNewHiScore s =
     (if player_score s > getLowestHiScore s
      then reset_hiscore (player_score s) (s\<lparr>mode := HIGHSCORE\<rparr>)
      else s\<lparr>mode := LEADERBOARD\<rparr>)"

definition game_update_status_key :: "key_press \<Rightarrow> ('d, 'z) game_st_scheme \<Rightarrow> ('d, 'z) game_st_scheme" where
  "game_update_status_key k s =
     (if game_end s then
        if key k = ENTER then if ws s = TIE then s\<lparr>mode := LEADERBOARD\<rparr> else checkNewHiScore s else s
      else s)"

definition game_update_status_timer :: "('d, 'z) game_st_scheme \<Rightarrow> ('d, 'z) game_st_scheme" where
  "game_update_status_timer s = s\<lparr>mouse := (mouse s)\<lparr>left_click := False\<rparr>\<rparr>"

definition game_update_status_rtc :: "'d env \<Rightarrow> ('d, 'z) game_st_scheme \<Rightarrow> ('d, 'z) game_st_scheme option" where
  "game_update_status_rtc E s =
     do { s \<leftarrow> (if time_left_for_click s = 0 \<and> \<not> VS_was_pressed s then end_game E (get_winner s)
               else if time_left_for_click s = 0 \<and> is_vs_round s \<and> VS_was_pressed s
               then Some (is_VS_round E (s\<lparr>is_player_1 := \<not> is_player_1 s, time_left_for_click := INTERVAL\<rparr>))
               else if time_left_for_click s > 0 then Some (s\<lparr>time_left_for_click := time_left_for_click s - 1\<rparr>)
               else Some s);
          Some (if game_end s then
                  let s = set_seconds_alarm E s in
                  if ws s = TIE then s\<lparr>mode := LEADERBOARD\<rparr> else checkNewHiScore s
                else s) }"

definition reset_game :: "'d env \<Rightarrow> int \<Rightarrow> ('d, 'z) game_st_scheme \<Rightarrow> ('d, 'z) game_st_scheme" where
  "reset_game E num_rounds s =
     (let s = s\<lparr>mouse := \<lparr>x_pos = word_of_int (get_mode_width sdiv 2), y_pos = word_of_int (get_mode_height sdiv 2),
                        left_hold = False, left_click = False\<rparr>,
                max_buttons_size := num_rounds,
                buttons := blk_malloc (malloc E (num_rounds * 4) (dev s) \<noteq> None) num_rounds,
                buttons_size := 0, player_score := 0, guessed := 0, is_player_1 := True, game_end := False,
                ps := DEFAULT, time_left_for_click := - 1\<rparr>;
          s = is_VS_round E s
      in s\<lparr>VS_was_pressed := False\<rparr>)"

definition get_max_buttons_size :: "('d, 'z) game_st_scheme \<Rightarrow> int" where
  "get_max_buttons_size s = max_buttons_size s"

end
