(* ===== verification/Game_Rules.thy ===== *)
theory Game_Rules
  imports Game
begin

text \<open>
  What makes \<open>game.c\<close> correct: the invariant of the sequence of buttons and exactly when a
  handler leaves it, the rules of the game as an abstract machine that the click handler
  refines, a whole game played without a mistake, the countdown, and the geometry of the
  cursor and the buttons.
\<close>

section \<open>The rules every Simon game shares\<close>

definition plain :: "button_click_t \<Rightarrow> bool" where
  "plain c \<longleftrightarrow> c \<noteq> NO_BUTTON \<and> c \<noteq> VS_B"

text \<open>The clicks of players that repeat the sequence \<open>xs\<close> and extend it by each button in turn.\<close>

fun rounds_from :: "button_click_t list \<Rightarrow> button_click_t list \<Rightarrow> button_click_t list" where
  "rounds_from xs [] = []"
| "rounds_from xs (c # cs) = xs @ [c] @ rounds_from (xs @ [c]) cs"

text \<open>
  The contract of a click handler: \<open>playing s xs k\<close> says that \<open>xs\<close> is the sequence and its
  first \<open>k\<close> buttons were repeated in this turn.
\<close>

locale simon_turn =
  fixes click :: "button_click_t \<Rightarrow> 's \<Rightarrow> 's option"
    and playing :: "'s \<Rightarrow> button_click_t list \<Rightarrow> nat \<Rightarrow> bool"
    and turn :: "'s \<Rightarrow> bool"
    and cap :: "'s \<Rightarrow> nat"
  assumes guess: "playing s xs k \<Longrightarrow> k < length xs \<Longrightarrow>
      \<exists>s'. click (xs ! k) s = Some s' \<and> playing s' xs (Suc k) \<and> turn s' = turn s \<and> cap s' = cap s"
    and extend: "playing s xs (length xs) \<Longrightarrow> length xs < cap s \<Longrightarrow> plain c \<Longrightarrow>
      \<exists>s'. click c s = Some s' \<and> playing s' (xs @ [c]) 0 \<and> turn s' = (\<not> turn s) \<and> cap s' = cap s"
begin

lemma replay: "playing s xs k \<Longrightarrow> k \<le> length xs \<Longrightarrow>
  \<exists>s'. run_steps click (drop k xs) s = Some s' \<and> playing s' xs (length xs) \<and> turn s' = turn s \<and> cap s' = cap s"
proof (induction "length xs - k" arbitrary: k s)
  case 0
  then show ?case by simp
next
  case (Suc n)
  then have k: "k < length xs" by simp
  then obtain s1 where s1: "click (xs ! k) s = Some s1" "playing s1 xs (Suc k)" "turn s1 = turn s" "cap s1 = cap s"
    using guess Suc.prems(1) by blast
  have "n = length xs - Suc k" "Suc k \<le> length xs" using Suc(2) k by simp_all
  then obtain s' where "run_steps click (drop (Suc k) xs) s1 = Some s'" "playing s' xs (length xs)"
      "turn s' = turn s1" "cap s' = cap s1"
    using Suc.hyps(1) [OF _ s1(2)] by blast
  moreover have "drop k xs = xs ! k # drop (Suc k) xs" using k by (simp add: Cons_nth_drop_Suc)
  ultimately show ?case using s1 by auto
qed

lemma round_ok:
  assumes "playing s xs 0" and "length xs < cap s" and "plain c"
  shows "\<exists>s'. run_steps click (xs @ [c]) s = Some s' \<and> playing s' (xs @ [c]) 0 \<and> turn s' = (\<not> turn s) \<and> cap s' = cap s"
proof -
  obtain s1 where s1: "run_steps click xs s = Some s1" "playing s1 xs (length xs)" "turn s1 = turn s" "cap s1 = cap s"
    using replay [OF assms(1)] by auto
  then obtain s2 where "click c s1 = Some s2" "playing s2 (xs @ [c]) 0" "turn s2 = (\<not> turn s1)" "cap s2 = cap s1"
    using extend assms(2,3) by metis
  then show ?thesis using s1 by (auto simp: run_steps_append)
qed

lemma rounds_ok:
  "playing s xs 0 \<Longrightarrow> length xs + length cs \<le> cap s \<Longrightarrow> list_all plain cs \<Longrightarrow>
   \<exists>s'. run_steps click (rounds_from xs cs) s = Some s' \<and> playing s' (xs @ cs) 0 \<and>
     turn s' = (turn s \<noteq> odd (length cs)) \<and> cap s' = cap s"
proof (induction cs arbitrary: xs s)
  case Nil
  then show ?case by simp
next
  case (Cons c cs)
  obtain s1 where s1: "run_steps click (xs @ [c]) s = Some s1" "playing s1 (xs @ [c]) 0"
      "turn s1 = (\<not> turn s)" "cap s1 = cap s"
    using round_ok [of s xs c] Cons.prems by auto
  obtain s2 where s2: "run_steps click (rounds_from (xs @ [c]) cs) s1 = Some s2" "playing s2 ((xs @ [c]) @ cs) 0"
      "turn s2 = (turn s1 \<noteq> odd (length cs))" "cap s2 = cap s1"
    using Cons.IH [OF s1(2)] Cons.prems s1(4) by auto
  have "run_steps click (rounds_from xs (c # cs)) s = Some s2"
    using s1(1) s2(1) run_steps_append [of click "xs @ [c]" "rounds_from (xs @ [c]) cs" s] by simp
  then show ?case using s1 s2 by auto
qed

end

section \<open>The invariant of the game\<close>

definition live :: "('d, 'z) game_st_scheme \<Rightarrow> button_click_t list \<Rightarrow> bool" where
  "live s xs \<longleftrightarrow> \<not> game_end s \<and> blk_holds (buttons s) (nat (max_buttons_size s)) xs \<and> 0 \<le> max_buttons_size s \<and>
     buttons_size s = int (length xs) \<and> 0 \<le> guessed s \<and> guessed s \<le> buttons_size s \<and>
     list_all (\<lambda>c. c \<noteq> NO_BUTTON) xs"

definition over :: "('d, 'z) game_st_scheme \<Rightarrow> bool" where
  "over s \<longleftrightarrow> game_end s \<and> buttons s = Freed"

definition game_inv :: "('d, 'z) game_st_scheme \<Rightarrow> bool" where
  "game_inv s \<longleftrightarrow> ((\<exists>xs. live s xs) \<or> over s) \<and> - 1 \<le> time_left_for_click s \<and> time_left_for_click s \<le> 6"

text \<open>What the helpers do to the fields the invariant reads.\<close>

lemma alarm_fields [simp]:
  "game_end (set_timed_alarm E n s) = game_end s" "buttons (set_timed_alarm E n s) = buttons s"
  "ws (set_timed_alarm E n s) = ws s" "time_left_for_click (set_timed_alarm E n s) = time_left_for_click s"
  "player_score (set_timed_alarm E n s) = player_score s" "VS_was_pressed (set_timed_alarm E n s) = VS_was_pressed s"
  "mouse (set_timed_alarm E n s) = mouse s" "mode (set_timed_alarm E n s) = mode s"
  "is_player_1 (set_timed_alarm E n s) = is_player_1 s"
  for s :: "('d, 'z) game_st_scheme"
  by (subst timed_alarm.cmd_state, simp)+

lemma seconds_alarm_fields [simp]:
  "game_end (set_seconds_alarm E s) = game_end s" "buttons (set_seconds_alarm E s) = buttons s"
  "ws (set_seconds_alarm E s) = ws s" "time_left_for_click (set_seconds_alarm E s) = time_left_for_click s"
  "player_score (set_seconds_alarm E s) = player_score s" "leaderboard (set_seconds_alarm E s) = leaderboard s"
  for s :: "('d, 'z) game_st_scheme"
  by (subst seconds_alarm.cmd_state, simp)+

lemma end_game_live:
  "blk_holds (buttons s) n xs \<Longrightarrow>
   end_game E s = Some (set_timed_alarm E 5 (s\<lparr>game_end := True, buttons := Freed\<rparr>))"
  by (simp add: end_game_def blk_holds_free)

lemma end_game_over: "buttons s = Freed \<Longrightarrow> end_game E s = None"
  by (simp add: end_game_def)

text \<open>The outcome of the draw for the next round, and \<open>is_VS_round\<close> in terms of it.\<close>

definition next_vs :: "'d env \<Rightarrow> ('d, 'z) machine_scheme \<Rightarrow> bool" where
  "next_vs E s \<longleftrightarrow> (fst (rand E (dev s)) smod 10) smod 2 = 0"

lemma is_VS_round_eq:
  "is_VS_round E s = s\<lparr>dev := snd (rand E (dev s)), VS_was_pressed := False, is_vs_round := next_vs E s\<rparr>"
  by (simp add: is_VS_round_def next_vs_def Let_def split_beta)

lemma push_button_live:
  assumes "live s xs" and "int (length xs) < max_buttons_size s" and "c \<noteq> NO_BUTTON"
  shows "\<exists>b. push_button c s = Some (s\<lparr>buttons := b, buttons_size := buttons_size s + 1\<rparr>) \<and>
    blk_holds b (nat (max_buttons_size s)) (xs @ [c])"
proof -
  have "length xs < nat (max_buttons_size s)" using assms(2) by linarith
  then obtain b where "blk_write (buttons s) (int (length xs)) c = Some b" "blk_holds b (nat (max_buttons_size s)) (xs @ [c])"
    using blk_holds_write assms(1) unfolding live_def by metis
  then show ?thesis using assms(1) by (intro exI [of _ b]) (simp add: push_button_def live_def)
qed

lemma push_button_full:
  assumes "live s xs" and "int (length xs) = max_buttons_size s"
  shows "push_button c s = None"
proof -
  have "blk_write (buttons s) (int (length xs)) c = None"
    using assms by (intro blk_write_None) (auto simp: live_def)
  then show ?thesis using assms(1) by (simp add: push_button_def live_def)
qed

lemma live_length: "live s xs \<Longrightarrow> int (length xs) \<le> max_buttons_size s"
  by (auto simp: live_def blk_holds_def)

lemma live_frame [simp]:
  "live (s\<lparr>player_score := n\<rparr>) xs \<longleftrightarrow> live s xs" "live (s\<lparr>VS_was_pressed := v\<rparr>) xs \<longleftrightarrow> live s xs"
  "live (s\<lparr>is_vs_round := v\<rparr>) xs \<longleftrightarrow> live s xs" "live (s\<lparr>is_player_1 := v\<rparr>) xs \<longleftrightarrow> live s xs"
  "live (s\<lparr>time_left_for_click := n\<rparr>) xs \<longleftrightarrow> live s xs" "live (s\<lparr>mouse := m\<rparr>) xs \<longleftrightarrow> live s xs"
  "live (s\<lparr>ps := p\<rparr>) xs \<longleftrightarrow> live s xs" "live (s\<lparr>dev := d\<rparr>) xs \<longleftrightarrow> live s xs" "live (s\<lparr>ws := w\<rparr>) xs \<longleftrightarrow> live s xs"
  by (simp_all add: live_def)

section \<open>A click, branch by branch\<close>

lemma click_guess_right:
  assumes l: "live s xs" and k: "guessed s = int k" "k < length xs" and v: "\<not> VS_was_pressed s"
  shows "click_button E (xs ! k) s =
    Some (s\<lparr>guessed := int k + 1, time_left_for_click := if Suc k = length xs then - 1 else INTERVAL\<rparr>)"
proof -
  have "blk_read (buttons s) (int k) = Some (xs ! k)"
    using l k(2) blk_holds_read [of "buttons s" "nat (max_buttons_size s)" xs "int k"] by (simp add: live_def)
  moreover have "xs ! k \<noteq> NO_BUTTON" using l k(2) by (simp add: live_def list_all_length)
  moreover have "int k + 1 = int (length xs) \<longleftrightarrow> Suc k = length xs" by linarith
  ultimately show ?thesis using l k v by (simp add: click_button_def live_def)
qed

lemma click_guess_wrong:
  assumes l: "live s xs" and k: "guessed s = int k" "k < length xs" and v: "\<not> VS_was_pressed s"
    and c: "c \<noteq> NO_BUTTON" "c \<noteq> xs ! k"
  shows "click_button E c s = Some (set_timed_alarm E 5 ((get_winner s)\<lparr>game_end := True, buttons := Freed\<rparr>))"
proof -
  have "blk_read (buttons s) (int k) = Some (xs ! k)"
    using l k(2) blk_holds_read [of "buttons s" "nat (max_buttons_size s)" xs "int k"] by (simp add: live_def)
  moreover have "end_game E (get_winner s) =
      Some (set_timed_alarm E 5 ((get_winner s)\<lparr>game_end := True, buttons := Freed\<rparr>))"
    using l by (intro end_game_live) (auto simp: live_def get_winner_def)
  ultimately show ?thesis using l k v c by (simp add: click_button_def live_def)
qed

lemma click_tie:
  assumes l: "live s xs" and g: "guessed s = max_buttons_size s" and c: "c \<noteq> NO_BUTTON"
  shows "click_button E c s = Some (set_timed_alarm E 5
    (s\<lparr>player_score := max_buttons_size s, ws := TIE, game_end := True, buttons := Freed\<rparr>))"
proof -
  have sz: "buttons_size s = max_buttons_size s"
    using l g live_length [OF l] by (simp add: live_def)
  have "end_game E (s\<lparr>player_score := max_buttons_size s, ws := TIE\<rparr>) = Some (set_timed_alarm E 5
    (s\<lparr>player_score := max_buttons_size s, ws := TIE, game_end := True, buttons := Freed\<rparr>))"
    using l end_game_live [of "s\<lparr>player_score := max_buttons_size s, ws := TIE\<rparr>" "nat (max_buttons_size s)" xs E]
    by (simp add: live_def)
  then show ?thesis using g sz c by (simp add: click_button_def)
qed

lemma click_extend:
  assumes l: "live s xs" and g: "guessed s = buttons_size s" and n: "int (length xs) < max_buttons_size s"
    and v: "\<not> VS_was_pressed s" and c: "c \<noteq> NO_BUTTON" "\<not> (is_vs_round s \<and> c = VS_B)"
  shows "\<exists>b d. click_button E c s =
      Some (s\<lparr>dev := d, player_score := int (length xs), buttons := b, buttons_size := int (length xs) + 1, guessed := 0,
              is_player_1 := \<not> is_player_1 s, time_left_for_click := INTERVAL, VS_was_pressed := False,
              is_vs_round := next_vs E s\<rparr>) \<and>
    blk_holds b (nat (max_buttons_size s)) (xs @ [c])"
proof -
  let ?s = "s\<lparr>player_score := buttons_size s\<rparr>"
  have "live ?s xs" "int (length xs) < max_buttons_size ?s" using l n by simp_all
  from push_button_live [OF this c(1)] obtain b where
    b: "push_button c ?s = Some (?s\<lparr>buttons := b, buttons_size := buttons_size s + 1\<rparr>)"
       "blk_holds b (nat (max_buttons_size s)) (xs @ [c])" by auto
  have sz: "buttons_size s = int (length xs)" "guessed s \<noteq> max_buttons_size s" using l n g by (auto simp: live_def)
  show ?thesis
    by (intro exI [of _ b] exI [of _ "snd (rand E (dev s))"] conjI b(2))
      (use b(1) g sz v c in \<open>auto simp: click_button_def is_VS_round_eq next_vs_def Let_def\<close>)
qed

lemma click_vs_start:
  assumes l: "live s xs" and g: "guessed s = buttons_size s" and n: "int (length xs) < max_buttons_size s"
    and v: "\<not> VS_was_pressed s" "is_vs_round s"
  shows "\<exists>b. click_button E VS_B s =
      Some (s\<lparr>player_score := int (length xs), VS_was_pressed := True, buttons := b,
              buttons_size := int (length xs) + 1, time_left_for_click := VS_INTERVAL\<rparr>) \<and>
    blk_holds b (nat (max_buttons_size s)) (xs @ [VS_B])"
proof -
  let ?s = "s\<lparr>player_score := buttons_size s, VS_was_pressed := True\<rparr>"
  have "live ?s xs" "int (length xs) < max_buttons_size ?s" using l n by simp_all
  from push_button_live [OF this, of VS_B] obtain b where
    b: "push_button VS_B ?s = Some (?s\<lparr>buttons := b, buttons_size := buttons_size s + 1\<rparr>)"
       "blk_holds b (nat (max_buttons_size s)) (xs @ [VS_B])" by auto
  have sz: "buttons_size s = int (length xs)" "guessed s \<noteq> max_buttons_size s" using l n g by (auto simp: live_def)
  show ?thesis
    by (intro exI [of _ b] conjI b(2)) (use b(1) g sz v in \<open>auto simp: click_button_def Let_def\<close>)
qed

lemma click_vs_more:
  assumes l: "live s xs" and n: "int (length xs) < max_buttons_size s"
    and v: "VS_was_pressed s" and c: "c \<noteq> NO_BUTTON"
  shows "\<exists>b. click_button E c s =
      Some (s\<lparr>player_score := if guessed s = buttons_size s then int (length xs) else player_score s,
              buttons := b, buttons_size := int (length xs) + 1, guessed := 0\<rparr>) \<and>
    blk_holds b (nat (max_buttons_size s)) (xs @ [c])"
proof -
  let ?s = "s\<lparr>player_score := if guessed s = buttons_size s then int (length xs) else player_score s\<rparr>"
  have "live ?s xs" "int (length xs) < max_buttons_size ?s" using l n by simp_all
  from push_button_live [OF this c] obtain b where
    b: "push_button c ?s = Some (?s\<lparr>buttons := b, buttons_size := buttons_size s + 1\<rparr>)"
       "blk_holds b (nat (max_buttons_size s)) (xs @ [c])" by auto
  have sz: "buttons_size s = int (length xs)" "guessed s \<noteq> max_buttons_size s" using l n by (auto simp: live_def)
  have "(if guessed s = buttons_size s then s\<lparr>player_score := buttons_size s\<rparr> else s) = ?s" using sz by simp
  then show ?thesis using b sz v c
    by (intro exI [of _ b] conjI b(2)) (cases "guessed s = buttons_size s"; simp add: click_button_def Let_def)
qed

lemma click_vs_overflow:
  assumes l: "live s xs" and n: "int (length xs) = max_buttons_size s" and g: "guessed s \<noteq> max_buttons_size s"
    and v: "VS_was_pressed s" and c: "c \<noteq> NO_BUTTON"
  shows "click_button E c s = None"
proof -
  have "push_button c s = None" using push_button_full [OF l n] .
  moreover have "guessed s \<noteq> buttons_size s" using l n g by (simp add: live_def)
  ultimately show ?thesis using g v c by (simp add: click_button_def)
qed

section \<open>Refinement of the rules\<close>

text \<open>
  The game as its rules state it, with no memory to manage: the sequence is a list, the number
  of rounds a bound on it, and the draw for a versus round an input. While the versus mode is
  on, every button goes to the sequence and only the clock ends the turn.
\<close>

record simon =
  sim_seq :: "button_click_t list"
  sim_pos :: nat
  sim_p1 :: bool
  sim_clock :: int
  sim_score :: int
  sim_vs :: bool
  sim_vs_on :: bool

datatype simon_state = Playing simon | Over Winners int

definition spec_click :: "nat \<Rightarrow> bool \<Rightarrow> button_click_t \<Rightarrow> simon \<Rightarrow> simon_state" where
  "spec_click n vs c g =
     (if sim_pos g = n then Over TIE (int n)
      else if sim_vs_on g then
        Playing (g\<lparr>sim_score := (if sim_pos g = length (sim_seq g) then int (sim_pos g) else sim_score g),
                   sim_seq := sim_seq g @ [c], sim_pos := 0\<rparr>)
      else if sim_pos g < length (sim_seq g) then
        if sim_seq g ! sim_pos g = c then
          Playing (g\<lparr>sim_pos := Suc (sim_pos g),
                     sim_clock := (if Suc (sim_pos g) = length (sim_seq g) then - 1 else INTERVAL)\<rparr>)
        else Over (if sim_p1 g then WINNER2 else WINNER1) (sim_score g)
      else if sim_vs g \<and> c = VS_B then
        Playing (g\<lparr>sim_score := int (length (sim_seq g)), sim_seq := sim_seq g @ [c], sim_vs_on := True,
                   sim_clock := VS_INTERVAL\<rparr>)
      else
        Playing (g\<lparr>sim_score := int (length (sim_seq g)), sim_seq := sim_seq g @ [c], sim_pos := 0,
                   sim_p1 := \<not> sim_p1 g, sim_clock := INTERVAL, sim_vs := vs, sim_vs_on := False\<rparr>))"

fun blk_vals :: "'a block \<Rightarrow> nat \<Rightarrow> 'a list" where
  "blk_vals (Alloc cs) n = map the (take n cs)"
| "blk_vals _ n = []"

lemma blk_vals_holds: "blk_holds b n xs \<Longrightarrow> blk_vals b (length xs) = xs"
  by (auto simp: blk_holds_def comp_def)

definition abs_simon :: "('d, 'z) game_st_scheme \<Rightarrow> simon" where
  "abs_simon s = \<lparr>sim_seq = blk_vals (buttons s) (nat (buttons_size s)), sim_pos = nat (guessed s),
     sim_p1 = is_player_1 s, sim_clock = time_left_for_click s, sim_score = player_score s,
     sim_vs = is_vs_round s, sim_vs_on = VS_was_pressed s\<rparr>"

definition abs_game :: "('d, 'z) game_st_scheme \<Rightarrow> simon_state" where
  "abs_game s = (if game_end s then Over (ws s) (player_score s) else Playing (abs_simon s))"

text \<open>The one click that has no outcome: a versus round that has filled the sequence.\<close>

definition vs_overflow :: "('d, 'z) game_st_scheme \<Rightarrow> bool" where
  "vs_overflow s \<longleftrightarrow> VS_was_pressed s \<and> buttons_size s = max_buttons_size s \<and> guessed s \<noteq> max_buttons_size s"

lemma abs_seq: "live s xs \<Longrightarrow> sim_seq (abs_simon s) = xs"
  using blk_vals_holds [of "buttons s" "nat (max_buttons_size s)" xs] by (simp add: abs_simon_def live_def)

lemma blk_vals_snoc: "blk_holds b n (xs @ [c]) \<Longrightarrow> blk_vals b (Suc (length xs)) = xs @ [c]"
  using blk_vals_holds [of b n "xs @ [c]"] by simp

lemmas abs_defs = abs_game_def abs_simon_def spec_click_def

lemma live_facts:
  assumes "live s xs"
  shows "\<not> game_end s" "0 \<le> max_buttons_size s" "buttons_size s = int (length xs)" "0 \<le> guessed s"
    "guessed s \<le> int (length xs)" "int (length xs) \<le> max_buttons_size s" "list_all (\<lambda>c. c \<noteq> NO_BUTTON) xs"
    "blk_vals (buttons s) (length xs) = xs"
  using assms live_length [OF assms] blk_vals_holds [of "buttons s"] by (auto simp: live_def)

text \<open>A click that adds a button: in a versus round, at its start, and at the end of the sequence.\<close>

lemma click_refines_versus:
  assumes l: "live s xs" and c: "c \<noteq> NO_BUTTON"
    and v: "guessed s \<noteq> max_buttons_size s" "VS_was_pressed s" "int (length xs) < max_buttons_size s"
  shows "\<exists>s'. click_button E c s = Some s' \<and> ((\<exists>ys. live s' ys) \<or> over s') \<and>
    abs_game s' = spec_click (nat (max_buttons_size s)) (next_vs E s) c (abs_simon s)"
proof -
  note f = live_facts [OF l]
  obtain b where b: "click_button E c s =
      Some (s\<lparr>player_score := if guessed s = buttons_size s then int (length xs) else player_score s,
            buttons := b, buttons_size := int (length xs) + 1, guessed := 0\<rparr>)"
      "blk_holds b (nat (max_buttons_size s)) (xs @ [c])"
    using click_vs_more [OF l v(3,2) c] by blast
  have "nat (guessed s) \<noteq> nat (max_buttons_size s)" "nat (guessed s) = length xs \<longleftrightarrow> guessed s = int (length xs)"
    using v f by linarith+
  then show ?thesis using b blk_vals_snoc [OF b(2)] f v(2) c by (auto simp: abs_defs live_def nat_add_distrib)
qed

lemma click_refines_extend:
  assumes l: "live s xs" and c: "c \<noteq> NO_BUTTON"
    and e: "\<not> VS_was_pressed s" "guessed s = int (length xs)" "int (length xs) < max_buttons_size s"
  shows "\<exists>s'. click_button E c s = Some s' \<and> ((\<exists>ys. live s' ys) \<or> over s') \<and>
    abs_game s' = spec_click (nat (max_buttons_size s)) (next_vs E s) c (abs_simon s)"
proof (cases "is_vs_round s \<and> c = VS_B")
  case True
  note f = live_facts [OF l]
  obtain b where b: "click_button E VS_B s =
    Some (s\<lparr>player_score := int (length xs), VS_was_pressed := True, buttons := b,
            buttons_size := int (length xs) + 1, time_left_for_click := VS_INTERVAL\<rparr>)"
      "blk_holds b (nat (max_buttons_size s)) (xs @ [VS_B])"
    using click_vs_start [OF l, of E] e f(3) True by auto
  have "length xs \<noteq> nat (max_buttons_size s)" using e by linarith
  then show ?thesis using b blk_vals_snoc [OF b(2)] f e True by (auto simp: abs_defs live_def nat_add_distrib)
next
  case False
  note f = live_facts [OF l]
  obtain b d where b: "click_button E c s =
    Some (s\<lparr>dev := d, player_score := int (length xs), buttons := b, buttons_size := int (length xs) + 1, guessed := 0,
            is_player_1 := \<not> is_player_1 s, time_left_for_click := INTERVAL, VS_was_pressed := False,
            is_vs_round := next_vs E s\<rparr>)"
      "blk_holds b (nat (max_buttons_size s)) (xs @ [c])"
    using click_extend [OF l _ _ e(1) c False, of E] e f(3) by auto
  have "length xs \<noteq> nat (max_buttons_size s)" using e by linarith
  then show ?thesis using b blk_vals_snoc [OF b(2)] f e False c by (auto simp: abs_defs live_def nat_add_distrib)
qed

lemma click_refines:
  assumes l: "live s xs" and c: "c \<noteq> NO_BUTTON" and o: "\<not> vs_overflow s"
  shows "\<exists>s'. click_button E c s = Some s' \<and> ((\<exists>ys. live s' ys) \<or> over s') \<and>
    abs_game s' = spec_click (nat (max_buttons_size s)) (next_vs E s) c (abs_simon s)"
proof -
  note f = live_facts [OF l]
  define k where "k = nat (guessed s)"
  have k: "guessed s = int k" "k \<le> length xs" using f by (auto simp: k_def)
  consider (tie) "guessed s = max_buttons_size s"
    | (versus) "guessed s \<noteq> max_buttons_size s" "VS_was_pressed s" "int (length xs) < max_buttons_size s"
    | (right) "\<not> VS_was_pressed s" "k < length xs" "c = xs ! k"
    | (wrong) "\<not> VS_was_pressed s" "k < length xs" "c \<noteq> xs ! k"
    | (extend) "\<not> VS_was_pressed s" "guessed s = int (length xs)" "int (length xs) < max_buttons_size s"
    using f k o by (fastforce simp: vs_overflow_def)
  then show ?thesis
  proof cases
    case tie
    then show ?thesis using click_tie [OF l tie c, of E] f k by (simp add: abs_defs over_def)
  next
    case right
    then show ?thesis using click_guess_right [OF l k(1) right(2,1), of E] l f k
      by (auto simp: abs_defs live_def nat_add_distrib)
  next
    case wrong
    then show ?thesis using click_guess_wrong [OF l k(1) wrong(2,1) c wrong(3), of E] f k
      by (simp add: abs_defs over_def get_winner_def)
  qed (use click_refines_versus [OF l c] click_refines_extend [OF l c] in blast)+
qed

text \<open>Exactly one click has no defined outcome while the game is on.\<close>

lemma click_undefined_iff:
  "live s xs \<Longrightarrow> click_button E c s = None \<longleftrightarrow> c \<noteq> NO_BUTTON \<and> vs_overflow s"
proof (cases "c = NO_BUTTON")
  case True
  then show ?thesis by (simp add: click_button_def)
next
  case False
  assume l: "live s xs"
  show ?thesis
  proof (cases "vs_overflow s")
    case True
    then have "int (length xs) = max_buttons_size s" using l by (simp add: vs_overflow_def live_def)
    then show ?thesis using click_vs_overflow [OF l] True False by (simp add: vs_overflow_def)
  next
    case o: False
    then show ?thesis using click_refines [OF l False o, of E] by auto
  qed
qed

section \<open>A game without a mistake\<close>

definition repeating :: "('d, 'z) game_st_scheme \<Rightarrow> button_click_t list \<Rightarrow> nat \<Rightarrow> bool" where
  "repeating s xs k \<longleftrightarrow> live s xs \<and> guessed s = int k \<and> \<not> VS_was_pressed s"

interpretation local_game: simon_turn "click_button E :: _ \<Rightarrow> ('d, 'z) game_st_scheme \<Rightarrow> _" repeating is_player_1 "\<lambda>s. nat (max_buttons_size s)"
proof unfold_locales
  fix s :: "('d, 'z) game_st_scheme" and xs k
  assume "repeating s xs k" and k: "k < length xs"
  then have l: "live s xs" and g: "guessed s = int k" and v: "\<not> VS_was_pressed s" by (simp_all add: repeating_def)
  let ?s = "s\<lparr>guessed := int k + 1, time_left_for_click := if Suc k = length xs then - 1 else INTERVAL\<rparr>"
  have "repeating ?s xs (Suc k)" using l k v by (simp add: repeating_def live_def)
  then show "\<exists>s'. click_button E (xs ! k) s = Some s' \<and> repeating s' xs (Suc k) \<and>
      is_player_1 s' = is_player_1 s \<and> nat (max_buttons_size s') = nat (max_buttons_size s)"
    using click_guess_right [OF l g k v, of E] by simp
next
  fix s :: "('d, 'z) game_st_scheme" and xs c
  assume "repeating s xs (length xs)" and n: "length xs < nat (max_buttons_size s)" and c: "plain c"
  then have l: "live s xs" and g: "guessed s = buttons_size s" and v: "\<not> VS_was_pressed s"
    by (simp_all add: repeating_def live_def)
  have "int (length xs) < max_buttons_size s" using n by linarith
  then obtain b d where b: "click_button E c s =
      Some (s\<lparr>dev := d, player_score := int (length xs), buttons := b, buttons_size := int (length xs) + 1, guessed := 0,
              is_player_1 := \<not> is_player_1 s, time_left_for_click := INTERVAL, VS_was_pressed := False,
              is_vs_round := next_vs E s\<rparr>)"
      "blk_holds b (nat (max_buttons_size s)) (xs @ [c])"
    using click_extend [OF l g _ v, of c E] c by (auto simp: plain_def)
  show "\<exists>s'. click_button E c s = Some s' \<and> repeating s' (xs @ [c]) 0 \<and>
      is_player_1 s' = (\<not> is_player_1 s) \<and> nat (max_buttons_size s') = nat (max_buttons_size s)"
    using b l c by (auto simp: repeating_def live_def plain_def)
qed

lemma reset_game_repeating:
  assumes "malloc E (n * 4) (dev s) \<noteq> None" and "0 \<le> n"
  shows "repeating (reset_game E n s) [] 0" "max_buttons_size (reset_game E n s) = n"
    "is_player_1 (reset_game E n s)" "game_inv (reset_game E n s)"
  using assms
  by (auto simp: repeating_def live_def reset_game_def is_VS_round_eq Let_def blk_malloc_def blk_holds_def game_inv_def)

section \<open>The handlers as one machine\<close>

datatype game_event = Ev_mouse packet | Ev_key key_press | Ev_timer | Ev_rtc

fun game_step :: "'d env \<Rightarrow> game_event \<Rightarrow> ('d, 'z) game_st_scheme \<Rightarrow> ('d, 'z) game_st_scheme option" where
  "game_step E (Ev_mouse pk) s = game_update_status_mouse E pk s"
| "game_step E (Ev_key k) s = Some (game_update_status_key k s)"
| "game_step E Ev_timer s = Some (game_update_status_timer s)"
| "game_step E Ev_rtc s = game_update_status_rtc E s"

text \<open>
  The two events the code does not survive: a click that overflows a versus round, and a tick
  of the clock after a game that was lost with no time left, which releases the sequence again.
\<close>

definition stale_timeout :: "('d, 'z) game_st_scheme \<Rightarrow> bool" where
  "stale_timeout s \<longleftrightarrow> game_end s \<and> time_left_for_click s = 0 \<and> \<not> VS_was_pressed s"

fun survivable :: "game_event \<Rightarrow> ('d, 'z) game_st_scheme \<Rightarrow> bool" where
  "survivable (Ev_mouse pk) s \<longleftrightarrow> game_end s \<or> \<not> vs_overflow s"
| "survivable Ev_rtc s \<longleftrightarrow> \<not> stale_timeout s"
| "survivable _ s \<longleftrightarrow> True"

lemma over_frame [simp]:
  "over (s\<lparr>mode := m\<rparr>) \<longleftrightarrow> over s" "over (s\<lparr>ps := p\<rparr>) \<longleftrightarrow> over s" "over (s\<lparr>mouse := x\<rparr>) \<longleftrightarrow> over s"
  "over (s\<lparr>newWinner := w\<rparr>) \<longleftrightarrow> over s" "over (s\<lparr>new_hiscore := b\<rparr>) \<longleftrightarrow> over s" "over (s\<lparr>dev := d\<rparr>) \<longleftrightarrow> over s"
  "live (s\<lparr>mode := m\<rparr>) xs \<longleftrightarrow> live s xs" "live (s\<lparr>newWinner := w\<rparr>) xs \<longleftrightarrow> live s xs"
  "live (s\<lparr>new_hiscore := b\<rparr>) xs \<longleftrightarrow> live s xs"
  by (simp_all add: over_def live_def)

lemma game_inv_frame [simp]:
  "game_inv (s\<lparr>mode := m\<rparr>) \<longleftrightarrow> game_inv s" "game_inv (s\<lparr>ps := p\<rparr>) \<longleftrightarrow> game_inv s"
  "game_inv (s\<lparr>mouse := x\<rparr>) \<longleftrightarrow> game_inv s" "game_inv (s\<lparr>newWinner := w\<rparr>) \<longleftrightarrow> game_inv s"
  "game_inv (s\<lparr>new_hiscore := b\<rparr>) \<longleftrightarrow> game_inv s" "game_inv (s\<lparr>dev := d\<rparr>) \<longleftrightarrow> game_inv s"
  by (simp_all add: game_inv_def)

lemma light_button_frame: "\<exists>p. light_button c s = s\<lparr>ps := p\<rparr>"
  by (cases c) (auto simp: light_button_def)

lemma game_inv_light_button [simp]: "game_inv (light_button c s) \<longleftrightarrow> game_inv s"
  using light_button_frame [of c s] by auto

lemma checkNewHiScore_inv [simp]: "game_inv (checkNewHiScore s) \<longleftrightarrow> game_inv s"
  by (simp add: checkNewHiScore_def reset_hiscore_def create_name_box_def)

text \<open>The clock of a state after a click: kept, stopped, or set to one of the two intervals.\<close>

lemma spec_clock: "spec_click n vs c g = Playing g' \<Longrightarrow>
  sim_clock g' \<in> {sim_clock g, - 1, INTERVAL, VS_INTERVAL}"
  by (auto simp: spec_click_def split: if_splits)

lemma end_game_clock: "end_game E s = Some s' \<Longrightarrow> time_left_for_click s' = time_left_for_click s"
  by (auto simp: end_game_def Let_def split: Option.bind_splits)

lemma click_clock:
  assumes "click_button E c s = Some s'"
  shows "time_left_for_click s' \<in> {time_left_for_click s, - 1, INTERVAL, VS_INTERVAL}"
  using assms
  by (auto simp: click_button_def push_button_def is_VS_round_eq get_winner_def Let_def
      split: if_splits Option.bind_splits dest!: end_game_clock)

lemma click_inv:
  assumes i: "game_inv s" and g: "\<not> game_end s" and o: "\<not> vs_overflow s"
  shows "\<exists>s'. click_button E c s = Some s' \<and> game_inv s'"
proof (cases "c = NO_BUTTON")
  case True
  then show ?thesis using i by (simp add: click_button_def)
next
  case False
  obtain xs where l: "live s xs" using i g by (auto simp: game_inv_def over_def)
  obtain s' where s': "click_button E c s = Some s'" "(\<exists>ys. live s' ys) \<or> over s'"
    using click_refines [OF l False o] by blast
  have "- 1 \<le> time_left_for_click s' \<and> time_left_for_click s' \<le> 6"
    using click_clock [OF s'(1)] i by (auto simp: game_inv_def intervals)
  then show ?thesis using s' by (auto simp: game_inv_def)
qed

lemma mouse_inv_step:
  assumes i: "game_inv s" and o: "game_end s \<or> \<not> vs_overflow s"
  shows "\<exists>s'. game_update_status_mouse E pk s = Some s' \<and> game_inv s'"
proof (cases "game_end s")
  case True
  then show ?thesis using i by (simp add: game_update_status_mouse_def)
next
  case False
  let ?s = "s\<lparr>mouse := press_mouse pk (move_mouse pk (mouse s))\<rparr>"
  let ?c = "if left_click (mouse ?s) then get_button_click ?s else NO_BUTTON"
  have "\<not> vs_overflow ?s" using o False by (simp add: vs_overflow_def)
  then obtain s' where "click_button E ?c ?s = Some s'" "game_inv s'"
    using click_inv [of ?s E ?c] i False by auto
  then show ?thesis using False by (simp add: game_update_status_mouse_def Let_def)
qed

lemma rtc_inv_step:
  assumes i: "game_inv s" and t: "\<not> stale_timeout s"
  shows "\<exists>s'. game_update_status_rtc E s = Some s' \<and> game_inv s'"
proof -
  have fin: "game_inv (if game_end s then let s = set_seconds_alarm E s in
      if ws s = TIE then s\<lparr>mode := LEADERBOARD\<rparr> else checkNewHiScore s else s)" if "game_inv s" for s :: "('a, 'b) game_st_scheme"
    using that by (subst seconds_alarm.cmd_state) (simp add: Let_def)
  have "\<exists>s1. (if time_left_for_click s = 0 \<and> \<not> VS_was_pressed s then end_game E (get_winner s)
      else if time_left_for_click s = 0 \<and> is_vs_round s \<and> VS_was_pressed s
      then Some (is_VS_round E (s\<lparr>is_player_1 := \<not> is_player_1 s, time_left_for_click := INTERVAL\<rparr>))
      else if time_left_for_click s > 0 then Some (s\<lparr>time_left_for_click := time_left_for_click s - 1\<rparr>)
      else Some s) = Some s1 \<and> game_inv s1"
  proof (cases "time_left_for_click s = 0 \<and> \<not> VS_was_pressed s")
    case True
    then obtain xs where l: "live s xs" using i t by (auto simp: game_inv_def stale_timeout_def over_def)
    then have "end_game E (get_winner s) = Some (set_timed_alarm E 5 ((get_winner s)\<lparr>game_end := True, buttons := Freed\<rparr>))"
      by (intro end_game_live) (auto simp: live_def get_winner_def)
    then show ?thesis using True by (simp add: game_inv_def over_def get_winner_def)
  next
    case False
    then show ?thesis using i by (auto simp: game_inv_def is_VS_round_eq intervals over_def live_def)
  qed
  then show ?thesis using fin unfolding game_update_status_rtc_def by fastforce
qed

interpretation game_machine: safe_machine "game_step E :: _ \<Rightarrow> ('d, 'z) game_st_scheme \<Rightarrow> _" game_inv survivable
proof
  fix s :: "('d, 'z) game_st_scheme" and e
  assume i: "game_inv s" and a: "survivable e s"
  show "\<exists>s'. game_step E e s = Some s' \<and> game_inv s'"
  proof (cases e)
    case (Ev_mouse pk)
    then show ?thesis using mouse_inv_step [OF i] a by simp
  next
    case (Ev_key k)
    then show ?thesis using i by (simp add: game_update_status_key_def)
  next
    case Ev_timer
    then show ?thesis using i by (simp add: game_update_status_timer_def)
  next
    case Ev_rtc
    then show ?thesis using rtc_inv_step [OF i] a by simp
  qed
qed

text \<open>A tick after such an end is a second \<open>free\<close> of the sequence.\<close>

lemma rtc_undefined_iff: "game_inv s \<Longrightarrow> game_update_status_rtc E s = None \<longleftrightarrow> stale_timeout s"
proof (cases "stale_timeout s")
  case True
  assume "game_inv s"
  then have "buttons (get_winner s) = Freed" using True
    by (auto simp: game_inv_def stale_timeout_def over_def live_def get_winner_def)
  then have "end_game E (get_winner s) = None" by (rule end_game_over)
  then show ?thesis using True by (simp add: game_update_status_rtc_def stale_timeout_def)
next
  case False
  assume "game_inv s"
  then show ?thesis using rtc_inv_step [of s E] False by auto
qed

section \<open>The countdown\<close>

definition rtc_ticks :: "'d env \<Rightarrow> nat \<Rightarrow> ('d, 'z) game_st_scheme \<Rightarrow> ('d, 'z) game_st_scheme option" where
  "rtc_ticks E n s = run_steps (\<lambda>_. game_update_status_rtc E) (replicate n ()) s"

lemma rtc_ticks_simps [simp]:
  "rtc_ticks E 0 s = Some s"
  "rtc_ticks E (Suc n) s = Option.bind (game_update_status_rtc E s) (rtc_ticks E n)"
  by (simp_all add: rtc_ticks_def [abs_def])

lemma rtc_counts_down:
  assumes "\<not> game_end s" and "0 < time_left_for_click s"
  shows "game_update_status_rtc E s = Some (s\<lparr>time_left_for_click := time_left_for_click s - 1\<rparr>)"
  using assms by (simp add: game_update_status_rtc_def)

lemma rtc_ticks_count:
  "\<not> game_end s \<Longrightarrow> time_left_for_click s = int t \<Longrightarrow> rtc_ticks E t s = Some (s\<lparr>time_left_for_click := 0\<rparr>)"
proof (induction t arbitrary: s)
  case 0
  then show ?case by simp
next
  case (Suc t)
  then show ?case using Suc.IH [of "s\<lparr>time_left_for_click := int t\<rparr>"]
    by (simp add: rtc_counts_down)
qed

lemma rtc_ticks_add: "rtc_ticks E (m + n) s = Option.bind (rtc_ticks E m s) (rtc_ticks E n)"
  by (simp add: rtc_ticks_def [abs_def] replicate_add run_steps_append)

lemma checkNewHiScore_mode:
  "mode (checkNewHiScore s) = (if getLowestHiScore s < player_score s then HIGHSCORE else LEADERBOARD)"
  by (simp add: checkNewHiScore_def reset_hiscore_def create_name_box_def)

lemma checkNewHiScore_fields [simp]:
  "game_end (checkNewHiScore s) = game_end s" "ws (checkNewHiScore s) = ws s"
  "buttons (checkNewHiScore s) = buttons s"
  by (simp_all add: checkNewHiScore_def reset_hiscore_def create_name_box_def)

lemma rtc_times_out:
  assumes l: "live s xs" and t: "time_left_for_click s = 0" and v: "\<not> VS_was_pressed s"
  shows "\<exists>s'. game_update_status_rtc E s = Some s' \<and> game_end s' \<and> buttons s' = Freed \<and>
    ws s' = (if is_player_1 s then WINNER2 else WINNER1) \<and>
    mode s' = (if getLowestHiScore s < player_score s then HIGHSCORE else LEADERBOARD)"
proof -
  let ?s = "set_timed_alarm E 5 ((get_winner s)\<lparr>game_end := True, buttons := Freed\<rparr>)"
  have e: "end_game E (get_winner s) = Some ?s"
    using l by (intro end_game_live) (auto simp: live_def get_winner_def)
  have w: "ws ?s = (if is_player_1 s then WINNER2 else WINNER1)" by (simp add: get_winner_def)
  then have nt: "ws ?s \<noteq> TIE" by simp
  have lb: "getLowestHiScore (set_seconds_alarm E ?s) = getLowestHiScore s"
    by (subst seconds_alarm.cmd_state, subst timed_alarm.cmd_state) (simp add: getLowestHiScore_def get_winner_def)
  have sc: "player_score ?s = player_score s" by (simp add: get_winner_def)
  have "game_update_status_rtc E s = Some (checkNewHiScore (set_seconds_alarm E ?s))"
    using e t v nt by (simp add: game_update_status_rtc_def Let_def)
  then show ?thesis using w lb sc by (simp add: checkNewHiScore_mode)
qed

section \<open>The cursor\<close>

definition mouse_in_screen :: "mouse_state \<Rightarrow> bool" where
  "mouse_in_screen m \<longleftrightarrow> uint (x_pos m) \<le> 758 \<and> uint (y_pos m) \<le> 556"

lemma move_mouse_x: "x_pos (move_mouse pk m) =
  (if x_ov pk then x_pos m
   else if uint (x_pos m) < - sint (delta_x pk) then 1
   else if uint (x_pos m) + sint (delta_x pk) \<ge> 758 then 758
   else word_of_int (uint (x_pos m) + sint (delta_x pk)))"
  by (simp add: move_mouse_def mouse_consts Let_def)

lemma move_mouse_y: "y_pos (move_mouse pk m) =
  (if y_ov pk then y_pos m
   else if uint (y_pos m) < sint (delta_y pk) then 1
   else if uint (y_pos m) - sint (delta_y pk) \<ge> 556 then 556
   else word_of_int (uint (y_pos m) - sint (delta_y pk)))"
  by (simp add: move_mouse_def mouse_consts Let_def)

lemma move_mouse_in_screen: "mouse_in_screen m \<Longrightarrow> mouse_in_screen (move_mouse pk m)"
  unfolding mouse_in_screen_def move_mouse_x move_mouse_y
  using uint_word_of_int_16 [of "uint (x_pos m) + sint (delta_x pk)"] uint_word_of_int_16 [of "uint (y_pos m) - sint (delta_y pk)"]
  by auto

lemma press_mouse_pos [simp]: "x_pos (press_mouse pk m) = x_pos m" "y_pos (press_mouse pk m) = y_pos m"
  by (simp_all add: press_mouse_def)

text \<open>A packet clicks exactly when it is the first of a press of the left button.\<close>

lemma press_mouse_click:
  "left_click (press_mouse pk m) \<longleftrightarrow> lb pk \<and> \<not> left_hold m" "left_hold (press_mouse pk m) \<longleftrightarrow> lb pk"
  by (simp_all add: press_mouse_def)

section \<open>The buttons\<close>

lemma in_two_discs:
  assumes "in_disc a b m" and "in_disc c d m"
  shows "(a - c)\<^sup>2 + (b - d)\<^sup>2 \<le> 4 * BUTTON_WIDTH\<^sup>2"
proof -
  let ?x = "uint (x_pos m)" and ?y = "uint (y_pos m)"
  have "(a - c)\<^sup>2 + (b - d)\<^sup>2 =
      2 * ((?x - a) * (?x - a) + (?y - b) * (?y - b)) + 2 * ((?x - c) * (?x - c) + (?y - d) * (?y - d))
      - ((2 * ?x - a - c)\<^sup>2 + (2 * ?y - b - d)\<^sup>2)"
    by (simp add: power2_eq_square algebra_simps)
  also have "\<dots> \<le> 2 * (BUTTON_WIDTH * BUTTON_WIDTH) + 2 * (BUTTON_WIDTH * BUTTON_WIDTH) - 0"
    using assms unfolding in_disc_def by (intro diff_mono add_mono mult_left_mono) auto
  finally show ?thesis by (simp add: power2_eq_square)
qed

text \<open>No two discs meet but the red one and the versus one.\<close>

lemma discs_apart:
  "in_disc GREEN_X GREEN_Y m \<Longrightarrow> \<not> in_disc RED_X RED_Y m" "in_disc PURPLE_X PURPLE_Y m \<Longrightarrow> \<not> in_disc RED_X RED_Y m"
  "in_disc BLUE_X BLUE_Y m \<Longrightarrow> \<not> in_disc RED_X RED_Y m" "in_disc YELLOW_X YELLOW_Y m \<Longrightarrow> \<not> in_disc RED_X RED_Y m"
  "in_disc PURPLE_X PURPLE_Y m \<Longrightarrow> \<not> in_disc GREEN_X GREEN_Y m" "in_disc BLUE_X BLUE_Y m \<Longrightarrow> \<not> in_disc GREEN_X GREEN_Y m"
  "in_disc YELLOW_X YELLOW_Y m \<Longrightarrow> \<not> in_disc GREEN_X GREEN_Y m" "in_disc VS_X VS_Y m \<Longrightarrow> \<not> in_disc GREEN_X GREEN_Y m"
  "in_disc BLUE_X BLUE_Y m \<Longrightarrow> \<not> in_disc PURPLE_X PURPLE_Y m" "in_disc YELLOW_X YELLOW_Y m \<Longrightarrow> \<not> in_disc PURPLE_X PURPLE_Y m"
  "in_disc VS_X VS_Y m \<Longrightarrow> \<not> in_disc PURPLE_X PURPLE_Y m" "in_disc YELLOW_X YELLOW_Y m \<Longrightarrow> \<not> in_disc BLUE_X BLUE_Y m"
  "in_disc VS_X VS_Y m \<Longrightarrow> \<not> in_disc BLUE_X BLUE_Y m" "in_disc VS_X VS_Y m \<Longrightarrow> \<not> in_disc YELLOW_X YELLOW_Y m"
  by (rule notI; drule (1) in_two_discs; simp add: button_consts)+

lemmas click_tests = get_red_click_def get_green_click_def get_purple_click_def get_blue_click_def
  get_yellow_click_def get_vs_click_def

lemma get_button_click_exact:
  "get_button_click s = RED_B \<longleftrightarrow> in_disc RED_X RED_Y (mouse s)"
  "get_button_click s = GREEN_B \<longleftrightarrow> in_disc GREEN_X GREEN_Y (mouse s)"
  "get_button_click s = PURPLE_B \<longleftrightarrow> in_disc PURPLE_X PURPLE_Y (mouse s)"
  "get_button_click s = BLUE_B \<longleftrightarrow> in_disc BLUE_X BLUE_Y (mouse s)"
  "get_button_click s = YELLOW_B \<longleftrightarrow> in_disc YELLOW_X YELLOW_Y (mouse s)"
  "get_button_click s = VS_B \<longleftrightarrow> in_disc VS_X VS_Y (mouse s) \<and> \<not> in_disc RED_X RED_Y (mouse s)"
  unfolding get_button_click_def click_tests using discs_apart [of "mouse s"] by auto

end
