(* ===== verification/Mp_Game.thy ===== *)
theory Mp_Game
  imports Game_Rules
begin

text \<open>
  The game of two computers over the serial line, \<open>src/proj/mp_game.c\<close> and \<open>mp_game.h\<close>.
  The file's statics have the names of those of \<open>game.c\<close> but are different variables, so
  they carry the prefix \<open>mp_\<close> where the names clash. The statics of \<open>start_game\<close> and
  of the drawing functions are fields as well.
\<close>

section \<open>Data\<close>

definition TIMER_BUTTON_MP :: int where "TIMER_BUTTON_MP = 12"

datatype coms = ACK | ERROR | CONNECTED | GREEN_REMOTE | YELLOW_REMOTE | PURPLE_REMOTE | BLUE_REMOTE | RED_REMOTE
  | WHITE_REMOTE | IS_VS | IS_NOT_VS | READY | LOSE | TIE_REMOTE

text \<open>The values of the enumerations, in the order of their declarations.\<close>

primrec coms_code :: "coms \<Rightarrow> u8" where
  "coms_code ACK = 0" | "coms_code ERROR = 1" | "coms_code CONNECTED = 2" | "coms_code GREEN_REMOTE = 3"
| "coms_code YELLOW_REMOTE = 4" | "coms_code PURPLE_REMOTE = 5" | "coms_code BLUE_REMOTE = 6"
| "coms_code RED_REMOTE = 7" | "coms_code WHITE_REMOTE = 8" | "coms_code IS_VS = 9" | "coms_code IS_NOT_VS = 10"
| "coms_code READY = 11" | "coms_code LOSE = 12" | "coms_code TIE_REMOTE = 13"

primrec button_code :: "button_click_t \<Rightarrow> u8" where
  "button_code GREEN_B = 0" | "button_code YELLOW_B = 1" | "button_code PURPLE_B = 2" | "button_code BLUE_B = 3"
| "button_code RED_B = 4" | "button_code VS_B = 5" | "button_code NO_BUTTON = 6"

definition button_of_code :: "u8 \<Rightarrow> button_click_t" where
  "button_of_code d =
     (if d = 0 then GREEN_B else if d = 1 then YELLOW_B else if d = 2 then PURPLE_B else if d = 3 then BLUE_B
      else if d = 4 then RED_B else if d = 5 then VS_B else NO_BUTTON)"

primrec winners_code :: "Winners \<Rightarrow> u8" where
  "winners_code WINNER1 = 0" | "winners_code WINNER2 = 1" | "winners_code TIE = 2"

record 'd mp_st = "'d game_st" +
  mp_ws :: Winners
  mp_buttons :: "button_click_t block"
  mp_ps :: Play_Screens
  mp_mouse :: mouse_state
  mp_buttons_size :: int
  mp_player_score :: int
  mp_max_buttons_size :: int
  mp_is_player_1 :: bool
  is_host :: bool
  mp_guessed :: int
  mp_time_left_for_click :: int
  time_left_for_screen :: int
  mp_game_end :: bool
  mp_VS_was_pressed :: bool
  VS_screen :: bool
  mp_is_vs_round :: bool
  game_started :: bool
  uart_data :: u8
  uart_has_data_to_send :: bool
  received_no_bytes :: int
  num_round_sent_bytes :: int
  received_byte :: u8
  mp_counter_number :: xpm_image_t
  mp_counter_previous_time :: int
  mp_round_round :: int
  mp_round_text :: text_box

section \<open>Drawing\<close>

definition mp_draw_winner_graphics :: "('d, 'z) mp_st_scheme \<Rightarrow> ('d, 'z) mp_st_scheme option" where
  "mp_draw_winner_graphics s =
     (case mp_ws s of WINNER1 \<Rightarrow> draw_screen 6 s | WINNER2 \<Rightarrow> draw_screen 7 s | TIE \<Rightarrow> draw_screen 18 s)"

definition mp_draw_buttons :: "('d, 'z) mp_st_scheme \<Rightarrow> ('d, 'z) mp_st_scheme option" where
  "mp_draw_buttons s =
     (case mp_ps s of DEFAULT \<Rightarrow> draw_screen 9 s | GREEN \<Rightarrow> draw_screen 10 s | YELLOW \<Rightarrow> draw_screen 11 s
      | PURPLE \<Rightarrow> draw_screen 12 s | BLUE \<Rightarrow> draw_screen 13 s | RED \<Rightarrow> draw_screen 14 s
      | VS \<Rightarrow> draw_screen 8 s | WHITE \<Rightarrow> draw_screen 15 s)"

definition mp_print_player1 :: "'d env \<Rightarrow> ('d, 'z) mp_st_scheme \<Rightarrow> ('d, 'z) mp_st_scheme option" where
  "mp_print_player1 E s = draw_glyph E CHR ''1'' 0 0 s"

definition mp_print_player2 :: "'d env \<Rightarrow> ('d, 'z) mp_st_scheme \<Rightarrow> ('d, 'z) mp_st_scheme option" where
  "mp_print_player2 E s = draw_glyph E CHR ''2'' 0 0 s"

definition mp_draw_player :: "'d env \<Rightarrow> ('d, 'z) mp_st_scheme \<Rightarrow> ('d, 'z) mp_st_scheme option" where
  "mp_draw_player E s = (if mp_is_player_1 s then mp_print_player1 E s else mp_print_player2 E s)"

definition mp_draw_counter :: "'d env \<Rightarrow> ('d, 'z) mp_st_scheme \<Rightarrow> ('d, 'z) mp_st_scheme option" where
  "mp_draw_counter E s =
     (let time_left = (if mp_time_left_for_click s > 0 then mp_time_left_for_click s else 0) in
      do { s \<leftarrow> (if mp_counter_previous_time s \<noteq> time_left
                then do { img \<leftarrow> deref s (get_prop_from_char (int_char (c_int CHR ''0'' + time_left)));
                          Some (s\<lparr>mp_counter_number := img, mp_counter_previous_time := time_left\<rparr>) }
                else Some s);
           draw_xpm_x_y E (mp_counter_number s) 700 0 s })"

text \<open>The digits are computed as in \<open>draw_round\<close>.\<close>

definition mp_draw_round :: "'d env \<Rightarrow> ('d, 'z) mp_st_scheme \<Rightarrow> ('d, 'z) mp_st_scheme option" where
  "mp_draw_round E s =
     do { s \<leftarrow> (if mp_round_round s \<noteq> mp_buttons_size s
               then do { (numbers_size, chars) \<leftarrow> round_chars (mp_buttons_size s);
                         box \<leftarrow> create_static_text_box s 0 50 chars numbers_size;
                         Some (s\<lparr>mp_round_round := mp_buttons_size s, mp_round_text := box\<rparr>) }
               else Some s);
          draw_text_box E (mp_round_text s) s }"

definition mp_draw_mouse :: "'d env \<Rightarrow> ('d, 'z) mp_st_scheme \<Rightarrow> ('d, 'z) mp_st_scheme option" where
  "mp_draw_mouse E s =
     (let (img, s) = get_mouse E s in draw_xpm_x_y E img (x_pos (mp_mouse s)) (y_pos (mp_mouse s)) s)"

definition mp_draw_game_graphics :: "'d env \<Rightarrow> ('d, 'z) mp_st_scheme \<Rightarrow> ('d, 'z) mp_st_scheme option" where
  "mp_draw_game_graphics E s =
     (if \<not> mp_game_end s then
        do { s \<leftarrow> mp_draw_buttons s; s \<leftarrow> mp_draw_player E s; s \<leftarrow> mp_draw_counter E s; s \<leftarrow> mp_draw_round E s;
             mp_draw_mouse E s }
      else mp_draw_winner_graphics s)"

definition mp_debugging :: "'d env \<Rightarrow> int \<Rightarrow> ('d, 'z) mp_st_scheme \<Rightarrow> ('d, 'z) mp_st_scheme option" where
  "mp_debugging E i s = draw_glyph E CHR ''0'' 200 (word_of_int (200 + i * 40)) s"

section \<open>The buttons under the cursor\<close>

definition mp_get_red_click :: "('d, 'z) mp_st_scheme \<Rightarrow> bool" where "mp_get_red_click s = in_disc RED_X RED_Y (mp_mouse s)"
definition mp_get_green_click :: "('d, 'z) mp_st_scheme \<Rightarrow> bool" where "mp_get_green_click s = in_disc GREEN_X GREEN_Y (mp_mouse s)"
definition mp_get_purple_click :: "('d, 'z) mp_st_scheme \<Rightarrow> bool" where "mp_get_purple_click s = in_disc PURPLE_X PURPLE_Y (mp_mouse s)"
definition mp_get_blue_click :: "('d, 'z) mp_st_scheme \<Rightarrow> bool" where "mp_get_blue_click s = in_disc BLUE_X BLUE_Y (mp_mouse s)"
definition mp_get_yellow_click :: "('d, 'z) mp_st_scheme \<Rightarrow> bool" where "mp_get_yellow_click s = in_disc YELLOW_X YELLOW_Y (mp_mouse s)"
definition mp_get_vs_click :: "('d, 'z) mp_st_scheme \<Rightarrow> bool" where "mp_get_vs_click s = in_disc VS_X VS_Y (mp_mouse s)"

definition mp_get_button_click :: "('d, 'z) mp_st_scheme \<Rightarrow> button_click_t" where
  "mp_get_button_click s =
     (if mp_get_red_click s then RED_B else if mp_get_green_click s then GREEN_B
      else if mp_get_purple_click s then PURPLE_B else if mp_get_blue_click s then BLUE_B
      else if mp_get_yellow_click s then YELLOW_B else if mp_get_vs_click s then VS_B else NO_BUTTON)"

section \<open>The line\<close>

definition uart_set_queue :: "u8 \<Rightarrow> ('d, 'z) mp_st_scheme \<Rightarrow> ('d, 'z) mp_st_scheme" where
  "uart_set_queue data s = s\<lparr>uart_has_data_to_send := True, uart_data := data\<rparr>"

definition uart_ready :: "'d env \<Rightarrow> ('d, 'z) mp_st_scheme \<Rightarrow> ('d, 'z) mp_st_scheme" where
  "uart_ready E s = snd (serial_write_byte E (uart_data s) (s\<lparr>uart_has_data_to_send := False\<rparr>))"

text \<open>A byte is written when the transmitter is free and queued otherwise, at every place that sends.\<close>

definition send_or_queue :: "'d env \<Rightarrow> u8 \<Rightarrow> ('d, 'z) mp_st_scheme \<Rightarrow> ('d, 'z) mp_st_scheme" where
  "send_or_queue E data s =
     (let (thr_empty, s) = check_thr_emtpy E s
      in if thr_empty then snd (serial_write_byte E data s) else uart_set_queue data s)"

definition mp_send_winner :: "'d env \<Rightarrow> ('d, 'z) mp_st_scheme \<Rightarrow> ('d, 'z) mp_st_scheme" where
  "mp_send_winner E s =
     (if mp_ws s = TIE then send_or_queue E (coms_code TIE_REMOTE) s else send_or_queue E (coms_code LOSE) s)"

definition mp_send_button :: "'d env \<Rightarrow> button_click_t \<Rightarrow> ('d, 'z) mp_st_scheme \<Rightarrow> ('d, 'z) mp_st_scheme" where
  "mp_send_button E click s = send_or_queue E (coms_code GREEN_REMOTE + button_code click) s"

section \<open>The rules\<close>

text \<open>The draw of \<open>game.c\<close> stands after the \<open>return\<close>.\<close>

definition mp_is_VS_round :: "('d, 'z) mp_st_scheme \<Rightarrow> ('d, 'z) mp_st_scheme" where
  "mp_is_VS_round s = s\<lparr>mp_is_vs_round := True, mp_VS_was_pressed := False\<rparr>"

definition mp_get_winner :: "('d, 'z) mp_st_scheme \<Rightarrow> ('d, 'z) mp_st_scheme" where
  "mp_get_winner s = (if mp_is_player_1 s then s\<lparr>mp_ws := WINNER2\<rparr> else s\<lparr>mp_ws := WINNER1\<rparr>)"

definition mp_end_game :: "'d env \<Rightarrow> ('d, 'z) mp_st_scheme \<Rightarrow> ('d, 'z) mp_st_scheme option" where
  "mp_end_game E s =
     (let s = s\<lparr>mp_game_end := True\<rparr> in
      do { b \<leftarrow> blk_free (mp_buttons s); Some (set_timed_alarm E 5 (s\<lparr>mp_buttons := b\<rparr>)) })"

definition mp_add_button :: "button_click_t \<Rightarrow> ('d, 'z) mp_st_scheme \<Rightarrow> ('d, 'z) mp_st_scheme option" where
  "mp_add_button click s =
     do { b \<leftarrow> blk_write (mp_buttons s) (mp_buttons_size s) click;
          Some (s\<lparr>mp_buttons := b, mp_buttons_size := mp_buttons_size s + 1\<rparr>) }"

definition mp_change_player :: "'d env \<Rightarrow> ('d, 'z) mp_st_scheme \<Rightarrow> ('d, 'z) mp_st_scheme" where
  "mp_change_player E s =
     (let s = s\<lparr>mp_is_player_1 := \<not> mp_is_player_1 s, mp_guessed := 0\<rparr> in
      if is_host s then
        let s = mp_is_VS_round s in
        send_or_queue E (if mp_is_vs_round s then coms_code IS_VS else coms_code IS_NOT_VS) s
      else send_or_queue E (coms_code READY) s)"

definition mp_click_button :: "'d env \<Rightarrow> button_click_t \<Rightarrow> ('d, 'z) mp_st_scheme \<Rightarrow> ('d, 'z) mp_st_scheme option" where
  "mp_click_button E click s =
     (if click = NO_BUTTON then Some (s\<lparr>mp_mouse := (mp_mouse s)\<lparr>left_click := False\<rparr>\<rparr>)
      else if mp_guessed s = mp_buttons_size s \<or> mp_VS_was_pressed s then
        let s = (if mp_guessed s = mp_buttons_size s then s\<lparr>mp_player_score := mp_buttons_size s\<rparr> else s) in
        if mp_guessed s = mp_max_buttons_size s then
          do { s \<leftarrow> mp_end_game E (s\<lparr>mp_ws := TIE\<rparr>); Some (mp_send_winner E s) }
        else if mp_is_vs_round s then
          if mp_VS_was_pressed s then
            do { s \<leftarrow> mp_add_button click s; Some (mp_send_button E click s) }
          else if click = VS_B then
            do { s \<leftarrow> mp_add_button click (s\<lparr>mp_VS_was_pressed := True, VS_screen := True\<rparr>);
                 let s = mp_send_button E click s;
                 Some (s\<lparr>mp_time_left_for_click := VS_INTERVAL\<rparr>) }
          else
            do { s \<leftarrow> mp_add_button click s; let s = mp_send_button E click s; Some (mp_change_player E s) }
        else
          do { s \<leftarrow> mp_add_button click s; let s = mp_send_button E click s; Some (mp_change_player E s) }
      else
        do { b \<leftarrow> blk_read (mp_buttons s) (mp_guessed s);
             if b = click then
               let s = mp_send_button E click s; s = s\<lparr>mp_guessed := mp_guessed s + 1\<rparr> in
               Some (if mp_guessed s = mp_buttons_size s then s\<lparr>mp_time_left_for_click := - 1\<rparr>
                     else s\<lparr>mp_time_left_for_click := INTERVAL\<rparr>)
             else mp_end_game E (mp_send_winner E (mp_get_winner s)) })"

definition mp_remote_click_button :: "'d env \<Rightarrow> button_click_t \<Rightarrow> ('d, 'z) mp_st_scheme \<Rightarrow> ('d, 'z) mp_st_scheme option" where
  "mp_remote_click_button E click s =
     (if mp_guessed s = mp_buttons_size s \<or> mp_VS_was_pressed s then
        let s = (if mp_guessed s = mp_buttons_size s then s\<lparr>mp_player_score := mp_buttons_size s\<rparr> else s) in
        if mp_guessed s = mp_max_buttons_size s then mp_end_game E (s\<lparr>mp_ws := TIE\<rparr>)
        else if mp_is_vs_round s then
          if mp_VS_was_pressed s then mp_add_button click s
          else if click = VS_B then mp_add_button click (s\<lparr>mp_VS_was_pressed := True, VS_screen := True\<rparr>)
          else mp_add_button click s
        else mp_add_button click s
      else
        do { b \<leftarrow> blk_read (mp_buttons s) (mp_guessed s);
             Some (if b = click then s\<lparr>mp_guessed := mp_guessed s + 1\<rparr> else s) })"

definition mp_light_button :: "button_click_t \<Rightarrow> ('d, 'z) mp_st_scheme \<Rightarrow> ('d, 'z) mp_st_scheme" where
  "mp_light_button click s =
     (case click of GREEN_B \<Rightarrow> s\<lparr>mp_ps := GREEN\<rparr> | YELLOW_B \<Rightarrow> s\<lparr>mp_ps := YELLOW\<rparr> | PURPLE_B \<Rightarrow> s\<lparr>mp_ps := PURPLE\<rparr>
      | BLUE_B \<Rightarrow> s\<lparr>mp_ps := BLUE\<rparr> | RED_B \<Rightarrow> s\<lparr>mp_ps := RED\<rparr>
      | VS_B \<Rightarrow> if mp_VS_was_pressed s \<and> VS_screen s then s\<lparr>mp_ps := VS\<rparr> else s\<lparr>mp_ps := WHITE\<rparr>
      | NO_BUTTON \<Rightarrow> s\<lparr>mp_ps := DEFAULT\<rparr>)"

definition mp_buttons_handler :: "'d env \<Rightarrow> button_click_t \<Rightarrow> ('d, 'z) mp_st_scheme \<Rightarrow> ('d, 'z) mp_st_scheme option" where
  "mp_buttons_handler E click s =
     do { s \<leftarrow> (if is_host s = mp_is_player_1 s then mp_click_button E click s else mp_remote_click_button E click s);
          Some (if click \<noteq> NO_BUTTON then (mp_light_button click s)\<lparr>time_left_for_screen := TIMER_BUTTON_MP\<rparr> else s) }"

section \<open>The handlers\<close>

definition mp_game_update_status_mouse :: "'d env \<Rightarrow> packet \<Rightarrow> ('d, 'z) mp_st_scheme \<Rightarrow> ('d, 'z) mp_st_scheme option" where
  "mp_game_update_status_mouse E pk s =
     (if mp_game_end s then Some s
      else if game_started s then
        let s = s\<lparr>mp_mouse := press_mouse pk (move_mouse pk (mp_mouse s))\<rparr>;
            click = (if left_click (mp_mouse s) then mp_get_button_click s else NO_BUTTON)
        in if is_host s = mp_is_player_1 s then mp_buttons_handler E click s else Some s
      else Some s)"

definition mp_checkNewHiScore :: "('d, 'z) mp_st_scheme \<Rightarrow> ('d, 'z) mp_st_scheme" where
  "mp_checkNewHiScore s =
     (if mp_player_score s > getLowestHiScore s
      then reset_hiscore (mp_player_score s) (s\<lparr>mode := HIGHSCORE\<rparr>)
      else s\<lparr>mode := LEADERBOARD\<rparr>)"

definition mp_game_update_status_key :: "key_press \<Rightarrow> ('d, 'z) mp_st_scheme \<Rightarrow> ('d, 'z) mp_st_scheme" where
  "mp_game_update_status_key k s =
     (if mp_game_end s then
        if key k = ENTER then if mp_ws s = TIE then s\<lparr>mode := LEADERBOARD\<rparr> else mp_checkNewHiScore s else s
      else s)"

definition mp_game_update_status_timer :: "('d, 'z) mp_st_scheme \<Rightarrow> ('d, 'z) mp_st_scheme" where
  "mp_game_update_status_timer s =
     (let s = s\<lparr>mp_mouse := (mp_mouse s)\<lparr>left_click := False\<rparr>\<rparr> in
      if time_left_for_screen s = 0 then s\<lparr>mp_ps := DEFAULT\<rparr>
      else s\<lparr>time_left_for_screen := time_left_for_screen s - 1\<rparr>)"

text \<open>A time-out returns before the final test.\<close>

definition mp_game_update_status_rtc :: "'d env \<Rightarrow> ('d, 'z) mp_st_scheme \<Rightarrow> ('d, 'z) mp_st_scheme option" where
  "mp_game_update_status_rtc E s =
     (if (is_host s = mp_is_player_1 s \<and> \<not> mp_game_end s) \<and> mp_time_left_for_click s = 0 \<and> \<not> mp_VS_was_pressed s
      then mp_end_game E (mp_send_winner E (mp_get_winner s))
      else
        let s = (if is_host s = mp_is_player_1 s \<and> \<not> mp_game_end s then
                   if mp_time_left_for_click s = 0 \<and> mp_is_vs_round s \<and> mp_VS_was_pressed s then mp_change_player E s
                   else if mp_time_left_for_click s > 0 then s\<lparr>mp_time_left_for_click := mp_time_left_for_click s - 1\<rparr>
                   else s
                 else s)
        in Some (if mp_game_end s then
                   let s = set_seconds_alarm E s in
                   if mp_ws s = TIE then s\<lparr>mode := LEADERBOARD\<rparr> else mp_checkNewHiScore s
                 else s))"

definition mp_reset_game :: "'d env \<Rightarrow> int \<Rightarrow> ('d, 'z) mp_st_scheme \<Rightarrow> ('d, 'z) mp_st_scheme" where
  "mp_reset_game E num_rounds s =
     (let s = s\<lparr>mp_mouse := \<lparr>x_pos = word_of_int (get_mode_width sdiv 2), y_pos = word_of_int (get_mode_height sdiv 2),
                           left_hold = False, left_click = False\<rparr>,
                mp_max_buttons_size := num_rounds,
                mp_buttons := blk_malloc (malloc E (num_rounds * 4) (dev s) \<noteq> None) num_rounds,
                mp_buttons_size := 0, mp_player_score := 0, mp_guessed := 0, mp_is_player_1 := True,
                mp_game_end := False, mp_ps := DEFAULT, mp_time_left_for_click := - 1, time_left_for_screen := 0\<rparr>;
          s = mp_is_VS_round s
      in s\<lparr>mp_VS_was_pressed := False\<rparr>)"

definition host_mp_game :: "'d env \<Rightarrow> int \<Rightarrow> ('d, 'z) mp_st_scheme \<Rightarrow> ('d, 'z) mp_st_scheme" where
  "host_mp_game E num_rounds s =
     (mp_reset_game E num_rounds s)\<lparr>is_host := True, mp_is_player_1 := True, game_started := False,
        uart_has_data_to_send := False\<rparr>"

definition connect_mp_game :: "'d env \<Rightarrow> ('d, 'z) mp_st_scheme \<Rightarrow> ('d, 'z) mp_st_scheme" where
  "connect_mp_game E s =
     (let s = s\<lparr>mp_is_player_1 := False, is_host := False\<rparr>;
          s = snd (serial_write_byte E (coms_code CONNECTED) s)
      in s\<lparr>uart_has_data_to_send := False, game_started := False\<rparr>)"

text \<open>The byte of \<open>max_buttons_size\<close> the host sends: the cast to eight bits comes before the shift.\<close>

definition rounds_byte :: "int \<Rightarrow> int \<Rightarrow> u8" where
  "rounds_byte rounds n = word_of_int (drop_bit (nat (8 * n)) (uint (word_of_int rounds :: u8)))"

definition start_game :: "'d env \<Rightarrow> u8 \<Rightarrow> bool \<Rightarrow> ('d, 'z) mp_st_scheme \<Rightarrow> ('d, 'z) mp_st_scheme" where
  "start_game E data empty_thr s =
     (if is_host s then
        let s = (if data = coms_code CONNECTED \<and> num_round_sent_bytes s < 2 then
                   let (thr_empty, s) = check_thr_emtpy E s in
                   if thr_empty then
                     let s = snd (serial_write_byte E (rounds_byte (mp_max_buttons_size s) (num_round_sent_bytes s)) s)
                     in s\<lparr>num_round_sent_bytes := num_round_sent_bytes s + 1\<rparr>
                   else s
                 else s)
        in if data = coms_code ACK then s\<lparr>game_started := True\<rparr> else s
      else if empty_thr then
        if received_no_bytes s = 2 then
          (snd (serial_write_byte E (coms_code ACK) s))\<lparr>game_started := True\<rparr>
        else s
      else
        let s = (if received_no_bytes s = 0 then s\<lparr>received_byte := data\<rparr>
                 else
                   let num_of_rounds = or (push_bit 8 (uint data)) (uint (received_byte s));
                       s = mp_reset_game E num_of_rounds s;
                       (thr_empty, s) = check_thr_emtpy E s
                   in if thr_empty then (snd (serial_write_byte E (coms_code ACK) s))\<lparr>game_started := True\<rparr> else s)
        in s\<lparr>received_no_bytes := received_no_bytes s + 1\<rparr>)"

definition play_game :: "'d env \<Rightarrow> u8 \<Rightarrow> ('d, 'z) mp_st_scheme \<Rightarrow> ('d, 'z) mp_st_scheme option" where
  "play_game E data s =
     (if data \<ge> 3 \<and> data \<le> 8 then mp_buttons_handler E (button_of_code (data - coms_code GREEN_REMOTE)) s
      else if data = coms_code IS_VS then
        Some (s\<lparr>mp_is_vs_round := True, mp_VS_was_pressed := False, mp_guessed := 0,
                mp_is_player_1 := \<not> mp_is_player_1 s, mp_time_left_for_click := INTERVAL\<rparr>)
      else if data = coms_code IS_NOT_VS then
        Some (s\<lparr>mp_is_vs_round := False, mp_VS_was_pressed := False, mp_guessed := 0,
                mp_is_player_1 := \<not> mp_is_player_1 s, mp_time_left_for_click := INTERVAL\<rparr>)
      else if data = coms_code READY then
        (let s = mp_is_VS_round s in
         Some (s\<lparr>mp_guessed := 0, mp_is_player_1 := \<not> mp_is_player_1 s, mp_time_left_for_click := INTERVAL\<rparr>))
      else if data = coms_code LOSE then
        (if is_host s then mp_end_game E (s\<lparr>mp_ws := WINNER1\<rparr>) else mp_end_game E (s\<lparr>mp_ws := WINNER2\<rparr>))
      else if data = winners_code TIE then mp_end_game E (s\<lparr>mp_ws := TIE\<rparr>)
      else Some s)"

definition mp_game_update_status_uart :: "'d env \<Rightarrow> u8 \<Rightarrow> u8 \<Rightarrow> ('d, 'z) mp_st_scheme \<Rightarrow> ('d, 'z) mp_st_scheme option" where
  "mp_game_update_status_uart E data type s =
     (if type = IIR_REC_DATA then
        if \<not> game_started s then Some (start_game E data False s) else play_game E data s
      else if type = IIR_TRANS_EMPTY then
        if \<not> game_started s then Some (start_game E (coms_code CONNECTED) True s)
        else if uart_has_data_to_send s then Some (uart_ready E s) else Some s
      else Some s)"

end
