(* ===== verification/Menus.thy ===== *)
theory Menus
  imports Mp_Game
begin

text \<open>
  The screens that lead to a game: the menu (\<open>src/proj/menu.c\<close>), the choice between hosting
  and connecting (\<open>host.c\<close>), the number of rounds (\<open>number_of_rounds.c\<close>) and the
  instructions (\<open>how_to_play.c\<close>), with their headers. The two enumerated cursors are unsigned
  32-bit values, the type the compiler gives an enumeration without negative members.
\<close>

section \<open>Data\<close>

definition MENU_NUM_SELECTIONS :: u32 where "MENU_NUM_SELECTIONS = 5"
definition HOST_NUM_SELECTIONS :: u32 where "HOST_NUM_SELECTIONS = 2"

definition SELECT_ONEPC :: u32 where "SELECT_ONEPC = 0"
definition SELECT_TWOPC :: u32 where "SELECT_TWOPC = 1"
definition SELECT_HOW_TO_PLAY :: u32 where "SELECT_HOW_TO_PLAY = 2"
definition SELECT_LEADERBOARD :: u32 where "SELECT_LEADERBOARD = 3"
definition SELECT_EXIT :: u32 where "SELECT_EXIT = 4"

definition HOST_SELECT_HOST :: u32 where "HOST_SELECT_HOST = 0"
definition HOST_SELECT_CONNECT :: u32 where "HOST_SELECT_CONNECT = 1"

lemmas menu_consts = MENU_NUM_SELECTIONS_def SELECT_ONEPC_def SELECT_TWOPC_def SELECT_HOW_TO_PLAY_def
  SELECT_LEADERBOARD_def SELECT_EXIT_def
lemmas host_consts = HOST_NUM_SELECTIONS_def HOST_SELECT_HOST_def HOST_SELECT_CONNECT_def

record 'd menu_st = "'d mp_st" +
  num_rounds :: text_box
  num_rounds_value :: u32
  is_mp :: bool
  host_position :: u32
  position :: u32

section \<open>number_of_rounds.c\<close>

definition draw_num_of_rounds_graphics :: "'d env \<Rightarrow> ('d, 'z) menu_st_scheme \<Rightarrow> ('d, 'z) menu_st_scheme option" where
  "draw_num_of_rounds_graphics E s = do { s \<leftarrow> draw_screen 17 s; draw_text_box E (num_rounds s) s }"

definition create_num_box :: "('d, 'z) menu_st_scheme \<Rightarrow> ('d, 'z) menu_st_scheme" where
  "create_num_box s = s\<lparr>num_rounds := create_writeable_text_box 400 360 0 (- 1) 3, num_rounds_value := 0\<rparr>"

definition reset_number_of_rounds :: "bool \<Rightarrow> ('d, 'z) menu_st_scheme \<Rightarrow> ('d, 'z) menu_st_scheme" where
  "reset_number_of_rounds mp s = create_num_box (s\<lparr>is_mp := mp\<rparr>)"

definition rounds_enter :: "'d env \<Rightarrow> key_press \<Rightarrow> ('d, 'z) menu_st_scheme \<Rightarrow> ('d, 'z) menu_st_scheme" where
  "rounds_enter E k s =
     (if key k = CHR 0x0A \<and> num_rounds_value s \<noteq> 0 then
        let s = (if \<not> is_mp s then reset_game E (sint (num_rounds_value s)) (s\<lparr>mode := GAME\<rparr>) else s)
        in if is_mp s then host_mp_game E (sint (num_rounds_value s)) (s\<lparr>mode := MP_GAME\<rparr>) else s
      else s)"

definition rounds_type :: "key_press \<Rightarrow> ('d, 'z) menu_st_scheme \<Rightarrow> ('d, 'z) menu_st_scheme option" where
  "rounds_type k s =
     (if is_numerical (key k) then
        do { (added, box) \<leftarrow> add_to_centered_text_box s (key k) (num_rounds s);
             let s = s\<lparr>num_rounds := box\<rparr>;
             Some (if added
                   then s\<lparr>num_rounds_value := num_rounds_value s * 10 + word_of_int (c_int (key k) - c_int CHR ''0'')\<rparr>
                   else s) }
      else Some s)"

definition rounds_backspace :: "'d env \<Rightarrow> key_press \<Rightarrow> ('d, 'z) menu_st_scheme \<Rightarrow> ('d, 'z) menu_st_scheme option" where
  "rounds_backspace E k s =
     (if key k = BACKSPACE then
        do { (box, s) \<leftarrow> remove_from_centered_text_box E (num_rounds s) s;
             Some (s\<lparr>num_rounds := box, num_rounds_value := num_rounds_value s div 10\<rparr>) }
      else Some s)"

definition number_of_rounds_update_status :: "'d env \<Rightarrow> key_press \<Rightarrow> ('d, 'z) menu_st_scheme \<Rightarrow> ('d, 'z) menu_st_scheme option" where
  "number_of_rounds_update_status E k s =
     (if down k then Some s
      else do { let s = rounds_enter E k s; s \<leftarrow> rounds_type k s; rounds_backspace E k s })"

section \<open>host.c\<close>

definition draw_host_graphics :: "('d, 'z) menu_st_scheme \<Rightarrow> ('d, 'z) menu_st_scheme option" where
  "draw_host_graphics s =
     (if host_position s = HOST_SELECT_HOST then draw_screen 24 s
      else if host_position s = HOST_SELECT_CONNECT then draw_screen 25 s
      else Some s)"

definition host_update_status :: "'d env \<Rightarrow> key_press \<Rightarrow> ('d, 'z) menu_st_scheme \<Rightarrow> ('d, 'z) menu_st_scheme" where
  "host_update_status E k s =
     (if down k then s
      else if key k = UP_ARROW \<or> key k = CHR ''w'' then s\<lparr>host_position := (host_position s - 1) mod HOST_NUM_SELECTIONS\<rparr>
      else if key k = DOWN_ARROW \<or> key k = CHR ''s'' then s\<lparr>host_position := (host_position s + 1) mod HOST_NUM_SELECTIONS\<rparr>
      else if key k = CHR 0x0A then
        let s = (if host_position s = HOST_SELECT_HOST then reset_number_of_rounds True (s\<lparr>mode := NUM_ROUNDS\<rparr>)
                 else if host_position s = HOST_SELECT_CONNECT then connect_mp_game E (s\<lparr>mode := MP_GAME\<rparr>)
                 else s)
        in s\<lparr>host_position := HOST_SELECT_HOST\<rparr>
      else s)"

section \<open>menu.c\<close>

definition draw_menu_graphics :: "('d, 'z) menu_st_scheme \<Rightarrow> ('d, 'z) menu_st_scheme option" where
  "draw_menu_graphics s =
     (if position s = SELECT_ONEPC then draw_screen 19 s
      else if position s = SELECT_TWOPC then draw_screen 20 s
      else if position s = SELECT_HOW_TO_PLAY then draw_screen 21 s
      else if position s = SELECT_LEADERBOARD then draw_screen 22 s
      else if position s = SELECT_EXIT then draw_screen 23 s
      else Some s)"

definition menu_update_status :: "key_press \<Rightarrow> ('d, 'z) menu_st_scheme \<Rightarrow> ('d, 'z) menu_st_scheme" where
  "menu_update_status k s =
     (if down k then s
      else if key k = UP_ARROW \<or> key k = CHR ''w'' then s\<lparr>position := (position s + 4) mod MENU_NUM_SELECTIONS\<rparr>
      else if key k = DOWN_ARROW \<or> key k = CHR ''s'' then s\<lparr>position := (position s + 1) mod MENU_NUM_SELECTIONS\<rparr>
      else if key k = CHR 0x0A then
        let s = (if position s = SELECT_ONEPC then reset_number_of_rounds False (s\<lparr>mode := NUM_ROUNDS\<rparr>)
                 else if position s = SELECT_TWOPC then s\<lparr>mode := HOST\<rparr>
                 else if position s = SELECT_HOW_TO_PLAY then s\<lparr>mode := HOW_TO_PLAY\<rparr>
                 else if position s = SELECT_LEADERBOARD then s\<lparr>mode := LEADERBOARD\<rparr>
                 else if position s = SELECT_EXIT then s\<lparr>mode := EXIT\<rparr>
                 else s)
        in s\<lparr>position := SELECT_ONEPC\<rparr>
      else s)"

section \<open>how_to_play.c\<close>

definition draw_how_to_play_graphics :: "('d, 'z) menu_st_scheme \<Rightarrow> ('d, 'z) menu_st_scheme option" where
  "draw_how_to_play_graphics s = draw_screen 5 s"

definition how_to_play_update_status :: "key_press \<Rightarrow> ('d, 'z) menu_st_scheme \<Rightarrow> ('d, 'z) menu_st_scheme" where
  "how_to_play_update_status k s = (if key k = CHR 0x08 then s\<lparr>mode := MENU\<rparr> else s)"

section \<open>The cursors\<close>

definition cursors_ok :: "('d, 'z) menu_st_scheme \<Rightarrow> bool" where
  "cursors_ok s \<longleftrightarrow> position s < MENU_NUM_SELECTIONS \<and> host_position s < HOST_NUM_SELECTIONS"

lemma word_mod_less: "0 < m \<Longrightarrow> (x :: u32) mod m < m"
  by (rule word_mod_less_divisor)

lemma cursors_ok_upd [simp]:
  "cursors_ok (s\<lparr>mode := m\<rparr>) \<longleftrightarrow> cursors_ok s" "cursors_ok (s\<lparr>num_rounds := b\<rparr>) \<longleftrightarrow> cursors_ok s"
  "cursors_ok (s\<lparr>num_rounds_value := v\<rparr>) \<longleftrightarrow> cursors_ok s" "cursors_ok (s\<lparr>is_mp := x\<rparr>) \<longleftrightarrow> cursors_ok s"
  by (simp_all add: cursors_ok_def)

lemma menu_cursors_ok: "cursors_ok s \<Longrightarrow> cursors_ok (menu_update_status k s)"
  using word_mod_less [of MENU_NUM_SELECTIONS]
  by (auto simp: menu_update_status_def cursors_ok_def reset_number_of_rounds_def create_num_box_def menu_consts Let_def)

lemma connect_mp_game_menu:
  "position (connect_mp_game E s) = position s" "host_position (connect_mp_game E s) = host_position s"
  "mode (connect_mp_game E s) = mode s" for s :: "('d, 'z) menu_st_scheme"
  by (simp_all add: connect_mp_game_def Let_def serial_write.snd_op)

lemma host_cursors_ok: "cursors_ok s \<Longrightarrow> cursors_ok (host_update_status E k s)"
  using word_mod_less [of HOST_NUM_SELECTIONS]
  by (auto simp: host_update_status_def cursors_ok_def reset_number_of_rounds_def create_num_box_def host_consts Let_def
      connect_mp_game_menu)

lemma menu_positions: "position s < MENU_NUM_SELECTIONS \<Longrightarrow> position s \<in> {0, 1, 2, 3, 4}"
proof -
  assume "position s < MENU_NUM_SELECTIONS"
  then have "unat (position s) < 5" by (simp add: menu_consts word_less_nat_alt)
  then have u: "unat (position s) \<in> {0, 1, 2, 3, 4}" by auto
  have e: "position s = word_of_nat (unat (position s))" by simp
  from u show ?thesis by (elim insertE emptyE; subst e) simp_all
qed

lemma host_positions: "host_position s < HOST_NUM_SELECTIONS \<Longrightarrow> host_position s \<in> {0, 1}"
proof -
  assume "host_position s < HOST_NUM_SELECTIONS"
  then have "unat (host_position s) < 2" by (simp add: host_consts word_less_nat_alt)
  then have u: "unat (host_position s) \<in> {0, 1}" by auto
  have e: "host_position s = word_of_nat (unat (host_position s))" by simp
  from u show ?thesis by (elim insertE emptyE; subst e) simp_all
qed

text \<open>The two menus as one machine whose events are their keys.\<close>

datatype cursor_event = Menu_key key_press | Host_key key_press

fun cursor_step :: "'d env \<Rightarrow> cursor_event \<Rightarrow> ('d, 'z) menu_st_scheme \<Rightarrow> ('d, 'z) menu_st_scheme option" where
  "cursor_step E (Menu_key k) s = Some (menu_update_status k s)"
| "cursor_step E (Host_key k) s = Some (host_update_status E k s)"

interpretation cursor_machine: safe_machine "cursor_step E :: _ \<Rightarrow> ('d, 'z) menu_st_scheme \<Rightarrow> _" cursors_ok "\<lambda>_ _. True"
proof
  fix s :: "('d, 'z) menu_st_scheme" and e
  assume "cursors_ok s"
  then show "\<exists>s'. cursor_step E e s = Some s' \<and> cursors_ok s'"
    by (cases e) (simp_all add: menu_cursors_ok host_cursors_ok)
qed

lemma menu_up_down:
  assumes "position s < MENU_NUM_SELECTIONS"
  shows "menu_update_status \<lparr>key = DOWN_ARROW, down = False\<rparr> (menu_update_status \<lparr>key = UP_ARROW, down = False\<rparr> s) = s"
proof -
  have ne: "DOWN_ARROW \<noteq> UP_ARROW" "DOWN_ARROW \<noteq> CHR ''w''" by (simp_all add: kbd_chars)
  have "((position s + 4) mod 5 + 1) mod 5 = position s" using menu_positions [OF assms] by auto
  then show ?thesis using ne by (simp add: menu_update_status_def menu_consts)
qed

section \<open>The number of rounds\<close>

text \<open>The value is the number shown in the box, of at most three digits.\<close>

definition rounds_ok :: "('d, 'z) menu_st_scheme \<Rightarrow> bool" where
  "rounds_ok s \<longleftrightarrow> box_ok s (num_rounds s) \<and> char_max_size (num_rounds s) = 3 \<and>
     uint (num_rounds_value s) < 10 ^ nat (char_size (num_rounds s))"

lemma menu_frame [simp]:
  "gfx_ok (s\<lparr>num_rounds := b\<rparr>) \<longleftrightarrow> gfx_ok s" "gfx_ok (s\<lparr>num_rounds_value := v\<rparr>) \<longleftrightarrow> gfx_ok s"
  "box_ok (s\<lparr>num_rounds := b\<rparr>) x \<longleftrightarrow> box_ok s x" "box_ok (s\<lparr>num_rounds_value := v\<rparr>) x \<longleftrightarrow> box_ok s x"
  "box_ok (s\<lparr>is_mp := m\<rparr>) x \<longleftrightarrow> box_ok s x"
  by (auto intro!: gfx_ok_frame box_ok_frame simp: vc_st.truncate_def)

lemma rounds_ok_reset: "rounds_ok (reset_number_of_rounds mp s)"
  by (simp add: rounds_ok_def reset_number_of_rounds_def create_num_box_def box_ok_create)
    (simp add: create_writeable_text_box_def)

lemma rounds_value_bound: "rounds_ok s \<Longrightarrow> uint (num_rounds_value s) \<le> 999"
proof -
  assume r: "rounds_ok s"
  then have "0 \<le> char_size (num_rounds s)" "char_size (num_rounds s) \<le> 3" by (simp_all add: rounds_ok_def box_ok_def)
  then have "nat (char_size (num_rounds s)) \<le> 3" by simp
  then have "(10 :: int) ^ nat (char_size (num_rounds s)) \<le> 10 ^ 3" by (intro power_increasing) simp_all
  then show ?thesis using r by (simp add: rounds_ok_def)
qed

lemma digit_key:
  assumes "is_numerical c"
  shows "0 \<le> c_int c - 48" "c_int c - 48 \<le> 9" "c \<noteq> CHR 0x0A" "c \<noteq> BACKSPACE" "c \<noteq> CHR ''/''"
  using assms by (auto simp: is_numerical_iff c_int_def kbd_chars)

text \<open>The value after a digit: no step wraps.\<close>

lemma value_times_ten:
  assumes v: "uint v < 100" and d: "0 \<le> d" "d \<le> 9"
  shows "uint (v * 10 + word_of_int d :: u32) = uint v * 10 + d"
proof -
  have b: "0 \<le> uint v * 10 + d" "uint v * 10 + d < 2 ^ 32" using v d uint_nonnegative [of v] by auto
  have "uint (v * 10 + word_of_int d) = uint (word_of_int (uint v * 10 + d) :: u32)" by simp
  also have "\<dots> = uint v * 10 + d" unfolding uint_word_of_int using b by simp
  finally show ?thesis .
qed

text \<open>A digit that fits in the box is appended to the value.\<close>

lemma rounds_digit:
  assumes g: "gfx_ok s" and r: "rounds_ok s" and c: "is_numerical c"
  shows "\<exists>s'. number_of_rounds_update_status E \<lparr>key = c, down = False\<rparr> s = Some s' \<and> gfx_ok s' \<and> rounds_ok s' \<and>
    mode s' = mode s \<and>
    (num_rounds_value s' = num_rounds_value s \<or>
     uint (num_rounds_value s') = 10 * uint (num_rounds_value s) + (c_int c - 48))"
proof -
  note d = digit_key [OF c]
  have b: "box_ok s (num_rounds s)" using r by (simp add: rounds_ok_def)
  have eq: "number_of_rounds_update_status E \<lparr>key = c, down = False\<rparr> s = rounds_type \<lparr>key = c, down = False\<rparr> s"
    using d by (simp add: number_of_rounds_update_status_def rounds_enter_def rounds_backspace_def [abs_def] cong: if_cong)
  show ?thesis
  proof (rule add_to_centered_cases [OF g b d(5)])
    assume "add_to_centered_text_box s c (num_rounds s) = Some (False, num_rounds s)"
    then have "number_of_rounds_update_status E \<lparr>key = c, down = False\<rparr> s = Some s"
      using c eq by (simp add: rounds_type_def)
    then show ?thesis using g r by blast
  next
    fix img b'
    assume add: "add_to_centered_text_box s c (num_rounds s) = Some (True, b')" and ok: "box_ok s b'"
      and lt: "char_size (num_rounds s) < char_max_size (num_rounds s)"
      and b': "b' = (num_rounds s)\<lparr>char_prop := (char_prop (num_rounds s))
              [nat (char_size (num_rounds s)) := Some (get_prop_from_char c)],
            char_size := char_size (num_rounds s) + 1,
            cursor_x := cursor_x (num_rounds s) + word_of_int (uint (width img) div 2),
            xi := xi (num_rounds s) - word_of_int ((uint (width img) + 1) div 2)\<rparr>"
    let ?n = "nat (char_size (num_rounds s))"
    have n: "?n \<le> 2" "0 \<le> char_size (num_rounds s)" using lt r by (auto simp: rounds_ok_def box_ok_def)
    have lt10: "uint (num_rounds_value s) < 10 ^ ?n" using r by (simp add: rounds_ok_def)
    have "(10 :: int) ^ ?n \<le> 10 ^ 2" using n by (intro power_increasing) simp_all
    then have "uint (num_rounds_value s) < 100" using lt10 by simp
    from value_times_ten [OF this d(1,2)]
    have v: "uint (num_rounds_value s * 10 + word_of_int (c_int c - 48)) = uint (num_rounds_value s) * 10 + (c_int c - 48)" .
    have sz: "nat (char_size b') = Suc ?n" "char_max_size b' = 3" using b' n r by (simp_all add: rounds_ok_def nat_add_distrib)
    have lt': "uint (num_rounds_value s) * 10 + (c_int c - 48) < 10 ^ Suc ?n" using lt10 d(2) by simp
    let ?s = "s\<lparr>num_rounds := b', num_rounds_value := num_rounds_value s * 10 + word_of_int (c_int c - 48)\<rparr>"
    have "number_of_rounds_update_status E \<lparr>key = c, down = False\<rparr> s = Some ?s"
      using add c eq by (simp add: rounds_type_def)
    moreover have "rounds_ok ?s" using ok sz lt' v by (simp add: rounds_ok_def del: of_int_diff power_Suc)
    ultimately show ?thesis using g v by (simp del: of_int_diff)
  qed
qed

lemma rounds_backspace_ok:
  assumes g: "gfx_ok s" and r: "rounds_ok s"
  shows "\<exists>s'. number_of_rounds_update_status E \<lparr>key = BACKSPACE, down = False\<rparr> s = Some s' \<and> gfx_ok s' \<and> rounds_ok s' \<and>
    mode s' = mode s \<and> uint (num_rounds_value s') = uint (num_rounds_value s) div 10"
proof -
  have ne: "BACKSPACE \<noteq> CHR 0x0A" "\<not> is_numerical BACKSPACE" by (simp_all add: kbd_chars is_numerical_def c_int_def)
  then have eq: "number_of_rounds_update_status E \<lparr>key = BACKSPACE, down = False\<rparr> s =
      rounds_backspace E \<lparr>key = BACKSPACE, down = False\<rparr> s"
    by (simp add: number_of_rounds_update_status_def rounds_enter_def rounds_type_def)
  have b: "box_ok s (num_rounds s)" using r by (simp add: rounds_ok_def)
  have v: "uint (num_rounds_value s div 10) = uint (num_rounds_value s) div 10" by (simp add: uint_div)
  show ?thesis
  proof (rule remove_from_centered_cases [OF g b, of E])
    assume z: "char_size (num_rounds s) = 0" and rm: "remove_from_centered_text_box E (num_rounds s) s = Some (num_rounds s, s)"
    have "uint (num_rounds_value s) < 1" using r z by (simp add: rounds_ok_def)
    then have "uint (num_rounds_value s) div 10 < 1" by simp
    then show ?thesis using eq rm g r z v by (simp add: rounds_backspace_def rounds_ok_def)
  next
    fix s' img
    let ?b = "(num_rounds s)\<lparr>char_size := char_size (num_rounds s) - 1,
      cursor_x := cursor_x (num_rounds s) - word_of_int (uint (width img) div 2),
      xi := xi (num_rounds s) + word_of_int ((uint (width img) + 1) div 2)\<rparr>"
    assume pos: "0 < char_size (num_rounds s)" and o: "only_buffer s s'"
      and rm: "remove_from_centered_text_box E (num_rounds s) s = Some (?b, s')"
    have f: "num_rounds_value s' = num_rounds_value s" "mode s' = mode s" using o by (auto elim: only_bufferE)
    have "gfx_ok s'" using gfx_ok_only_buffer [OF o] g by simp
    moreover have "box_ok s' ?b" using box_ok_remove [OF b pos] box_ok_only_buffer [OF o] by blast
    moreover have "nat (char_size (num_rounds s)) = Suc (nat (char_size (num_rounds s) - 1))" using pos by simp
    then have "uint (num_rounds_value s) < 10 ^ nat (char_size (num_rounds s) - 1) * 10" using r by (simp add: rounds_ok_def)
    then have "uint (num_rounds_value s) div 10 < 10 ^ nat (char_size (num_rounds s) - 1)"
      by (simp add: div_less_iff_less_mult)
    ultimately show ?thesis using eq rm r f v by (simp add: rounds_backspace_def rounds_ok_def)
  qed
qed

text \<open>Enter starts a game with the number shown, between 1 and 999 rounds.\<close>

lemma sint_rounds: "rounds_ok s \<Longrightarrow> sint (num_rounds_value s) = uint (num_rounds_value s)"
proof -
  assume "rounds_ok s"
  then have "uint (num_rounds_value s) \<le> 999" by (rule rounds_value_bound)
  then have "sint (word_of_int (uint (num_rounds_value s)) :: u32) = uint (num_rounds_value s)"
    using uint_nonnegative [of "num_rounds_value s"] by (intro sint_word_of_int_32) linarith+
  then show ?thesis by simp
qed

lemma rounds_enter_ok:
  assumes r: "rounds_ok s" and v: "num_rounds_value s \<noteq> 0"
  shows "\<exists>n. number_of_rounds_update_status E \<lparr>key = ENTER, down = False\<rparr> s =
      Some (if is_mp s then host_mp_game E n (s\<lparr>mode := MP_GAME\<rparr>) else reset_game E n (s\<lparr>mode := GAME\<rparr>)) \<and>
    n = uint (num_rounds_value s) \<and> 1 \<le> n \<and> n \<le> 999"
proof -
  have ne: "ENTER = CHR 0x0A" "ENTER \<noteq> BACKSPACE" "\<not> is_numerical ENTER" by (simp_all add: kbd_chars is_numerical_def c_int_def)
  let ?n = "uint (num_rounds_value s)"
  have "is_mp (reset_game E n (s\<lparr>mode := GAME\<rparr>)) = is_mp s" for n
    by (simp add: reset_game_def is_VS_round_eq Let_def)
  then have "number_of_rounds_update_status E \<lparr>key = ENTER, down = False\<rparr> s =
      Some (if is_mp s then host_mp_game E ?n (s\<lparr>mode := MP_GAME\<rparr>) else reset_game E ?n (s\<lparr>mode := GAME\<rparr>))"
    using ne v sint_rounds [OF r]
    by (simp add: number_of_rounds_update_status_def rounds_enter_def rounds_type_def rounds_backspace_def)
  moreover have "?n \<noteq> 0" using v by (simp add: uint_0_iff)
  then have "1 \<le> ?n" using uint_nonnegative [of "num_rounds_value s"] by linarith
  ultimately show ?thesis using rounds_value_bound [OF r] by blast
qed

end
