(* ===== verification/Simon.thy ===== *)
theory Simon
  imports Menus
begin

text \<open>
  The program itself, \<open>src/proj/simon.c\<close> and \<open>simon.h\<close>: the interrupt loop, the state
  machine of the screens, and \<open>proj_main_loop\<close> of \<open>proj.c\<close>. The loops are
  \<open>partial_function\<close>s, with \<open>None\<close> where they never end as well as where an iteration is
  undefined; a \<open>panic\<close> of \<open>get_mode_info\<close> is the left summand of the result. The static
  \<open>previous\<close> of \<open>event_handler\<close> only decides what is printed.
\<close>

record 'd simon_st = "'d menu_st" +
  mouse_packet :: packet
  keyboard_packet :: key_press
  data_packet :: u8
  got_mouse_packet :: bool
  got_key_press :: bool
  timer_interrupt :: bool
  rtc_interrupt :: bool
  uart_interrupt :: bool
  uart_type_interrupt :: u8
  count :: int

section \<open>The state machine of the screens\<close>

text \<open>An \<open>int\<close> incremented; past the largest value it is undefined.\<close>

definition inc_int :: "int \<Rightarrow> int option" where
  "inc_int n = (if n < 2147483647 then Some (n + 1) else None)"

text \<open>The cases of the switch that handle more than a key.\<close>

definition menu_case :: "('d, 'z) simon_st_scheme \<Rightarrow> ('d, 'z) simon_st_scheme option" where
  "menu_case s =
     do { s \<leftarrow> draw_menu_graphics s;
          let s = (if count s \<noteq> 0 then if got_key_press s then menu_update_status (keyboard_packet s) s else s else s);
          n \<leftarrow> inc_int (count s);
          Some (s\<lparr>count := n\<rparr>) }"

definition game_case :: "'d env \<Rightarrow> ('d, 'z) simon_st_scheme \<Rightarrow> ('d, 'z) simon_st_scheme option" where
  "game_case E s =
     do { s \<leftarrow> draw_game_graphics E s;
          let s = (if got_key_press s then game_update_status_key (keyboard_packet s) s else s);
          s \<leftarrow> (if got_mouse_packet s then game_update_status_mouse E (mouse_packet s) s else Some s);
          let s = (if timer_interrupt s then game_update_status_timer s else s);
          (if rtc_interrupt s then game_update_status_rtc E s else Some s) }"

definition mp_game_case :: "'d env \<Rightarrow> ('d, 'z) simon_st_scheme \<Rightarrow> ('d, 'z) simon_st_scheme option" where
  "mp_game_case E s =
     do { s \<leftarrow> mp_draw_game_graphics E s;
          let s = (if got_key_press s then mp_game_update_status_key (keyboard_packet s) s else s);
          s \<leftarrow> (if got_mouse_packet s then mp_game_update_status_mouse E (mouse_packet s) s else Some s);
          let s = (if timer_interrupt s then mp_game_update_status_timer s else s);
          s \<leftarrow> (if rtc_interrupt s then mp_game_update_status_rtc E s else Some s);
          (if uart_interrupt s then mp_game_update_status_uart E (data_packet s) (uart_type_interrupt s) s else Some s) }"

definition screen_event :: "'d env \<Rightarrow> ('d, 'z) simon_st_scheme \<Rightarrow> ('d, 'z) simon_st_scheme option" where
  "screen_event E s =
     (case mode s of
        MENU \<Rightarrow> menu_case s
      | HOST \<Rightarrow> do { s \<leftarrow> draw_host_graphics s;
                   Some (if got_key_press s then host_update_status E (keyboard_packet s) s else s) }
      | HOW_TO_PLAY \<Rightarrow> do { s \<leftarrow> draw_how_to_play_graphics s;
                          Some (if got_key_press s then how_to_play_update_status (keyboard_packet s) s else s) }
      | LEADERBOARD \<Rightarrow> do { s \<leftarrow> draw_leaderboard_graphics E s;
                          Some (if got_key_press s then leaderboard_update_status (keyboard_packet s) s else s) }
      | NUM_ROUNDS \<Rightarrow> do { s \<leftarrow> draw_num_of_rounds_graphics E s;
                         (if got_key_press s then number_of_rounds_update_status E (keyboard_packet s) s else Some s) }
      | GAME \<Rightarrow> game_case E s
      | MP_GAME \<Rightarrow> mp_game_case E s
      | HIGHSCORE \<Rightarrow> do { s \<leftarrow> draw_highscore_graph E s;
                        (if got_key_press s then highscore_update_status E (keyboard_packet s) s else Some s) }
      | EXIT \<Rightarrow> Some s)"

definition event_handler :: "'d env \<Rightarrow> ('d, 'z) simon_st_scheme \<Rightarrow> (bool \<times> ('d, 'z) simon_st_scheme) option" where
  "event_handler E s =
     do { s \<leftarrow> screen_event E s;
          let exit = (mode s = EXIT);
          s \<leftarrow> copy_to_video s;
          Some (exit, s) }"

section \<open>The interrupt loop\<close>

text \<open>The interrupt lines the loop has subscribed to, as bit masks of a notification.\<close>

record irq_sets =
  keyboard_irq_set :: u32
  timer_irq_set :: u32
  mouse_irq_set :: u32
  rtc_irq_set :: u32
  uart_irq_set :: u32

definition irq_mask :: "u8 \<Rightarrow> u32" where
  "irq_mask hook_id = BIT (unat hook_id)"

definition dispatch :: "'d env \<Rightarrow> irq_sets \<Rightarrow> u32 \<Rightarrow> ('d, 'z) simon_st_scheme \<Rightarrow> ('d, 'z) simon_st_scheme option" where
  "dispatch E irqs ints s =
     (let s = (if truth (ints AND keyboard_irq_set irqs) then
                 let ((r, k), s) = keyboard_handler E (keyboard_packet s) s
                 in s\<lparr>keyboard_packet := k, got_key_press := r\<rparr>
               else s\<lparr>got_key_press := False, keyboard_packet := (keyboard_packet s)\<lparr>key := CHR 0x00\<rparr>\<rparr>) in
      do { s \<leftarrow> (if truth (ints AND mouse_irq_set irqs) then
                  do { ((r, pk), s) \<leftarrow> mouse_handler E (mouse_packet s) s;
                       Some (s\<lparr>mouse_packet := pk, got_mouse_packet := r\<rparr>) }
                else Some (s\<lparr>got_mouse_packet := False\<rparr>));
           let s = s\<lparr>timer_interrupt := truth (ints AND timer_irq_set irqs)\<rparr>;
           let s = (if truth (ints AND rtc_irq_set irqs) then
                      let (kind, s) = rtc_handler E s in if kind = ALARM then s\<lparr>rtc_interrupt := True\<rparr> else s
                    else s\<lparr>rtc_interrupt := False\<rparr>);
           Some (if truth (ints AND uart_irq_set irqs) then
                   let ((type, data), s) = uart_handler E (data_packet s) s
                   in s\<lparr>data_packet := data, uart_type_interrupt := type, uart_interrupt := True\<rparr>
                 else s\<lparr>uart_interrupt := False\<rparr>) })"

text \<open>One iteration of the loop of \<open>run\<close>: the flag \<open>exit\<close> after it, and the state.\<close>

definition run_body :: "'d env \<Rightarrow> irq_sets \<Rightarrow> bool \<Rightarrow> ('d, 'z) simon_st_scheme \<Rightarrow> (bool \<times> ('d, 'z) simon_st_scheme) option" where
  "run_body E irqs exit s =
     (let ((r, notify, msg), d) = driver_receive E (dev s); s = s\<lparr>dev := d\<rparr> in
      if r \<noteq> 0 then Some (exit, s)
      else if notify \<and> m_source_hardware msg then
        do { s \<leftarrow> dispatch E irqs (interrupts msg) s; event_handler E s }
      else Some (exit, s))"

partial_function (option) run_loop :: "'d env \<Rightarrow> irq_sets \<Rightarrow> bool \<Rightarrow> ('d, 'z) simon_st_scheme \<Rightarrow> ('d, 'z) simon_st_scheme option" where
  "run_loop E irqs exit s =
     Option.bind (run_body E irqs exit s)
       (\<lambda>(exit, s). if \<not> scancode_is_esc_break s \<and> \<not> exit then run_loop E irqs exit s else Some s)"

definition load_props :: "'d env \<Rightarrow> ('d, 'z) simon_st_scheme \<Rightarrow> ('d, 'z) simon_st_scheme" where
  "load_props E s =
     (let s = s\<lparr>dev := srand_time E (dev s)\<rparr>;
          s = loadscreens E s;
          s = loadnums E s; s = loadlet E s; s = loadlilnums E s
      in loadlilet E s)"

text \<open>The interrupt lines and notification numbers of the subscriptions of \<open>run\<close>.\<close>

definition subscribe_all :: "'d env \<Rightarrow> ('d, 'z) simon_st_scheme \<Rightarrow> (irq_sets \<times> int \<times> int \<times> int) \<times> ('d, 'z) simon_st_scheme" where
  "subscribe_all E s =
     (let s = enable_alarm_int E s;
          s = disable_updates E s;
          s = disable_periodic_int E s;
          ((_, kbd_hook_id, kbd_notification), s) = keyboard_subscribe E s;
          ((_, timer_hook), s) = timer_subscribe_int E s;
          (_, s) = mouse_data_reporting_enable E s;
          ((_, mouse_hook_id, mouse_notification), s) = mouse_subscribe E s;
          ((_, rtc_hook_id, rtc_notification), s) = rtc_subscribe E s;
          ((_, uart_hook_id, _), s) = uart_subscribe E s;
          s = set_seconds_alarm E s;
          irqs = \<lparr>keyboard_irq_set = irq_mask kbd_hook_id, timer_irq_set = irq_mask timer_hook,
                  mouse_irq_set = irq_mask mouse_hook_id, rtc_irq_set = irq_mask rtc_hook_id,
                  uart_irq_set = irq_mask uart_hook_id\<rparr>;
          (b, s) = check_buffer E s;
          s = (if b = 0 then snd (serial_read_byte E s) else s)
      in ((irqs, kbd_notification, mouse_notification, rtc_notification), s))"

definition unsubscribe_all :: "'d env \<Rightarrow> int \<Rightarrow> int \<Rightarrow> int \<Rightarrow> ('d, 'z) simon_st_scheme \<Rightarrow> ('d, 'z) simon_st_scheme" where
  "unsubscribe_all E kbd_n mouse_n rtc_n s =
     (let (_, s) = keyboard_unsubscribe E kbd_n s;
          (_, s) = mouse_unsubscribe E mouse_n s;
          (_, s) = timer_unsubscribe_int E s;
          s = rtc_unsubscribe E rtc_n s;
          (_, d) = vg_exit E (dev s)
      in s\<lparr>dev := d\<rparr>)"

definition run :: "'d env \<Rightarrow> ('d, 'z) simon_st_scheme \<Rightarrow> (string + ('d, 'z) simon_st_scheme) option" where
  "run E s =
     (case get_mode_info E 0x114 s of
        Inl msg \<Rightarrow> Some (Inl msg)
      | Inr (r, s) \<Rightarrow>
          if r = 1 then Some (Inr s)
          else
            let (r, s) = set_vbe_mode E 0x114 s in
            if r = 1 then Some (Inr s)
            else
              let s = load_props E s;
                  ((irqs, kbd_n, mouse_n, rtc_n), s) = subscribe_all E s
              in map_option (\<lambda>s. Inr (unsubscribe_all E kbd_n mouse_n rtc_n s)) (run_loop E irqs False s))"

definition proj_main_loop :: "'d env \<Rightarrow> ('d, 'z) simon_st_scheme \<Rightarrow> (string + ('d, 'z) simon_st_scheme) option" where
  "proj_main_loop E s =
     do { s \<leftarrow> retrieveData E s;
          r \<leftarrow> run E s;
          (case r of Inl msg \<Rightarrow> Some (Inl msg) | Inr s \<Rightarrow> map_option Inr (saveData E s)) }"

section \<open>The debugging loop run1\<close>

definition junk_packet :: "u8 \<Rightarrow> packet" where
  "junk_packet b = \<lparr>pk_bytes = [b, b, b], rb = truth b, mb = truth b, lb = truth b, delta_x = ucast b,
     delta_y = ucast b, x_ov = truth b, y_ov = truth b\<rparr>"

definition run1_body :: "'d env \<Rightarrow> u32 \<Rightarrow> u32 \<Rightarrow> bool \<Rightarrow> ('d, 'z) simon_st_scheme \<Rightarrow> (bool \<times> ('d, 'z) simon_st_scheme) option" where
  "run1_body E kbd_set mouse_set exit s =
     (let ((r, notify, msg), d) = driver_receive E (dev s); s = s\<lparr>dev := d\<rparr> in
      if r \<noteq> 0 then Some (exit, s)
      else if notify \<and> m_source_hardware msg then
        let s = (if truth (interrupts msg AND kbd_set) then
                   let ((r, k), s) = keyboard_handler E (keyboard_packet s) s
                   in s\<lparr>keyboard_packet := k, got_key_press := r\<rparr>
                 else s\<lparr>got_key_press := False, keyboard_packet := (keyboard_packet s)\<lparr>key := CHR 0x00\<rparr>\<rparr>) in
        do { s \<leftarrow> (if truth (interrupts msg AND mouse_set) then
                    do { ((_, pk), s) \<leftarrow> mouse_handler E (junk_packet (uninit E (dev s))) s;
                         Some (if lb pk then snd (serial_write_byte E 0x61 s) else s) }
                  else Some s);
             event_handler E s }
      else Some (exit, s))"

partial_function (option) run1_loop :: "'d env \<Rightarrow> u32 \<Rightarrow> u32 \<Rightarrow> bool \<Rightarrow> ('d, 'z) simon_st_scheme \<Rightarrow> ('d, 'z) simon_st_scheme option" where
  "run1_loop E kbd_set mouse_set exit s =
     Option.bind (run1_body E kbd_set mouse_set exit s)
       (\<lambda>(exit, s). if \<not> scancode_is_esc_break s \<and> \<not> exit then run1_loop E kbd_set mouse_set exit s else Some s)"

definition run1 :: "'d env \<Rightarrow> ('d, 'z) simon_st_scheme \<Rightarrow> ('d, 'z) simon_st_scheme option" where
  "run1 E s =
     (let ((_, uart_hook_id, uart_n), s) = uart_subscribe E s;
          ((_, kbc_hook_id, kbd_n), s) = keyboard_subscribe E s;
          ((_, mouse_hook_id, mouse_n), s) = mouse_subscribe E s;
          s = enable_received_data_int E s;
          s = enable_trans_empty_int E s
      in do { s \<leftarrow> run1_loop E (irq_mask kbc_hook_id) (irq_mask mouse_hook_id) False s;
              let (_, s) = keyboard_unsubscribe E kbd_n s;
              let (_, s) = mouse_unsubscribe E mouse_n s;
              let (_, s) = check_buffer E s;
              let (_, s) = check_thr_emtpy E s;
              let (_, s) = uart_unsubscribe E uart_n s;
              Some s })"

end
