(* ===== verification/Mp_Rules.thy ===== *)
theory Mp_Rules
  imports Mp_Game
begin

text \<open>
  What makes \<open>mp_game.c\<close> correct: the bytes on the line and what the peer makes of them. Two
  machines in step stay in step over every click that does not end the game, and agree on the
  winner of a lost one; a tie, a versus round that ends on the client's side, a number of
  rounds above 255 and a second byte while the transmitter is busy are where they part.
\<close>

section \<open>The line\<close>

text \<open>What sending reads and writes: the device and the one-byte queue.\<close>

definition line :: "('d, 'z) mp_st_scheme \<Rightarrow> 'd \<times> bool \<times> u8" where
  "line s = (dev s, uart_has_data_to_send s, uart_data s)"

definition put_line :: "'d \<times> bool \<times> u8 \<Rightarrow> ('d, 'z) mp_st_scheme \<Rightarrow> ('d, 'z) mp_st_scheme" where
  "put_line l s = s\<lparr>dev := fst l, uart_has_data_to_send := fst (snd l), uart_data := snd (snd l)\<rparr>"

definition send_line :: "'d env \<Rightarrow> u8 \<Rightarrow> 'd \<times> bool \<times> u8 \<Rightarrow> 'd \<times> bool \<times> u8" where
  "send_line E b l =
     (let (thr_empty, m) = check_thr_emtpy E \<lparr>dev = fst l\<rparr>
      in if thr_empty then (dev (snd (serial_write_byte E b m)), snd l) else (dev m, True, b))"

definition send_all :: "'d env \<Rightarrow> u8 list \<Rightarrow> 'd \<times> bool \<times> u8 \<Rightarrow> 'd \<times> bool \<times> u8" where
  "send_all E bs l = fold (send_line E) bs l"

lemma send_all_simps [simp]:
  "send_all E [] l = l" "send_all E (b # bs) l = send_all E bs (send_line E b l)"
  by (simp_all add: send_all_def)

lemma line_put_line [simp]: "line (put_line l s) = l"
  by (simp add: line_def put_line_def)

lemma put_line_twice [simp]: "put_line l (put_line l' s) = put_line l s"
  by (simp add: put_line_def)

lemma put_line_same [simp]: "put_line (line s) s = s"
  by (simp add: line_def put_line_def)

lemma check_thr_local:
  "check_thr_emtpy E s = (fst (check_thr_emtpy E \<lparr>dev = dev s\<rparr>), s\<lparr>dev := dev (snd (check_thr_emtpy E \<lparr>dev = dev s\<rparr>))\<rparr>)"
  by (simp add: check_thr_emtpy_def inb_def util_sys_inb_def Let_def split_beta)

lemma serial_write_local:
  "serial_write_byte E b s =
     (fst (serial_write_byte E b \<lparr>dev = dev s\<rparr>), s\<lparr>dev := dev (snd (serial_write_byte E b \<lparr>dev = dev s\<rparr>))\<rparr>)"
  by (simp add: serial_write_byte_def check_data_dlab_def set_data_dlab_def check_thr_emtpy_def out_def outb_def
      inb_def util_sys_inb_def Let_def split_beta)

lemma send_or_queue_line: "send_or_queue E b s = put_line (send_line E b (line s)) s"
proof -
  let ?c = "check_thr_emtpy E \<lparr>dev = dev s\<rparr>"
  have c: "check_thr_emtpy E s = (fst ?c, s\<lparr>dev := dev (snd ?c)\<rparr>)" by (rule check_thr_local)
  have m: "snd ?c = \<lparr>dev = dev (snd ?c)\<rparr>" by (cases "snd ?c") simp
  show ?thesis
  proof (cases "fst ?c")
    case True
    have w: "snd (serial_write_byte E b (s\<lparr>dev := dev (snd ?c)\<rparr>)) =
        s\<lparr>dev := dev (snd (serial_write_byte E b \<lparr>dev = dev (snd ?c)\<rparr>))\<rparr>"
      by (subst serial_write_local) simp
    have "send_line E b (line s) = (dev (snd (serial_write_byte E b \<lparr>dev = dev (snd ?c)\<rparr>)), snd (line s))"
      using True arg_cong [OF m, of "\<lambda>x. dev (snd (serial_write_byte E b x))"]
      by (simp add: send_line_def line_def split_beta Let_def)
    then show ?thesis using True w by (simp add: send_or_queue_def c put_line_def line_def)
  next
    case False
    then show ?thesis using c
      by (simp add: send_or_queue_def send_line_def line_def put_line_def uart_set_queue_def split_beta Let_def)
  qed
qed

text \<open>A busy transmitter keeps one byte only: what waits is the last byte sent.\<close>

lemma send_line_busy:
  assumes "\<And>d. \<not> fst (check_thr_emtpy E \<lparr>dev = d\<rparr>)"
  shows "snd (send_line E b l) = (True, b)"
  using assms by (simp add: send_line_def split_beta Let_def)

lemma send_all_busy:
  assumes busy: "\<And>d. \<not> fst (check_thr_emtpy E \<lparr>dev = d\<rparr>)" and ne: "bs \<noteq> []"
  shows "snd (send_all E bs l) = (True, last bs)"
  using ne
proof (induction bs arbitrary: l)
  case Nil
  then show ?case by simp
next
  case (Cons b bs)
  then show ?case using send_line_busy [OF busy] by (cases bs) auto
qed

section \<open>The encoding\<close>

lemma button_wire:
  assumes "c \<noteq> NO_BUTTON"
  shows "3 \<le> coms_code GREEN_REMOTE + button_code c" "coms_code GREEN_REMOTE + button_code c \<le> 8"
    "button_of_code (coms_code GREEN_REMOTE + button_code c - coms_code GREEN_REMOTE) = c"
  using assms by (cases c; simp add: button_of_code_def)+

definition button_byte :: "button_click_t \<Rightarrow> u8" where
  "button_byte c = coms_code GREEN_REMOTE + button_code c"

lemma play_game_button: "c \<noteq> NO_BUTTON \<Longrightarrow> play_game E (button_byte c) s = mp_buttons_handler E c s"
  by (cases c) (simp_all add: button_byte_def play_game_def button_of_code_def)

lemma mp_send_button_line: "mp_send_button E c s = put_line (send_line E (button_byte c) (line s)) s"
  by (simp only: mp_send_button_def button_byte_def send_or_queue_line)

lemma play_game_control:
  "play_game E (coms_code IS_VS) s =
     Some (s\<lparr>mp_is_vs_round := True, mp_VS_was_pressed := False, mp_guessed := 0,
             mp_is_player_1 := \<not> mp_is_player_1 s, mp_time_left_for_click := INTERVAL\<rparr>)"
  "play_game E (coms_code READY) s =
     Some (s\<lparr>mp_is_vs_round := True, mp_VS_was_pressed := False, mp_guessed := 0,
             mp_is_player_1 := \<not> mp_is_player_1 s, mp_time_left_for_click := INTERVAL\<rparr>)"
  "play_game E (coms_code LOSE) s =
     (if is_host s then mp_end_game E (s\<lparr>mp_ws := WINNER1\<rparr>) else mp_end_game E (s\<lparr>mp_ws := WINNER2\<rparr>))"
  "play_game E (coms_code TIE_REMOTE) s = Some s"
  by (simp_all add: play_game_def mp_is_VS_round_def)

declare coms_code.simps [simp del] button_code.simps [simp del]

section \<open>The invariant\<close>

definition mp_live :: "('d, 'z) mp_st_scheme \<Rightarrow> button_click_t list \<Rightarrow> bool" where
  "mp_live s xs \<longleftrightarrow> \<not> mp_game_end s \<and> blk_holds (mp_buttons s) (nat (mp_max_buttons_size s)) xs \<and>
     0 \<le> mp_max_buttons_size s \<and> mp_buttons_size s = int (length xs) \<and> 0 \<le> mp_guessed s \<and>
     mp_guessed s \<le> mp_buttons_size s \<and> list_all (\<lambda>c. c \<noteq> NO_BUTTON) xs"

lemma mp_live_frame [simp]:
  "mp_live (s\<lparr>mp_player_score := n\<rparr>) xs \<longleftrightarrow> mp_live s xs" "mp_live (s\<lparr>mp_VS_was_pressed := v\<rparr>) xs \<longleftrightarrow> mp_live s xs"
  "mp_live (s\<lparr>mp_is_vs_round := v\<rparr>) xs \<longleftrightarrow> mp_live s xs" "mp_live (s\<lparr>mp_is_player_1 := v\<rparr>) xs \<longleftrightarrow> mp_live s xs"
  "mp_live (s\<lparr>mp_time_left_for_click := n\<rparr>) xs \<longleftrightarrow> mp_live s xs" "mp_live (s\<lparr>mp_mouse := m\<rparr>) xs \<longleftrightarrow> mp_live s xs"
  "mp_live (s\<lparr>mp_ps := p\<rparr>) xs \<longleftrightarrow> mp_live s xs" "mp_live (s\<lparr>VS_screen := v\<rparr>) xs \<longleftrightarrow> mp_live s xs"
  "mp_live (s\<lparr>mp_ws := w\<rparr>) xs \<longleftrightarrow> mp_live s xs" "mp_live (s\<lparr>time_left_for_screen := n\<rparr>) xs \<longleftrightarrow> mp_live s xs"
  "mp_live (put_line l s) xs \<longleftrightarrow> mp_live s xs"
  by (simp_all add: mp_live_def put_line_def)

lemma mp_live_length: "mp_live s xs \<Longrightarrow> int (length xs) \<le> mp_max_buttons_size s"
  by (auto simp: mp_live_def blk_holds_def)

lemma mp_add_button_live:
  assumes "mp_live s xs" and "int (length xs) < mp_max_buttons_size s"
  shows "\<exists>b. mp_add_button c s = Some (s\<lparr>mp_buttons := b, mp_buttons_size := int (length xs) + 1\<rparr>) \<and>
    blk_holds b (nat (mp_max_buttons_size s)) (xs @ [c])"
proof -
  have "length xs < nat (mp_max_buttons_size s)" using assms(2) by linarith
  then obtain b where "blk_write (mp_buttons s) (int (length xs)) c = Some b"
      "blk_holds b (nat (mp_max_buttons_size s)) (xs @ [c])"
    using blk_holds_write assms(1) unfolding mp_live_def by metis
  then show ?thesis using assms(1) by (intro exI [of _ b]) (simp add: mp_add_button_def mp_live_def)
qed

lemma mp_add_button_full:
  assumes "mp_live s xs" and "int (length xs) = mp_max_buttons_size s"
  shows "mp_add_button c s = None"
proof -
  have "blk_write (mp_buttons s) (int (length xs)) c = None"
    using assms by (intro blk_write_None) (auto simp: mp_live_def)
  then show ?thesis using assms(1) by (simp add: mp_add_button_def mp_live_def)
qed

lemma mp_end_game_live:
  "blk_holds (mp_buttons s) n xs \<Longrightarrow>
   mp_end_game E s = Some (set_timed_alarm E 5 (s\<lparr>mp_game_end := True, mp_buttons := Freed\<rparr>))"
  by (simp add: mp_end_game_def blk_holds_free)

lemma mp_end_game_over: "mp_buttons s = Freed \<Longrightarrow> mp_end_game E s = None"
  by (simp add: mp_end_game_def)

section \<open>A click and what the peer makes of its bytes\<close>

lemma put_line_fields [simp]:
  "is_host (put_line l s) = is_host s" "mp_is_player_1 (put_line l s) = mp_is_player_1 s"
  "mp_guessed (put_line l s) = mp_guessed s" "mp_buttons_size (put_line l s) = mp_buttons_size s"
  "mp_max_buttons_size (put_line l s) = mp_max_buttons_size s" "mp_buttons (put_line l s) = mp_buttons s"
  "mp_is_vs_round (put_line l s) = mp_is_vs_round s" "mp_VS_was_pressed (put_line l s) = mp_VS_was_pressed s"
  "mp_game_end (put_line l s) = mp_game_end s" "mp_ws (put_line l s) = mp_ws s"
  "mp_player_score (put_line l s) = mp_player_score s" "game_started (put_line l s) = game_started s"
  by (simp_all add: put_line_def)

text \<open>Normal form: the line outermost, the fields of the game inside.\<close>

lemma line_upd [simp]:
  "line (s\<lparr>mp_buttons := v0\<rparr>) = line s"
  "line (s\<lparr>mp_buttons_size := v1\<rparr>) = line s"
  "line (s\<lparr>mp_guessed := v2\<rparr>) = line s"
  "line (s\<lparr>mp_is_player_1 := v3\<rparr>) = line s"
  "line (s\<lparr>mp_is_vs_round := v4\<rparr>) = line s"
  "line (s\<lparr>mp_VS_was_pressed := v5\<rparr>) = line s"
  "line (s\<lparr>mp_time_left_for_click := v6\<rparr>) = line s"
  "line (s\<lparr>VS_screen := v7\<rparr>) = line s"
  "line (s\<lparr>mp_player_score := v8\<rparr>) = line s"
  "line (s\<lparr>mp_ws := v9\<rparr>) = line s"
  "line (s\<lparr>mp_game_end := v10\<rparr>) = line s"
  "line (s\<lparr>mp_mouse := v11\<rparr>) = line s"
  "line (s\<lparr>time_left_for_screen := v12\<rparr>) = line s"
  "line (s\<lparr>mp_ps := v13\<rparr>) = line s"
  by (simp_all add: line_def)

lemma put_line_upd [simp]:
  "(put_line l s)\<lparr>mp_buttons := v0\<rparr> = put_line l (s\<lparr>mp_buttons := v0\<rparr>)"
  "(put_line l s)\<lparr>mp_buttons_size := v1\<rparr> = put_line l (s\<lparr>mp_buttons_size := v1\<rparr>)"
  "(put_line l s)\<lparr>mp_guessed := v2\<rparr> = put_line l (s\<lparr>mp_guessed := v2\<rparr>)"
  "(put_line l s)\<lparr>mp_is_player_1 := v3\<rparr> = put_line l (s\<lparr>mp_is_player_1 := v3\<rparr>)"
  "(put_line l s)\<lparr>mp_is_vs_round := v4\<rparr> = put_line l (s\<lparr>mp_is_vs_round := v4\<rparr>)"
  "(put_line l s)\<lparr>mp_VS_was_pressed := v5\<rparr> = put_line l (s\<lparr>mp_VS_was_pressed := v5\<rparr>)"
  "(put_line l s)\<lparr>mp_time_left_for_click := v6\<rparr> = put_line l (s\<lparr>mp_time_left_for_click := v6\<rparr>)"
  "(put_line l s)\<lparr>VS_screen := v7\<rparr> = put_line l (s\<lparr>VS_screen := v7\<rparr>)"
  "(put_line l s)\<lparr>mp_player_score := v8\<rparr> = put_line l (s\<lparr>mp_player_score := v8\<rparr>)"
  "(put_line l s)\<lparr>mp_ws := v9\<rparr> = put_line l (s\<lparr>mp_ws := v9\<rparr>)"
  "(put_line l s)\<lparr>mp_game_end := v10\<rparr> = put_line l (s\<lparr>mp_game_end := v10\<rparr>)"
  "(put_line l s)\<lparr>mp_mouse := v11\<rparr> = put_line l (s\<lparr>mp_mouse := v11\<rparr>)"
  "(put_line l s)\<lparr>time_left_for_screen := v12\<rparr> = put_line l (s\<lparr>time_left_for_screen := v12\<rparr>)"
  "(put_line l s)\<lparr>mp_ps := v13\<rparr> = put_line l (s\<lparr>mp_ps := v13\<rparr>)"
  by (simp_all add: put_line_def)

text \<open>Two machines in step: one hosts, and they agree on the state of the game.\<close>

definition in_step :: "('d, 'z) mp_st_scheme \<Rightarrow> ('e, 'y) mp_st_scheme \<Rightarrow> button_click_t list \<Rightarrow> bool" where
  "in_step s t xs \<longleftrightarrow> mp_live s xs \<and> mp_live t xs \<and> is_host s \<noteq> is_host t \<and>
     mp_is_player_1 t = mp_is_player_1 s \<and> mp_guessed t = mp_guessed s \<and>
     mp_max_buttons_size t = mp_max_buttons_size s \<and> mp_VS_was_pressed t = mp_VS_was_pressed s \<and>
     mp_is_vs_round s \<and> mp_is_vs_round t"

lemma in_step_sym: "in_step s t xs \<Longrightarrow> in_step t s xs"
  by (auto simp: in_step_def)

text \<open>The light and the screen timer do not matter to the relation.\<close>

lemma mp_light_frame: "\<exists>p. mp_light_button c s = s\<lparr>mp_ps := p\<rparr>"
  by (cases c) (auto simp: mp_light_button_def)

lemma in_step_lit [simp]:
  "in_step (s\<lparr>mp_ps := p\<rparr>) t xs \<longleftrightarrow> in_step s t xs" "in_step s (t\<lparr>mp_ps := p\<rparr>) xs \<longleftrightarrow> in_step s t xs"
  "in_step (s\<lparr>time_left_for_screen := n\<rparr>) t xs \<longleftrightarrow> in_step s t xs"
  "in_step s (t\<lparr>time_left_for_screen := n\<rparr>) xs \<longleftrightarrow> in_step s t xs"
  by (simp_all add: in_step_def)

lemma play_remote:
  assumes "is_host s \<noteq> mp_is_player_1 s" and "mp_remote_click_button E c s = Some s'" and "c \<noteq> NO_BUTTON"
  shows "\<exists>p. play_game E (button_byte c) s =
    Some (s'\<lparr>mp_ps := p, time_left_for_screen := TIMER_BUTTON_MP\<rparr>)"
  using assms mp_light_frame [of c s'] by (auto simp: play_game_button mp_buttons_handler_def)

lemma mp_read:
  assumes "mp_live s xs" and "mp_guessed s = int k" and "k < length xs"
  shows "blk_read (mp_buttons s) (int k) = Some (xs ! k)"
  using assms blk_holds_read [of "mp_buttons s" "nat (mp_max_buttons_size s)" xs "int k"] by (simp add: mp_live_def)

text \<open>A right button is announced and both count it.\<close>

lemma guess_in_step:
  assumes st: "in_step s t xs" and turn: "is_host s = mp_is_player_1 s" and v: "\<not> mp_VS_was_pressed s"
    and k: "mp_guessed s = int k" "k < length xs"
  shows "\<exists>s' t'. mp_click_button E (xs ! k) s = Some s' \<and>
    line s' = send_all E [button_byte (xs ! k)] (line s) \<and>
    run_steps (play_game F) [button_byte (xs ! k)] t = Some t' \<and>
    in_step s' t' xs \<and> mp_guessed s' = int (Suc k)"
proof -
  have l: "mp_live s xs" "mp_live t xs" and kt: "mp_guessed t = int k" and vt: "\<not> mp_VS_was_pressed t"
    and tt: "is_host t \<noteq> mp_is_player_1 t"
    using st turn v k by (auto simp: in_step_def)
  have nb: "xs ! k \<noteq> NO_BUTTON" using l(1) k(2) by (simp add: mp_live_def list_all_length)
  have ns: "mp_guessed s \<noteq> mp_buttons_size s" "mp_guessed t \<noteq> mp_buttons_size t" using l k kt by (auto simp: mp_live_def)
  let ?l = "send_line E (button_byte (xs ! k)) (line s)"
  have cs: "mp_click_button E (xs ! k) s = Some (put_line ?l (s\<lparr>mp_guessed := int k + 1,
      mp_time_left_for_click := if int k + 1 = mp_buttons_size s then - 1 else INTERVAL\<rparr>))"
    using mp_read [OF l(1) k] ns nb v k
    by (simp add: mp_click_button_def mp_send_button_line Let_def)
  have "mp_remote_click_button F (xs ! k) t = Some (t\<lparr>mp_guessed := int k + 1\<rparr>)"
    using mp_read [OF l(2) kt k(2)] ns vt kt by (simp add: mp_remote_click_button_def)
  then obtain p where "play_game F (button_byte (xs ! k)) t =
      Some (t\<lparr>mp_guessed := int k + 1, mp_ps := p, time_left_for_screen := TIMER_BUTTON_MP\<rparr>)"
    using play_remote [OF tt _ nb] by blast
  moreover have "in_step (put_line ?l (s\<lparr>mp_guessed := int k + 1,
      mp_time_left_for_click := if int k + 1 = mp_buttons_size s then - 1 else INTERVAL\<rparr>))
      (t\<lparr>mp_guessed := int k + 1\<rparr>) xs"
    using st k by (auto simp: in_step_def mp_live_def)
  ultimately show ?thesis using cs by auto
qed

text \<open>A button added outside the versus mode: the button, then the change of turn.\<close>

lemma extend_in_step:
  assumes st: "in_step s t xs" and turn: "is_host s = mp_is_player_1 s" and v: "\<not> mp_VS_was_pressed s"
    and k: "mp_guessed s = int (length xs)" and n: "int (length xs) < mp_max_buttons_size s"
    and c: "c \<noteq> NO_BUTTON" "c \<noteq> VS_B"
  shows "\<exists>s' t' ctl. mp_click_button E c s = Some s' \<and>
    line s' = send_all E [button_byte c, ctl] (line s) \<and>
    run_steps (play_game F) [button_byte c, ctl] t = Some t' \<and>
    in_step s' t' (xs @ [c]) \<and> mp_guessed s' = 0 \<and> mp_is_player_1 s' = (\<not> mp_is_player_1 s)"
proof -
  have l: "mp_live s xs" "mp_live t xs" and kt: "mp_guessed t = int (length xs)" and vt: "\<not> mp_VS_was_pressed t"
    and tt: "is_host t \<noteq> mp_is_player_1 t" and nt: "int (length xs) < mp_max_buttons_size t"
    and vs: "mp_is_vs_round s" "mp_is_vs_round t"
    using st turn v k n by (auto simp: in_step_def)
  have sz: "mp_buttons_size s = int (length xs)" "mp_buttons_size t = int (length xs)" using l by (auto simp: mp_live_def)
  let ?s = "s\<lparr>mp_player_score := int (length xs)\<rparr>" and ?t = "t\<lparr>mp_player_score := int (length xs)\<rparr>"
  have "mp_live ?s xs" "int (length xs) < mp_max_buttons_size ?s" using l n by simp_all
  from mp_add_button_live [OF this, of c] obtain b where
    b: "mp_add_button c ?s = Some (?s\<lparr>mp_buttons := b, mp_buttons_size := int (length xs) + 1\<rparr>)"
      "blk_holds b (nat (mp_max_buttons_size s)) (xs @ [c])" by auto
  have "mp_live ?t xs" "int (length xs) < mp_max_buttons_size ?t" using l nt by simp_all
  from mp_add_button_live [OF this, of c] obtain b' where
    b': "mp_add_button c ?t = Some (?t\<lparr>mp_buttons := b', mp_buttons_size := int (length xs) + 1\<rparr>)"
      "blk_holds b' (nat (mp_max_buttons_size t)) (xs @ [c])" by auto
  let ?ctl = "if is_host s then coms_code IS_VS else coms_code READY"
  let ?l = "send_all E [button_byte c, ?ctl] (line s)"
  let ?x = "?s\<lparr>mp_buttons := b, mp_buttons_size := int (length xs) + 1,
      mp_is_player_1 := \<not> mp_is_player_1 s, mp_guessed := 0\<rparr>"
  let ?s' = "put_line ?l (if is_host s then mp_is_VS_round ?x else ?x)"
  have cs: "mp_click_button E c s = Some ?s'"
    using b(1) k sz n v vs c
    by (simp add: mp_click_button_def mp_send_button_line mp_change_player_def mp_is_VS_round_def send_or_queue_line
        Let_def)
  have "mp_remote_click_button F c t = Some (?t\<lparr>mp_buttons := b', mp_buttons_size := int (length xs) + 1\<rparr>)"
    using b'(1) kt sz nt vt vs c by (simp add: mp_remote_click_button_def)
  then obtain p where p: "play_game F (button_byte c) t =
      Some (?t\<lparr>mp_buttons := b', mp_buttons_size := int (length xs) + 1, mp_ps := p, time_left_for_screen := TIMER_BUTTON_MP\<rparr>)"
    using play_remote [OF tt _ c(1)] by blast
  let ?t' = "?t\<lparr>mp_buttons := b', mp_buttons_size := int (length xs) + 1, mp_ps := p,
    time_left_for_screen := TIMER_BUTTON_MP, mp_is_vs_round := True, mp_VS_was_pressed := False, mp_guessed := 0,
    mp_is_player_1 := \<not> mp_is_player_1 t, mp_time_left_for_click := INTERVAL\<rparr>"
  have r: "run_steps (play_game F) [button_byte c, ?ctl] t = Some ?t'"
    using p by (simp add: play_game_control)
  have "in_step ?s' ?t' (xs @ [c])"
    using b(2) b'(2) st l c(1) v by (simp add: in_step_def mp_live_def mp_is_VS_round_def)
  then show ?thesis
    using cs r by (intro exI [of _ ?s'] exI [of _ ?t'] exI [of _ ?ctl]) (simp add: mp_is_VS_round_def)
qed

text \<open>
  A button of the versus mode: the first one switches it on, on both sides. The score, the
  flag of the versus screen and the clock are \<open>sc\<close>, \<open>scr\<close> and \<open>tm\<close>.
\<close>

definition versus_click :: "('d, 'z) mp_st_scheme \<Rightarrow> button_click_t \<Rightarrow> button_click_t list \<Rightarrow> bool" where
  "versus_click s c xs \<longleftrightarrow> mp_live s xs \<and> mp_is_vs_round s \<and> mp_guessed s \<noteq> mp_max_buttons_size s \<and>
     int (length xs) < mp_max_buttons_size s \<and> c \<noteq> NO_BUTTON \<and>
     (mp_VS_was_pressed s \<or> mp_guessed s = int (length xs) \<and> c = VS_B)"

definition versus_state ::
  "int \<Rightarrow> bool \<Rightarrow> bool \<Rightarrow> int \<Rightarrow> button_click_t block \<Rightarrow> int \<Rightarrow> ('d, 'z) mp_st_scheme \<Rightarrow> ('d, 'z) mp_st_scheme" where
  "versus_state sc vp scr tm b n s =
     s\<lparr>mp_player_score := sc, mp_VS_was_pressed := vp, VS_screen := scr, mp_buttons := b,
       mp_buttons_size := n, mp_time_left_for_click := tm\<rparr>"

lemma versus_add:
  assumes "versus_click s c xs"
  shows "\<exists>b. mp_add_button c (s\<lparr>mp_player_score := sc, mp_VS_was_pressed := vp, VS_screen := scr\<rparr>) =
      Some (versus_state sc vp scr (mp_time_left_for_click s) b (int (length xs) + 1) s) \<and>
    blk_holds b (nat (mp_max_buttons_size s)) (xs @ [c])"
  using mp_add_button_live [of "s\<lparr>mp_player_score := sc, mp_VS_was_pressed := vp, VS_screen := scr\<rparr>" xs c] assms
  by (simp add: versus_click_def versus_state_def)

lemma versus_add_on:
  assumes vc: "versus_click s c xs" and v: "mp_VS_was_pressed s"
  shows "\<exists>b. mp_add_button c (s\<lparr>mp_player_score := sc\<rparr>) =
      Some (versus_state sc True (VS_screen s) (mp_time_left_for_click s) b (int (length xs) + 1) s) \<and>
    blk_holds b (nat (mp_max_buttons_size s)) (xs @ [c])"
proof -
  have e: "s\<lparr>mp_player_score := sc, mp_VS_was_pressed := mp_VS_was_pressed s, VS_screen := VS_screen s\<rparr> =
      s\<lparr>mp_player_score := sc\<rparr>" by simp
  show ?thesis using versus_add [OF vc, where sc = sc and vp = "mp_VS_was_pressed s" and scr = "VS_screen s"] v unfolding e by simp
qed

lemma versus_add_kept:
  assumes vc: "versus_click s c xs" and v: "mp_VS_was_pressed s"
  shows "\<exists>b. mp_add_button c s =
      Some (versus_state (mp_player_score s) True (VS_screen s) (mp_time_left_for_click s) b (int (length xs) + 1) s) \<and>
    blk_holds b (nat (mp_max_buttons_size s)) (xs @ [c])"
  using versus_add_on [OF vc v, of "mp_player_score s"] by simp

text \<open>The three cases: the first versus button, and a further one with or without a new score.\<close>

lemma versus_cases:
  assumes "versus_click s c xs"
  obtains (first) "\<not> mp_VS_was_pressed s" "mp_guessed s = mp_buttons_size s" "c = VS_B"
  | (score) "mp_VS_was_pressed s" "mp_guessed s = mp_buttons_size s"
  | (more) "mp_VS_was_pressed s" "mp_guessed s \<noteq> mp_buttons_size s"
  using assms by (auto simp: versus_click_def mp_live_def)

lemma versus_local:
  assumes vc: "versus_click s c xs"
  shows "\<exists>sc scr tm b. mp_click_button E c s =
      Some (put_line (send_line E (button_byte c) (line s)) (versus_state sc True scr tm b (int (length xs) + 1) s)) \<and>
    blk_holds b (nat (mp_max_buttons_size s)) (xs @ [c])"
proof -
  have f: "mp_is_vs_round s" "mp_guessed s \<noteq> mp_max_buttons_size s" "c \<noteq> NO_BUTTON"
    using vc by (simp_all add: versus_click_def)
  have fr: "line (versus_state sc vp scr tm b n s) = line s" for sc vp scr tm b n
    by (simp add: versus_state_def)
  from vc show ?thesis
  proof (cases rule: versus_cases)
    case first
    obtain b where b: "mp_add_button c (s\<lparr>mp_player_score := mp_buttons_size s, mp_VS_was_pressed := True, VS_screen := True\<rparr>) =
        Some (versus_state (mp_buttons_size s) True True (mp_time_left_for_click s) b (int (length xs) + 1) s)"
        "blk_holds b (nat (mp_max_buttons_size s)) (xs @ [c])" using versus_add [OF vc] by blast
    then have "mp_click_button E c s = Some (put_line (send_line E (button_byte c) (line s))
        (versus_state (mp_buttons_size s) True True VS_INTERVAL b (int (length xs) + 1) s))"
      using first f by (simp add: mp_click_button_def mp_send_button_line Let_def fr) (simp add: versus_state_def)
    then show ?thesis using b(2) by blast
  next
    case score
    obtain b where b: "mp_add_button c (s\<lparr>mp_player_score := mp_buttons_size s\<rparr>) =
        Some (versus_state (mp_buttons_size s) True (VS_screen s) (mp_time_left_for_click s) b (int (length xs) + 1) s)"
        "blk_holds b (nat (mp_max_buttons_size s)) (xs @ [c])" using versus_add_on [OF vc score(1)] by blast
    then have "mp_click_button E c s = Some (put_line (send_line E (button_byte c) (line s))
        (versus_state (mp_buttons_size s) True (VS_screen s) (mp_time_left_for_click s) b (int (length xs) + 1) s))"
      using score f by (simp add: mp_click_button_def mp_send_button_line Let_def fr)
    then show ?thesis using b(2) by blast
  next
    case more
    obtain b where b: "mp_add_button c s =
        Some (versus_state (mp_player_score s) True (VS_screen s) (mp_time_left_for_click s) b (int (length xs) + 1) s)"
        "blk_holds b (nat (mp_max_buttons_size s)) (xs @ [c])" using versus_add_kept [OF vc more(1)] by blast
    then have "mp_click_button E c s = Some (put_line (send_line E (button_byte c) (line s))
        (versus_state (mp_player_score s) True (VS_screen s) (mp_time_left_for_click s) b (int (length xs) + 1) s))"
      using more f by (simp add: mp_click_button_def mp_send_button_line Let_def fr)
    then show ?thesis using b(2) by blast
  qed
qed

lemma versus_remote:
  assumes vc: "versus_click s c xs"
  shows "\<exists>sc scr tm b. mp_remote_click_button E c s =
      Some (versus_state sc True scr tm b (int (length xs) + 1) s) \<and>
    blk_holds b (nat (mp_max_buttons_size s)) (xs @ [c])"
proof -
  have f: "mp_is_vs_round s" "mp_guessed s \<noteq> mp_max_buttons_size s" using vc by (simp_all add: versus_click_def)
  from vc show ?thesis
  proof (cases rule: versus_cases)
    case first
    then show ?thesis
      using f versus_add [OF vc, where sc = "mp_buttons_size s" and vp = True and scr = True]
      by (auto simp: mp_remote_click_button_def Let_def)
  next
    case score
    then show ?thesis
      using f versus_add_on [OF vc score(1), of "mp_buttons_size s"]
      by (auto simp: mp_remote_click_button_def Let_def)
  next
    case more
    then show ?thesis
      using f versus_add_kept [OF vc more(1)]
      by (auto simp: mp_remote_click_button_def Let_def)
  qed
qed

lemma versus_in_step:
  assumes st: "in_step s t xs" and turn: "is_host s = mp_is_player_1 s" and vc: "versus_click s c xs"
  shows "\<exists>s' t'. mp_click_button E c s = Some s' \<and>
    line s' = send_all E [button_byte c] (line s) \<and>
    run_steps (play_game F) [button_byte c] t = Some t' \<and>
    in_step s' t' (xs @ [c]) \<and> mp_VS_was_pressed s' \<and> mp_guessed s' = mp_guessed s"
proof -
  have tt: "is_host t \<noteq> mp_is_player_1 t" and c: "c \<noteq> NO_BUTTON" and vt: "versus_click t c xs"
    using st turn vc by (auto simp: in_step_def versus_click_def)
  obtain sc scr tm b where s': "mp_click_button E c s =
      Some (put_line (send_line E (button_byte c) (line s)) (versus_state sc True scr tm b (int (length xs) + 1) s))"
      "blk_holds b (nat (mp_max_buttons_size s)) (xs @ [c])"
    using versus_local [OF vc] by blast
  obtain sc' scr' tm' b' where r: "mp_remote_click_button F c t =
      Some (versus_state sc' True scr' tm' b' (int (length xs) + 1) t)"
      "blk_holds b' (nat (mp_max_buttons_size t)) (xs @ [c])"
    using versus_remote [OF vt] by blast
  obtain p where p: "play_game F (button_byte c) t = Some ((versus_state sc' True scr' tm' b' (int (length xs) + 1) t)
      \<lparr>mp_ps := p, time_left_for_screen := TIMER_BUTTON_MP\<rparr>)"
    using play_remote [OF tt r(1) c] by blast
  have "in_step (put_line l (versus_state sc True scr tm b (int (length xs) + 1) s))
      (versus_state sc' True scr' tm' b' (int (length xs) + 1) t) (xs @ [c])" for l
    using st s'(2) r(2) c by (simp add: in_step_def mp_live_def versus_state_def)
  then show ?thesis using s'(1) p by (simp add: versus_state_def)
qed

text \<open>A wrong button ends the game on both sides with the same winner, the player who did not click.\<close>

lemma alarm_mp_fields [simp]:
  "mp_game_end (set_timed_alarm E n s) = mp_game_end s" "mp_ws (set_timed_alarm E n s) = mp_ws s"
  "mp_buttons (set_timed_alarm E n s) = mp_buttons s" "mp_player_score (set_timed_alarm E n s) = mp_player_score s"
  for s :: "('d, 'z) mp_st_scheme"
  by (subst timed_alarm.cmd_state, simp)+

lemma mp_lose:
  assumes l: "mp_live s xs"
  shows "\<exists>s'. mp_end_game E (mp_send_winner E (mp_get_winner s)) = Some s' \<and> mp_game_end s' \<and>
    mp_ws s' = (if mp_is_player_1 s then WINNER2 else WINNER1) \<and>
    s' = set_timed_alarm E 5 (put_line (send_all E [coms_code LOSE] (line s))
      (s\<lparr>mp_ws := if mp_is_player_1 s then WINNER2 else WINNER1, mp_game_end := True, mp_buttons := Freed\<rparr>))"
proof -
  let ?w = "if mp_is_player_1 s then WINNER2 else WINNER1"
  have w: "mp_send_winner E (mp_get_winner s) = put_line (send_line E (coms_code LOSE) (line s)) (s\<lparr>mp_ws := ?w\<rparr>)"
    by (simp add: mp_send_winner_def mp_get_winner_def send_or_queue_line)
  have "blk_holds (mp_buttons (mp_send_winner E (mp_get_winner s))) (nat (mp_max_buttons_size s)) xs"
    using l by (simp add: w mp_live_def)
  from mp_end_game_live [OF this] show ?thesis unfolding w by (simp del: put_line_upd(10) add: put_line_upd(10))
qed

lemma wrong_in_step:
  assumes st: "in_step s t xs" and turn: "is_host s = mp_is_player_1 s" and v: "\<not> mp_VS_was_pressed s"
    and k: "mp_guessed s = int k" "k < length xs" and c: "c \<noteq> NO_BUTTON" "c \<noteq> xs ! k"
  shows "\<exists>s' t'. mp_click_button E c s = Some s' \<and> mp_game_end s' \<and>
    run_steps (play_game F) [coms_code LOSE] t = Some t' \<and> mp_game_end t' \<and>
    mp_ws s' = (if mp_is_player_1 s then WINNER2 else WINNER1) \<and> mp_ws t' = mp_ws s'"
proof -
  have l: "mp_live s xs" "mp_live t xs" using st by (simp_all add: in_step_def)
  have ns: "mp_guessed s \<noteq> mp_buttons_size s" using l k by (auto simp: mp_live_def)
  have "mp_click_button E c s = mp_end_game E (mp_send_winner E (mp_get_winner s))"
    using mp_read [OF l(1) k] ns v k c by (simp add: mp_click_button_def)
  then obtain s' where s': "mp_click_button E c s = Some s'" "mp_game_end s'"
      "mp_ws s' = (if mp_is_player_1 s then WINNER2 else WINNER1)"
    using mp_lose [OF l(1), of E] by auto
  have h: "is_host t = (\<not> mp_is_player_1 s)" using st turn by (auto simp: in_step_def)
  let ?t = "t\<lparr>mp_ws := if is_host t then WINNER1 else WINNER2\<rparr>"
  have "blk_holds (mp_buttons ?t) (nat (mp_max_buttons_size t)) xs" using l(2) by (simp add: mp_live_def)
  from mp_end_game_live [OF this, of F]
  have "run_steps (play_game F) [coms_code LOSE] t =
      Some (set_timed_alarm F 5 (?t\<lparr>mp_game_end := True, mp_buttons := Freed\<rparr>))"
    by (cases "is_host t") (simp_all add: play_game_control(3))
  then show ?thesis using s' h by auto
qed

text \<open>The clicks that do not end the game, and that every one of them keeps the machines in step.\<close>

definition goes_on :: "('d, 'z) mp_st_scheme \<Rightarrow> button_click_t \<Rightarrow> button_click_t list \<Rightarrow> bool" where
  "goes_on s c xs \<longleftrightarrow> c \<noteq> NO_BUTTON \<and> mp_guessed s \<noteq> mp_max_buttons_size s \<and>
     (mp_VS_was_pressed s \<longrightarrow> int (length xs) < mp_max_buttons_size s) \<and>
     (\<not> mp_VS_was_pressed s \<and> nat (mp_guessed s) < length xs \<longrightarrow> c = xs ! nat (mp_guessed s))"

lemma click_in_step:
  assumes st: "in_step s t xs" and turn: "is_host s = mp_is_player_1 s" and c: "goes_on s c xs"
  shows "\<exists>bytes s' t' ys. mp_click_button E c s = Some s' \<and> line s' = send_all E bytes (line s) \<and>
    run_steps (play_game F) bytes t = Some t' \<and> in_step s' t' ys \<and> (ys = xs \<or> ys = xs @ [c])"
proof -
  have l: "mp_live s xs" and vs: "mp_is_vs_round s" using st by (simp_all add: in_step_def)
  have f: "0 \<le> mp_guessed s" "mp_guessed s \<le> int (length xs)" "int (length xs) \<le> mp_max_buttons_size s"
    using l mp_live_length [OF l] by (auto simp: mp_live_def)
  define k where "k = nat (mp_guessed s)"
  have k: "mp_guessed s = int k" using f by (simp add: k_def)
  consider (versus) "versus_click s c xs"
    | (guess) "\<not> mp_VS_was_pressed s" "k < length xs"
    | (extend) "\<not> mp_VS_was_pressed s" "mp_guessed s = int (length xs)" "int (length xs) < mp_max_buttons_size s" "c \<noteq> VS_B"
    using c f k l vs unfolding goes_on_def versus_click_def by fastforce
  then show ?thesis
  proof cases
    case versus
    from versus_in_step [OF st turn this, of E F] show ?thesis by blast
  next
    case guess
    have "c = xs ! k" using c guess by (simp add: goes_on_def k_def)
    then show ?thesis using guess_in_step [OF st turn guess(1) k guess(2), of E F] by blast
  next
    case extend
    have "c \<noteq> NO_BUTTON" using c by (simp add: goes_on_def)
    from extend_in_step [OF st turn extend(1,2,3) this extend(4), of E F] show ?thesis by blast
  qed
qed

section \<open>A round of the serial game\<close>

definition mp_repeating :: "('d, 'z) mp_st_scheme \<Rightarrow> button_click_t list \<Rightarrow> nat \<Rightarrow> bool" where
  "mp_repeating s xs k \<longleftrightarrow> mp_live s xs \<and> mp_guessed s = int k \<and> \<not> mp_VS_was_pressed s"

interpretation serial_game: simon_turn "mp_click_button E :: _ \<Rightarrow> ('d, 'z) mp_st_scheme \<Rightarrow> _" mp_repeating mp_is_player_1
  "\<lambda>s. nat (mp_max_buttons_size s)"
proof unfold_locales
  fix s :: "('d, 'z) mp_st_scheme" and xs k
  assume "mp_repeating s xs k" and k: "k < length xs"
  then have l: "mp_live s xs" and g: "mp_guessed s = int k" and v: "\<not> mp_VS_was_pressed s" by (simp_all add: mp_repeating_def)
  have nb: "xs ! k \<noteq> NO_BUTTON" using l k by (simp add: mp_live_def list_all_length)
  have ns: "mp_guessed s \<noteq> mp_buttons_size s" using l g k by (auto simp: mp_live_def)
  show "\<exists>s'. mp_click_button E (xs ! k) s = Some s' \<and> mp_repeating s' xs (Suc k) \<and>
      mp_is_player_1 s' = mp_is_player_1 s \<and> nat (mp_max_buttons_size s') = nat (mp_max_buttons_size s)"
    using mp_read [OF l g k] ns nb v g l k
    by (auto simp: mp_click_button_def mp_send_button_line Let_def mp_repeating_def mp_live_def)
next
  fix s :: "('d, 'z) mp_st_scheme" and xs c
  assume "mp_repeating s xs (length xs)" and n: "length xs < nat (mp_max_buttons_size s)" and c: "plain c"
  then have l: "mp_live s xs" and g: "mp_guessed s = mp_buttons_size s" "mp_buttons_size s = int (length xs)"
    and v: "\<not> mp_VS_was_pressed s" by (simp_all add: mp_repeating_def mp_live_def)
  let ?s = "s\<lparr>mp_player_score := mp_buttons_size s\<rparr>"
  have "mp_live ?s xs" "int (length xs) < mp_max_buttons_size ?s" using l n by simp_all
  from mp_add_button_live [OF this, of c] obtain b where
    b: "mp_add_button c ?s = Some (?s\<lparr>mp_buttons := b, mp_buttons_size := int (length xs) + 1\<rparr>)"
      "blk_holds b (nat (mp_max_buttons_size s)) (xs @ [c])" by auto
  let ?x = "put_line (send_line E (button_byte c) (line s)) (?s\<lparr>mp_buttons := b, mp_buttons_size := int (length xs) + 1\<rparr>)"
  have "mp_click_button E c s = Some (mp_change_player E ?x)"
    using b(1) g n v c by (auto simp: mp_click_button_def mp_send_button_line plain_def Let_def)
  then show "\<exists>s'. mp_click_button E c s = Some s' \<and> mp_repeating s' (xs @ [c]) 0 \<and>
      mp_is_player_1 s' = (\<not> mp_is_player_1 s) \<and> nat (mp_max_buttons_size s') = nat (mp_max_buttons_size s)"
    using b(2) l c v by (auto simp: mp_change_player_def mp_is_VS_round_def send_or_queue_line Let_def mp_repeating_def
        mp_live_def plain_def)
qed

section \<open>Where the machines part\<close>

text \<open>A tie is announced with a byte the peer does not react to.\<close>

lemma tie_not_seen:
  assumes st: "in_step s t xs" and g: "mp_guessed s = mp_max_buttons_size s" and c: "c \<noteq> NO_BUTTON"
  shows "\<exists>s' d. mp_click_button E c s = Some s' \<and> mp_game_end s' \<and> mp_ws s' = TIE \<and>
    line s' = send_all E [coms_code TIE_REMOTE] d \<and>
    run_steps (play_game F) [coms_code TIE_REMOTE] t = Some t \<and> \<not> mp_game_end t"
proof -
  have l: "mp_live s xs" and lt: "mp_live t xs" using st by (simp_all add: in_step_def)
  have sz: "mp_guessed s = mp_buttons_size s" using l g mp_live_length [OF l] by (simp add: mp_live_def)
  let ?s = "s\<lparr>mp_player_score := mp_buttons_size s, mp_ws := TIE\<rparr>"
  have "blk_holds (mp_buttons ?s) (nat (mp_max_buttons_size s)) xs" using l by (simp add: mp_live_def)
  from mp_end_game_live [OF this, of E]
  have e: "mp_end_game E ?s = Some (set_timed_alarm E 5 (?s\<lparr>mp_game_end := True, mp_buttons := Freed\<rparr>))" by simp
  let ?e = "set_timed_alarm E 5 (?s\<lparr>mp_game_end := True, mp_buttons := Freed\<rparr>)"
  have "mp_click_button E c s = Some (put_line (send_line E (coms_code TIE_REMOTE) (line ?e)) ?e)"
    using e sz g c by (simp add: mp_click_button_def mp_send_winner_def send_or_queue_line Let_def)
  then show ?thesis using lt
    by (intro exI [of _ "put_line (send_line E (coms_code TIE_REMOTE) (line ?e)) ?e"] exI [of _ "line ?e"])
      (simp add: play_game_control(4) mp_live_def)
qed

text \<open>
  When the clock ends a versus round of the client, the client keeps its versus flag: the next
  right button of the host, which the host only counts, is added to the client's sequence.
\<close>

lemma client_versus_end:
  assumes st: "in_step s t xs" and cl: "\<not> is_host s" "\<not> mp_is_player_1 s" and v: "mp_VS_was_pressed s"
    and tm: "mp_time_left_for_click s = 0"
  shows "\<exists>s' t'. mp_game_update_status_rtc E s = Some s' \<and> line s' = send_all E [coms_code READY] (line s) \<and>
    run_steps (play_game F) [coms_code READY] t = Some t' \<and>
    mp_live s' xs \<and> mp_live t' xs \<and> mp_VS_was_pressed s' \<and> \<not> mp_VS_was_pressed t' \<and>
    mp_guessed s' = 0 \<and> mp_guessed t' = 0 \<and> mp_is_player_1 s' \<and> mp_is_player_1 t' \<and>
    \<not> is_host s' \<and> is_host t' \<and> mp_is_vs_round s' \<and> mp_max_buttons_size s' = mp_max_buttons_size s \<and>
    mp_max_buttons_size t' = mp_max_buttons_size s"
proof -
  have l: "mp_live s xs" "mp_live t xs" using st by (simp_all add: in_step_def)
  let ?s = "put_line (send_line E (coms_code READY) (line s)) (s\<lparr>mp_is_player_1 := True, mp_guessed := 0\<rparr>)"
  have ch: "mp_change_player E s = ?s"
    using cl by (simp add: mp_change_player_def send_or_queue_line Let_def)
  have ne: "\<not> mp_game_end s" using l by (simp add: mp_live_def)
  have "mp_game_update_status_rtc E s = Some ?s"
    using cl v tm st ne by (simp add: mp_game_update_status_rtc_def in_step_def ch Let_def)
  moreover have "run_steps (play_game F) [coms_code READY] t =
      Some (t\<lparr>mp_is_vs_round := True, mp_VS_was_pressed := False, mp_guessed := 0,
             mp_is_player_1 := \<not> mp_is_player_1 t, mp_time_left_for_click := INTERVAL\<rparr>)"
    by (simp add: play_game_control(2))
  ultimately show ?thesis using st cl v l by (auto simp: in_step_def mp_live_def)
qed

lemma client_versus_diverges:
  assumes st: "in_step s t xs" and cl: "\<not> is_host s" "\<not> mp_is_player_1 s" and v: "mp_VS_was_pressed s"
    and tm: "mp_time_left_for_click s = 0" and n: "xs \<noteq> []" "int (length xs) < mp_max_buttons_size s"
  shows "\<exists>s' t' s'' t''. mp_game_update_status_rtc E s = Some s' \<and> play_game F (coms_code READY) t = Some t' \<and>
    mp_click_button F (hd xs) t' = Some t'' \<and> play_game E (button_byte (hd xs)) s' = Some s'' \<and>
    mp_live t'' xs \<and> mp_live s'' (xs @ [hd xs])"
proof -
  obtain s' t' where s': "mp_game_update_status_rtc E s = Some s'" "play_game F (coms_code READY) t = Some t'"
      "mp_live s' xs" "mp_live t' xs" "mp_VS_was_pressed s'" "\<not> mp_VS_was_pressed t'" "mp_guessed s' = 0" "mp_guessed t' = 0"
      "mp_is_player_1 s'" "\<not> is_host s'" "mp_is_vs_round s'" "mp_max_buttons_size s' = mp_max_buttons_size s"
    using client_versus_end [OF st cl v tm, of E F] by auto
  have k: "mp_guessed t' = int 0" "0 < length xs" "hd xs = xs ! 0" using s' n by (simp_all add: hd_conv_nth)
  have nb: "hd xs \<noteq> NO_BUTTON" using s'(3) n(1) by (simp add: mp_live_def list_all_iff)
  have ns: "mp_guessed t' \<noteq> mp_buttons_size t'" using s'(4) k n(1) by (auto simp: mp_live_def)
  have "\<exists>t''. mp_click_button F (hd xs) t' = Some t'' \<and> mp_live t'' xs"
    using serial_game.guess [of t' xs 0 F] s'(4,6) k by (auto simp: mp_repeating_def)
  moreover have vc: "versus_click s' (hd xs) xs"
    using s' n nb by (auto simp: versus_click_def)
  then obtain sc scr tm b where r: "mp_remote_click_button E (hd xs) s' =
      Some (versus_state sc True scr tm b (int (length xs) + 1) s')"
      "blk_holds b (nat (mp_max_buttons_size s')) (xs @ [hd xs])"
    using versus_remote by blast
  have "is_host s' \<noteq> mp_is_player_1 s'" using s' by simp
  from play_remote [OF this r(1) nb] obtain p where
    "play_game E (button_byte (hd xs)) s' = Some ((versus_state sc True scr tm b (int (length xs) + 1) s')
      \<lparr>mp_ps := p, time_left_for_screen := TIMER_BUTTON_MP\<rparr>)" by blast
  moreover have "mp_live ((versus_state sc True scr tm b (int (length xs) + 1) s')
      \<lparr>mp_ps := p, time_left_for_screen := TIMER_BUTTON_MP\<rparr>) (xs @ [hd xs])"
    using r(2) s'(3) nb s'(7) by (simp add: mp_live_def versus_state_def)
  ultimately show ?thesis using s'(1,2) by blast
qed

section \<open>The handshake\<close>

lemma rounds_bytes:
  "uint (rounds_byte n 0) = n mod 256" "rounds_byte n 1 = 0"
proof -
  show "uint (rounds_byte n 0) = n mod 256" by (simp add: rounds_byte_def uint_word_of_int)
  have "uint (word_of_int n :: u8) < 256" using u8_range by blast
  then show "rounds_byte n 1 = 0" by (simp add: rounds_byte_def drop_bit_eq_div)
qed

text \<open>The client after the two bytes of the number of rounds.\<close>

definition client_receives :: "'d env \<Rightarrow> int \<Rightarrow> ('d, 'z) mp_st_scheme \<Rightarrow> ('d, 'z) mp_st_scheme" where
  "client_receives E n s = start_game E (rounds_byte n 1) False (start_game E (rounds_byte n 0) False s)"

lemma mp_reset_fields [simp]:
  "mp_max_buttons_size (mp_reset_game E n s) = n" "is_host (mp_reset_game E n s) = is_host s"
  "mp_is_player_1 (mp_reset_game E n s)" "mp_guessed (mp_reset_game E n s) = 0" "mp_is_vs_round (mp_reset_game E n s)"
  "\<not> mp_VS_was_pressed (mp_reset_game E n s)"
  "mp_buttons (mp_reset_game E n s) = blk_malloc (malloc E (n * 4) (dev s) \<noteq> None) n"
  "mp_buttons_size (mp_reset_game E n s) = 0" "\<not> mp_game_end (mp_reset_game E n s)"
  by (simp_all add: mp_reset_game_def mp_is_VS_round_def Let_def)

lemma start_game_send:
  "\<exists>d g. (let (e, s) = check_thr_emtpy E s
      in if e then (snd (serial_write_byte E b s))\<lparr>game_started := True\<rparr> else s) = s\<lparr>dev := d, game_started := g\<rparr>"
  for s :: "('d, 'z) mp_st_scheme"
proof -
  let ?c = "check_thr_emtpy E \<lparr>dev = dev s\<rparr>"
  let ?s = "s\<lparr>dev := dev (snd ?c)\<rparr>"
  have c: "check_thr_emtpy E s = (fst ?c, ?s)" by (rule check_thr_local)
  show ?thesis
  proof (cases "fst ?c")
    case True
    have "snd (serial_write_byte E b ?s) = ?s\<lparr>dev := dev (snd (serial_write_byte E b \<lparr>dev = dev ?s\<rparr>))\<rparr>"
      by (subst serial_write_local) simp
    then show ?thesis using True unfolding c by auto
  next
    case False
    then have "(let (e, s) = check_thr_emtpy E s
        in if e then (snd (serial_write_byte E b s))\<lparr>game_started := True\<rparr> else s) =
        s\<lparr>dev := dev (snd ?c), game_started := game_started s\<rparr>"
      unfolding c by simp
    then show ?thesis by blast
  qed
qed

lemma client_receives_eq:
  assumes "\<not> is_host s" and "received_no_bytes s = 0"
  shows "\<exists>d g. client_receives E n s =
    (mp_reset_game E (n mod 256) (s\<lparr>received_byte := rounds_byte n 0, received_no_bytes := 1\<rparr>))
      \<lparr>dev := d, game_started := g, received_no_bytes := 2\<rparr>"
proof -
  let ?s = "s\<lparr>received_byte := rounds_byte n 0, received_no_bytes := 1\<rparr>"
  have first: "start_game E (rounds_byte n 0) False s = ?s" using assms by (simp add: start_game_def)
  let ?r = "mp_reset_game E (n mod 256) ?s"
  obtain d g where dg: "(let (e, s) = check_thr_emtpy E ?r
      in if e then (snd (serial_write_byte E (coms_code ACK) s))\<lparr>game_started := True\<rparr> else s) = ?r\<lparr>dev := d, game_started := g\<rparr>"
    using start_game_send [of E ?r "coms_code ACK"] by blast
  have num: "or (push_bit 8 (uint (rounds_byte n 1))) (uint (rounds_byte n 0)) = n mod 256"
    by (simp add: rounds_bytes)
  have "received_no_bytes ?r = 1" by (simp add: mp_reset_game_def mp_is_VS_round_def Let_def)
  then show ?thesis using assms dg num
    by (auto simp: client_receives_def first start_game_def Let_def)
qed

lemma connected: "\<not> is_host (connect_mp_game F t)" "received_no_bytes (connect_mp_game F t) = received_no_bytes t"
  unfolding connect_mp_game_def Let_def by (subst serial_write_local, simp)+

lemma handshake_in_step:
  assumes c: "received_no_bytes t = 0" and n: "0 \<le> n" "n < 256"
    and ms: "malloc E (n * 4) (dev s) \<noteq> None"
    and mt: "malloc F (n * 4) (dev (connect_mp_game F t)) \<noteq> None"
  shows "in_step (host_mp_game E n s) (client_receives F n (connect_mp_game F t)) []"
proof -
  have h: "\<not> is_host (connect_mp_game F t)" "received_no_bytes (connect_mp_game F t) = 0"
    using c by (simp_all add: connected)
  from client_receives_eq [OF h, of F n] obtain d g where
    r: "client_receives F n (connect_mp_game F t) =
      (mp_reset_game F (n mod 256) ((connect_mp_game F t)\<lparr>received_byte := rounds_byte n 0, received_no_bytes := 1\<rparr>))
        \<lparr>dev := d, game_started := g, received_no_bytes := 2\<rparr>" by blast
  have m: "n mod 256 = n" using n by simp
  show ?thesis unfolding r m using n ms mt h(1)
    by (auto simp: in_step_def mp_live_def host_mp_game_def blk_malloc_def blk_holds_def)
qed

section \<open>Turns\<close>

lemma not_our_turn:
  assumes "is_host s \<noteq> mp_is_player_1 s"
  shows "\<exists>m. mp_game_update_status_mouse E pk s = Some (s\<lparr>mp_mouse := m\<rparr>)"
proof (cases "mp_game_end s \<or> \<not> game_started s")
  case True
  then have "mp_game_update_status_mouse E pk s = Some (s\<lparr>mp_mouse := mp_mouse s\<rparr>)"
    by (auto simp: mp_game_update_status_mouse_def)
  then show ?thesis by blast
next
  case False
  then show ?thesis using assms by (auto simp: mp_game_update_status_mouse_def Let_def)
qed

end
