(* ===== verification/Simon_Rules.thy ===== *)
theory Simon_Rules
  imports Simon Mp_Rules
begin

text \<open>
  The state machine of the screens: which screen can follow which, proved of the whole event
  handler. It rests on the frame of the drawing routines, which change the buffer only, whatever
  the video state.
\<close>

section \<open>What drawing changes\<close>

definition drawn :: "('d, 'z) vc_st_scheme \<Rightarrow> ('d, 'z) vc_st_scheme \<Rightarrow> bool" where
  "drawn s s' \<longleftrightarrow> (\<exists>b. s' = s\<lparr>buffer := b\<rparr>)"

lemma drawn_refl [simp]: "drawn s s"
  unfolding drawn_def by (rule exI [of _ "buffer s"]) simp

lemma drawn_upd [simp]: "drawn s (s\<lparr>buffer := b\<rparr>)"
  by (auto simp: drawn_def)

lemma drawn_trans: "drawn s s' \<Longrightarrow> drawn s' s'' \<Longrightarrow> drawn s s''"
  by (auto simp: drawn_def)

lemma drawn_mode: "drawn s s' \<Longrightarrow> mode s' = mode s" for s s' :: "('d, 'z) screen_st_scheme"
  by (auto simp: drawn_def)

lemma buf_write_drawn: "buf_write i v s = Some s' \<Longrightarrow> drawn s s'"
  by (auto simp: buf_write_def split: if_splits)

lemma pixel_bytes_drawn: "pixel_bytes n i c s = Some s' \<Longrightarrow> drawn s s'"
  by (induction n i c s rule: pixel_bytes.induct)
    (auto split: Option.bind_splits dest: buf_write_drawn intro: drawn_trans)

lemma draw_pixel_drawn: "draw_pixel x y c s = Some (r, s') \<Longrightarrow> drawn s s'"
  by (auto simp: draw_pixel_def Let_def split: if_splits Option.bind_splits dest: buf_write_drawn pixel_bytes_drawn)

lemma xpm_loop_drawn: "xpm_loop E img pts n s = Some s' \<Longrightarrow> drawn s s'"
  by (induction E img pts n s rule: xpm_loop.induct)
    (auto split: if_splits Option.bind_splits dest: draw_pixel_drawn intro: drawn_trans)

lemma draw_xpm_x_y_drawn: "draw_xpm_x_y E img x y s = Some s' \<Longrightarrow> drawn s s'"
  unfolding draw_xpm_x_y_def by (rule xpm_loop_drawn)

lemma draw_screen_drawn: "draw_screen k s = Some s' \<Longrightarrow> drawn s s'"
  by (auto simp: draw_screen_def draw_xpm_def split: Option.bind_splits)

lemma draw_text_loop_drawn: "draw_text_loop E b n i x s = Some s' \<Longrightarrow> drawn s s'"
  by (induction E b n i x s rule: draw_text_loop.induct)
    (auto split: Option.bind_splits dest: draw_xpm_x_y_drawn intro: drawn_trans)

lemma draw_text_box_drawn: "draw_text_box E b s = Some s' \<Longrightarrow> drawn s s'"
  unfolding draw_text_box_def by (rule draw_text_loop_drawn)

lemma erase_text_loop_drawn: "erase_text_loop E img y n x s = Some s' \<Longrightarrow> drawn s s'"
  by (induction E img y n x s rule: erase_text_loop.induct)
    (auto split: Option.bind_splits dest: draw_xpm_x_y_drawn intro: drawn_trans)

lemma remove_drawn: "remove_from_centered_text_box E b s = Some (b', s') \<Longrightarrow> drawn s s'"
  by (auto simp: remove_from_centered_text_box_def erase_text_box_def split: if_splits Option.bind_splits
      dest: erase_text_loop_drawn)

lemma draw_lil_text_drawn: "draw_lil_text E x y j cs s = Some s' \<Longrightarrow> drawn s s'"
  by (induction E x y j cs s rule: draw_lil_text.induct)
    (auto split: Option.bind_splits dest: draw_xpm_x_y_drawn intro: drawn_trans)

lemma draw_place_drawn: "draw_place E i s = Some s' \<Longrightarrow> drawn s s'"
  by (auto simp: draw_place_def split: Option.bind_splits dest!: draw_lil_text_drawn intro: drawn_trans)

lemma draw_leaderboard_drawn: "draw_leaderboard_graphics E s = Some s' \<Longrightarrow> drawn s s'"
  by (auto simp: draw_leaderboard_graphics_def split: Option.bind_splits dest!: draw_screen_drawn draw_place_drawn)
    (blast intro: drawn_trans)

lemma draw_glyph_drawn: "draw_glyph E c x y s = Some s' \<Longrightarrow> drawn s s'"
  by (auto simp: draw_glyph_def split: Option.bind_splits dest: draw_xpm_x_y_drawn)

lemma copy_to_video_mode: "copy_to_video s = Some s' \<Longrightarrow> mode s' = mode s" for s :: "('d, 'z) screen_st_scheme"
  by (auto simp: copy_to_video_def split: Option.bind_splits)

lemmas modes_of_drawing = draw_screen_drawn [THEN drawn_mode] draw_text_box_drawn [THEN drawn_mode]
  draw_leaderboard_drawn [THEN drawn_mode] draw_glyph_drawn [THEN drawn_mode] draw_xpm_x_y_drawn [THEN drawn_mode]
  remove_drawn [THEN drawn_mode]

section \<open>The mode after each handler\<close>

lemma game_graphics_mode: "draw_game_graphics E s = Some s' \<Longrightarrow> mode s' = mode s"
  by (auto simp: draw_game_graphics_def draw_buttons_def draw_player_def print_player1_def print_player2_def
      draw_counter_def draw_round_def draw_mouse_def get_mouse_def draw_winner_graphics_def Let_def
      split: if_splits Option.bind_splits Play_Screens.splits Winners.splits dest!: modes_of_drawing)

lemma mp_graphics_mode: "mp_draw_game_graphics E s = Some s' \<Longrightarrow> mode s' = mode s"
  by (auto simp: mp_draw_game_graphics_def mp_draw_buttons_def mp_draw_player_def mp_print_player1_def mp_print_player2_def
      mp_draw_counter_def mp_draw_round_def mp_draw_mouse_def get_mouse_def mp_draw_winner_graphics_def Let_def
      split: if_splits Option.bind_splits Play_Screens.splits Winners.splits dest!: modes_of_drawing)

lemma end_game_mode: "end_game E s = Some s' \<Longrightarrow> mode s' = mode s"
  by (auto simp: end_game_def Let_def split: Option.bind_splits)

lemma click_button_mode: "click_button E c s = Some s' \<Longrightarrow> mode s' = mode s"
  by (auto simp: click_button_def push_button_def is_VS_round_eq get_winner_def Let_def
      split: if_splits Option.bind_splits dest!: end_game_mode)

lemma light_modes [simp]: "mode (light_button c s) = mode s" "mode (mp_light_button c t) = mode t"
  by (cases c; simp add: light_button_def mp_light_button_def)+

lemma game_mouse_mode: "game_update_status_mouse E pk s = Some s' \<Longrightarrow> mode s' = mode s"
  by (auto simp: game_update_status_mouse_def Let_def split: if_splits Option.bind_splits dest!: click_button_mode)

lemma hiscore_modes:
  "mode (checkNewHiScore s) \<in> {HIGHSCORE, LEADERBOARD}" "mode (mp_checkNewHiScore t) \<in> {HIGHSCORE, LEADERBOARD}"
  by (simp_all add: checkNewHiScore_def mp_checkNewHiScore_def reset_hiscore_def create_name_box_def)

lemma game_key_mode: "mode (game_update_status_key k s) \<in> {mode s, HIGHSCORE, LEADERBOARD}"
  using hiscore_modes(1) [of s] by (auto simp: game_update_status_key_def)

lemma game_timer_mode [simp]: "mode (game_update_status_timer s) = mode s"
  by (simp add: game_update_status_timer_def)

lemma alarm_modes [simp]: "mode (set_seconds_alarm E s) = mode s" for s :: "('d, 'z) screen_st_scheme"
  by (subst seconds_alarm.cmd_state) simp

lemma is_VS_round_mode [simp]: "mode (is_VS_round E s) = mode s"
  by (simp add: is_VS_round_eq)

lemma game_rtc_mode: "game_update_status_rtc E s = Some s' \<Longrightarrow> mode s' \<in> {mode s, HIGHSCORE, LEADERBOARD}"
  using hiscore_modes(1)
  by (auto simp: game_update_status_rtc_def Let_def get_winner_def split: if_splits Option.bind_splits dest!: end_game_mode)

lemma send_mode [simp]: "mode (send_or_queue E b s) = mode s"
  by (simp add: send_or_queue_line put_line_def)

lemma mp_send_modes [simp]:
  "mode (mp_send_button E c s) = mode s" "mode (mp_send_winner E s) = mode s" "mode (mp_change_player E s) = mode s"
  "mode (mp_get_winner s) = mode s"
  by (simp_all add: mp_send_button_def mp_send_winner_def mp_change_player_def mp_is_VS_round_def mp_get_winner_def Let_def)

lemma alarm_mp_mode [simp]: "mode (set_timed_alarm E n s) = mode s" for s :: "('d, 'z) screen_st_scheme"
  by (subst timed_alarm.cmd_state) simp

lemma mp_end_game_mode: "mp_end_game E s = Some s' \<Longrightarrow> mode s' = mode s"
  by (auto simp: mp_end_game_def Let_def split: Option.bind_splits)

lemma mp_add_button_mode: "mp_add_button c s = Some s' \<Longrightarrow> mode s' = mode s"
  by (auto simp: mp_add_button_def split: Option.bind_splits)

lemma mp_click_mode: "mp_click_button E c s = Some s' \<Longrightarrow> mode s' = mode s"
  by (auto simp: mp_click_button_def Let_def split: if_splits Option.bind_splits
      dest!: mp_end_game_mode mp_add_button_mode)

lemma mp_remote_mode: "mp_remote_click_button E c s = Some s' \<Longrightarrow> mode s' = mode s"
  by (auto simp: mp_remote_click_button_def Let_def split: if_splits Option.bind_splits
      dest!: mp_end_game_mode mp_add_button_mode)

lemma mp_handler_mode: "mp_buttons_handler E c s = Some s' \<Longrightarrow> mode s' = mode s"
  by (auto simp: mp_buttons_handler_def split: if_splits Option.bind_splits dest!: mp_click_mode mp_remote_mode)

lemma mp_mouse_mode: "mp_game_update_status_mouse E pk s = Some s' \<Longrightarrow> mode s' = mode s"
  by (auto simp: mp_game_update_status_mouse_def Let_def split: if_splits dest!: mp_handler_mode)

lemma mp_key_mode: "mode (mp_game_update_status_key k s) \<in> {mode s, HIGHSCORE, LEADERBOARD}"
  using hiscore_modes(2) [of s] by (auto simp: mp_game_update_status_key_def)

lemma mp_timer_mode [simp]: "mode (mp_game_update_status_timer s) = mode s"
  by (simp add: mp_game_update_status_timer_def Let_def)

lemma mp_rtc_mode: "mp_game_update_status_rtc E s = Some s' \<Longrightarrow> mode s' \<in> {mode s, HIGHSCORE, LEADERBOARD}"
  using hiscore_modes(2)
  by (auto simp: mp_game_update_status_rtc_def Let_def split: if_splits dest!: mp_end_game_mode)

lemma play_game_mode: "play_game E b s = Some s' \<Longrightarrow> mode s' = mode s"
  by (auto simp: play_game_def mp_is_VS_round_def Let_def split: if_splits dest!: mp_handler_mode mp_end_game_mode)

lemma serial_mode [simp]:
  "mode (snd (serial_write_byte E b s)) = mode s" "mode (snd (check_thr_emtpy E s)) = mode s"
  for s :: "('d, 'z) screen_st_scheme"
  by (simp_all add: serial_write.snd_op check_thr.snd_op)

lemma mp_reset_mode [simp]: "mode (mp_reset_game E n s) = mode s"
  by (simp add: mp_reset_game_def mp_is_VS_round_def Let_def)

lemma start_game_mode [simp]: "mode (start_game E b e s) = mode s"
  by (simp add: start_game_def Let_def split_beta)

lemma mp_uart_mode: "mp_game_update_status_uart E b ty s = Some s' \<Longrightarrow> mode s' = mode s"
  by (auto simp: mp_game_update_status_uart_def uart_ready_def split: if_splits dest!: play_game_mode)

lemma getDate_mode: "getDate E s = Some (b, s') \<Longrightarrow> mode s' = mode s"
  by (auto simp: getDate_def Let_def split: Option.bind_splits prod.splits simp del: write_chars.simps
      dest!: get_date_frame elim: only_devE)

lemma updateData_mode [simp]: "mode (updateData s) = mode s"
  using updateData_frame [of s] by auto

lemma highscore_mode: "highscore_update_status E k s = Some s' \<Longrightarrow> mode s' \<in> {mode s, LEADERBOARD}"
  by (auto simp: highscore_update_status_def hiscore_enter_def hiscore_type_def hiscore_backspace_def Let_def
      split: if_splits Option.bind_splits prod.splits dest!: getDate_mode remove_drawn [THEN drawn_mode])

lemma rounds_mode: "number_of_rounds_update_status E k s = Some s' \<Longrightarrow> mode s' \<in> {mode s, GAME, MP_GAME}"
  by (auto simp: number_of_rounds_update_status_def rounds_enter_def rounds_type_def rounds_backspace_def
      reset_game_def host_mp_game_def Let_def
      split: if_splits Option.bind_splits dest!: remove_drawn [THEN drawn_mode])

lemma host_mode: "mode (host_update_status E k s) \<in> {mode s, NUM_ROUNDS, MP_GAME}"
  by (simp add: host_update_status_def reset_number_of_rounds_def create_num_box_def Let_def connect_mp_game_menu)

lemma menu_mode: "mode (menu_update_status k s) \<in> {mode s, NUM_ROUNDS, HOST, HOW_TO_PLAY, LEADERBOARD, EXIT}"
  by (simp add: menu_update_status_def reset_number_of_rounds_def create_num_box_def Let_def)

section \<open>The graph of the screens\<close>

fun next_modes :: "Game_Modes \<Rightarrow> Game_Modes set" where
  "next_modes MENU = {MENU, NUM_ROUNDS, HOST, HOW_TO_PLAY, LEADERBOARD, EXIT}"
| "next_modes HOST = {HOST, NUM_ROUNDS, MP_GAME}"
| "next_modes HOW_TO_PLAY = {HOW_TO_PLAY, MENU}"
| "next_modes LEADERBOARD = {LEADERBOARD, MENU}"
| "next_modes NUM_ROUNDS = {NUM_ROUNDS, GAME, MP_GAME}"
| "next_modes GAME = {GAME, HIGHSCORE, LEADERBOARD}"
| "next_modes MP_GAME = {MP_GAME, HIGHSCORE, LEADERBOARD}"
| "next_modes HIGHSCORE = {HIGHSCORE, LEADERBOARD}"
| "next_modes EXIT = {EXIT}"

lemma menu_case_mode: "menu_case s = Some s' \<Longrightarrow> mode s' \<in> {mode s, NUM_ROUNDS, HOST, HOW_TO_PLAY, LEADERBOARD, EXIT}"
proof -
  assume m: "menu_case s = Some s'"
  then obtain s1 where d: "draw_menu_graphics s = Some s1"
    and s': "mode s' = mode (if count s1 \<noteq> 0 then if got_key_press s1 then menu_update_status (keyboard_packet s1) s1 else s1 else s1)"
    by (auto simp: menu_case_def Let_def split: Option.bind_splits)
  have "mode s1 = mode s"
    using d by (auto simp: draw_menu_graphics_def split: if_splits dest!: draw_screen_drawn [THEN drawn_mode])
  then show ?thesis using s' menu_mode [of "keyboard_packet s1" s1] by (simp split: if_splits)
qed

lemma game_case_mode: "game_case E s = Some s' \<Longrightarrow> mode s' \<in> {mode s, HIGHSCORE, LEADERBOARD}"
proof -
  assume g: "game_case E s = Some s'"
  then obtain s1 s2 where d: "draw_game_graphics E s = Some s1"
    and m: "(let s = (if got_key_press s1 then game_update_status_key (keyboard_packet s1) s1 else s1) in
        if got_mouse_packet s then game_update_status_mouse E (mouse_packet s) s else Some s) = Some s2"
    and r: "(let s = (if timer_interrupt s2 then game_update_status_timer s2 else s2) in
        if rtc_interrupt s then game_update_status_rtc E s else Some s) = Some s'"
    by (auto simp: game_case_def Let_def split: Option.bind_splits)
  have "mode s1 = mode s" using d by (rule game_graphics_mode)
  then have "mode s2 \<in> {mode s, HIGHSCORE, LEADERBOARD}"
    using m game_key_mode [of "keyboard_packet s1" s1]
    by (auto simp: Let_def split: if_splits dest!: game_mouse_mode)
  then show ?thesis using r by (auto simp: Let_def split: if_splits dest!: game_rtc_mode)
qed

lemma mp_game_case_mode: "mp_game_case E s = Some s' \<Longrightarrow> mode s' \<in> {mode s, HIGHSCORE, LEADERBOARD}"
proof -
  assume g: "mp_game_case E s = Some s'"
  then obtain s1 s2 s3 where d: "mp_draw_game_graphics E s = Some s1"
    and m: "(let s = (if got_key_press s1 then mp_game_update_status_key (keyboard_packet s1) s1 else s1) in
        if got_mouse_packet s then mp_game_update_status_mouse E (mouse_packet s) s else Some s) = Some s2"
    and r: "(let s = (if timer_interrupt s2 then mp_game_update_status_timer s2 else s2) in
        if rtc_interrupt s then mp_game_update_status_rtc E s else Some s) = Some s3"
    and u: "(if uart_interrupt s3 then mp_game_update_status_uart E (data_packet s3) (uart_type_interrupt s3) s3
        else Some s3) = Some s'"
    by (auto simp: mp_game_case_def Let_def split: Option.bind_splits)
  have "mode s1 = mode s" using d by (rule mp_graphics_mode)
  then have "mode s2 \<in> {mode s, HIGHSCORE, LEADERBOARD}"
    using m mp_key_mode [of "keyboard_packet s1" s1]
    by (auto simp: Let_def split: if_splits dest!: mp_mouse_mode)
  then have "mode s3 \<in> {mode s, HIGHSCORE, LEADERBOARD}"
    using r by (auto simp: Let_def split: if_splits dest!: mp_rtc_mode)
  then show ?thesis using u by (auto split: if_splits dest!: mp_uart_mode)
qed

lemma screen_event_mode:
  assumes ev: "screen_event E s = Some s'"
  shows "mode s' \<in> next_modes (mode s)"
proof (cases "mode s")
  case MENU
  show ?thesis using ev menu_case_mode [of s s'] MENU by (simp add: screen_event_def)
next
  case HOW_TO_PLAY
  show ?thesis using ev HOW_TO_PLAY
    by (auto simp: screen_event_def draw_how_to_play_graphics_def how_to_play_update_status_def
        split: Option.bind_splits dest!: draw_screen_drawn [THEN drawn_mode])
next
  case LEADERBOARD
  show ?thesis using ev LEADERBOARD
    by (auto simp: screen_event_def leaderboard_update_status_def split: Option.bind_splits
        dest!: draw_leaderboard_drawn [THEN drawn_mode])
next
  case NUM_ROUNDS
  show ?thesis using ev NUM_ROUNDS
    by (auto simp: screen_event_def draw_num_of_rounds_graphics_def split: Option.bind_splits if_splits
        dest!: draw_screen_drawn [THEN drawn_mode] draw_text_box_drawn [THEN drawn_mode] rounds_mode)
next
  case GAME
  show ?thesis using ev game_case_mode [of E s s'] GAME by (simp add: screen_event_def)
next
  case HIGHSCORE
  show ?thesis using ev HIGHSCORE
    by (auto simp: screen_event_def draw_highscore_graph_def split: Option.bind_splits if_splits
        dest!: draw_screen_drawn [THEN drawn_mode] draw_text_box_drawn [THEN drawn_mode] highscore_mode)
next
  case HOST
  obtain s1 where d: "draw_host_graphics s = Some s1"
    and s': "s' = (if got_key_press s1 then host_update_status E (keyboard_packet s1) s1 else s1)"
    using ev HOST by (auto simp: screen_event_def split: Option.bind_splits)
  have "mode s1 = HOST" using d HOST
    by (auto simp: draw_host_graphics_def split: if_splits dest!: draw_screen_drawn [THEN drawn_mode])
  then show ?thesis using s' HOST host_mode [of E "keyboard_packet s1" s1] by (simp split: if_splits)
next
  case MP_GAME
  show ?thesis using ev mp_game_case_mode [of E s s'] MP_GAME by (simp add: screen_event_def)
next
  case EXIT
  show ?thesis using ev EXIT by (simp add: screen_event_def)
qed

lemma event_handler_mode:
  assumes "event_handler E s = Some (exit, s')"
  shows "mode s' \<in> next_modes (mode s)" and "exit \<longleftrightarrow> mode s' = EXIT"
proof -
  obtain s1 where s1: "screen_event E s = Some s1" "copy_to_video s1 = Some s'" "exit \<longleftrightarrow> mode s1 = EXIT"
    using assms by (auto simp: event_handler_def Let_def split: Option.bind_splits)
  have m: "mode s' = mode s1" using s1(2) by (rule copy_to_video_mode)
  show "mode s' \<in> next_modes (mode s)" using screen_event_mode [OF s1(1)] m by simp
  show "exit \<longleftrightarrow> mode s' = EXIT" using s1(3) m by simp
qed

end
