(* ===== verification/Main_Loop.thy ===== *)
theory Main_Loop
  imports Simon_Rules
begin

text \<open>
  The loop of \<open>run\<close> in \<open>simon.c\<close>: no interrupt handler changes the screen, so an iteration
  follows the graph of the screens, and the loop returns exactly where some iteration ends on
  the exit screen or with the break code of the escape key.
\<close>

section \<open>One iteration\<close>

lemma keyboard_handler_mode: "mode (snd (keyboard_handler E k s)) = mode s" for s :: "('d, 'z) screen_st_scheme"
  by (simp add: keyboard_handler_def kbc_ih_def Let_def split_beta inb.snd_op)

lemma mouse_handler_mode: "mouse_handler E pk s = Some (r, s') \<Longrightarrow> mode s' = mode s" for s :: "('d, 'z) screen_st_scheme"
  by (auto simp: mouse_handler_def mouse_assemble_def mouse_get_state_def Let_def split_beta inb.snd_op split: if_splits)

lemma dispatch_mode: "dispatch E irqs ints s = Some s' \<Longrightarrow> mode s' = mode s"
  by (auto simp: dispatch_def Let_def split_beta keyboard_handler_mode rtc_int.snd_op uart_int.snd_op
      split: if_splits Option.bind_splits dest!: mouse_handler_mode)

lemma next_modes_self [simp]: "m \<in> next_modes m"
  by (cases m) simp_all

lemma run_body_mode:
  assumes "run_body E irqs False s = Some (exit, s')"
  shows "mode s' \<in> next_modes (mode s)" and "exit \<Longrightarrow> mode s' = EXIT"
proof -
  obtain r notify msg d where d: "driver_receive E (dev s) = ((r, notify, msg), d)" by (metis prod_cases3 surj_pair)
  consider "\<not> exit" "s' = s\<lparr>dev := d\<rparr>"
    | s1 where "dispatch E irqs (interrupts msg) (s\<lparr>dev := d\<rparr>) = Some s1" "event_handler E s1 = Some (exit, s')"
    using assms d by (auto simp: run_body_def Let_def split: if_splits Option.bind_splits)
  then have "mode s' \<in> next_modes (mode s) \<and> (exit \<longrightarrow> mode s' = EXIT)"
  proof cases
    case 2
    then have "mode s1 = mode s" using dispatch_mode by fastforce
    then show ?thesis using event_handler_mode [OF 2(2)] by simp
  qed simp
  then show "mode s' \<in> next_modes (mode s)" "exit \<Longrightarrow> mode s' = EXIT" by simp_all
qed

section \<open>The loop\<close>

text \<open>The states the loop continues with.\<close>

inductive loop_to :: "'d env \<Rightarrow> irq_sets \<Rightarrow> ('d, 'z) simon_st_scheme \<Rightarrow> ('d, 'z) simon_st_scheme \<Rightarrow> bool"
  for E irqs where
  loop_start: "loop_to E irqs s s"
| loop_next: "run_body E irqs False s = Some (False, s1) \<Longrightarrow> \<not> scancode_is_esc_break s1 \<Longrightarrow>
    loop_to E irqs s1 s2 \<Longrightarrow> loop_to E irqs s s2"

definition stops_at :: "'d env \<Rightarrow> irq_sets \<Rightarrow> ('d, 'z) simon_st_scheme \<Rightarrow> ('d, 'z) simon_st_scheme \<Rightarrow> bool" where
  "stops_at E irqs s1 s2 \<longleftrightarrow>
     (\<exists>exit. run_body E irqs False s1 = Some (exit, s2) \<and> (exit \<or> scancode_is_esc_break s2))"

lemma run_loop_stops: "loop_to E irqs s s1 \<Longrightarrow> stops_at E irqs s1 s2 \<Longrightarrow> run_loop E irqs False s = Some s2"
proof (induction rule: loop_to.induct)
  case (loop_start s)
  then show ?case by (subst run_loop.simps) (auto simp: stops_at_def)
next
  case (loop_next s s1 s')
  then show ?case by (subst run_loop.simps) simp
qed

lemma run_loop_stopped:
  assumes "run_loop E irqs exit s = Some s2"
  shows "\<not> exit \<longrightarrow> (\<exists>s1. loop_to E irqs s s1 \<and> stops_at E irqs s1 s2)"
proof (rule run_loop.raw_induct [of "\<lambda>E irqs exit s s2. \<not> exit \<longrightarrow> (\<exists>s1. loop_to E irqs s s1 \<and> stops_at E irqs s1 s2)", OF _ assms])
  fix loop E irqs exit s s2
  assume IH: "\<And>E irqs exit s s2. loop E irqs exit s = Some s2 \<Longrightarrow>
      \<not> exit \<longrightarrow> (\<exists>s1. loop_to E irqs s s1 \<and> stops_at E irqs s1 s2)"
    and eq: "Option.bind (run_body E irqs exit s)
       (\<lambda>(exit, s). if \<not> scancode_is_esc_break s \<and> \<not> exit then loop E irqs exit s else Some s) = Some s2"
  obtain x t where x: "run_body E irqs exit s = Some (x, t)"
      "(if \<not> scancode_is_esc_break t \<and> \<not> x then loop E irqs x t else Some t) = Some s2"
    using eq by (auto split: Option.bind_splits prod.splits)
  show "\<not> exit \<longrightarrow> (\<exists>s1. loop_to E irqs s s1 \<and> stops_at E irqs s1 s2)"
  proof (cases "scancode_is_esc_break t \<or> x")
    case True
    then show ?thesis using x loop_start by (fastforce simp: stops_at_def)
  next
    case False
    then obtain s1 where "loop_to E irqs t s1" "stops_at E irqs s1 s2" using x IH [of E irqs x t s2] by auto
    then have "loop_to E irqs s s1 \<and> stops_at E irqs s1 s2" if "\<not> exit"
      using x(1) False that loop_next [of E irqs s t s1] by simp
    then show ?thesis by blast
  qed
qed

lemma loop_to_modes:
  "loop_to E irqs s s' \<Longrightarrow> (\<lambda>m m'. m' \<in> next_modes m)\<^sup>*\<^sup>* (mode s) (mode s')"
  by (induction rule: loop_to.induct) (auto dest: run_body_mode(1) intro: converse_rtranclp_into_rtranclp)

end
