(* ===== verification/Game_Drawing.thy ===== *)
theory Game_Drawing
  imports Game_Rules
begin

text \<open>
  Drawing the game at one computer is safe. Besides the buffer, \<open>draw_game_graphics\<close> changes the
  image of the cursor and the four statics of \<open>draw_counter\<close> and \<open>draw_round\<close>; \<open>undrawn\<close>
  erases exactly these, so what a state has in common with the state after drawing is that
  their erasures are equal.
\<close>

section \<open>The fields that drawing changes\<close>

definition blank_image :: xpm_image_t where
  "blank_image = \<lparr>img_type = XPM_INDEXED, width = 0, height = 0, img_bytes = []\<rparr>"

definition undrawn :: "('d, 'z) game_st_scheme \<Rightarrow> ('d, 'z) game_st_scheme" where
  "undrawn s = s\<lparr>mouse_img := blank_image, buffer := replicate (length (buffer s)) 0, counter_number := blank_image,
     counter_previous_time := 0, round_round := 0, round_text := create_writeable_text_box 0 0 0 0 0\<rparr>"

definition statics_ok :: "('d, 'z) game_st_scheme \<Rightarrow> bool" where
  "statics_ok s \<longleftrightarrow> img_ok (counter_number s) \<and> box_ok s (round_text s)"

lemma undrawn_only_buffer: "only_buffer s s' \<Longrightarrow> undrawn s' = undrawn s"
  by (auto simp: only_buffer_def undrawn_def)

lemma statics_ok_only_buffer: "only_buffer s s' \<Longrightarrow> statics_ok s' \<longleftrightarrow> statics_ok s"
  by (auto simp: statics_ok_def box_ok_only_buffer elim: only_bufferE)

lemma undrawn_upd [simp]:
  "undrawn (s\<lparr>mouse_img := m\<rparr>) = undrawn s"
  "undrawn (s\<lparr>counter_number := i, counter_previous_time := t\<rparr>) = undrawn s"
  "undrawn (s\<lparr>round_round := r, round_text := b\<rparr>) = undrawn s"
  by (simp_all add: undrawn_def)

lemma deref_game_frame [simp]:
  "deref (s\<lparr>mouse_img := m\<rparr>) g = deref s g"
  "deref (s\<lparr>counter_number := i, counter_previous_time := t\<rparr>) g = deref s g"
  "deref (s\<lparr>round_round := r, round_text := b\<rparr>) g = deref s g"
  "deref (undrawn s) g = deref s g"
  by (cases g; simp add: undrawn_def)+

lemma box_ok_deref: "deref s' = deref s \<Longrightarrow> box_ok s' b \<longleftrightarrow> box_ok s b"
  by (simp add: box_ok_def get_prop_def)

lemma box_ok_game_frame [simp]:
  "box_ok (s\<lparr>mouse_img := m\<rparr>) b \<longleftrightarrow> box_ok s b"
  "box_ok (s\<lparr>counter_number := i, counter_previous_time := t\<rparr>) b \<longleftrightarrow> box_ok s b"
  "box_ok (s\<lparr>round_round := r, round_text := b'\<rparr>) b \<longleftrightarrow> box_ok s b"
  "box_ok (undrawn s) b \<longleftrightarrow> box_ok s b"
  by (rule box_ok_deref, rule ext, simp)+

lemma gfx_ok_game_frame [simp]:
  "gfx_ok (s\<lparr>mouse_img := m\<rparr>) \<longleftrightarrow> gfx_ok s"
  "gfx_ok (s\<lparr>counter_number := i, counter_previous_time := t\<rparr>) \<longleftrightarrow> gfx_ok s"
  "gfx_ok (s\<lparr>round_round := r, round_text := b\<rparr>) \<longleftrightarrow> gfx_ok s"
  "gfx_ok (undrawn s) \<longleftrightarrow> gfx_ok s"
  by (simp_all add: gfx_ok_def glyphs_ok_def props_ok_def undrawn_def)

lemma screens_ok_game_frame [simp]:
  "screens_ok (s\<lparr>mouse_img := m\<rparr>) \<longleftrightarrow> screens_ok s"
  "screens_ok (s\<lparr>counter_number := i, counter_previous_time := t\<rparr>) \<longleftrightarrow> screens_ok s"
  "screens_ok (s\<lparr>round_round := r, round_text := b\<rparr>) \<longleftrightarrow> screens_ok s"
  "screens_ok (undrawn s) \<longleftrightarrow> screens_ok s"
  by (simp_all add: screens_ok_def undrawn_def)

section \<open>The contract of a step of the drawing\<close>

definition game_draws :: "(('d, 'z) game_st_scheme \<Rightarrow> ('d, 'z) game_st_scheme option) \<Rightarrow> ('d, 'z) game_st_scheme \<Rightarrow> bool" where
  "game_draws draw s \<longleftrightarrow> (\<exists>s'. draw s = Some s' \<and> gfx_ok s' \<and> screens_ok s' \<and> statics_ok s' \<and> undrawn s' = undrawn s)"

lemma game_draws_only_buffer:
  assumes "gfx_ok s" and "screens_ok s" and "statics_ok s" and "\<exists>s'. draw s = Some s' \<and> only_buffer s s'"
  shows "game_draws draw s"
  using assms gfx_ok_only_buffer screens_ok_only_buffer statics_ok_only_buffer undrawn_only_buffer
  unfolding game_draws_def by blast

lemma game_draws_bind:
  assumes "game_draws d1 s"
    and "\<And>s'. gfx_ok s' \<Longrightarrow> screens_ok s' \<Longrightarrow> statics_ok s' \<Longrightarrow> undrawn s' = undrawn s \<Longrightarrow> game_draws d2 s'"
  shows "game_draws (\<lambda>s. Option.bind (d1 s) d2) s"
  using assms unfolding game_draws_def by (metis bind.bind_lunit)

lemma game_draws_screen: "gfx_ok s \<Longrightarrow> screens_ok s \<Longrightarrow> statics_ok s \<Longrightarrow> k < 26 \<Longrightarrow> game_draws (draw_screen k) s"
  using drawing.draw_ok [OF drawing_screen] by (intro game_draws_only_buffer) blast+

lemma draw_glyph_safe:
  assumes "gfx_ok s" and "c \<noteq> CHR ''/''"
  shows "\<exists>s'. draw_glyph E c x y s = Some s' \<and> only_buffer s s'"
proof -
  have g: "glyphs_ok s" using assms(1) by (simp add: gfx_ok_def)
  then obtain img where "deref s (get_prop_from_char c) = Some img"
    using get_prop_from_char_defined [OF _ assms(2)] by (auto simp: glyphs_ok_def)
  then show ?thesis
    using draw_xpm_x_y_safe [OF assms(1) glyphs_ok_deref [OF g]] by (simp add: draw_glyph_def)
qed

lemma draw_player_draws: "gfx_ok s \<Longrightarrow> screens_ok s \<Longrightarrow> statics_ok s \<Longrightarrow> game_draws (draw_player E) s"
  by (rule game_draws_only_buffer)
    (simp_all add: draw_player_def print_player1_def print_player2_def draw_glyph_safe)

lemma draw_buttons_draws: "gfx_ok s \<Longrightarrow> screens_ok s \<Longrightarrow> statics_ok s \<Longrightarrow> game_draws draw_buttons s"
  using game_draws_screen [of s] unfolding game_draws_def draw_buttons_def by (cases "ps s") simp_all

lemma draw_winner_draws: "gfx_ok s \<Longrightarrow> screens_ok s \<Longrightarrow> statics_ok s \<Longrightarrow> game_draws draw_winner_graphics s"
  using game_draws_screen [of s] unfolding game_draws_def draw_winner_graphics_def by (cases "ws s") simp_all

section \<open>The counter, the round and the cursor\<close>

lemma int_char_digit:
  assumes "0 \<le> t" and "t \<le> 9"
  shows "is_numerical (int_char (c_int CHR ''0'' + t))"
proof -
  have "t \<in> {0, 1, 2, 3, 4, 5, 6, 7, 8, 9}" using assms by (simp, presburger)
  then show ?thesis by (elim insertE emptyE; simp add: int_char_def is_numerical_def c_int_def)
qed

lemma numerical_not_slash: "is_numerical c \<Longrightarrow> c \<noteq> CHR ''/''"
  by (auto simp: is_numerical_iff c_int_def)

lemma draw_counter_draws:
  assumes "gfx_ok s" "screens_ok s" "statics_ok s" and t: "time_left_for_click s \<le> 9"
  shows "game_draws (draw_counter E) s"
proof -
  let ?t = "if time_left_for_click s > 0 then time_left_for_click s else 0"
  have "int_char (c_int CHR ''0'' + ?t) \<noteq> CHR ''/''"
    by (rule numerical_not_slash, rule int_char_digit) (use t in auto)
  moreover have g: "glyphs_ok s" using assms(1) by (simp add: gfx_ok_def)
  ultimately obtain img where img: "deref s (get_prop_from_char (int_char (c_int CHR ''0'' + ?t))) = Some img" "img_ok img"
    using get_prop_from_char_defined glyphs_ok_deref unfolding glyphs_ok_def by metis
  let ?s = "if counter_previous_time s \<noteq> ?t then s\<lparr>counter_number := img, counter_previous_time := ?t\<rparr> else s"
  have s1: "gfx_ok ?s" "screens_ok ?s" "statics_ok ?s" "undrawn ?s = undrawn s" "img_ok (counter_number ?s)"
    using assms(1-3) img(2) by (simp_all add: statics_ok_def)
  have "draw_counter E s = draw_xpm_x_y E (counter_number ?s) 700 0 ?s"
    using img(1) by (simp add: draw_counter_def Let_def split del: if_split cong: if_cong) (simp split: if_split)
  moreover have "game_draws (draw_xpm_x_y E (counter_number ?s) 700 0) ?s"
    by (intro game_draws_only_buffer draw_xpm_x_y_safe s1)
  ultimately show ?thesis using s1(4) unfolding game_draws_def by simp
qed

lemma add_to_text_box_ok:
  assumes g: "gfx_ok s" and b: "box_ok s b" and c: "c \<noteq> CHR ''/''"
  shows "\<exists>r b'. add_to_text_box s c b = Some (r, b') \<and> box_ok s b'"
proof (cases "char_size b = char_max_size b")
  case True
  then show ?thesis using b by (intro exI [of _ False] exI [of _ b]) (simp add: add_to_text_box_def)
next
  case False
  obtain img where img: "deref s (get_prop_from_char c) = Some img"
    using g get_prop_from_char_defined [OF _ c] by (auto simp: gfx_ok_def glyphs_ok_def)
  have lt: "0 \<le> char_size b" "char_size b < 20" "length (char_prop b) = 20"
    using False b by (auto simp: box_ok_def MAX_TEXT_BOX_SIZE_def)
  then obtain b1 where b1: "put_prop (char_size b) (get_prop_from_char c) b = Some b1"
      "b1 = b\<lparr>char_prop := (char_prop b)[nat (char_size b) := Some (get_prop_from_char c)]\<rparr>"
    by (simp add: put_prop_def)
  have "box_ok s (b1\<lparr>char_size := char_size b1 + 1, cursor_x := cursor_x b1 + width img\<rparr>)"
    using b False img b1(2) lt get_prop_put [OF b1(1), of s]
    by (auto simp: box_ok_def MAX_TEXT_BOX_SIZE_def less_Suc_eq nat_add_distrib)
  then show ?thesis using False img b1(1) b
    by (cases "uint (cursor_x b) + uint (width img) > uint (max_x b)") (auto simp: add_to_text_box_def)
qed

lemma static_box_loop_ok:
  "gfx_ok s \<Longrightarrow> box_ok s b \<Longrightarrow> list_all is_numerical cs \<Longrightarrow> \<exists>b'. static_box_loop s cs b = Some b' \<and> box_ok s b'"
proof (induction cs arbitrary: b)
  case Nil
  then show ?case by simp
next
  case (Cons c cs)
  then obtain r b1 where "add_to_text_box s c b = Some (r, b1)" "box_ok s b1"
    using add_to_text_box_ok [of s b c] numerical_not_slash by auto
  then show ?case using Cons by simp
qed

lemma round_digits_ok:
  "t < 10 ^ (length cs - k) \<Longrightarrow> k \<le> length cs \<Longrightarrow> list_all is_numerical cs \<Longrightarrow>
   \<exists>n ds. round_digits t k cs = Some (n, ds) \<and> n \<le> length cs \<and> length ds = length cs \<and> list_all is_numerical ds"
proof (induction t k cs rule: round_digits.induct)
  case (1 t k cs)
  show ?case
  proof (cases "t > 0")
    case False
    then show ?thesis using 1(3,4) by (subst round_digits.simps) simp
  next
    case True
    then have k: "k < length cs" using 1(2,3) by (cases "k = length cs") auto
    then have e: "length cs - k = Suc (length cs - (k + 1))" by simp
    have d: "t sdiv 10 = t div 10" "t smod 10 = t mod 10" using True by simp_all
    let ?cs = "cs[k := int_char (t smod 10 + c_int CHR ''0'')]"
    have "is_numerical (int_char (t smod 10 + c_int CHR ''0''))"
      using int_char_digit [of "t mod 10"] unfolding d(2) by (simp add: add.commute)
    then have "list_all is_numerical ?cs"
      using 1(4) k by (simp add: list_all_length nth_list_update)
    moreover have "t div 10 < 10 ^ (length cs - (k + 1))" using 1(2) unfolding e by (simp add: div_less_iff_less_mult)
    ultimately obtain n ds where "round_digits (t sdiv 10) (k + 1) ?cs = Some (n, ds)" "n \<le> length cs"
        "length ds = length cs" "list_all is_numerical ds"
      using 1(1) [OF True k] k unfolding d(1) by auto
    then show ?thesis using True k by (subst round_digits.simps) simp
  qed
qed

lemma round_chars_ok:
  assumes "n \<le> 999"
  shows "\<exists>k cs. round_chars n = Some (k, cs) \<and> k \<le> 3 \<and> length cs = 3 \<and> list_all is_numerical cs"
proof -
  let ?z = "[CHR ''0'', CHR ''0'', CHR ''0'']"
  obtain k cs where d: "round_digits n 0 ?z = Some (k, cs)" "k \<le> 3" "length cs = 3" "list_all is_numerical cs"
    using round_digits_ok [of n ?z 0] assms by (auto simp: is_numerical_def)
  then show ?thesis by (auto simp: round_chars_def list_all_length nth_list_update)
qed

lemma round_box_ok:
  assumes g: "gfx_ok s" and n: "n \<le> 999"
  shows "\<exists>k cs b. round_chars n = Some (k, cs) \<and> create_static_text_box s 0 50 cs k = Some b \<and> box_ok s b"
proof -
  obtain k cs where rc: "round_chars n = Some (k, cs)" "k \<le> 3" "length cs = 3" "list_all is_numerical cs"
    using round_chars_ok [OF n] by blast
  have "list_all is_numerical (take k cs)" using rc(4) by (metis append_take_drop_id list_all_append)
  then obtain b where "create_static_text_box s 0 50 cs k = Some b" "box_ok s b"
    using static_box_loop_ok [OF g, of "create_writeable_text_box 0 50 0 0xFFFF (int k)" "take k cs"] rc(2,3)
    by (auto simp: create_static_text_box_def box_ok_create)
  then show ?thesis using rc(1) by blast
qed

lemma draw_round_draws:
  assumes "gfx_ok s" "screens_ok s" "statics_ok s" and n: "buttons_size s \<le> 999"
  shows "game_draws (draw_round E) s"
proof -
  obtain k cs b where b: "round_chars (buttons_size s) = Some (k, cs)" "create_static_text_box s 0 50 cs k = Some b" "box_ok s b"
    using round_box_ok [OF assms(1) n] by blast
  let ?s = "if round_round s \<noteq> buttons_size s then s\<lparr>round_round := buttons_size s, round_text := b\<rparr> else s"
  have s1: "gfx_ok ?s" "screens_ok ?s" "statics_ok ?s" "undrawn ?s = undrawn s" "box_ok ?s (round_text ?s)"
    using assms(1-3) b(3) by (simp_all add: statics_ok_def)
  have "draw_round E s = draw_text_box E (round_text ?s) ?s" using b(1,2) by (simp add: draw_round_def)
  moreover have "game_draws (draw_text_box E (round_text ?s)) ?s"
    by (intro game_draws_only_buffer draw_text_box_safe s1)
  ultimately show ?thesis using s1(4) unfolding game_draws_def by simp
qed

lemma draw_mouse_draws:
  assumes "gfx_ok s" "screens_ok s" "statics_ok s" and m: "img_ok (xpm_load E ''mouse_xpm'' XPM_5_6_5)"
  shows "game_draws (draw_mouse E) s"
proof -
  let ?s = "s\<lparr>mouse_img := xpm_load E ''mouse_xpm'' XPM_5_6_5\<rparr>"
  have s1: "gfx_ok ?s" "screens_ok ?s" "statics_ok ?s" "undrawn ?s = undrawn s"
    using assms(1-3) by (simp_all add: statics_ok_def)
  have "game_draws (draw_xpm_x_y E (mouse_img ?s) (x_pos (mouse s)) (y_pos (mouse s))) ?s"
    by (intro game_draws_only_buffer draw_xpm_x_y_safe s1) (use m in simp)
  then show ?thesis using s1(4) unfolding game_draws_def draw_mouse_def get_mouse_def by simp
qed

text \<open>
  While a game is running, what the drawing needs of it is the time on the clock as one digit
  and a round of at most three.
\<close>

lemma undrawn_fields:
  assumes "undrawn s' = undrawn s"
  shows "time_left_for_click s' = time_left_for_click s" "buttons_size s' = buttons_size s"
proof -
  have "time_left_for_click (undrawn s') = time_left_for_click (undrawn s)" "buttons_size (undrawn s') = buttons_size (undrawn s)"
    using assms by simp_all
  then show "time_left_for_click s' = time_left_for_click s" "buttons_size s' = buttons_size s"
    by (simp_all add: undrawn_def)
qed

lemma draw_game_draws:
  assumes ok: "gfx_ok s" "screens_ok s" "statics_ok s"
    and g: "\<not> game_end s \<Longrightarrow> time_left_for_click s \<le> 9 \<and> buttons_size s \<le> 999"
    and m: "img_ok (xpm_load E ''mouse_xpm'' XPM_5_6_5)"
  shows "game_draws (draw_game_graphics E) s"
proof (cases "game_end s")
  case True
  then show ?thesis using draw_winner_draws [OF ok] by (simp add: game_draws_def draw_game_graphics_def)
next
  case False
  then have b: "time_left_for_click s \<le> 9" "buttons_size s \<le> 999" using g by simp_all
  have "game_draws (\<lambda>s. do { s \<leftarrow> draw_buttons s; s \<leftarrow> draw_player E s; s \<leftarrow> draw_counter E s; s \<leftarrow> draw_round E s; draw_mouse E s }) s"
  proof (rule game_draws_bind [OF draw_buttons_draws [OF ok]])
    fix s1 assume s1: "gfx_ok s1" "screens_ok s1" "statics_ok s1" and u1: "undrawn s1 = undrawn s"
    show "game_draws (\<lambda>s. do { s \<leftarrow> draw_player E s; s \<leftarrow> draw_counter E s; s \<leftarrow> draw_round E s; draw_mouse E s }) s1"
    proof (rule game_draws_bind [OF draw_player_draws [OF s1]])
      fix s2 assume s2: "gfx_ok s2" "screens_ok s2" "statics_ok s2" and u2: "undrawn s2 = undrawn s1"
      have t: "time_left_for_click s2 \<le> 9" "buttons_size s2 \<le> 999"
        using b undrawn_fields [OF u1] undrawn_fields [OF u2] by simp_all
      show "game_draws (\<lambda>s. do { s \<leftarrow> draw_counter E s; s \<leftarrow> draw_round E s; draw_mouse E s }) s2"
      proof (rule game_draws_bind [OF draw_counter_draws [OF s2 t(1)]])
        fix s3 assume s3: "gfx_ok s3" "screens_ok s3" "statics_ok s3" and u3: "undrawn s3 = undrawn s2"
        have "buttons_size s3 \<le> 999" using t(2) undrawn_fields [OF u3] by simp
        then show "game_draws (\<lambda>s. do { s \<leftarrow> draw_round E s; draw_mouse E s }) s3"
          by (rule game_draws_bind [OF draw_round_draws [OF s3] draw_mouse_draws]) (simp_all add: m)
      qed
    qed
  qed
  then show ?thesis using False by (simp add: game_draws_def draw_game_graphics_def)
qed

end
