(* ===== verification/Program_Safety.thy ===== *)
theory Program_Safety
  imports Main_Loop Game_Drawing
begin

text \<open>
  The invariant of the program but for the serial game, and the screens that keep it: each case of
  the event handler has a defined outcome in the invariant, under the conditions its lemma
  names, which exclude the events with undefined behaviour.
\<close>

section \<open>The invariant\<close>

definition play_ok :: "('d, 'z) game_st_scheme \<Rightarrow> bool" where
  "play_ok s \<longleftrightarrow> game_inv s \<and> max_buttons_size s \<le> 999 \<and> 0 \<le> player_score s \<and> player_score s \<le> 999"

definition names_ok :: "('d, 'z) hiscore_st_scheme \<Rightarrow> bool" where
  "names_ok s \<longleftrightarrow> length (leaderboard s) = SIZE \<and> list_all showable (leaderboard s) \<and>
     length (player s) = 11 \<and> NUL \<in> set (player s) \<and> box_ok s (new_hiscore s)"

definition base_ok :: "('d, 'z) game_st_scheme \<Rightarrow> bool" where
  "base_ok s \<longleftrightarrow> gfx_ok s \<and> screens_ok s \<and> statics_ok s \<and> names_ok s \<and> mouse_inv s"

definition mode_ok :: "('d, 'z) menu_st_scheme \<Rightarrow> bool" where
  "mode_ok s \<longleftrightarrow> (case mode s of NUM_ROUNDS \<Rightarrow> rounds_ok s | GAME \<Rightarrow> play_ok s
     | HIGHSCORE \<Rightarrow> 0 \<le> int_score (newWinner s) \<and> int_score (newWinner s) < 1000 | _ \<Rightarrow> True)"

definition prog_ok :: "('d, 'z) menu_st_scheme \<Rightarrow> bool" where
  "prog_ok s \<longleftrightarrow> base_ok s \<and> mode_ok s"

text \<open>The fields the invariant reads, by how often the handlers change them.\<close>

definition view :: "('d, 'z) game_st_scheme \<Rightarrow> _" where
  "view s = (bppixel s, x_res s, y_res s, bytes_per_pixel s, letters s, numbers s, lilletters s, lilnumbers s, screens s,
     counter_number s, round_text s, mouse_bytes s, byte_count s)"

definition bufs :: "('d, 'z) vc_st_scheme \<Rightarrow> nat \<times> nat" where
  "bufs s = (length (buffer s), length (video_mem s))"

definition names :: "('d, 'z) hiscore_st_scheme \<Rightarrow> cont_winner list \<times> char list \<times> text_box" where
  "names s = (leaderboard s, player s, new_hiscore s)"

lemma view_deref: "view s' = view s \<Longrightarrow> deref s' = deref s"
  by (rule ext, rename_tac g, case_tac g) (simp_all add: view_def)

lemma view_box_ok: "view s' = view s \<Longrightarrow> box_ok s' b \<longleftrightarrow> box_ok s b"
  by (rule box_ok_deref) (rule view_deref)

lemma view_gfx_ok: "view s' = view s \<Longrightarrow> bufs s' = bufs s \<Longrightarrow> gfx_ok s' \<longleftrightarrow> gfx_ok s"
  by (simp add: view_def bufs_def gfx_ok_def glyphs_ok_def props_ok_def)

lemma gfx_ok_bufs: "view s' = view s \<Longrightarrow> gfx_ok s \<Longrightarrow> gfx_ok s' \<Longrightarrow> bufs s' = bufs s"
  by (simp add: view_def bufs_def gfx_ok_def)

lemma base_ok_cong:
  assumes v: "view s' = view s" and b: "bufs s' = bufs s" and n: "names_ok s \<Longrightarrow> names_ok s'" and ok: "base_ok s"
  shows "base_ok s'"
proof -
  have "screens_ok s' \<longleftrightarrow> screens_ok s" "statics_ok s' \<longleftrightarrow> statics_ok s" "mouse_inv s' \<longleftrightarrow> mouse_inv s"
    using v b view_box_ok [OF v] by (simp_all add: view_def bufs_def screens_ok_def statics_ok_def mouse_inv_def)
  then show ?thesis using ok n view_gfx_ok [OF v b] by (simp add: base_ok_def)
qed

lemma names_ok_cong: "view s' = view s \<Longrightarrow> names s' = names s \<Longrightarrow> names_ok s \<Longrightarrow> names_ok s'"
  using view_box_ok [of s' s] by (simp add: names_def names_ok_def)

lemma base_ok_same: "view s' = view s \<Longrightarrow> bufs s' = bufs s \<Longrightarrow> names s' = names s \<Longrightarrow> base_ok s \<Longrightarrow> base_ok s'"
  using base_ok_cong names_ok_cong by blast

lemma play_ok_cong:
  assumes "buttons s' = buttons s" "buttons_size s' = buttons_size s" "max_buttons_size s' = max_buttons_size s"
    "guessed s' = guessed s" "game_end s' = game_end s" "player_score s' = player_score s"
    "time_left_for_click s' = time_left_for_click s"
  shows "play_ok s' \<longleftrightarrow> play_ok s"
  using assms by (simp add: play_ok_def game_inv_def live_def over_def)

text \<open>Drawing into the buffer is invisible to the invariant.\<close>

lemma base_ok_only_buffer: "only_buffer s s' \<Longrightarrow> base_ok s \<Longrightarrow> base_ok s'"
  by (erule only_bufferE, rule base_ok_same [of _ s]) (simp_all add: view_def bufs_def names_def)

lemma mode_ok_cong:
  assumes "view s' = view s" "mode s' = mode s" "num_rounds s' = num_rounds s" "num_rounds_value s' = num_rounds_value s"
    "newWinner s' = newWinner s" "play_ok s' \<longleftrightarrow> play_ok s"
  shows "mode_ok s' \<longleftrightarrow> mode_ok s"
  using assms view_box_ok [OF assms(1)] by (simp add: mode_ok_def rounds_ok_def cong: Game_Modes.case_cong)

lemma mode_ok_only_buffer: "only_buffer s s' \<Longrightarrow> mode_ok s' \<longleftrightarrow> mode_ok s"
  by (erule only_bufferE, rule mode_ok_cong) (simp_all add: view_def, rule play_ok_cong, simp_all)

lemma prog_ok_only_buffer: "only_buffer s s' \<Longrightarrow> prog_ok s \<Longrightarrow> prog_ok s'"
  using base_ok_only_buffer mode_ok_only_buffer by (auto simp: prog_ok_def)

lemma copy_to_video_ok: "prog_ok s \<Longrightarrow> \<exists>s'. copy_to_video s = Some s' \<and> prog_ok s' \<and> mode s' = mode s"
proof -
  assume p: "prog_ok s"
  then have g: "gfx_ok s" by (simp add: prog_ok_def base_ok_def)
  let ?s = "s\<lparr>video_mem := buffer s, buffer := replicate (length (buffer s)) 0\<rparr>"
  have v: "view ?s = view s" "bufs ?s = bufs s" "names ?s = names s"
    using g by (simp_all add: view_def bufs_def names_def gfx_ok_def)
  have "base_ok ?s" using base_ok_same [OF v] p by (simp add: prog_ok_def)
  moreover have "mode_ok ?s \<longleftrightarrow> mode_ok s"
    by (rule mode_ok_cong [OF v(1)]) (simp_all, rule play_ok_cong, simp_all)
  ultimately show ?thesis using p g by (simp add: copy_to_video_eq prog_ok_def)
qed

section \<open>The menus\<close>

lemma menu_position_frame [simp]:
  "rounds_ok (s\<lparr>position := p\<rparr>) \<longleftrightarrow> rounds_ok s" "rounds_ok (s\<lparr>host_position := p\<rparr>) \<longleftrightarrow> rounds_ok s"
  using box_ok_frame [of "s\<lparr>position := p\<rparr>" s] box_ok_frame [of "s\<lparr>host_position := p\<rparr>" s]
  by (simp_all add: rounds_ok_def vc_st.truncate_def)

lemma reset_rounds_mode [simp]: "mode (reset_number_of_rounds mp s) = mode s"
  by (simp add: reset_number_of_rounds_def create_num_box_def)

lemma base_ok_menu: "base_ok s \<Longrightarrow> base_ok (menu_update_status k s)"
  by (erule base_ok_same [rotated 3])
    (simp_all add: menu_update_status_def reset_number_of_rounds_def create_num_box_def Let_def view_def bufs_def names_def)

lemma menu_ok: "prog_ok s \<Longrightarrow> mode s = MENU \<Longrightarrow> prog_ok (menu_update_status k s)"
  by (simp add: prog_ok_def base_ok_menu) (simp add: mode_ok_def menu_update_status_def rounds_ok_reset Let_def)

lemma base_ok_host: "base_ok s \<Longrightarrow> base_ok (host_update_status E k s)"
  by (erule base_ok_same [rotated 3])
    (simp_all add: host_update_status_def reset_number_of_rounds_def create_num_box_def connect_mp_game_def
      serial_write.snd_op Let_def view_def bufs_def names_def)

lemma host_ok: "prog_ok s \<Longrightarrow> mode s = HOST \<Longrightarrow> prog_ok (host_update_status E k s)"
  by (simp add: prog_ok_def base_ok_host)
    (simp add: mode_ok_def host_update_status_def rounds_ok_reset connect_mp_game_menu Let_def)

lemma prog_ok_MENU: "prog_ok s \<Longrightarrow> prog_ok (s\<lparr>mode := MENU\<rparr>)"
proof -
  assume "prog_ok s"
  then have "base_ok (s\<lparr>mode := MENU\<rparr>)"
    by (intro base_ok_same [of "s\<lparr>mode := MENU\<rparr>" s]) (simp_all add: prog_ok_def view_def bufs_def names_def)
  then show ?thesis by (simp add: prog_ok_def mode_ok_def)
qed

section \<open>The number of rounds\<close>

text \<open>A key that does not start a game edits the box, the value and the buffer only.\<close>

lemma rounds_view:
  assumes "number_of_rounds_update_status E k s = Some s'" and "\<not> (key k = ENTER \<and> num_rounds_value s \<noteq> 0)"
  shows "view s' = view s \<and> names s' = names s"
  using assms
  by (auto simp: number_of_rounds_update_status_def rounds_enter_def rounds_type_def rounds_backspace_def kbd_chars
      view_def names_def drawn_def Let_def split: if_splits Option.bind_splits dest!: remove_drawn)

lemma base_ok_rounds:
  assumes "base_ok s" "gfx_ok s'" "number_of_rounds_update_status E k s = Some s'" "\<not> (key k = ENTER \<and> num_rounds_value s \<noteq> 0)"
  shows "base_ok s'"
  using base_ok_same gfx_ok_bufs rounds_view [OF assms(3,4)] assms(1,2) unfolding base_ok_def by metis

lemma key_cases: "\<exists>c d. k = \<lparr>key = c, down = d\<rparr>" for k :: key_press
  by (cases k) simp

lemma rounds_other_key:
  "\<not> is_numerical c \<Longrightarrow> c \<noteq> BACKSPACE \<Longrightarrow> c \<noteq> ENTER \<or> num_rounds_value s = 0 \<Longrightarrow>
   number_of_rounds_update_status E \<lparr>key = c, down = d\<rparr> s = Some s"
  by (auto simp: number_of_rounds_update_status_def rounds_enter_def rounds_type_def rounds_backspace_def kbd_chars)

lemma reset_game_ok:
  assumes "base_ok s" "malloc E (n * 4) (dev s) \<noteq> None" "0 \<le> n" "n \<le> 999"
  shows "prog_ok (reset_game E n (s\<lparr>mode := GAME\<rparr>))"
proof -
  let ?s = "reset_game E n (s\<lparr>mode := GAME\<rparr>)"
  have "base_ok ?s"
    by (rule base_ok_same [OF _ _ _ assms(1)])
      (simp_all add: reset_game_def is_VS_round_eq Let_def view_def bufs_def names_def)
  moreover have "play_ok ?s" using reset_game_repeating [of E n "s\<lparr>mode := GAME\<rparr>"] assms(2-4)
    by (simp add: play_ok_def) (simp add: reset_game_def is_VS_round_eq Let_def)
  moreover have "mode ?s = GAME" by (simp add: reset_game_def is_VS_round_eq Let_def)
  ultimately show ?thesis by (simp add: prog_ok_def mode_ok_def)
qed

lemma host_game_ok: "base_ok s \<Longrightarrow> prog_ok (host_mp_game E n (s\<lparr>mode := MP_GAME\<rparr>))"
proof -
  assume "base_ok s"
  then have "base_ok (host_mp_game E n (s\<lparr>mode := MP_GAME\<rparr>))"
    by (rule base_ok_same [rotated 3])
      (simp_all add: host_mp_game_def mp_reset_game_def mp_is_VS_round_def Let_def split_beta view_def bufs_def names_def)
  then show ?thesis by (simp add: prog_ok_def mode_ok_def host_mp_game_def)
qed

lemma rounds_key_ok:
  assumes p: "prog_ok s" "mode s = NUM_ROUNDS"
    and m: "key k = ENTER \<Longrightarrow> malloc E (4 * uint (num_rounds_value s)) (dev s) \<noteq> None"
  shows "\<exists>s'. number_of_rounds_update_status E k s = Some s' \<and> prog_ok s'"
proof -
  have b: "base_ok s" and r: "rounds_ok s" and g: "gfx_ok s" using p by (auto simp: prog_ok_def mode_ok_def base_ok_def)
  obtain c d where k: "k = \<lparr>key = c, down = d\<rparr>" using key_cases by blast
  have keep: ?thesis if "number_of_rounds_update_status E k s = Some s'" "gfx_ok s'" "rounds_ok s'" "mode s' = mode s"
    "c \<noteq> ENTER" for s'
    using that base_ok_rounds [OF b that(2,1)] p(2) k by (simp add: prog_ok_def mode_ok_def)
  consider "d" | "\<not> d" "is_numerical c" | "\<not> d" "c = BACKSPACE" | "\<not> d" "c = ENTER" "num_rounds_value s \<noteq> 0"
    | "\<not> is_numerical c" "c \<noteq> BACKSPACE" "c \<noteq> ENTER \<or> num_rounds_value s = 0" by blast
  then show ?thesis
  proof cases
    case 1
    then show ?thesis using p k by (simp add: number_of_rounds_update_status_def)
  next
    case 2
    then obtain s' where "number_of_rounds_update_status E k s = Some s'" "gfx_ok s'" "rounds_ok s'" "mode s' = mode s"
      using rounds_digit [OF g r, of c E] k by auto
    moreover have "c \<noteq> ENTER" using 2 digit_key(3) by (auto simp: kbd_chars)
    ultimately show ?thesis by (rule keep)
  next
    case 3
    then obtain s' where "number_of_rounds_update_status E k s = Some s'" "gfx_ok s'" "rounds_ok s'" "mode s' = mode s"
      using rounds_backspace_ok [OF g r, of E] k by auto
    moreover have "c \<noteq> ENTER" using 3 by (simp add: kbd_chars)
    ultimately show ?thesis by (rule keep)
  next
    case 4
    then show ?thesis using rounds_enter_ok [OF r 4(3), of E] reset_game_ok [OF b] host_game_ok [OF b] m k
      by (auto simp: mult.commute)
  next
    case 5
    then show ?thesis using p k rounds_other_key [OF 5, of E d] by simp
  qed
qed

section \<open>The name of a new high score\<close>

text \<open>The date depends on the device only.\<close>

lemma get_date_body_dev:
  "dev t = dev s \<Longrightarrow> fst (get_date_body E t) = fst (get_date_body E s) \<and> dev (snd (get_date_body E t)) = dev (snd (get_date_body E s))"
  by (simp add: get_date_body_def read_date_def disable_updates_def enable_updates_def rtc_read_def rtc_write_def
      out_def outb_def inb_def util_sys_inb_def Let_def split_beta)

lemma get_date_dev: "get_date E s = Some r \<Longrightarrow> dev t = dev s \<Longrightarrow> \<exists>t'. get_date E t = Some (fst r, t')"
  for s t :: "('d, 'z) machine_scheme"
proof (erule get_date.raw_induct [rotated, of _ _ _ "\<lambda>E s r. \<forall>t :: ('d, 'z) machine_scheme. dev t = dev s \<longrightarrow> (\<exists>t'. get_date E t = Some (fst r, t'))", THEN spec, THEN mp])
  fix f :: "'d env \<Rightarrow> ('d, 'z) machine_scheme \<Rightarrow> (date \<times> ('d, 'z) machine_scheme) option" and E s r
  assume IH: "\<And>E s r. f E s = Some r \<Longrightarrow> \<forall>t :: ('d, 'z) machine_scheme. dev t = dev s \<longrightarrow> (\<exists>t'. get_date E t = Some (fst r, t'))"
    and body: "(case get_date_body E s of (None, s') \<Rightarrow> f E s' | (Some new_date, s') \<Rightarrow> Some (new_date, s')) = Some r"
  show "\<forall>t :: ('d, 'z) machine_scheme. dev t = dev s \<longrightarrow> (\<exists>t'. get_date E t = Some (fst r, t'))"
  proof (intro allI impI)
    fix t :: "('d, 'z) machine_scheme" assume "dev t = dev s"
    note same = get_date_body_dev [OF this, of E]
    show "\<exists>t'. get_date E t = Some (fst r, t')"
    proof (cases "fst (get_date_body E s)")
      case None
      then have "f E (snd (get_date_body E s)) = Some r" using body by (simp add: split_beta)
      then have "\<exists>t'. get_date E (snd (get_date_body E t)) = Some (fst r, t')" using IH same by blast
      then show ?thesis using same None by (subst get_date.simps) (simp add: split_beta)
    next
      case (Some d)
      then show ?thesis using body same by (subst get_date.simps) (auto simp: split_beta)
    qed
  qed
qed

text \<open>
  What a key must not do: type an eleventh character into the array, erase from an empty array,
  or register a name when the block for the date is too short for the copy or the clock shows no
  date of two-digit numbers.
\<close>

definition name_key_ok :: "'d env \<Rightarrow> char \<Rightarrow> ('d, 'z) hiscore_st_scheme \<Rightarrow> bool" where
  "name_key_ok E c s \<longleftrightarrow> (case cstr (player s) of None \<Rightarrow> False | Some w \<Rightarrow>
     (is_alpha_numberical c \<longrightarrow> length w < 10) \<and> (c = BACKSPACE \<longrightarrow> w \<noteq> []) \<and>
     (c = ENTER \<and> w \<noteq> [] \<longrightarrow> (\<exists>n dt s'. malloc E 10 (dev s) = Some n \<and> 11 \<le> n \<and> get_date E s = Some (dt, s') \<and> date_ok dt)))"

lemma cstr_NUL: "cstr a = Some w \<Longrightarrow> NUL \<in> set a"
  using cstr_split by fastforce

lemma names_ok_player: "names_ok s \<Longrightarrow> \<exists>w. cstr (player s) = Some w"
  by (simp add: names_ok_def cstr_def)

lemma view_hiscore [simp]:
  "view (s\<lparr>new_hiscore := b\<rparr>) = view s" "view (s\<lparr>player := p\<rparr>) = view s" "view (s\<lparr>mode := m\<rparr>) = view s"
  "view (s\<lparr>leaderboard := l\<rparr>) = view s" "view (s\<lparr>newWinner := w\<rparr>) = view s" "view (s\<lparr>dev := d\<rparr>) = view s"
  "view (s\<lparr>buffer := bs\<rparr>) = view s"
  "bufs (s\<lparr>new_hiscore := b\<rparr>) = bufs s" "bufs (s\<lparr>player := p\<rparr>) = bufs s" "bufs (s\<lparr>mode := m\<rparr>) = bufs s"
  "bufs (s\<lparr>leaderboard := l\<rparr>) = bufs s" "bufs (s\<lparr>newWinner := w\<rparr>) = bufs s" "bufs (s\<lparr>dev := d\<rparr>) = bufs s"
  by (simp_all add: view_def bufs_def)

lemma updateData_length: "length (leaderboard s) = SIZE \<Longrightarrow> length (leaderboard (updateData s)) = SIZE"
  by (auto simp: SIZE_def updateData_def getNewHiScorePos_def update_loop.simps elim!: length_5E)

lemma updateData_set:
  "length (leaderboard s) = SIZE \<Longrightarrow> set (leaderboard (updateData s)) \<subseteq> insert (newWinner s) (set (leaderboard s))"
  by (auto simp: SIZE_def updateData_def getNewHiScorePos_def update_loop.simps elim!: length_5E)

lemma register_ok:
  assumes "base_ok s" "showable (newWinner s)"
  shows "prog_ok ((updateData s)\<lparr>mode := LEADERBOARD\<rparr>)"
proof -
  let ?s = "(updateData s)\<lparr>mode := LEADERBOARD\<rparr>"
  obtain ws n where f: "updateData s = s\<lparr>leaderboard := ws, newWinner := n\<rparr>" using updateData_frame by blast
  have n: "names_ok s" using assms by (simp add: base_ok_def)
  then have "length ws = SIZE" "set ws \<subseteq> insert (newWinner s) (set (leaderboard s))"
    using updateData_length [of s] updateData_set [of s] f by (simp_all add: names_ok_def)
  then have "names_ok ?s" using n assms(2) view_box_ok [of ?s s] by (auto simp: names_ok_def list_all_iff f)
  then have "base_ok ?s" using base_ok_cong [of ?s s] assms(1) by (simp add: f)
  then show ?thesis by (simp add: prog_ok_def mode_ok_def)
qed

lemma hiscore_enter_ok:
  assumes p: "base_ok s" "0 \<le> int_score (newWinner s)" "int_score (newWinner s) < 1000"
    and c: "cstr (player s) = Some w" "w \<noteq> []"
    and m: "malloc E 10 (dev s) = Some n" "11 \<le> n" and d: "get_date E s = Some (dt, s0)" "date_ok dt"
  shows "\<exists>s'. hiscore_enter E \<lparr>key = ENTER, down = False\<rparr> s = Some s' \<and> prog_ok s'"
proof -
  let ?s1 = "s\<lparr>newWinner := (newWinner s)\<lparr>w_name := player s\<rparr>\<rparr>"
  obtain s1 where gd: "get_date E ?s1 = Some (dt, s1)" using get_date_dev [OF d(1), of ?s1] by auto
  obtain d' where s1: "s1 = ?s1\<lparr>dev := d'\<rparr>" using get_date_frame [OF gd] by (rule only_devE)
  obtain bl a where a: "getDate E ?s1 = Some (bl, s1)" "blk_bytes (int_char (uint (uninit E (dev s1)))) 11 bl = Some a"
      "cstr a = Some (date_text dt)"
    using getDate_text [of E ?s1 n dt s1 "int_char (uint (uninit E (dev s1)))"] m gd d(2) by auto
  let ?s3 = "s1\<lparr>newWinner := (newWinner s1)\<lparr>w_date := a\<rparr>\<rparr>"
  have "base_ok ?s3" by (rule base_ok_same [OF _ _ _ p(1)]) (simp_all add: s1 names_def)
  moreover have "showable (newWinner ?s3)"
    using p(2,3) cstr_NUL [OF a(3)] cstr_NUL [OF c(1)] by (simp add: showable_def s1)
  ultimately have "prog_ok ((updateData ?s3)\<lparr>mode := LEADERBOARD\<rparr>)" by (rule register_ok)
  moreover have "hiscore_enter E \<lparr>key = ENTER, down = False\<rparr> s = Some ((updateData ?s3)\<lparr>mode := LEADERBOARD\<rparr>)"
    using c a by (simp add: hiscore_enter_def)
  ultimately show ?thesis by blast
qed

text \<open>The box and the array after a key: both are still well formed, whatever they have in common.\<close>

lemma name_edit_ok:
  assumes "prog_ok s" "mode s = HIGHSCORE" "only_buffer s s1" "box_ok s b" "length p = 11" "NUL \<in> set p"
  shows "prog_ok (s1\<lparr>new_hiscore := b, player := p\<rparr>)"
proof -
  let ?s = "s1\<lparr>new_hiscore := b, player := p\<rparr>"
  obtain bs where s1: "s1 = s\<lparr>buffer := bs\<rparr>" "length bs = length (buffer s)" using assms(3) by (rule only_bufferE)
  have v: "view ?s = view s" "bufs ?s = bufs s" by (simp_all add: s1) (simp add: bufs_def s1(2))
  have "names_ok ?s" using assms view_box_ok [OF v(1)] by (simp add: names_ok_def prog_ok_def base_ok_def s1)
  then have "base_ok ?s" using base_ok_cong [OF v] assms(1) by (simp add: prog_ok_def)
  then show ?thesis using assms(1,2) by (simp add: prog_ok_def mode_ok_def s1)
qed

lemma hiscore_type_ok:
  assumes p: "prog_ok s" "mode s = HIGHSCORE" and c: "is_alpha_numberical c"
    and w: "cstr (player s) = Some w" "length w < 10"
  shows "\<exists>s'. hiscore_type \<lparr>key = c, down = d\<rparr> s = Some s' \<and> prog_ok s'"
proof -
  note cc = alnum_char [OF c]
  have ok: "gfx_ok s" "box_ok s (new_hiscore s)" "length (player s) = 11"
    using p(1) by (simp_all add: prog_ok_def base_ok_def names_ok_def)
  obtain q where q: "strncat1 (player s) c = Some q" "length q = 11" "NUL \<in> set q"
    using strncat1_ok [OF w(1), of c] w(2) ok(3) cc(1) cstr_NUL by auto
  show ?thesis
  proof (rule add_to_centered_cases [OF ok(1,2) cc(2)])
    assume "add_to_centered_text_box s c (new_hiscore s) = Some (False, new_hiscore s)"
    then show ?thesis using c p by (simp add: hiscore_type_def)
  next
    fix img b'
    assume "add_to_centered_text_box s c (new_hiscore s) = Some (True, b')" and b: "box_ok s b'"
    then have "hiscore_type \<lparr>key = c, down = d\<rparr> s = Some (s\<lparr>new_hiscore := b', player := q\<rparr>)"
      using c q(1) by (simp add: hiscore_type_def)
    then show ?thesis using name_edit_ok [OF p only_buffer_refl b q(2,3)] by simp
  qed
qed

lemma hiscore_backspace_ok:
  assumes p: "prog_ok s" "mode s = HIGHSCORE" and w: "cstr (player s) = Some w" "w \<noteq> []"
  shows "\<exists>s'. hiscore_backspace E \<lparr>key = BACKSPACE, down = d\<rparr> s = Some s' \<and> prog_ok s'"
proof -
  have ok: "gfx_ok s" "box_ok s (new_hiscore s)" "length (player s) = 11"
    using p(1) by (simp_all add: prog_ok_def base_ok_def names_ok_def)
  obtain q where q: "drop_last_char (player s) = Some q" "length q = 11" "NUL \<in> set q"
    using drop_last_char_ok [of "player s" "butlast w" "last w"] w ok(3) cstr_NUL by auto
  have "\<exists>b s1. remove_from_centered_text_box E (new_hiscore s) s = Some (b, s1) \<and> only_buffer s s1 \<and> box_ok s b"
    by (rule remove_from_centered_cases [OF ok(1,2), of E]) (use ok(2) box_ok_remove [OF ok(2)] in auto)
  then obtain b s1 where r: "remove_from_centered_text_box E (new_hiscore s) s = Some (b, s1)" "only_buffer s s1" "box_ok s b"
    by blast
  have "player s1 = player s" using r(2) by (auto elim: only_bufferE)
  then have "hiscore_backspace E \<lparr>key = BACKSPACE, down = d\<rparr> s = Some (s1\<lparr>new_hiscore := b, player := q\<rparr>)"
    using r(1) q(1) by (simp add: hiscore_backspace_def)
  then show ?thesis using name_edit_ok [OF p r(2,3) q(2,3)] by simp
qed

lemma highscore_key_ok:
  assumes p: "prog_ok s" "mode s = HIGHSCORE" and n: "\<not> down k \<Longrightarrow> name_key_ok E (key k) s"
  shows "\<exists>s'. highscore_update_status E k s = Some s' \<and> prog_ok s'"
proof -
  obtain c d where k: "k = \<lparr>key = c, down = d\<rparr>" using key_cases by blast
  have b: "base_ok s" "0 \<le> int_score (newWinner s)" "int_score (newWinner s) < 1000"
    using p by (simp_all add: prog_ok_def mode_ok_def)
  obtain w where w: "cstr (player s) = Some w" using names_ok_player b(1) by (auto simp: base_ok_def)
  have keys: "\<not> is_alpha_numberical ENTER" "\<not> is_alpha_numberical BACKSPACE" "ENTER \<noteq> BACKSPACE"
    by (simp_all add: kbd_chars is_alpha_numberical_def is_numerical_def c_int_def)
  consider "d" | "\<not> d" "is_alpha_numberical c" | "\<not> d" "c = BACKSPACE" | "\<not> d" "c = ENTER"
    | "\<not> d" "\<not> is_alpha_numberical c" "c \<noteq> BACKSPACE" "c \<noteq> ENTER" by blast
  then show ?thesis
  proof cases
    case 1
    then show ?thesis using p k by (simp add: highscore_update_status_def)
  next
    case 2
    have "highscore_update_status E k s = hiscore_type \<lparr>key = c, down = False\<rparr> s"
      using 2 k alnum_char [OF 2(2)]
      by (simp add: highscore_update_status_def hiscore_enter_def hiscore_backspace_def [abs_def] cong: if_cong)
    then show ?thesis using hiscore_type_ok [OF p 2(2) w] n 2 k w by (simp add: name_key_ok_def)
  next
    case 3
    have "highscore_update_status E k s = hiscore_backspace E \<lparr>key = BACKSPACE, down = False\<rparr> s"
      using 3 k keys by (simp add: highscore_update_status_def hiscore_enter_def hiscore_type_def)
    then show ?thesis using hiscore_backspace_ok [OF p w] n 3 k w by (simp add: name_key_ok_def)
  next
    case 4
    have "highscore_update_status E k s = hiscore_enter E \<lparr>key = ENTER, down = False\<rparr> s"
      using 4 k keys by (simp add: highscore_update_status_def hiscore_type_def hiscore_backspace_def [abs_def] cong: if_cong)
    moreover have "hiscore_enter E \<lparr>key = ENTER, down = False\<rparr> s = Some s" if "w = []"
      using that w by (simp add: hiscore_enter_def)
    ultimately show ?thesis using hiscore_enter_ok [OF b w] n 4 k w p by (cases "w = []") (auto simp: name_key_ok_def)
  next
    case 5
    then show ?thesis using p k
      by (simp add: highscore_update_status_def hiscore_enter_def hiscore_type_def hiscore_backspace_def)
  qed
qed

section \<open>The game\<close>

definition in_game :: "('d, 'z) menu_st_scheme \<Rightarrow> bool" where
  "in_game s \<longleftrightarrow> base_ok s \<and> play_ok s \<and> mode s \<in> {GAME, HIGHSCORE, LEADERBOARD} \<and>
     (mode s = HIGHSCORE \<longrightarrow> 0 \<le> int_score (newWinner s) \<and> int_score (newWinner s) < 1000)"

lemma in_game_prog_ok: "in_game s \<Longrightarrow> prog_ok s"
  by (auto simp: in_game_def prog_ok_def mode_ok_def)

text \<open>What the rules of the game leave alone.\<close>

definition rules_frame :: "('d, 'z) game_st_scheme \<Rightarrow> ('d, 'z) game_st_scheme \<Rightarrow> bool" where
  "rules_frame s s' \<longleftrightarrow> view s' = view s \<and> bufs s' = bufs s \<and> names s' = names s \<and>
     max_buttons_size s' = max_buttons_size s \<and> newWinner s' = newWinner s \<and> mode s' = mode s"

lemma in_game_rules:
  assumes g: "in_game s" and f: "rules_frame s s'" and i: "game_inv s'" and sc: "0 \<le> player_score s'" "player_score s' \<le> 999"
  shows "in_game s'"
  using assms base_ok_same [of s' s] by (simp add: in_game_def rules_frame_def play_ok_def)

lemmas rules_frame_defs = rules_frame_def view_def bufs_def names_def

lemma end_game_frame: "end_game E s = Some s' \<Longrightarrow> rules_frame s s' \<and> player_score s' = player_score s"
  by (auto simp: end_game_def Let_def timed_alarm.cmd_state rules_frame_defs split: Option.bind_splits)

lemma click_frame:
  assumes "click_button E c s = Some s'"
  shows "rules_frame s s' \<and> player_score s' \<in> {player_score s, buttons_size s}"
  using assms
  by (auto simp: click_button_def push_button_def is_VS_round_eq get_winner_def Let_def
      split: if_splits Option.bind_splits dest!: end_game_frame) (auto simp: rules_frame_defs)

lemma live_score: "game_inv s \<Longrightarrow> \<not> game_end s \<Longrightarrow> 0 \<le> buttons_size s \<and> buttons_size s \<le> max_buttons_size s"
proof -
  assume "game_inv s" "\<not> game_end s"
  then obtain xs where l: "live s xs" by (auto simp: game_inv_def over_def)
  then show ?thesis using live_length [OF l] by (simp add: live_def)
qed

lemma mouse_click:
  assumes "game_update_status_mouse E pk s = Some s'" and "\<not> game_end s"
  shows "\<exists>c s1 p. click_button E c (s\<lparr>mouse := press_mouse pk (move_mouse pk (mouse s))\<rparr>) = Some s1 \<and> s' = s1\<lparr>ps := p\<rparr>"
proof -
  obtain c s1 where "click_button E c (s\<lparr>mouse := press_mouse pk (move_mouse pk (mouse s))\<rparr>) = Some s1" "s' = light_button c s1"
    using assms by (simp add: game_update_status_mouse_def Let_def split: Option.bind_splits)
  then show ?thesis using light_button_frame [of c s1] by auto
qed

lemma game_mouse_in_game:
  assumes g: "in_game s" and o: "game_end s \<or> \<not> vs_overflow s"
  shows "\<exists>s'. game_update_status_mouse E pk s = Some s' \<and> in_game s'"
proof (cases "game_end s")
  case True
  then show ?thesis using g by (simp add: game_update_status_mouse_def)
next
  case False
  obtain s' where s': "game_update_status_mouse E pk s = Some s'" "game_inv s'"
    using mouse_inv_step o g by (metis in_game_def play_ok_def)
  have i: "game_inv s" "max_buttons_size s \<le> 999" "0 \<le> player_score s" "player_score s \<le> 999"
    using g by (simp_all add: in_game_def play_ok_def)
  let ?m = "s\<lparr>mouse := press_mouse pk (move_mouse pk (mouse s))\<rparr>"
  obtain c s1 p where c: "click_button E c ?m = Some s1" "s' = s1\<lparr>ps := p\<rparr>"
    using mouse_click [OF s'(1) False] by blast
  have "rules_frame s s'" "player_score s' \<in> {player_score s, buttons_size s}"
    using click_frame [OF c(1)] by (auto simp: c(2) rules_frame_defs)
  then show ?thesis using s' in_game_rules [OF g] i live_score [OF i(1) False] by auto
qed

lemma base_ok_reset_hiscore: "base_ok s \<Longrightarrow> base_ok (reset_hiscore n (s\<lparr>mode := m\<rparr>))"
proof -
  assume b: "base_ok s"
  let ?s = "reset_hiscore n (s\<lparr>mode := m\<rparr>)"
  have v: "view ?s = view s" "bufs ?s = bufs s" by (simp_all add: reset_hiscore_def create_name_box_def)
  have "box_ok ?s (create_writeable_text_box 400 330 0 (- 1) 10)" by (rule box_ok_create) simp_all
  then have "names_ok s \<Longrightarrow> names_ok ?s"
    unfolding names_ok_def by (simp add: reset_hiscore_def create_name_box_def)
  then show ?thesis by (rule base_ok_cong [OF v _ b])
qed

lemma base_ok_mode: "base_ok (s\<lparr>mode := m\<rparr>) \<longleftrightarrow> base_ok s"
  using base_ok_same [of "s\<lparr>mode := m\<rparr>" s] base_ok_same [of s "s\<lparr>mode := m\<rparr>"] by (auto simp: names_def)

lemma checkNewHiScore_in_game: "in_game s \<Longrightarrow> in_game (checkNewHiScore s)"
proof -
  assume g: "in_game s"
  let ?s = "checkNewHiScore s"
  have "base_ok ?s" using g base_ok_reset_hiscore [of s] by (simp add: in_game_def checkNewHiScore_def base_ok_mode)
  moreover have "play_ok ?s \<longleftrightarrow> play_ok s"
    by (rule play_ok_cong) (simp_all add: checkNewHiScore_def reset_hiscore_def create_name_box_def)
  moreover have "mode ?s \<in> {HIGHSCORE, LEADERBOARD}" by (rule hiscore_modes)
  moreover have "mode ?s = HIGHSCORE \<longrightarrow> int_score (newWinner ?s) = player_score s"
    by (simp add: checkNewHiScore_def reset_hiscore_def create_name_box_def)
  ultimately show ?thesis using g by (auto simp: in_game_def play_ok_def)
qed

lemma leaderboard_in_game: "in_game s \<Longrightarrow> in_game (s\<lparr>mode := LEADERBOARD\<rparr>)"
proof -
  assume g: "in_game s"
  then have "base_ok (s\<lparr>mode := LEADERBOARD\<rparr>)" by (simp add: in_game_def base_ok_mode)
  moreover have "play_ok (s\<lparr>mode := LEADERBOARD\<rparr>) \<longleftrightarrow> play_ok s" by (rule play_ok_cong) simp_all
  ultimately show ?thesis using g by (simp add: in_game_def)
qed

lemma game_key_in_game: "in_game s \<Longrightarrow> in_game (game_update_status_key k s)"
  by (simp add: game_update_status_key_def checkNewHiScore_in_game leaderboard_in_game)

lemma game_timer_in_game: "in_game s \<Longrightarrow> in_game (game_update_status_timer s)"
  by (rule in_game_rules [of s]) (simp_all add: game_update_status_timer_def rules_frame_defs in_game_def play_ok_def)

lemma rules_frame_upd [simp]:
  "rules_frame s s" "rules_frame s (s\<lparr>time_left_for_click := n\<rparr>)" "rules_frame s (s'\<lparr>dev := d\<rparr>) \<longleftrightarrow> rules_frame s s'"
  "rules_frame s (is_VS_round E (s\<lparr>is_player_1 := b, time_left_for_click := n\<rparr>))" "rules_frame (get_winner s) s' \<longleftrightarrow> rules_frame s s'"
  by (simp_all add: rules_frame_defs is_VS_round_eq get_winner_def)

lemma helper_scores [simp]:
  "player_score (get_winner s) = player_score s" "player_score (is_VS_round E s) = player_score s"
  by (simp_all add: get_winner_def is_VS_round_eq)

lemma rtc_frame:
  assumes "game_update_status_rtc E s = Some s'"
  shows "\<exists>s1. rules_frame s s1 \<and> player_score s1 = player_score s \<and>
    (s' = s1 \<or> s' = s1\<lparr>mode := LEADERBOARD\<rparr> \<or> s' = checkNewHiScore s1)"
proof -
  let ?f = "\<lambda>s1. rules_frame s s1 \<and> player_score s1 = player_score s"
  let ?x = "if time_left_for_click s = 0 \<and> \<not> VS_was_pressed s then end_game E (get_winner s)
      else if time_left_for_click s = 0 \<and> is_vs_round s \<and> VS_was_pressed s
      then Some (is_VS_round E (s\<lparr>is_player_1 := \<not> is_player_1 s, time_left_for_click := INTERVAL\<rparr>))
      else if time_left_for_click s > 0 then Some (s\<lparr>time_left_for_click := time_left_for_click s - 1\<rparr>)
      else Some s"
  obtain s1 where x: "?x = Some s1" and s1: "s' = (if game_end s1 then let s = set_seconds_alarm E s1 in
      if ws s = TIE then s\<lparr>mode := LEADERBOARD\<rparr> else checkNewHiScore s else s1)"
    using assms unfolding game_update_status_rtc_def by (cases ?x) simp_all
  have "end_game E (get_winner s) = Some s1 \<Longrightarrow> ?f s1" using end_game_frame [of E "get_winner s" s1] by simp
  then have f: "?f s1" using x by (auto split: if_splits)
  then have "?f (set_seconds_alarm E s1)" by (simp add: seconds_alarm.cmd_state)
  then show ?thesis using f s1 by (cases "game_end s1"; cases "ws (set_seconds_alarm E s1) = TIE") (auto simp: Let_def)
qed

lemma game_rtc_in_game:
  assumes g: "in_game s" and t: "\<not> stale_timeout s"
  shows "\<exists>s'. game_update_status_rtc E s = Some s' \<and> in_game s'"
proof -
  obtain s' where s': "game_update_status_rtc E s = Some s'" "game_inv s'"
    using rtc_inv_step t g by (metis in_game_def play_ok_def)
  obtain s1 where s1: "rules_frame s s1" "player_score s1 = player_score s"
      "s' = s1 \<or> s' = s1\<lparr>mode := LEADERBOARD\<rparr> \<or> s' = checkNewHiScore s1"
    using rtc_frame [OF s'(1)] by blast
  have "game_inv s1" using s'(2) s1(3) by auto
  then have "in_game s1" using in_game_rules [OF g s1(1)] s1(2) g by (simp add: in_game_def play_ok_def)
  then show ?thesis using s'(1) s1(3) checkNewHiScore_in_game leaderboard_in_game by blast
qed

text \<open>
  The clock stands still for the other handlers, so a tick in the same iteration as a packet is
  harmless where the turn had time left.
\<close>

lemma game_key_clock [simp]:
  "time_left_for_click (game_update_status_key k s) = time_left_for_click s" "game_end (game_update_status_key k s) = game_end s"
  "VS_was_pressed (game_update_status_key k s) = VS_was_pressed s" "vs_overflow (game_update_status_key k s) \<longleftrightarrow> vs_overflow s"
  by (simp_all add: game_update_status_key_def checkNewHiScore_def reset_hiscore_def create_name_box_def vs_overflow_def)

lemma mouse_not_stale:
  assumes "game_update_status_mouse E pk s = Some s'" and "\<not> stale_timeout s" and "\<not> game_end s \<Longrightarrow> time_left_for_click s \<noteq> 0"
  shows "\<not> stale_timeout s'"
proof (cases "game_end s")
  case True
  then show ?thesis using assms by (simp add: game_update_status_mouse_def)
next
  case False
  obtain c s1 p where c: "click_button E c (s\<lparr>mouse := press_mouse pk (move_mouse pk (mouse s))\<rparr>) = Some s1" "s' = s1\<lparr>ps := p\<rparr>"
    using mouse_click [OF assms(1) False] by blast
  then show ?thesis using click_clock [OF c(1)] assms(3) [OF False] by (auto simp: stale_timeout_def intervals)
qed

lemma undrawn_same: "undrawn s' = undrawn s \<Longrightarrow> (\<And>s. f (undrawn s) = f s) \<Longrightarrow> f s' = f s"
  by metis

lemma undrawn_in_game:
  assumes ok: "gfx_ok s'" "screens_ok s'" "statics_ok s'" and u: "undrawn s' = undrawn s" and g: "in_game s"
  shows "in_game s'"
proof -
  note f = undrawn_same [OF u]
  have n: "names s' = names s" "mode s' = mode s" "newWinner s' = newWinner s" "mouse_bytes s' = mouse_bytes s"
    "byte_count s' = byte_count s"
    by (rule f, simp add: names_def undrawn_def)+
  have "deref s' = deref s" by (rule f, rule ext, simp)
  then have "names_ok s' \<longleftrightarrow> names_ok s" using n(1) box_ok_deref [of s' s] by (simp add: names_def names_ok_def)
  moreover have "play_ok s' \<longleftrightarrow> play_ok s" by (rule play_ok_cong; rule f; simp add: undrawn_def)
  ultimately show ?thesis using ok g n by (simp add: in_game_def base_ok_def mouse_inv_def)
qed

section \<open>The cases of the event handler\<close>

text \<open>A screen that is drawn without further state.\<close>

lemma draw_screen_prog:
  "prog_ok s \<Longrightarrow> k < 26 \<Longrightarrow> \<exists>s1. draw_screen k s = Some s1 \<and> only_buffer s s1 \<and> prog_ok s1"
  using drawing.draw_ok [OF drawing_screen] prog_ok_only_buffer by (metis base_ok_def prog_ok_def)

lemma draw_menu_prog: "prog_ok s \<Longrightarrow> \<exists>s1. draw_menu_graphics s = Some s1 \<and> only_buffer s s1 \<and> prog_ok s1"
  using draw_screen_prog [of s] by (simp add: draw_menu_graphics_def)

lemma draw_host_prog: "prog_ok s \<Longrightarrow> \<exists>s1. draw_host_graphics s = Some s1 \<and> only_buffer s s1 \<and> prog_ok s1"
  using draw_screen_prog [of s] by (simp add: draw_host_graphics_def)

lemma draw_leaderboard_prog: "prog_ok s \<Longrightarrow> \<exists>s1. draw_leaderboard_graphics E s = Some s1 \<and> only_buffer s s1 \<and> prog_ok s1"
  using leaderboard_screen.draw_ok [of s E] prog_ok_only_buffer
  by (auto simp: prog_ok_def base_ok_def names_ok_def board_drawable_def)

lemma draw_highscore_prog: "prog_ok s \<Longrightarrow> \<exists>s1. draw_highscore_graph E s = Some s1 \<and> only_buffer s s1 \<and> prog_ok s1"
  using hiscore_screen.draw_ok [of s E] prog_ok_only_buffer
  by (auto simp: prog_ok_def base_ok_def names_ok_def hiscore_drawable_def)

lemma draw_rounds_prog:
  assumes "prog_ok s" "mode s = NUM_ROUNDS"
  shows "\<exists>s1. draw_num_of_rounds_graphics E s = Some s1 \<and> only_buffer s s1 \<and> prog_ok s1"
proof -
  obtain s1 where s1: "draw_screen 17 s = Some s1" "only_buffer s s1" "prog_ok s1"
    using draw_screen_prog [OF assms(1), of 17] by auto
  have "mode s1 = NUM_ROUNDS" using s1(2) assms(2) by (auto elim: only_bufferE)
  then have "gfx_ok s1" "box_ok s1 (num_rounds s1)" using s1(3) by (simp_all add: prog_ok_def base_ok_def mode_ok_def rounds_ok_def)
  then obtain s2 where "draw_text_box E (num_rounds s1) s1 = Some s2" "only_buffer s1 s2" using draw_text_box_safe by blast
  then show ?thesis using s1 only_buffer_trans prog_ok_only_buffer by (fastforce simp: draw_num_of_rounds_graphics_def)
qed

text \<open>Everything the invariant reads.\<close>

definition shown :: "('d, 'z) menu_st_scheme \<Rightarrow> _" where
  "shown s = ((bppixel s, x_res s, y_res s, bytes_per_pixel s, letters s, numbers s, lilletters s, lilnumbers s, screens s,
     counter_number s, round_text s), (bufs s, names s, mode s, num_rounds s, num_rounds_value s, newWinner s),
     (buttons s, buttons_size s, max_buttons_size s, guessed s, game_end s, player_score s, time_left_for_click s))"

lemma prog_ok_shown:
  assumes e: "shown s' = shown s" and m: "mouse_inv s'" and p: "prog_ok s"
  shows "prog_ok s'"
proof -
  let ?t = "s\<lparr>mouse_bytes := mouse_bytes s', byte_count := byte_count s'\<rparr>"
  have d: "deref ?t = deref s" by (rule ext, rename_tac g, case_tac g) simp_all
  then have b: "box_ok ?t b \<longleftrightarrow> box_ok s b" for b by (rule box_ok_deref)
  have "gfx_ok ?t \<longleftrightarrow> gfx_ok s" "screens_ok ?t \<longleftrightarrow> screens_ok s" "mouse_inv ?t"
    using m by (simp_all add: gfx_ok_def glyphs_ok_def props_ok_def screens_ok_def mouse_inv_def)
  then have t: "base_ok ?t" using p b by (simp add: prog_ok_def base_ok_def names_ok_def statics_ok_def)
  have pl: "play_ok ?t \<longleftrightarrow> play_ok s" "play_ok s' \<longleftrightarrow> play_ok ?t" using e by (intro play_ok_cong; simp add: shown_def)+
  have "mode_ok ?t \<longleftrightarrow> mode_ok s" using b pl(1) by (simp add: mode_ok_def rounds_ok_def cong: Game_Modes.case_cong)
  moreover have v: "view s' = view ?t" "bufs s' = bufs ?t" "names s' = names ?t"
    using e by (simp_all add: shown_def view_def bufs_def names_def)
  moreover have "mode_ok s' \<longleftrightarrow> mode_ok ?t" using e pl(2) by (intro mode_ok_cong [OF v(1)]) (simp_all add: shown_def)
  ultimately show ?thesis using t base_ok_same [OF v] p by (simp add: prog_ok_def)
qed

lemma prog_ok_mouse: "prog_ok s \<Longrightarrow> mouse_inv s"
  by (simp add: prog_ok_def base_ok_def)

lemma shown_count [simp]: "shown (s\<lparr>count := n\<rparr>) = shown s"
  by (simp add: shown_def bufs_def names_def)

lemma menu_case_ok: "prog_ok s \<Longrightarrow> mode s = MENU \<Longrightarrow> count s < 2147483647 \<Longrightarrow> \<exists>s'. menu_case s = Some s' \<and> prog_ok s'"
proof -
  assume p: "prog_ok s" and m: "mode s = MENU" and c: "count s < 2147483647"
  obtain s1 where s1: "draw_menu_graphics s = Some s1" "only_buffer s s1" "prog_ok s1" using draw_menu_prog [OF p] by blast
  then have e: "mode s1 = MENU" "count s1 = count s" using m by (auto elim: only_bufferE)
  let ?s = "if count s1 \<noteq> 0 then if got_key_press s1 then menu_update_status (keyboard_packet s1) s1 else s1 else s1"
  have "prog_ok ?s" using menu_ok [OF s1(3) e(1)] s1(3) by simp
  moreover have "count ?s = count s1" by (simp add: menu_update_status_def reset_number_of_rounds_def create_num_box_def Let_def)
  moreover have "prog_ok (?s\<lparr>count := n\<rparr>)" if "prog_ok ?s" for n
    by (rule prog_ok_shown [OF shown_count _ that]) (use prog_ok_mouse [OF that] in \<open>simp add: mouse_inv_def\<close>)
  ultimately show ?thesis using s1(1) c e(2) by (simp add: menu_case_def inc_int_def Let_def)
qed

lemma end_game_flags: "end_game E s = Some s' \<Longrightarrow> rtc_interrupt s' = rtc_interrupt s" for s :: "('d, 'z) simon_st_scheme"
  by (auto simp: end_game_def Let_def timed_alarm.cmd_state split: Option.bind_splits)

lemma click_flags: "click_button E c s = Some s' \<Longrightarrow> rtc_interrupt s' = rtc_interrupt s" for s :: "('d, 'z) simon_st_scheme"
  by (auto simp: click_button_def push_button_def is_VS_round_eq get_winner_def Let_def
      split: if_splits Option.bind_splits dest!: end_game_flags)

lemma game_mouse_flags:
  fixes s :: "('d, 'z) simon_st_scheme"
  assumes "game_update_status_mouse E pk s = Some s'"
  shows "rtc_interrupt s' = rtc_interrupt s"
proof (cases "game_end s")
  case True
  then show ?thesis using assms by (simp add: game_update_status_mouse_def)
next
  case False
  then show ?thesis using mouse_click [OF assms False] by (auto dest: click_flags)
qed

lemma game_case_ok:
  assumes p: "prog_ok s" "mode s = GAME" and m: "img_ok (xpm_load E ''mouse_xpm'' XPM_5_6_5)"
    and o: "got_mouse_packet s \<longrightarrow> game_end s \<or> \<not> vs_overflow s"
    and t: "rtc_interrupt s \<longrightarrow> \<not> stale_timeout s \<and> (got_mouse_packet s \<and> \<not> game_end s \<longrightarrow> time_left_for_click s \<noteq> 0)"
  shows "\<exists>s'. game_case E s = Some s' \<and> prog_ok s'"
proof -
  have g: "in_game s" using p by (simp add: in_game_def prog_ok_def mode_ok_def)
  then have b: "base_ok s" and i: "game_inv s" "max_buttons_size s \<le> 999" by (simp_all add: in_game_def play_ok_def)
  have "game_draws (draw_game_graphics E) s"
    by (intro draw_game_draws m) (use b i live_score [OF i(1)] in \<open>auto simp: base_ok_def game_inv_def\<close>)
  then obtain s1 where d: "draw_game_graphics E s = Some s1" "gfx_ok s1" "screens_ok s1" "statics_ok s1" and u: "undrawn s1 = undrawn s"
    by (auto simp: game_draws_def)
  have g1: "in_game s1" by (rule undrawn_in_game [OF d(2-4) u g])
  have f: "got_mouse_packet s1 = got_mouse_packet s" "rtc_interrupt s1 = rtc_interrupt s" "game_end s1 = game_end s"
    "vs_overflow s1 = vs_overflow s" "stale_timeout s1 = stale_timeout s" "time_left_for_click s1 = time_left_for_click s"
    by (rule undrawn_same [OF u], simp add: undrawn_def vs_overflow_def stale_timeout_def)+
  let ?s2 = "if got_key_press s1 then game_update_status_key (keyboard_packet s1) s1 else s1"
  have g2: "in_game ?s2" using g1 game_key_in_game [OF g1] by simp
  have f2: "got_mouse_packet ?s2 = got_mouse_packet s" "rtc_interrupt ?s2 = rtc_interrupt s" "game_end ?s2 = game_end s"
    "vs_overflow ?s2 = vs_overflow s" "stale_timeout ?s2 = stale_timeout s" "time_left_for_click ?s2 = time_left_for_click s"
    using f by (simp_all add: stale_timeout_def)
      (simp_all add: game_update_status_key_def checkNewHiScore_def reset_hiscore_def create_name_box_def)
  obtain s3 where s3: "(if got_mouse_packet ?s2 then game_update_status_mouse E (mouse_packet ?s2) ?s2 else Some ?s2) = Some s3"
      "in_game s3" "rtc_interrupt s3 = rtc_interrupt s" "rtc_interrupt s \<longrightarrow> \<not> stale_timeout s3"
  proof (cases "got_mouse_packet s")
    case True
    then obtain s3 where s3: "game_update_status_mouse E (mouse_packet ?s2) ?s2 = Some s3" "in_game s3"
      using game_mouse_in_game [OF g2] o unfolding f2 by blast
    have "rtc_interrupt s3 = rtc_interrupt s" using game_mouse_flags [OF s3(1)] f2 by simp
    moreover have "\<not> stale_timeout s3" if "rtc_interrupt s"
      by (rule mouse_not_stale [OF s3(1)]) (use that t True f2 in simp_all)
    ultimately show ?thesis using True s3 f2(1) by (intro that [of s3]) simp_all
  next
    case False
    then show ?thesis using g2 t f2 by (intro that [of ?s2]) simp_all
  qed
  let ?s4 = "if timer_interrupt s3 then game_update_status_timer s3 else s3"
  have "in_game ?s4" "rtc_interrupt ?s4 = rtc_interrupt s" "stale_timeout ?s4 = stale_timeout s3"
    using s3(2,3) game_timer_in_game [OF s3(2)] by (simp_all add: game_update_status_timer_def stale_timeout_def)
  then have "\<exists>s'. (if rtc_interrupt ?s4 then game_update_status_rtc E ?s4 else Some ?s4) = Some s' \<and> in_game s'"
    using game_rtc_in_game [of ?s4 E] s3(4) by (cases "rtc_interrupt s") simp_all
  then show ?thesis using d(1) s3(1) in_game_prog_ok by (auto simp: game_case_def Let_def)
qed

end
