(* ===== verification/Mp_Drawing.thy ===== *)
theory Mp_Drawing
  imports Mp_Rules Game_Drawing
begin

text \<open>
  Drawing the serial game is safe, as drawing the local one is: besides the buffer it changes
  the image of the cursor and the statics of \<open>mp_draw_counter\<close> and \<open>mp_draw_round\<close>, which
  \<open>mp_undrawn\<close> erases.
\<close>

definition mp_undrawn :: "('d, 'z) mp_st_scheme \<Rightarrow> ('d, 'z) mp_st_scheme" where
  "mp_undrawn s = s\<lparr>mouse_img := blank_image, buffer := replicate (length (buffer s)) 0, mp_counter_number := blank_image,
     mp_counter_previous_time := 0, mp_round_round := 0, mp_round_text := create_writeable_text_box 0 0 0 0 0\<rparr>"

definition mp_screen_ok :: "('d, 'z) mp_st_scheme \<Rightarrow> bool" where
  "mp_screen_ok s \<longleftrightarrow> gfx_ok s \<and> screens_ok s \<and> img_ok (mp_counter_number s) \<and> box_ok s (mp_round_text s)"

lemma mp_undrawn_upd [simp]:
  "mp_undrawn (s\<lparr>mouse_img := m\<rparr>) = mp_undrawn s"
  "mp_undrawn (s\<lparr>mp_counter_number := i, mp_counter_previous_time := t\<rparr>) = mp_undrawn s"
  "mp_undrawn (s\<lparr>mp_round_round := r, mp_round_text := b\<rparr>) = mp_undrawn s"
  by (simp_all add: mp_undrawn_def)

lemma deref_mp_frame [simp]:
  "deref (s\<lparr>mp_counter_number := i, mp_counter_previous_time := t\<rparr>) g = deref s g"
  "deref (s\<lparr>mp_round_round := r, mp_round_text := b\<rparr>) g = deref s g"
  "deref (mp_undrawn s) g = deref s g"
  by (cases g; simp add: mp_undrawn_def)+

lemma box_ok_mp_frame [simp]:
  "box_ok (s\<lparr>mp_counter_number := i, mp_counter_previous_time := t\<rparr>) b \<longleftrightarrow> box_ok s b"
  "box_ok (s\<lparr>mp_round_round := r, mp_round_text := b'\<rparr>) b \<longleftrightarrow> box_ok s b"
  by (rule box_ok_deref, rule ext, simp)+

lemma gfx_screens_mp_frame [simp]:
  "gfx_ok (s\<lparr>mp_counter_number := i, mp_counter_previous_time := t\<rparr>) \<longleftrightarrow> gfx_ok s"
  "gfx_ok (s\<lparr>mp_round_round := r, mp_round_text := b\<rparr>) \<longleftrightarrow> gfx_ok s"
  "screens_ok (s\<lparr>mp_counter_number := i, mp_counter_previous_time := t\<rparr>) \<longleftrightarrow> screens_ok s"
  "screens_ok (s\<lparr>mp_round_round := r, mp_round_text := b\<rparr>) \<longleftrightarrow> screens_ok s"
  by (simp_all add: gfx_ok_def glyphs_ok_def props_ok_def screens_ok_def)

lemma mp_screen_ok_mouse [simp]: "mp_screen_ok (s\<lparr>mouse_img := m\<rparr>) \<longleftrightarrow> mp_screen_ok s"
  by (simp add: mp_screen_ok_def)

section \<open>The contract of a step of the drawing\<close>

definition mp_draws :: "(('d, 'z) mp_st_scheme \<Rightarrow> ('d, 'z) mp_st_scheme option) \<Rightarrow> ('d, 'z) mp_st_scheme \<Rightarrow> bool" where
  "mp_draws draw s \<longleftrightarrow> (\<exists>s'. draw s = Some s' \<and> mp_screen_ok s' \<and> mp_undrawn s' = mp_undrawn s)"

lemma mp_draws_only_buffer:
  assumes ok: "mp_screen_ok s" and d: "\<exists>s'. draw s = Some s' \<and> only_buffer s s'"
  shows "mp_draws draw s"
proof -
  obtain s' where s': "draw s = Some s'" "only_buffer s s'" using d by blast
  have "mp_screen_ok s'"
    using ok gfx_ok_only_buffer [OF s'(2)] screens_ok_only_buffer [OF s'(2)] s'(2)
    by (auto simp: mp_screen_ok_def box_ok_only_buffer elim: only_bufferE)
  moreover have "mp_undrawn s' = mp_undrawn s" using s'(2) by (auto simp: only_buffer_def mp_undrawn_def)
  ultimately show ?thesis using s'(1) by (simp add: mp_draws_def)
qed

lemma mp_draws_bind:
  assumes "mp_draws d1 s" and "\<And>s'. mp_screen_ok s' \<Longrightarrow> mp_undrawn s' = mp_undrawn s \<Longrightarrow> mp_draws d2 s'"
  shows "mp_draws (\<lambda>s. Option.bind (d1 s) d2) s"
  using assms unfolding mp_draws_def by (metis bind.bind_lunit)

lemma mp_draws_screen: "mp_screen_ok s \<Longrightarrow> k < 26 \<Longrightarrow> mp_draws (draw_screen k) s"
  using drawing.draw_ok [OF drawing_screen] by (intro mp_draws_only_buffer) (auto simp: mp_screen_ok_def)

lemma mp_draw_buttons_draws: "mp_screen_ok s \<Longrightarrow> mp_draws mp_draw_buttons s"
  using mp_draws_screen [of s] unfolding mp_draws_def mp_draw_buttons_def by (cases "mp_ps s") simp_all

lemma mp_draw_winner_draws: "mp_screen_ok s \<Longrightarrow> mp_draws mp_draw_winner_graphics s"
  using mp_draws_screen [of s] unfolding mp_draws_def mp_draw_winner_graphics_def by (cases "mp_ws s") simp_all

lemma mp_draw_player_draws: "mp_screen_ok s \<Longrightarrow> mp_draws (mp_draw_player E) s"
  by (rule mp_draws_only_buffer)
    (simp_all add: mp_draw_player_def mp_print_player1_def mp_print_player2_def draw_glyph_safe mp_screen_ok_def)

section \<open>The counter, the round and the cursor\<close>

lemma mp_draw_counter_draws:
  assumes ok: "mp_screen_ok s" and t: "mp_time_left_for_click s \<le> 9"
  shows "mp_draws (mp_draw_counter E) s"
proof -
  let ?t = "if mp_time_left_for_click s > 0 then mp_time_left_for_click s else 0"
  have g: "gfx_ok s" "glyphs_ok s" using ok by (simp_all add: mp_screen_ok_def gfx_ok_def)
  have "int_char (c_int CHR ''0'' + ?t) \<noteq> CHR ''/''"
    by (rule numerical_not_slash, rule int_char_digit) (use t in auto)
  then obtain img where img: "deref s (get_prop_from_char (int_char (c_int CHR ''0'' + ?t))) = Some img" "img_ok img"
    using get_prop_from_char_defined glyphs_ok_deref g(2) unfolding glyphs_ok_def by metis
  let ?s = "if mp_counter_previous_time s \<noteq> ?t then s\<lparr>mp_counter_number := img, mp_counter_previous_time := ?t\<rparr> else s"
  have s1: "mp_screen_ok ?s" "mp_undrawn ?s = mp_undrawn s"
    using ok img(2) by (simp_all add: mp_screen_ok_def)
  have "mp_draw_counter E s = draw_xpm_x_y E (mp_counter_number ?s) 700 0 ?s"
    using img(1) by (simp add: mp_draw_counter_def Let_def split del: if_split cong: if_cong) (simp split: if_split)
  moreover have "mp_draws (draw_xpm_x_y E (mp_counter_number ?s) 700 0) ?s"
    using s1(1) by (intro mp_draws_only_buffer s1 draw_xpm_x_y_safe) (auto simp: mp_screen_ok_def)
  ultimately show ?thesis using s1(2) unfolding mp_draws_def by simp
qed

lemma mp_draw_round_draws:
  assumes ok: "mp_screen_ok s" and n: "mp_buttons_size s \<le> 999"
  shows "mp_draws (mp_draw_round E) s"
proof -
  have g: "gfx_ok s" using ok by (simp add: mp_screen_ok_def)
  obtain k cs b where b: "round_chars (mp_buttons_size s) = Some (k, cs)" "create_static_text_box s 0 50 cs k = Some b" "box_ok s b"
    using round_box_ok [OF g n] by blast
  let ?s = "if mp_round_round s \<noteq> mp_buttons_size s then s\<lparr>mp_round_round := mp_buttons_size s, mp_round_text := b\<rparr> else s"
  have s1: "mp_screen_ok ?s" "mp_undrawn ?s = mp_undrawn s" using ok b(3) by (simp_all add: mp_screen_ok_def)
  have "mp_draw_round E s = draw_text_box E (mp_round_text ?s) ?s" using b(1,2) by (simp add: mp_draw_round_def)
  moreover have "mp_draws (draw_text_box E (mp_round_text ?s)) ?s"
    using s1(1) by (intro mp_draws_only_buffer draw_text_box_safe s1) (auto simp: mp_screen_ok_def)
  ultimately show ?thesis using s1(2) unfolding mp_draws_def by simp
qed

lemma mp_draw_mouse_draws:
  assumes ok: "mp_screen_ok s" and m: "img_ok (xpm_load E ''mouse_xpm'' XPM_5_6_5)"
  shows "mp_draws (mp_draw_mouse E) s"
proof -
  let ?s = "s\<lparr>mouse_img := xpm_load E ''mouse_xpm'' XPM_5_6_5\<rparr>"
  have s1: "mp_screen_ok ?s" "mp_undrawn ?s = mp_undrawn s" using ok by simp_all
  have "mp_draws (draw_xpm_x_y E (mouse_img ?s) (x_pos (mp_mouse s)) (y_pos (mp_mouse s))) ?s"
    using s1(1) m by (intro mp_draws_only_buffer draw_xpm_x_y_safe s1) (auto simp: mp_screen_ok_def)
  then show ?thesis using s1(2) unfolding mp_draws_def mp_draw_mouse_def get_mouse_def by simp
qed

lemma mp_undrawn_same: "mp_undrawn s' = mp_undrawn s \<Longrightarrow> (\<And>s. f (mp_undrawn s) = f s) \<Longrightarrow> f s' = f s"
  by metis

lemma mp_draw_game_draws:
  assumes ok: "mp_screen_ok s" and b: "mp_time_left_for_click s \<le> 9" "mp_buttons_size s \<le> 999"
    and m: "img_ok (xpm_load E ''mouse_xpm'' XPM_5_6_5)"
  shows "mp_draws (mp_draw_game_graphics E) s"
proof (cases "mp_game_end s")
  case True
  then show ?thesis using mp_draw_winner_draws [OF ok] by (simp add: mp_draws_def mp_draw_game_graphics_def)
next
  case False
  have n: "mp_time_left_for_click s' \<le> 9" "mp_buttons_size s' \<le> 999" if "mp_undrawn s' = mp_undrawn s" for s'
    using b mp_undrawn_same [OF that, of mp_time_left_for_click] mp_undrawn_same [OF that, of mp_buttons_size]
    by (simp_all add: mp_undrawn_def)
  have "mp_draws (\<lambda>s. do { s \<leftarrow> mp_draw_buttons s; s \<leftarrow> mp_draw_player E s; s \<leftarrow> mp_draw_counter E s; s \<leftarrow> mp_draw_round E s;
      mp_draw_mouse E s }) s"
    by (rule mp_draws_bind [OF mp_draw_buttons_draws [OF ok]], rule mp_draws_bind [OF mp_draw_player_draws], assumption,
        rule mp_draws_bind [OF mp_draw_counter_draws], assumption, rule n, simp,
        rule mp_draws_bind [OF mp_draw_round_draws], assumption, rule n, simp, rule mp_draw_mouse_draws, assumption, rule m)
  then show ?thesis using False by (simp add: mp_draws_def mp_draw_game_graphics_def)
qed

end
