(* ===== verification/Serial_Safety.thy ===== *)
theory Serial_Safety
  imports Program_Safety Mp_Drawing
begin

text \<open>
  The serial game in the invariant of the program: what its handlers need of its state, that
  every one of them keeps it, and the events that are excluded because the code has undefined
  behaviour on them: a byte of the peer for a game that is over, a click into a full versus round,
  and a number of rounds that does not fit the screen or the memory.
\<close>

section \<open>A game that runs\<close>

definition mp_bounds :: "('d, 'z) mp_st_scheme \<Rightarrow> bool" where
  "mp_bounds s \<longleftrightarrow> mp_time_left_for_click s \<le> 9 \<and> mp_buttons_size s \<le> 999 \<and> mp_max_buttons_size s \<le> 999 \<and>
     0 \<le> mp_player_score s \<and> mp_player_score s \<le> 999"

definition running :: "('d, 'z) mp_st_scheme \<Rightarrow> bool" where
  "running s \<longleftrightarrow> mp_bounds s \<and> (\<exists>xs. mp_live s xs)"

definition ended :: "('d, 'z) mp_st_scheme \<Rightarrow> bool" where
  "ended s \<longleftrightarrow> mp_bounds s \<and> mp_game_end s"

definition mp_overflow :: "('d, 'z) mp_st_scheme \<Rightarrow> bool" where
  "mp_overflow s \<longleftrightarrow> mp_VS_was_pressed s \<and> mp_buttons_size s = mp_max_buttons_size s \<and> mp_guessed s \<noteq> mp_max_buttons_size s"

text \<open>What the rules of the serial game leave alone.\<close>

definition serial_frame :: "('d, 'z) mp_st_scheme \<Rightarrow> ('d, 'z) mp_st_scheme \<Rightarrow> bool" where
  "serial_frame s s' \<longleftrightarrow> view s' = view s \<and> bufs s' = bufs s \<and> names s' = names s \<and> newWinner s' = newWinner s \<and>
     mode s' = mode s \<and> mp_counter_number s' = mp_counter_number s \<and> mp_round_text s' = mp_round_text s"

lemma serial_frame_refl [simp]: "serial_frame s s"
  by (simp add: serial_frame_def)

lemma serial_frame_trans: "serial_frame s s' \<Longrightarrow> serial_frame s' s'' \<Longrightarrow> serial_frame s s''"
  by (simp add: serial_frame_def)

lemma serial_frame_upd [simp]:
  "serial_frame s (s'\<lparr>mp_buttons := v0\<rparr>) \<longleftrightarrow> serial_frame s s'" "serial_frame s (s'\<lparr>mp_buttons_size := v1\<rparr>) \<longleftrightarrow> serial_frame s s'"
  "serial_frame s (s'\<lparr>mp_guessed := v2\<rparr>) \<longleftrightarrow> serial_frame s s'" "serial_frame s (s'\<lparr>mp_is_player_1 := v3\<rparr>) \<longleftrightarrow> serial_frame s s'"
  "serial_frame s (s'\<lparr>mp_is_vs_round := v4\<rparr>) \<longleftrightarrow> serial_frame s s'" "serial_frame s (s'\<lparr>mp_VS_was_pressed := v5\<rparr>) \<longleftrightarrow> serial_frame s s'"
  "serial_frame s (s'\<lparr>mp_time_left_for_click := v6\<rparr>) \<longleftrightarrow> serial_frame s s'" "serial_frame s (s'\<lparr>VS_screen := v7\<rparr>) \<longleftrightarrow> serial_frame s s'"
  "serial_frame s (s'\<lparr>mp_player_score := v8\<rparr>) \<longleftrightarrow> serial_frame s s'" "serial_frame s (s'\<lparr>mp_ws := v9\<rparr>) \<longleftrightarrow> serial_frame s s'"
  "serial_frame s (s'\<lparr>mp_game_end := v10\<rparr>) \<longleftrightarrow> serial_frame s s'" "serial_frame s (s'\<lparr>mp_mouse := v11\<rparr>) \<longleftrightarrow> serial_frame s s'"
  "serial_frame s (s'\<lparr>time_left_for_screen := v12\<rparr>) \<longleftrightarrow> serial_frame s s'" "serial_frame s (s'\<lparr>mp_ps := v13\<rparr>) \<longleftrightarrow> serial_frame s s'"
  "serial_frame s (s'\<lparr>dev := v14\<rparr>) \<longleftrightarrow> serial_frame s s'" "serial_frame s (put_line l s') \<longleftrightarrow> serial_frame s s'"
  "serial_frame s (s'\<lparr>game_started := v15\<rparr>) \<longleftrightarrow> serial_frame s s'" "serial_frame s (s'\<lparr>num_round_sent_bytes := v16\<rparr>) \<longleftrightarrow> serial_frame s s'"
  "serial_frame s (s'\<lparr>received_byte := v17\<rparr>) \<longleftrightarrow> serial_frame s s'" "serial_frame s (s'\<lparr>received_no_bytes := v18\<rparr>) \<longleftrightarrow> serial_frame s s'"
  "serial_frame s (s'\<lparr>uart_has_data_to_send := v19\<rparr>) \<longleftrightarrow> serial_frame s s'"
  by (simp_all add: serial_frame_def view_def bufs_def names_def put_line_def)

lemma mp_bounds_upd [simp]:
  "mp_bounds (s\<lparr>mp_buttons := v0\<rparr>) \<longleftrightarrow> mp_bounds s" "mp_bounds (s\<lparr>mp_guessed := v2\<rparr>) \<longleftrightarrow> mp_bounds s"
  "mp_bounds (s\<lparr>mp_is_player_1 := v3\<rparr>) \<longleftrightarrow> mp_bounds s" "mp_bounds (s\<lparr>mp_is_vs_round := v4\<rparr>) \<longleftrightarrow> mp_bounds s"
  "mp_bounds (s\<lparr>mp_VS_was_pressed := v5\<rparr>) \<longleftrightarrow> mp_bounds s" "mp_bounds (s\<lparr>VS_screen := v7\<rparr>) \<longleftrightarrow> mp_bounds s"
  "mp_bounds (s\<lparr>mp_ws := v9\<rparr>) \<longleftrightarrow> mp_bounds s" "mp_bounds (s\<lparr>mp_game_end := v10\<rparr>) \<longleftrightarrow> mp_bounds s"
  "mp_bounds (s\<lparr>mp_mouse := v11\<rparr>) \<longleftrightarrow> mp_bounds s" "mp_bounds (s\<lparr>time_left_for_screen := v12\<rparr>) \<longleftrightarrow> mp_bounds s"
  "mp_bounds (s\<lparr>mp_ps := v13\<rparr>) \<longleftrightarrow> mp_bounds s" "mp_bounds (s\<lparr>dev := v14\<rparr>) \<longleftrightarrow> mp_bounds s"
  "mp_bounds (put_line l s) \<longleftrightarrow> mp_bounds s"
  by (simp_all add: mp_bounds_def put_line_def)

lemma running_upd [simp]:
  "running (s\<lparr>mp_is_player_1 := v3\<rparr>) \<longleftrightarrow> running s" "running (s\<lparr>mp_is_vs_round := v4\<rparr>) \<longleftrightarrow> running s"
  "running (s\<lparr>mp_VS_was_pressed := v5\<rparr>) \<longleftrightarrow> running s" "running (s\<lparr>VS_screen := v7\<rparr>) \<longleftrightarrow> running s"
  "running (s\<lparr>mp_ws := v9\<rparr>) \<longleftrightarrow> running s" "running (s\<lparr>mp_mouse := v11\<rparr>) \<longleftrightarrow> running s"
  "running (s\<lparr>time_left_for_screen := v12\<rparr>) \<longleftrightarrow> running s" "running (s\<lparr>mp_ps := v13\<rparr>) \<longleftrightarrow> running s"
  "running (put_line l s) \<longleftrightarrow> running s"
  by (simp_all add: running_def)

lemma running_set:
  "running s \<Longrightarrow> n \<le> 9 \<Longrightarrow> running (s\<lparr>mp_time_left_for_click := n\<rparr>)"
  "running s \<Longrightarrow> running (s\<lparr>mp_player_score := mp_buttons_size s\<rparr>)"
  "running s \<Longrightarrow> running (s\<lparr>mp_guessed := 0\<rparr>)"
  "running s \<Longrightarrow> mp_guessed s < mp_buttons_size s \<Longrightarrow> running (s\<lparr>mp_guessed := mp_guessed s + 1\<rparr>)"
  by (auto simp: running_def mp_bounds_def) (auto simp: mp_live_def)

lemma ended_upd [simp]:
  "ended (s\<lparr>mp_ps := v\<rparr>) \<longleftrightarrow> ended s" "ended (s\<lparr>time_left_for_screen := n\<rparr>) \<longleftrightarrow> ended s" "ended (put_line l s) \<longleftrightarrow> ended s"
  "ended (s\<lparr>dev := d\<rparr>) \<longleftrightarrow> ended s"
  by (simp_all add: ended_def put_line_def mp_bounds_def)

lemma running_not_ended: "running s \<Longrightarrow> \<not> mp_game_end s \<and> mp_buttons s \<noteq> Freed"
  by (auto simp: running_def mp_live_def blk_holds_def)

section \<open>Clicks\<close>

lemma add_running:
  assumes "running s" and "mp_buttons_size s < mp_max_buttons_size s" and "c \<noteq> NO_BUTTON"
  shows "\<exists>b. mp_add_button c s = Some (s\<lparr>mp_buttons := b, mp_buttons_size := mp_buttons_size s + 1\<rparr>) \<and>
    running (s\<lparr>mp_buttons := b, mp_buttons_size := mp_buttons_size s + 1\<rparr>)"
proof -
  obtain xs where l: "mp_live s xs" and b: "mp_bounds s" using assms(1) by (auto simp: running_def)
  have n: "int (length xs) = mp_buttons_size s" using l by (simp add: mp_live_def)
  obtain b where "mp_add_button c s = Some (s\<lparr>mp_buttons := b, mp_buttons_size := int (length xs) + 1\<rparr>)"
      "blk_holds b (nat (mp_max_buttons_size s)) (xs @ [c])"
    using mp_add_button_live [OF l] assms(2) n by auto
  moreover from this have "mp_live (s\<lparr>mp_buttons := b, mp_buttons_size := mp_buttons_size s + 1\<rparr>) (xs @ [c])"
    using l assms(3) by (simp add: mp_live_def)
  ultimately show ?thesis using b n assms(2) by (auto simp: running_def mp_bounds_def)
qed

lemma end_game_ends:
  assumes "mp_bounds s" and "mp_buttons s \<noteq> Freed"
  shows "\<exists>s'. mp_end_game E s = Some s' \<and> ended s' \<and> serial_frame s s'"
proof -
  obtain b where "blk_free (mp_buttons s) = Some b" using assms(2) by (cases "mp_buttons s") simp_all
  then show ?thesis using assms(1) by (simp add: mp_end_game_def Let_def timed_alarm.cmd_state ended_def)
qed

lemmas end_running = end_game_ends [OF _ conjunct2 [OF running_not_ended]]

lemma running_bounds: "running s \<Longrightarrow> mp_bounds s"
  by (simp add: running_def)

lemma change_player_line:
  "\<exists>l v w. mp_change_player E s = put_line l (s\<lparr>mp_is_player_1 := \<not> mp_is_player_1 s, mp_guessed := 0, mp_is_vs_round := v, mp_VS_was_pressed := w\<rparr>)"
proof -
  have "mp_change_player E s = put_line (send_line E (if is_host s then coms_code IS_VS else coms_code READY) (line s))
      (s\<lparr>mp_is_player_1 := \<not> mp_is_player_1 s, mp_guessed := 0, mp_is_vs_round := is_host s \<or> mp_is_vs_round s,
         mp_VS_was_pressed := \<not> is_host s \<and> mp_VS_was_pressed s\<rparr>)"
    by (cases "is_host s") (simp_all add: mp_change_player_def send_or_queue_line mp_is_VS_round_def Let_def)
  then show ?thesis by blast
qed

lemma change_player_running: "running s \<Longrightarrow> running (mp_change_player E s) \<and> serial_frame s (mp_change_player E s)"
proof -
  assume r: "running s"
  obtain l v w where c: "mp_change_player E s =
      put_line l (s\<lparr>mp_is_player_1 := \<not> mp_is_player_1 s, mp_guessed := 0, mp_is_vs_round := v, mp_VS_was_pressed := w\<rparr>)"
    using change_player_line [of E s] by blast
  have "running (s\<lparr>mp_is_player_1 := \<not> mp_is_player_1 s, mp_guessed := 0\<rparr>)"
    using running_set(3) [of "s\<lparr>mp_is_player_1 := \<not> mp_is_player_1 s\<rparr>"] r by simp
  then show ?thesis unfolding c by simp
qed

text \<open>A click at this computer or at the other one, in a game that runs.\<close>

lemma send_button_line: "\<exists>l. mp_send_button E c s = put_line l s"
  unfolding mp_send_button_def send_or_queue_line by blast

lemma send_winner_line: "\<exists>l. mp_send_winner E s = put_line l s"
  unfolding mp_send_winner_def send_or_queue_line by metis

definition clicked :: "('d, 'z) mp_st_scheme \<Rightarrow> ('d, 'z) mp_st_scheme option \<Rightarrow> bool" where
  "clicked s r \<longleftrightarrow> (\<exists>s'. r = Some s' \<and> (running s' \<or> ended s') \<and> serial_frame s s')"

lemma clicked_running: "running s' \<Longrightarrow> serial_frame s s' \<Longrightarrow> clicked s (Some s')"
  by (simp add: clicked_def)

lemma clicked_end:
  assumes "running s'" and "serial_frame s s'"
  shows "clicked s (mp_end_game E s')"
  using end_running [OF running_bounds [OF assms(1)] assms(1), of E] serial_frame_trans [OF assms(2)] by (auto simp: clicked_def)

lemma clicked_add:
  assumes "running s'" and "serial_frame s s'" and "mp_buttons_size s' < mp_max_buttons_size s'" and "c \<noteq> NO_BUTTON"
    and "\<And>s''. running s'' \<Longrightarrow> serial_frame s s'' \<Longrightarrow> clicked s (f s'')"
  shows "clicked s (Option.bind (mp_add_button c s') f)"
proof -
  obtain b where "mp_add_button c s' = Some (s'\<lparr>mp_buttons := b, mp_buttons_size := mp_buttons_size s' + 1\<rparr>)"
      "running (s'\<lparr>mp_buttons := b, mp_buttons_size := mp_buttons_size s' + 1\<rparr>)"
    using add_running [OF assms(1,3,4)] by blast
  then show ?thesis using assms(2,5) by simp
qed

lemma live_read:
  assumes "running s" and "mp_guessed s \<noteq> mp_buttons_size s"
  shows "mp_guessed s < mp_buttons_size s \<and> (\<exists>b. blk_read (mp_buttons s) (mp_guessed s) = Some b)"
proof -
  obtain xs where l: "mp_live s xs" using assms(1) by (auto simp: running_def)
  then have g: "0 \<le> mp_guessed s" "mp_guessed s < int (length xs)" "mp_buttons_size s = int (length xs)"
    using assms(2) by (auto simp: mp_live_def)
  have "blk_holds (mp_buttons s) (nat (mp_max_buttons_size s)) xs" using l by (simp add: mp_live_def)
  from blk_holds_read [OF this g(1,2)] show ?thesis using g by auto
qed

lemma room:
  assumes "running s" and "\<not> mp_overflow s" and "mp_guessed s = mp_buttons_size s \<or> mp_VS_was_pressed s"
    and "mp_guessed s \<noteq> mp_max_buttons_size s"
  shows "mp_buttons_size s < mp_max_buttons_size s"
proof -
  obtain xs where l: "mp_live s xs" using assms(1) by (auto simp: running_def)
  then have "mp_buttons_size s \<le> mp_max_buttons_size s" using mp_live_length [OF l] by (simp add: mp_live_def)
  then show ?thesis using assms(2-4) by (auto simp: mp_overflow_def)
qed

lemma local_guess_ok:
  assumes r: "running s" and g: "mp_guessed s \<noteq> mp_buttons_size s" "\<not> mp_VS_was_pressed s" and c: "c \<noteq> NO_BUTTON"
  shows "clicked s (mp_click_button E c s)"
proof -
  obtain b where b: "mp_guessed s < mp_buttons_size s" "blk_read (mp_buttons s) (mp_guessed s) = Some b"
    using live_read [OF r g(1)] by blast
  obtain l1 where l1: "mp_send_button E c s = put_line l1 s" using send_button_line by blast
  obtain l2 where l2: "mp_send_winner E (mp_get_winner s) = put_line l2 (mp_get_winner s)" using send_winner_line by blast
  have w: "running (put_line l2 (mp_get_winner s))" "serial_frame s (put_line l2 (mp_get_winner s))"
    using r by (simp_all add: mp_get_winner_def)
  have "running (s\<lparr>mp_guessed := mp_guessed s + 1, mp_time_left_for_click := n\<rparr>)" if "n \<le> 9" for n
    using running_set(1) [OF running_set(4) [OF r b(1)] that] by simp
  then have n: "clicked s (Some (put_line l1 (s\<lparr>mp_guessed := mp_guessed s + 1, mp_time_left_for_click := n\<rparr>)))" if "n \<le> 9" for n
    using that by (simp add: clicked_running)
  show ?thesis
    using c g b(2) clicked_end [OF w] n [of "- 1"] n [of INTERVAL]
    by (cases "b = c"; cases "mp_guessed s + 1 = mp_buttons_size s") (simp_all add: mp_click_button_def l1 l2 INTERVAL_def Let_def)
qed

text \<open>The state with the score of a sequence that was repeated.\<close>

definition scored :: "('d, 'z) mp_st_scheme \<Rightarrow> ('d, 'z) mp_st_scheme" where
  "scored s = (if mp_guessed s = mp_buttons_size s then s\<lparr>mp_player_score := mp_buttons_size s\<rparr> else s)"

lemma scored_simps [simp]:
  "mp_guessed (scored s) = mp_guessed s" "mp_max_buttons_size (scored s) = mp_max_buttons_size s"
  "mp_buttons_size (scored s) = mp_buttons_size s" "mp_is_vs_round (scored s) = mp_is_vs_round s"
  "mp_VS_was_pressed (scored s) = mp_VS_was_pressed s" "serial_frame s (scored s)"
  by (simp_all add: scored_def)

lemma scored_running: "running s \<Longrightarrow> running (scored s)"
  by (simp add: scored_def running_set(2))

lemma tie_ends:
  assumes "running s"
  shows "\<exists>s'. mp_end_game E ((scored s)\<lparr>mp_ws := TIE\<rparr>) = Some s' \<and> ended s' \<and> serial_frame s s'"
proof -
  have r: "running ((scored s)\<lparr>mp_ws := TIE\<rparr>)" using scored_running [OF assms] by simp
  have f: "serial_frame s ((scored s)\<lparr>mp_ws := TIE\<rparr>)" by simp
  show ?thesis using end_running [OF running_bounds [OF r] r, of E] serial_frame_trans [OF f] by blast
qed

lemma local_extend_ok:
  assumes r: "running s" and o: "\<not> mp_overflow s" and c: "c \<noteq> NO_BUTTON" "mp_guessed s = mp_buttons_size s \<or> mp_VS_was_pressed s"
  shows "clicked s (mp_click_button E c s)"
proof (cases "mp_guessed s = mp_max_buttons_size s")
  case True
  obtain s1 where s1: "mp_end_game E ((scored s)\<lparr>mp_ws := TIE\<rparr>) = Some s1" "ended s1" "serial_frame s s1"
    using tie_ends [OF r] by blast
  obtain l where l: "mp_send_winner E s1 = put_line l s1" using send_winner_line by blast
  have "mp_click_button E c s = Some (put_line l s1)"
    unfolding mp_click_button_def Let_def scored_def [symmetric] if_not_P [OF c(1)] if_P [OF c(2)] using True s1(1) l by simp
  then show ?thesis using s1 by (simp add: clicked_def)
next
  case False
  have n: "mp_buttons_size s < mp_max_buttons_size s" by (rule room [OF r o c(2) False])
  have keep: "clicked s (Some (mp_send_button E d s'))" if "running s'" "serial_frame s s'" for s' d
    using that send_button_line [of E d s'] by (auto intro!: clicked_running)
  have pass: "clicked s (Some (mp_change_player E (mp_send_button E d s')))" if s': "running s'" "serial_frame s s'" for s' d
  proof -
    obtain l where l: "mp_send_button E d s' = put_line l s'" using send_button_line by blast
    have "running (put_line l s')" "serial_frame s (put_line l s')" using s' by simp_all
    then show ?thesis using change_player_running serial_frame_trans unfolding l by (blast intro: clicked_running)
  qed
  have start: "clicked s (Some ((mp_send_button E d s')\<lparr>mp_time_left_for_click := VS_INTERVAL\<rparr>))" if s': "running s'" "serial_frame s s'" for s' d
  proof -
    obtain l where l: "mp_send_button E d s' = put_line l s'" using send_button_line by blast
    show ?thesis using running_set(1) [OF s'(1), of VS_INTERVAL] s'(2) unfolding l by (simp add: clicked_running VS_INTERVAL_def)
  qed
  have sr: "running (scored s)" by (rule scored_running [OF r])
  have eq: "mp_click_button E c s = (if mp_is_vs_round s then
          if mp_VS_was_pressed s then
            do { s \<leftarrow> mp_add_button c (scored s); Some (mp_send_button E c s) }
          else if c = VS_B then
            do { s \<leftarrow> mp_add_button c ((scored s)\<lparr>mp_VS_was_pressed := True, VS_screen := True\<rparr>);
                 Some ((mp_send_button E c s)\<lparr>mp_time_left_for_click := VS_INTERVAL\<rparr>) }
          else
            do { s \<leftarrow> mp_add_button c (scored s); Some (mp_change_player E (mp_send_button E c s)) }
        else
          do { s \<leftarrow> mp_add_button c (scored s); Some (mp_change_player E (mp_send_button E c s)) })"
    unfolding mp_click_button_def Let_def scored_def [symmetric] if_not_P [OF c(1)] if_P [OF c(2)] using False by simp
  show ?thesis unfolding eq using sr n c(1) by (auto intro!: clicked_add keep pass start split: if_split)
qed

lemma local_click_ok:
  assumes "running s" and "\<not> mp_overflow s"
  shows "clicked s (mp_click_button E c s)"
proof (cases "c = NO_BUTTON")
  case True
  then show ?thesis using assms(1) by (simp add: mp_click_button_def clicked_running)
next
  case False
  then show ?thesis using local_guess_ok [OF assms(1)] local_extend_ok [OF assms] by blast
qed

lemma remote_click_ok:
  assumes r: "running s" and o: "\<not> mp_overflow s" and c: "c \<noteq> NO_BUTTON"
  shows "clicked s (mp_remote_click_button E c s)"
proof (cases "mp_guessed s = mp_buttons_size s \<or> mp_VS_was_pressed s")
  case False
  then have g: "mp_guessed s \<noteq> mp_buttons_size s" by simp
  obtain b where b: "mp_guessed s < mp_buttons_size s" "blk_read (mp_buttons s) (mp_guessed s) = Some b"
    using live_read [OF r g] by blast
  then show ?thesis using False r running_set(4) [OF r b(1)] by (auto simp: mp_remote_click_button_def intro!: clicked_running)
next
  case True
  show ?thesis
  proof (cases "mp_guessed s = mp_max_buttons_size s")
    case False
    have n: "mp_buttons_size s < mp_max_buttons_size s" by (rule room [OF r o True False])
    have add: "clicked s (mp_add_button d s')"
      if "running s'" "serial_frame s s'" "mp_buttons_size s' < mp_max_buttons_size s'" "d \<noteq> NO_BUTTON" for s' d
      using clicked_add [OF that, of Some] by (simp add: clicked_running)
    show ?thesis
      unfolding mp_remote_click_button_def Let_def scored_def [symmetric] if_P [OF True]
      using False scored_running [OF r] n c by (auto intro!: add split: if_split)
  next
    case tie: True
    then show ?thesis
      unfolding mp_remote_click_button_def Let_def scored_def [symmetric] if_P [OF True]
      using tie_ends [OF r, of E] by (auto simp: clicked_def)
  qed
qed

section \<open>The handlers\<close>

text \<open>
  The invariant of the serial game, which holds on every screen. The block is there whenever a
  game can be played: at the host, at a client that has received the number of rounds, and after
  the handshake.
\<close>

definition mp_core :: "('d, 'z) mp_st_scheme \<Rightarrow> bool" where
  "mp_core s \<longleftrightarrow> mp_bounds s \<and> (\<not> mp_game_end s \<longrightarrow> mp_buttons s \<noteq> Freed \<and>
     (game_started s \<or> is_host s \<or> 2 \<le> received_no_bytes s \<longrightarrow> (\<exists>xs. mp_live s xs)))"

definition mp_ok :: "('d, 'z) mp_st_scheme \<Rightarrow> bool" where
  "mp_ok s \<longleftrightarrow> mp_core s \<and> img_ok (mp_counter_number s) \<and> box_ok s (mp_round_text s)"

definition mp_view :: "('d, 'z) mp_st_scheme \<Rightarrow> _" where
  "mp_view s = (mp_buttons s, mp_buttons_size s, mp_max_buttons_size s, mp_guessed s, mp_player_score s, mp_game_end s,
     mp_time_left_for_click s, game_started s, is_host s, received_no_bytes s)"

lemma mp_core_cong: "mp_view s' = mp_view s \<Longrightarrow> mp_core s' \<longleftrightarrow> mp_core s"
  by (simp add: mp_view_def mp_core_def mp_bounds_def mp_live_def)

lemma mp_core_line [simp]: "mp_core (s\<lparr>dev := d\<rparr>) \<longleftrightarrow> mp_core s" "mp_core (put_line l s) \<longleftrightarrow> mp_core s"
  by (rule mp_core_cong, simp add: mp_view_def put_line_def)+

lemma running_core: "running s \<Longrightarrow> mp_core s"
  using running_not_ended [of s] by (simp add: running_def mp_core_def)

lemma ended_core: "ended s \<Longrightarrow> mp_core s"
  by (simp add: ended_def mp_core_def)

lemma core_running: "mp_core s \<Longrightarrow> \<not> mp_game_end s \<Longrightarrow> game_started s \<Longrightarrow> running s"
  by (simp add: mp_core_def running_def)

text \<open>In the case of the serial game: what holds between its handlers.\<close>

definition in_mp :: "('d, 'z) mp_st_scheme \<Rightarrow> bool" where
  "in_mp s \<longleftrightarrow> base_ok s \<and> mp_ok s \<and> mode s \<in> {MP_GAME, HIGHSCORE, LEADERBOARD} \<and>
     (mode s = HIGHSCORE \<longrightarrow> 0 \<le> int_score (newWinner s) \<and> int_score (newWinner s) < 1000)"

lemma in_mp_core: "in_mp s \<Longrightarrow> mp_core s"
  by (simp add: in_mp_def mp_ok_def)

lemma in_mp_frame: "in_mp s \<Longrightarrow> serial_frame s s' \<Longrightarrow> mp_core s' \<Longrightarrow> in_mp s'"
  using base_ok_same [of s' s] view_box_ok [of s' s] by (simp add: in_mp_def mp_ok_def serial_frame_def)

lemma in_mp_clicked: "in_mp s \<Longrightarrow> clicked s r \<Longrightarrow> \<exists>s'. r = Some s' \<and> in_mp s'"
  using in_mp_frame running_core ended_core unfolding clicked_def by metis

lemma buttons_handler_ok:
  assumes r: "running s" and o: "\<not> mp_overflow s" and c: "is_host s \<noteq> mp_is_player_1 s \<Longrightarrow> c \<noteq> NO_BUTTON"
  shows "clicked s (mp_buttons_handler E c s)"
proof -
  have "clicked s (if is_host s = mp_is_player_1 s then mp_click_button E c s else mp_remote_click_button E c s)"
    using local_click_ok [OF r o, of E c] remote_click_ok [OF r o, of c E] c by simp
  then obtain s1 where s1: "(if is_host s = mp_is_player_1 s then mp_click_button E c s else mp_remote_click_button E c s) = Some s1"
      "running s1 \<or> ended s1" "serial_frame s s1"
    unfolding clicked_def by blast
  obtain p where p: "mp_light_button c s1 = s1\<lparr>mp_ps := p\<rparr>" using mp_light_frame by blast
  show ?thesis unfolding mp_buttons_handler_def s1(1) using s1(2,3) by (auto simp: clicked_def p)
qed

lemma mp_mouse_in_mp:
  assumes g: "in_mp s" and o: "mp_game_end s \<or> \<not> mp_overflow s"
  shows "\<exists>s'. mp_game_update_status_mouse E pk s = Some s' \<and> in_mp s'"
proof (cases "mp_game_end s \<or> \<not> game_started s")
  case True
  then show ?thesis using g by (auto simp: mp_game_update_status_mouse_def)
next
  case False
  let ?s = "s\<lparr>mp_mouse := press_mouse pk (move_mouse pk (mp_mouse s))\<rparr>"
  let ?c = "if left_click (mp_mouse ?s) then mp_get_button_click ?s else NO_BUTTON"
  have r: "running ?s" using core_running [OF in_mp_core [OF g]] False by simp
  have o': "\<not> mp_overflow ?s" using o False by (simp add: mp_overflow_def)
  have g': "in_mp ?s" by (rule in_mp_frame [OF g]) (simp_all add: running_core [OF r])
  have "is_host s = mp_is_player_1 s \<Longrightarrow> clicked ?s (mp_buttons_handler E ?c ?s)"
    by (rule buttons_handler_ok [OF r o']) simp
  then have "is_host s = mp_is_player_1 s \<Longrightarrow> \<exists>s'. mp_buttons_handler E ?c ?s = Some s' \<and> in_mp s'" by (rule in_mp_clicked [OF g'])
  then show ?thesis using False g' unfolding mp_game_update_status_mouse_def Let_def by simp
qed

lemma mp_timer_in_mp:
  assumes "in_mp s"
  shows "in_mp (mp_game_update_status_timer s)"
proof -
  have "mp_view (mp_game_update_status_timer s) = mp_view s"
    by (simp add: mp_game_update_status_timer_def mp_view_def Let_def)
  then have "mp_core (mp_game_update_status_timer s)" using mp_core_cong in_mp_core [OF assms] by blast
  then show ?thesis by (rule in_mp_frame [OF assms, rotated]) (simp add: mp_game_update_status_timer_def Let_def)
qed

lemma core_score: "mp_core s \<Longrightarrow> 0 \<le> mp_player_score s \<and> mp_player_score s < 1000"
  by (simp add: mp_core_def mp_bounds_def)

lemma mp_ok_leave [simp]:
  "mp_ok (s\<lparr>mode := m\<rparr>) \<longleftrightarrow> mp_ok s" "mp_ok (reset_hiscore n s) \<longleftrightarrow> mp_ok s"
  using mp_core_cong [of "s\<lparr>mode := m\<rparr>" s] mp_core_cong [of "reset_hiscore n s" s]
    view_box_ok [of "s\<lparr>mode := m\<rparr>" s] view_box_ok [of "reset_hiscore n s" s]
  by (simp_all add: mp_ok_def mp_view_def reset_hiscore_def create_name_box_def)

lemma leave_in_mp:
  assumes g: "in_mp s"
  shows "in_mp (s\<lparr>mode := LEADERBOARD\<rparr>)" "in_mp (mp_checkNewHiScore s)"
proof -
  show l: "in_mp (s\<lparr>mode := LEADERBOARD\<rparr>)" using g by (simp add: in_mp_def base_ok_mode)
  have "in_mp (reset_hiscore (mp_player_score s) (s\<lparr>mode := HIGHSCORE\<rparr>))"
    using g base_ok_reset_hiscore [of s] core_score [OF in_mp_core [OF g]]
    by (simp add: in_mp_def) (simp add: reset_hiscore_def create_name_box_def)
  then show "in_mp (mp_checkNewHiScore s)" using l by (simp add: mp_checkNewHiScore_def)
qed

lemma mp_key_in_mp: "in_mp s \<Longrightarrow> in_mp (mp_game_update_status_key k s)"
  by (simp add: mp_game_update_status_key_def leave_in_mp)

lemma change_player_core: "mp_core s \<Longrightarrow> mp_core (mp_change_player E s)"
proof -
  assume c: "mp_core s"
  obtain l v w where p: "mp_change_player E s =
      put_line l (s\<lparr>mp_is_player_1 := \<not> mp_is_player_1 s, mp_guessed := 0, mp_is_vs_round := v, mp_VS_was_pressed := w\<rparr>)"
    using change_player_line [of E s] by blast
  show ?thesis unfolding p using c by (auto simp: mp_core_def mp_bounds_def put_line_def mp_live_def)
qed

lemma change_player_frame: "serial_frame s (mp_change_player E s)"
  using change_player_line [of E s] by auto

lemma leave_over:
  assumes g: "in_mp s"
  shows "in_mp (if mp_game_end s then
      let s = set_seconds_alarm E s in if mp_ws s = TIE then s\<lparr>mode := LEADERBOARD\<rparr> else mp_checkNewHiScore s
    else s)"
proof -
  have "in_mp (set_seconds_alarm E s)" by (subst seconds_alarm.cmd_state, rule in_mp_frame [OF g]) (simp_all add: in_mp_core [OF g])
  then show ?thesis using g leave_in_mp [of "set_seconds_alarm E s"] by (simp add: Let_def)
qed

lemma mp_rtc_in_mp:
  assumes g: "in_mp s"
  shows "\<exists>s'. mp_game_update_status_rtc E s = Some s' \<and> in_mp s'"
proof (cases "(is_host s = mp_is_player_1 s \<and> \<not> mp_game_end s) \<and> mp_time_left_for_click s = 0 \<and> \<not> mp_VS_was_pressed s")
  case True
  obtain l where l: "mp_send_winner E (mp_get_winner s) = put_line l (mp_get_winner s)" using send_winner_line by blast
  have "mp_bounds (put_line l (mp_get_winner s))" "mp_buttons (put_line l (mp_get_winner s)) \<noteq> Freed"
    "serial_frame s (put_line l (mp_get_winner s))"
    using in_mp_core [OF g] True by (simp_all add: mp_core_def mp_get_winner_def)
  then show ?thesis using end_game_ends [of "put_line l (mp_get_winner s)" E] serial_frame_trans in_mp_frame [OF g] ended_core True
    unfolding mp_game_update_status_rtc_def l by (metis (no_types, lifting))
next
  case False
  let ?s = "if is_host s = mp_is_player_1 s \<and> \<not> mp_game_end s then
       if mp_time_left_for_click s = 0 \<and> mp_is_vs_round s \<and> mp_VS_was_pressed s then mp_change_player E s
       else if mp_time_left_for_click s > 0 then s\<lparr>mp_time_left_for_click := mp_time_left_for_click s - 1\<rparr> else s
     else s"
  have "mp_core (s\<lparr>mp_time_left_for_click := mp_time_left_for_click s - 1\<rparr>)"
    using in_mp_core [OF g] by (auto simp: mp_core_def mp_bounds_def mp_live_def)
  then have "mp_core ?s" using in_mp_core [OF g] change_player_core [of s E] by simp
  then have i: "in_mp ?s" by (rule in_mp_frame [OF g, rotated]) (simp add: change_player_frame)
  show ?thesis unfolding mp_game_update_status_rtc_def if_not_P [OF False] Let_def [of ?s] using leave_over [OF i] by blast
qed

section \<open>The bytes of the peer\<close>

text \<open>
  The bytes that click, end the game or start it, and what the code needs for each: the first
  two need a game that is not over, and a click needs room in the sequence; the byte that
  completes the number of rounds needs a number the screen has digits for, and memory.
\<close>

definition clicks :: "u8 \<Rightarrow> bool" where
  "clicks data \<longleftrightarrow> 3 \<le> data \<and> data \<le> 8"

definition ends :: "u8 \<Rightarrow> bool" where
  "ends data \<longleftrightarrow> data = coms_code LOSE \<or> data = winners_code TIE"

definition rounds_received :: "u8 \<Rightarrow> ('d, 'z) mp_st_scheme \<Rightarrow> int" where
  "rounds_received data s = or (push_bit 8 (uint data)) (uint (received_byte s))"

definition byte_ok :: "'d env \<Rightarrow> u8 \<Rightarrow> ('d, 'z) mp_st_scheme \<Rightarrow> bool" where
  "byte_ok E data s \<longleftrightarrow>
     (if game_started s then (clicks data \<or> ends data \<longrightarrow> \<not> mp_game_end s) \<and> (clicks data \<longrightarrow> \<not> mp_overflow s)
      else \<not> is_host s \<and> received_no_bytes s \<noteq> 0 \<longrightarrow>
        rounds_received data s \<le> 999 \<and> malloc E (rounds_received data s * 4) (dev s) \<noteq> None)"

lemma clicked_button: "clicks data \<Longrightarrow> button_of_code (data - coms_code GREEN_REMOTE) \<noteq> NO_BUTTON"
proof -
  assume "clicks data"
  then have "unat data \<in> {3..8}" by (simp add: clicks_def word_le_nat_alt)
  then have "unat data \<in> {3, 4, 5, 6, 7, 8}" by auto
  then have "data \<in> {3, 4, 5, 6, 7, 8}" by (auto simp: word_unat_eq_iff)
  then show ?thesis by (auto simp: button_of_code_def)
qed

lemma turn_core:
  "mp_core s \<Longrightarrow> mp_core (s\<lparr>mp_is_vs_round := v, mp_VS_was_pressed := w, mp_guessed := 0, mp_is_player_1 := p,
     mp_time_left_for_click := INTERVAL\<rparr>)"
  by (auto simp: mp_core_def mp_bounds_def mp_live_def INTERVAL_def)

lemma byte_ends:
  assumes g: "in_mp s" and n: "\<not> mp_game_end s"
  shows "\<exists>s'. mp_end_game E (s\<lparr>mp_ws := w\<rparr>) = Some s' \<and> in_mp s'"
proof -
  have "mp_bounds (s\<lparr>mp_ws := w\<rparr>)" "mp_buttons (s\<lparr>mp_ws := w\<rparr>) \<noteq> Freed"
    using in_mp_core [OF g] n by (simp_all add: mp_core_def)
  then obtain s' where s': "mp_end_game E (s\<lparr>mp_ws := w\<rparr>) = Some s'" "ended s'" "serial_frame (s\<lparr>mp_ws := w\<rparr>) s'"
    using end_game_ends by blast
  have "serial_frame s s'" by (rule serial_frame_trans [OF _ s'(3)]) simp
  then show ?thesis using s' in_mp_frame [OF g _ ended_core] by blast
qed

lemma play_in_mp:
  assumes g: "in_mp s" and st: "game_started s" and b: "byte_ok E data s"
  shows "\<exists>s'. play_game E data s = Some s' \<and> in_mp s'"
proof -
  have turn: "in_mp (s\<lparr>mp_is_vs_round := v, mp_VS_was_pressed := w, mp_guessed := 0, mp_is_player_1 := p,
      mp_time_left_for_click := INTERVAL\<rparr>)" for v w p
    by (rule in_mp_frame [OF g]) (simp_all add: turn_core [OF in_mp_core [OF g]])
  show ?thesis
  proof (cases "clicks data")
    case True
    then have "running s" "\<not> mp_overflow s" using b st core_running [OF in_mp_core [OF g]] by (simp_all add: byte_ok_def)
    then have "clicked s (mp_buttons_handler E (button_of_code (data - coms_code GREEN_REMOTE)) s)"
      using buttons_handler_ok clicked_button [OF True] by blast
    then show ?thesis using in_mp_clicked [OF g] True unfolding play_game_def clicks_def by simp
  next
    case False
    then show ?thesis
      using g turn byte_ends [OF g] b st
      unfolding play_game_def clicks_def [symmetric] byte_ok_def ends_def mp_is_VS_round_def Let_def by simp
  qed
qed

lemma reset_core:
  assumes "0 \<le> n" "n \<le> 999" "malloc E (n * 4) (dev s) \<noteq> None"
  shows "running (mp_reset_game E n s)" "serial_frame s (mp_reset_game E n s)"
proof -
  have "mp_live (mp_reset_game E n s) []"
    using assms blk_holds_malloc [of "nat n"] by (simp add: mp_live_def)
  moreover have "mp_bounds (mp_reset_game E n s)"
    using assms by (simp add: mp_reset_game_def mp_is_VS_round_def mp_bounds_def Let_def)
  ultimately show "running (mp_reset_game E n s)" by (auto simp: running_def)
  show "serial_frame s (mp_reset_game E n s)"
    by (simp add: mp_reset_game_def mp_is_VS_round_def Let_def serial_frame_def view_def bufs_def names_def)
qed

lemma started_core:
  "mp_core s \<Longrightarrow> is_host s \<or> 2 \<le> received_no_bytes s \<Longrightarrow> mp_core (s\<lparr>dev := d, num_round_sent_bytes := n, game_started := g\<rparr>)"
  by (auto simp: mp_core_def mp_bounds_def mp_live_def)

lemma start_client_in_mp:
  assumes g: "in_mp s" and st: "\<not> game_started s" "\<not> is_host s" and b: "byte_ok E data s"
  shows "in_mp (start_game E data False s)"
proof (cases "received_no_bytes s = 0")
  case True
  have "mp_core (s\<lparr>received_byte := data, received_no_bytes := 1\<rparr>)"
    using in_mp_core [OF g] st by (auto simp: mp_core_def mp_bounds_def mp_live_def)
  then have "in_mp (s\<lparr>received_byte := data, received_no_bytes := 1\<rparr>)" by (rule in_mp_frame [OF g, rotated]) simp
  then show ?thesis using st True by (simp add: start_game_def)
next
  case False
  let ?r = "mp_reset_game E (rounds_received data s) s"
  have n: "0 \<le> rounds_received data s" "rounds_received data s \<le> 999" "malloc E (rounds_received data s * 4) (dev s) \<noteq> None"
    using b st False unfolding byte_ok_def by (simp_all add: rounds_received_def)
  note r = reset_core [OF n]
  obtain d g where dg: "(let (e, s) = check_thr_emtpy E ?r
      in if e then (snd (serial_write_byte E (coms_code ACK) s))\<lparr>game_started := True\<rparr> else s) = ?r\<lparr>dev := d, game_started := g\<rparr>"
    using start_game_send [of E ?r "coms_code ACK"] by blast
  have e: "start_game E data False s = ?r\<lparr>dev := d, game_started := g, received_no_bytes := received_no_bytes ?r + 1\<rparr>"
    unfolding start_game_def Let_def [of "or _ _"] rounds_received_def [symmetric] using dg st False by (simp add: Let_def)
  have "running (start_game E data False s)" unfolding e using r(1) by (auto simp: running_def mp_bounds_def mp_live_def)
  moreover have "serial_frame s (start_game E data False s)" unfolding e using r(2) by simp
  ultimately show ?thesis using in_mp_frame [OF g _ running_core] by blast
qed

lemma start_host_in_mp:
  assumes g: "in_mp s" and h: "is_host s"
  shows "in_mp (start_game E data thr s)"
proof -
  obtain r d where r: "check_thr_emtpy E s = (r, s\<lparr>dev := d\<rparr>)" using check_thr_local by blast
  obtain q d' where q: "serial_write_byte E (rounds_byte (mp_max_buttons_size s) (num_round_sent_bytes s)) (s\<lparr>dev := d\<rparr>) = (q, s\<lparr>dev := d'\<rparr>)"
    using serial_write_local [of E _ "s\<lparr>dev := d\<rparr>"] by fastforce
  have "start_game E data thr s = s\<lparr>dev := dev (start_game E data thr s),
      num_round_sent_bytes := num_round_sent_bytes (start_game E data thr s), game_started := game_started (start_game E data thr s)\<rparr>"
    using h by (simp add: start_game_def r q Let_def)
  then obtain d n v where e: "start_game E data thr s = s\<lparr>dev := d, num_round_sent_bytes := n, game_started := v\<rparr>" by blast
  show ?thesis unfolding e by (rule in_mp_frame [OF g]) (simp_all add: started_core in_mp_core [OF g] h)
qed

lemma start_empty_in_mp:
  fixes s :: "('d, 'z) mp_st_scheme"
  assumes g: "in_mp s" and h: "\<not> is_host s"
  shows "in_mp (start_game E data True s)"
proof (cases "received_no_bytes s = 2")
  case True
  let ?s = "s\<lparr>dev := dev (snd (serial_write_byte E (coms_code ACK) \<lparr>dev = dev s\<rparr>)), game_started := True\<rparr> :: ('d, 'z) mp_st_scheme"
  have "mp_core ?s" using started_core [OF in_mp_core [OF g], where n = "num_round_sent_bytes s" and g = True] True by simp
  then have "in_mp ?s" by (rule in_mp_frame [OF g, rotated]) simp
  then show ?thesis using h True by (simp add: start_game_def serial_write_local [of E _ s])
next
  case False
  then show ?thesis using g h by (simp add: start_game_def)
qed

lemma mp_uart_in_mp:
  assumes g: "in_mp s" and b: "type = IIR_REC_DATA \<Longrightarrow> byte_ok E data s"
  shows "\<exists>s'. mp_game_update_status_uart E data type s = Some s' \<and> in_mp s'"
proof -
  have "in_mp (uart_ready E s)"
    unfolding uart_ready_def by (subst serial_write_local, rule in_mp_frame [OF g]) (simp, rule mp_core_cong [THEN iffD2, OF _ in_mp_core [OF g]], simp add: mp_view_def)
  then show ?thesis
    using g b play_in_mp [OF g] start_client_in_mp [OF g] start_host_in_mp [OF g] start_empty_in_mp [OF g]
    unfolding mp_game_update_status_uart_def by (cases "is_host s"; cases "game_started s") simp_all
qed

section \<open>The bytes with undefined behaviour\<close>

lemma freed_click:
  assumes "mp_buttons s = Freed" "c \<noteq> NO_BUTTON"
  shows "mp_buttons_handler E c s = None"
proof -
  have a: "mp_add_button c' s' = None" "mp_end_game E s' = None" if "mp_buttons s' = Freed" for c' s'
    using that by (simp_all add: mp_add_button_def mp_end_game_def)
  have w: "mp_buttons (mp_send_winner E (mp_get_winner s)) = Freed"
    using assms(1) send_winner_line [of E "mp_get_winner s"] by (auto simp: mp_get_winner_def)
  have "mp_click_button E c s = None" "mp_remote_click_button E c s = None"
    using assms by (simp_all add: mp_click_button_def mp_remote_click_button_def Let_def a w)
  then show ?thesis by (simp add: mp_buttons_handler_def)
qed

lemma full_click:
  assumes r: "running s" and o: "mp_overflow s" and c: "c \<noteq> NO_BUTTON"
  shows "mp_buttons_handler E c s = None"
proof -
  obtain xs where l: "mp_live s xs" using r by (auto simp: running_def)
  have full: "mp_add_button c s' = None" if "mp_live s' xs" "mp_max_buttons_size s' = mp_max_buttons_size s" for s'
    by (rule mp_add_button_full [OF that(1)]) (use o l that(2) in \<open>simp add: mp_overflow_def mp_live_def\<close>)
  have "mp_click_button E c s = None" "mp_remote_click_button E c s = None"
    using o c l by (simp_all add: mp_click_button_def mp_remote_click_button_def mp_overflow_def Let_def full)
  then show ?thesis by (simp add: mp_buttons_handler_def)
qed

lemma over_byte:
  assumes "mp_buttons s = Freed"
  shows "play_game E data s = None \<longleftrightarrow> clicks data \<or> ends data"
proof (cases "clicks data")
  case True
  then show ?thesis using freed_click [OF assms clicked_button [OF True]] by (simp add: play_game_def flip: clicks_def)
next
  case False
  have "mp_end_game E (s\<lparr>mp_ws := w\<rparr>) = None" for w using assms by (simp add: mp_end_game_over)
  then show ?thesis using False unfolding play_game_def clicks_def [symmetric] ends_def by (simp add: Let_def)
qed

lemma running_byte:
  assumes r: "running s"
  shows "play_game E data s = None \<longleftrightarrow> clicks data \<and> mp_overflow s"
proof (cases "clicks data")
  case True
  let ?c = "button_of_code (data - coms_code GREEN_REMOTE)"
  have "mp_overflow s \<Longrightarrow> mp_buttons_handler E ?c s = None" by (rule full_click [OF r _ clicked_button [OF True]])
  moreover have "\<not> mp_overflow s \<Longrightarrow> mp_buttons_handler E ?c s \<noteq> None"
    using buttons_handler_ok [OF r _ clicked_button [OF True], of E] by (auto simp: clicked_def)
  ultimately show ?thesis using True unfolding play_game_def clicks_def [symmetric] by (cases "mp_overflow s") simp_all
next
  case False
  have "mp_bounds (s\<lparr>mp_ws := w\<rparr>)" "mp_buttons (s\<lparr>mp_ws := w\<rparr>) \<noteq> Freed" for w
    using r running_not_ended [OF r] by (simp_all add: running_def)
  then have "mp_end_game E (s\<lparr>mp_ws := w\<rparr>) \<noteq> None" for w using end_game_ends [of "s\<lparr>mp_ws := w\<rparr>" E] by auto
  then show ?thesis using False unfolding play_game_def clicks_def [symmetric] by (simp add: Let_def)
qed

end
