(* ===== verification/Serial_Event.thy ===== *)
theory Serial_Event
  imports Serial_Safety
begin

text \<open>
  The case of the serial game in the event handler: the handlers of one notification in the order
  of the code, the drawing first and the byte of the peer last.
\<close>

section \<open>The serial game in the event handler\<close>

definition acts :: "u8 \<Rightarrow> ('d, 'z) mp_st_scheme \<Rightarrow> bool" where
  "acts data s \<longleftrightarrow> (if game_started s then clicks data \<or> ends data else \<not> is_host s \<and> received_no_bytes s \<noteq> 0)"

definition serial_tame :: "'d env \<Rightarrow> ('d, 'z) simon_st_scheme \<Rightarrow> bool" where
  "serial_tame E s \<longleftrightarrow> (got_mouse_packet s \<longrightarrow> mp_game_end s \<or> \<not> mp_overflow s) \<and>
     (uart_interrupt s \<and> uart_type_interrupt s = IIR_REC_DATA \<and> acts (data_packet s) s \<longrightarrow>
       byte_ok E (data_packet s) s \<and> \<not> got_mouse_packet s \<and> \<not> rtc_interrupt s)"

lemma passive_byte_ok: "\<not> acts data s \<Longrightarrow> byte_ok E data s"
  by (auto simp: acts_def byte_ok_def split: if_splits)

text \<open>The stage of the handshake and the flags of the loop, which the other handlers of the case leave alone.\<close>

definition link :: "('d, 'z) mp_st_scheme \<Rightarrow> bool \<times> bool \<times> int \<times> 'z" where
  "link s = (game_started s, is_host s, received_no_bytes s, mp_st.more s)"

lemma link_upd [simp]:
  "link (s\<lparr>mp_mouse := v0\<rparr>) = link s"  "link (s\<lparr>mp_player_score := v1\<rparr>) = link s"  "link (s\<lparr>mp_ws := v2\<rparr>) = link s"
  "link (s\<lparr>mp_VS_was_pressed := v3\<rparr>) = link s"  "link (s\<lparr>VS_screen := v4\<rparr>) = link s"  "link (s\<lparr>mp_time_left_for_click := v5\<rparr>) = link s"
  "link (s\<lparr>mp_guessed := v6\<rparr>) = link s"  "link (s\<lparr>mp_ps := v7\<rparr>) = link s"  "link (s\<lparr>time_left_for_screen := v8\<rparr>) = link s"
  "link (s\<lparr>mp_is_player_1 := v9\<rparr>) = link s"  "link (s\<lparr>mp_is_vs_round := v10\<rparr>) = link s"  "link (s\<lparr>mp_game_end := v11\<rparr>) = link s"
  "link (s\<lparr>dev := v12\<rparr>) = link s"  "link (s\<lparr>mode := v13\<rparr>) = link s"
  "link (put_line l s) = link s" "link (reset_hiscore n s) = link s" "link (mp_get_winner s) = link s"
  by (simp_all add: link_def put_line_def reset_hiscore_def create_name_box_def mp_get_winner_def)

lemma link_send [simp]:
  "link (mp_send_button E c s) = link s" "link (mp_send_winner E s) = link s" "link (mp_change_player E s) = link s"
proof -
  show "link (mp_send_button E c s) = link s" using send_button_line [of E c s] by auto
  show "link (mp_send_winner E s) = link s" using send_winner_line [of E s] by auto
  show "link (mp_change_player E s) = link s" using change_player_line [of E s] by auto
qed

lemma link_end: "mp_end_game E s = Some s' \<Longrightarrow> link s' = link s"
  by (auto simp: mp_end_game_def Let_def timed_alarm.cmd_state link_def split: Option.bind_splits)

lemma link_add: "mp_add_button c s = Some s' \<Longrightarrow> link s' = link s"
  by (auto simp: mp_add_button_def link_def split: Option.bind_splits)

lemma link_click: "mp_click_button E c s = Some s' \<Longrightarrow> link s' = link s"
  by (auto simp: mp_click_button_def Let_def split: if_splits Option.bind_splits dest!: link_end link_add)

lemma link_light [simp]: "link (mp_light_button c s) = link s"
  by (cases c) (simp_all add: mp_light_button_def)

lemma link_buttons:
  assumes "mp_buttons_handler E c s = Some s'" "is_host s = mp_is_player_1 s"
  shows "link s' = link s"
  using assms link_click [of E c s] by (auto simp: mp_buttons_handler_def split: if_splits Option.bind_splits)

lemma link_mouse: "mp_game_update_status_mouse E pk s = Some s' \<Longrightarrow> link s' = link s"
  by (auto simp: mp_game_update_status_mouse_def Let_def split: if_splits dest: link_buttons)

lemma link_others [simp]:
  "link (mp_checkNewHiScore s) = link s" "link (mp_game_update_status_key k s) = link s" "link (mp_game_update_status_timer s) = link s"
  by (simp_all add: mp_checkNewHiScore_def mp_game_update_status_key_def mp_game_update_status_timer_def Let_def)

lemma link_rtc: "mp_game_update_status_rtc E s = Some s' \<Longrightarrow> link s' = link s"
  by (auto simp: mp_game_update_status_rtc_def Let_def seconds_alarm.cmd_state split: if_splits dest!: link_end)

lemma link_flags:
  assumes "link s' = link s"
  shows "acts d s' \<longleftrightarrow> acts d s"
  using assms by (simp add: link_def acts_def)

lemma link_loop_flags:
  fixes s s' :: "('d, 'z) simon_st_scheme"
  assumes "link s' = link s"
  shows "got_mouse_packet s' = got_mouse_packet s" "rtc_interrupt s' = rtc_interrupt s" "uart_interrupt s' = uart_interrupt s"
    "data_packet s' = data_packet s" "uart_type_interrupt s' = uart_type_interrupt s"
  using assms by (cases s; cases s'; simp add: link_def)+

text \<open>What a byte needs is not changed by a key or a tick of the timer.\<close>

lemma byte_ok_cong:
  assumes "link s' = link s" "mp_game_end s' = mp_game_end s" "mp_overflow s' = mp_overflow s"
    "received_byte s' = received_byte s" "dev s' = dev s"
  shows "byte_ok E data s' \<longleftrightarrow> byte_ok E data s"
  using assms by (simp add: byte_ok_def link_def rounds_received_def)

lemma byte_ok_others [simp]:
  "byte_ok E data (mp_game_update_status_key k s) \<longleftrightarrow> byte_ok E data s"
  "byte_ok E data (mp_game_update_status_timer s) \<longleftrightarrow> byte_ok E data s"
proof -
  have "mp_game_end (mp_game_update_status_key k s) = mp_game_end s" "mp_overflow (mp_game_update_status_key k s) = mp_overflow s"
    "received_byte (mp_game_update_status_key k s) = received_byte s" "dev (mp_game_update_status_key k s) = dev s"
    by (simp_all add: mp_game_update_status_key_def mp_checkNewHiScore_def reset_hiscore_def create_name_box_def mp_overflow_def)
  then show "byte_ok E data (mp_game_update_status_key k s) \<longleftrightarrow> byte_ok E data s" by (intro byte_ok_cong) simp_all
  have "mp_game_end (mp_game_update_status_timer s) = mp_game_end s" "mp_overflow (mp_game_update_status_timer s) = mp_overflow s"
    "received_byte (mp_game_update_status_timer s) = received_byte s" "dev (mp_game_update_status_timer s) = dev s"
    by (simp_all add: mp_game_update_status_timer_def Let_def mp_overflow_def)
  then show "byte_ok E data (mp_game_update_status_timer s) \<longleftrightarrow> byte_ok E data s" by (intro byte_ok_cong) simp_all
qed

lemma mp_undrawn_in_mp:
  assumes ok: "mp_screen_ok s'" and u: "mp_undrawn s' = mp_undrawn s" and g: "in_mp s"
  shows "in_mp s'"
proof -
  note f = mp_undrawn_same [OF u]
  have n: "names s' = names s" "mode s' = mode s" "newWinner s' = newWinner s" "mouse_bytes s' = mouse_bytes s"
    "byte_count s' = byte_count s" "counter_number s' = counter_number s" "round_text s' = round_text s" "mp_view s' = mp_view s"
    by (rule f, simp add: names_def mp_view_def mp_undrawn_def)+
  have "deref s' = deref s" by (rule f, rule ext, simp)
  note b = box_ok_deref [OF this]
  have "names_ok s' \<longleftrightarrow> names_ok s" "statics_ok s' \<longleftrightarrow> statics_ok s" using n b by (simp_all add: names_def names_ok_def statics_ok_def)
  then show ?thesis using ok g n mp_core_cong [of s' s] by (simp add: in_mp_def mp_ok_def mp_screen_ok_def base_ok_def mouse_inv_def)
qed

lemma serial_event:
  assumes g: "in_mp s" and o: "got_mouse_packet s \<longrightarrow> mp_game_end s \<or> \<not> mp_overflow s"
    and b: "uart_interrupt s \<and> uart_type_interrupt s = IIR_REC_DATA \<and> acts (data_packet s) s \<longrightarrow>
       byte_ok E (data_packet s) s \<and> \<not> got_mouse_packet s \<and> \<not> rtc_interrupt s"
  shows "\<exists>s'. do { s \<leftarrow> (if got_mouse_packet s then mp_game_update_status_mouse E (mouse_packet s) s else Some s);
          let s = (if timer_interrupt s then mp_game_update_status_timer s else s);
          s \<leftarrow> (if rtc_interrupt s then mp_game_update_status_rtc E s else Some s);
          (if uart_interrupt s then mp_game_update_status_uart E (data_packet s) (uart_type_interrupt s) s else Some s) } = Some s' \<and> in_mp s'"
proof -
  obtain s1 where s1: "(if got_mouse_packet s then mp_game_update_status_mouse E (mouse_packet s) s else Some s) = Some s1"
      "in_mp s1" "link s1 = link s" "\<not> got_mouse_packet s \<Longrightarrow> s1 = s"
    using mp_mouse_in_mp [OF g] o link_mouse g by (cases "got_mouse_packet s") (simp_all, blast)
  obtain s2 where s2: "(if timer_interrupt s1 then mp_game_update_status_timer s1 else s1) = s2" "in_mp s2" "link s2 = link s"
      "\<not> got_mouse_packet s \<Longrightarrow> byte_ok E d s2 \<longleftrightarrow> byte_ok E d s" for d
    using s1 mp_timer_in_mp [OF s1(2)] by auto
  obtain s3 where s3: "(if rtc_interrupt s2 then mp_game_update_status_rtc E s2 else Some s2) = Some s3"
      "in_mp s3" "link s3 = link s" "\<not> rtc_interrupt s \<Longrightarrow> s3 = s2"
    using mp_rtc_in_mp [OF s2(2), of E] link_rtc [of E s2] s2(2,3) link_loop_flags(2) [OF s2(3)] by (cases "rtc_interrupt s2") auto
  note f = link_loop_flags [OF s3(3)]
  have "byte_ok E (data_packet s3) s3" if "uart_interrupt s3" "uart_type_interrupt s3 = IIR_REC_DATA"
    using that b s2(4) s3(4) passive_byte_ok [of _ s3] link_flags [OF s3(3)] unfolding f by blast
  then have "\<exists>s'. (if uart_interrupt s3 then mp_game_update_status_uart E (data_packet s3) (uart_type_interrupt s3) s3 else Some s3) =
      Some s' \<and> in_mp s'"
    using mp_uart_in_mp [OF s3(2)] s3(2) by (cases "uart_interrupt s3") simp_all
  then show ?thesis unfolding s1(1) bind.bind_lunit s2(1) Let_def [of s2] s3(1) by blast
qed

lemma mp_game_case_ok:
  assumes g: "in_mp s" and m: "img_ok (xpm_load E ''mouse_xpm'' XPM_5_6_5)" and t: "serial_tame E s"
  shows "\<exists>s'. mp_game_case E s = Some s' \<and> in_mp s'"
proof -
  have c: "mp_core s" "mp_screen_ok s" using g by (simp_all add: in_mp_def mp_ok_def mp_screen_ok_def base_ok_def)
  have "mp_draws (mp_draw_game_graphics E) s"
    by (rule mp_draw_game_draws [OF c(2) _ _ m]) (use c(1) in \<open>simp_all add: mp_core_def mp_bounds_def\<close>)
  then obtain s1 where d: "mp_draw_game_graphics E s = Some s1" "mp_screen_ok s1" and u: "mp_undrawn s1 = mp_undrawn s"
    by (auto simp: mp_draws_def)
  have g1: "in_mp s1" by (rule mp_undrawn_in_mp [OF d(2) u g])
  have l: "link s1 = link s" by (rule mp_undrawn_same [OF u]) (simp add: link_def mp_undrawn_def)
  have b1: "byte_ok E data s1 \<longleftrightarrow> byte_ok E data s" for data
    by (rule byte_ok_cong [OF l]; rule mp_undrawn_same [OF u]; simp add: mp_undrawn_def mp_overflow_def)
  have o1: "mp_game_end s1 = mp_game_end s" "mp_overflow s1 = mp_overflow s"
    by (rule mp_undrawn_same [OF u], simp add: mp_undrawn_def mp_overflow_def)+
  let ?s2 = "if got_key_press s1 then mp_game_update_status_key (keyboard_packet s1) s1 else s1"
  have l2: "link ?s2 = link s" using l by simp
  have "\<exists>s'. do { s \<leftarrow> (if got_mouse_packet ?s2 then mp_game_update_status_mouse E (mouse_packet ?s2) ?s2 else Some ?s2);
          let s = (if timer_interrupt s then mp_game_update_status_timer s else s);
          s \<leftarrow> (if rtc_interrupt s then mp_game_update_status_rtc E s else Some s);
          (if uart_interrupt s then mp_game_update_status_uart E (data_packet s) (uart_type_interrupt s) s else Some s) } = Some s' \<and> in_mp s'"
  proof (rule serial_event)
    show "in_mp ?s2" using g1 mp_key_in_mp [OF g1] by simp
    have "mp_game_end ?s2 = mp_game_end s" "mp_overflow ?s2 = mp_overflow s"
      using o1 by (simp_all add: mp_game_update_status_key_def mp_checkNewHiScore_def reset_hiscore_def create_name_box_def mp_overflow_def)
    then show "got_mouse_packet ?s2 \<longrightarrow> mp_game_end ?s2 \<or> \<not> mp_overflow ?s2"
      using t link_loop_flags(1) [OF l2] by (simp add: serial_tame_def)
    have "byte_ok E data ?s2 \<longleftrightarrow> byte_ok E data s" for data using b1 by simp
    then show "uart_interrupt ?s2 \<and> uart_type_interrupt ?s2 = IIR_REC_DATA \<and> acts (data_packet ?s2) ?s2 \<longrightarrow>
       byte_ok E (data_packet ?s2) ?s2 \<and> \<not> got_mouse_packet ?s2 \<and> \<not> rtc_interrupt ?s2"
      using t unfolding link_loop_flags [OF l2] link_flags [OF l2] serial_tame_def by blast
  qed
  then show ?thesis unfolding mp_game_case_def d(1) by (simp add: Let_def)
qed

end
