(* ===== verification/Loop_Safety.thy ===== *)
theory Loop_Safety
  imports Serial_Event
begin

text \<open>
  The safety of the interrupt loop: the screens other than the serial game keep its invariant, so
  the invariants of both games hold in every iteration, and every iteration has a defined
  outcome but for the events \<open>tame\<close> excludes.
\<close>

section \<open>The serial game behind the other screens\<close>

definition mp_shown :: "('d, 'z) mp_st_scheme \<Rightarrow> _" where
  "mp_shown s = (mp_view s, mp_counter_number s, mp_round_text s, letters s, numbers s, lilletters s, lilnumbers s)"

lemma mp_shown_deref: "mp_shown s' = mp_shown s \<Longrightarrow> deref s' = deref s"
  by (rule ext, rename_tac g, case_tac g) (simp_all add: mp_shown_def)

lemma mp_ok_shown: "mp_shown s' = mp_shown s \<Longrightarrow> mp_ok s' \<longleftrightarrow> mp_ok s"
  using box_ok_deref [OF mp_shown_deref, of s' s] mp_core_cong [of s' s] by (simp add: mp_ok_def mp_shown_def)

lemma mp_shown_only_buffer: "only_buffer s s' \<Longrightarrow> mp_shown s' = mp_shown s"
  by (erule only_bufferE) (simp add: mp_shown_def mp_view_def)

lemma mp_shown_upd [simp]:
  "mp_shown (s\<lparr>mode := m\<rparr>) = mp_shown s" "mp_shown (s\<lparr>dev := d\<rparr>) = mp_shown s" "mp_shown (s\<lparr>leaderboard := v\<rparr>) = mp_shown s"
  "mp_shown (s\<lparr>newWinner := nw\<rparr>) = mp_shown s" "mp_shown (s\<lparr>player := p\<rparr>) = mp_shown s" "mp_shown (s\<lparr>new_hiscore := b\<rparr>) = mp_shown s"
  "mp_shown (s\<lparr>buffer := bf\<rparr>) = mp_shown s" "mp_shown (s\<lparr>video_mem := vm\<rparr>) = mp_shown s"
  by (simp_all add: mp_shown_def mp_view_def)

lemma mp_shown_menu [simp]:
  "mp_shown (s\<lparr>position := p\<rparr>) = mp_shown s" "mp_shown (s\<lparr>host_position := hp\<rparr>) = mp_shown s"
  "mp_shown (s\<lparr>num_rounds := nr\<rparr>) = mp_shown s" "mp_shown (s\<lparr>num_rounds_value := nv\<rparr>) = mp_shown s"
  "mp_shown (reset_number_of_rounds mp s) = mp_shown s"
  by (simp_all add: mp_shown_def mp_view_def reset_number_of_rounds_def create_num_box_def)

lemma menu_mp: "mp_shown (menu_update_status k s) = mp_shown s"
  by (simp add: menu_update_status_def Let_def)

lemma connect_mp: "mp_ok s \<Longrightarrow> mp_ok (connect_mp_game E s)"
proof -
  assume m: "mp_ok s"
  obtain d where c: "connect_mp_game E s = s\<lparr>mp_is_player_1 := False, is_host := False, dev := d, uart_has_data_to_send := False,
      game_started := False\<rparr>"
    using serial_write_local [of E "coms_code CONNECTED" "s\<lparr>mp_is_player_1 := False, is_host := False\<rparr>"]
    by (auto simp: connect_mp_game_def Let_def)
  have "deref (connect_mp_game E s) = deref s" by (rule ext, rename_tac g, case_tac g) (simp_all add: c)
  from box_ok_deref [OF this] show ?thesis
    using m by (auto simp: c mp_ok_def mp_core_def mp_bounds_def mp_live_def)
qed

lemma host_mp: "mp_ok s \<Longrightarrow> mp_ok (host_update_status E k s)"
proof -
  assume m: "mp_ok s"
  have h: "mp_ok (t\<lparr>host_position := n\<rparr>) \<longleftrightarrow> mp_ok t" for t :: "('a, 'b) menu_st_scheme" and n by (rule mp_ok_shown) simp
  have "mp_ok (reset_number_of_rounds b (s\<lparr>mode := NUM_ROUNDS\<rparr>))" for b using m mp_ok_shown [of "reset_number_of_rounds b (s\<lparr>mode := NUM_ROUNDS\<rparr>)" s] by simp
  then show ?thesis using m connect_mp [of "s\<lparr>mode := MP_GAME\<rparr>" E] by (simp add: host_update_status_def Let_def h)
qed

lemma rounds_mp:
  assumes "number_of_rounds_update_status E k s = Some s'" and "\<not> (key k = ENTER \<and> num_rounds_value s \<noteq> 0)"
  shows "mp_shown s' = mp_shown s"
  using assms
  by (auto simp: number_of_rounds_update_status_def rounds_enter_def rounds_type_def rounds_backspace_def kbd_chars
      drawn_def Let_def split: if_splits Option.bind_splits dest!: remove_drawn)

lemma reset_game_mp: "mp_shown (reset_game E n s) = mp_shown s"
  by (simp add: reset_game_def is_VS_round_eq Let_def mp_shown_def mp_view_def)

lemma host_mp_game_mp:
  assumes "mp_ok s" "0 \<le> n" "n \<le> 999" "malloc E (n * 4) (dev s) \<noteq> None"
  shows "mp_ok (host_mp_game E n s)"
proof -
  let ?r = "mp_reset_game E n s"
  have r: "running ?r" "serial_frame s ?r" by (rule reset_core [OF assms(2-4)])+
  have "running (host_mp_game E n s)" using r(1) by (auto simp: host_mp_game_def running_def mp_bounds_def mp_live_def)
  moreover have "view (host_mp_game E n s) = view s" "mp_counter_number (host_mp_game E n s) = mp_counter_number s"
      "mp_round_text (host_mp_game E n s) = mp_round_text s"
    using r(2) by (simp_all add: serial_frame_def host_mp_game_def view_def)
  ultimately show ?thesis using assms(1) view_box_ok [of "host_mp_game E n s" s] running_core by (simp add: mp_ok_def)
qed

lemma rounds_key_mp:
  assumes p: "prog_ok s" "mode s = NUM_ROUNDS" and m: "mp_ok s"
    and a: "key k = ENTER \<Longrightarrow> malloc E (4 * uint (num_rounds_value s)) (dev s) \<noteq> None"
    and s': "number_of_rounds_update_status E k s = Some s'"
  shows "mp_ok s'"
proof (cases "key k = ENTER \<and> num_rounds_value s \<noteq> 0")
  case False
  then show ?thesis using m mp_ok_shown [OF rounds_mp [OF s' False]] by simp
next
  case True
  have r: "rounds_ok s" using p by (simp add: prog_ok_def mode_ok_def)
  obtain c d where k: "k = \<lparr>key = c, down = d\<rparr>" using key_cases by blast
  show ?thesis
  proof (cases d)
    case True
    then show ?thesis using s' m k by (simp add: number_of_rounds_update_status_def)
  next
    case False
    then show ?thesis
      using rounds_enter_ok [OF r, of E] True k s' a m host_mp_game_mp [of "s\<lparr>mode := MP_GAME\<rparr>" "uint (num_rounds_value s)" E]
        mp_ok_shown [of "reset_game E (uint (num_rounds_value s)) (s\<lparr>mode := GAME\<rparr>)" s]
        reset_game_mp [of E "uint (num_rounds_value s)" "s\<lparr>mode := GAME\<rparr>"]
      by (auto simp: mult.commute split: if_splits)
  qed
qed

text \<open>The handlers of the local game.\<close>

lemma reset_hiscore_mp [simp]: "mp_shown (reset_hiscore n s) = mp_shown s"
  by (simp add: reset_hiscore_def create_name_box_def)

lemma checkNewHiScore_mp [simp]: "mp_shown (checkNewHiScore s) = mp_shown s"
  by (simp add: checkNewHiScore_def)

lemma mp_shown_play [simp]:
  "mp_shown (s\<lparr>time_left_for_click := n\<rparr>) = mp_shown s" "mp_shown (s\<lparr>ps := p\<rparr>) = mp_shown s" "mp_shown (s\<lparr>mouse := ms\<rparr>) = mp_shown s"
  "mp_shown (get_winner s) = mp_shown s" "mp_shown (is_VS_round E s) = mp_shown s" "mp_shown (s\<lparr>is_player_1 := b\<rparr>) = mp_shown s"
  "mp_shown (s\<lparr>player_score := n\<rparr>) = mp_shown s" "mp_shown (s\<lparr>ws := w\<rparr>) = mp_shown s" "mp_shown (s\<lparr>guessed := n\<rparr>) = mp_shown s"
  "mp_shown (s\<lparr>buttons := bs\<rparr>) = mp_shown s" "mp_shown (s\<lparr>buttons_size := n\<rparr>) = mp_shown s"
  "mp_shown (s\<lparr>VS_was_pressed := b\<rparr>) = mp_shown s" "mp_shown (s\<lparr>game_end := b\<rparr>) = mp_shown s"
  by (simp_all add: mp_shown_def mp_view_def get_winner_def is_VS_round_eq)

lemma end_game_mp: "end_game E s = Some s' \<Longrightarrow> mp_shown s' = mp_shown s"
  by (auto simp: end_game_def Let_def timed_alarm.cmd_state split: Option.bind_splits)

lemma click_mp: "click_button E c s = Some s' \<Longrightarrow> mp_shown s' = mp_shown s"
  by (auto simp: click_button_def push_button_def Let_def split: if_splits Option.bind_splits dest!: end_game_mp)

lemma game_mouse_mp: "game_update_status_mouse E pk s = Some s' \<Longrightarrow> mp_shown s' = mp_shown s"
  using mouse_click [of E pk s s'] by (cases "game_end s") (auto simp: game_update_status_mouse_def dest!: click_mp)

lemma game_others_mp [simp]:
  "mp_shown (game_update_status_key k s) = mp_shown s" "mp_shown (game_update_status_timer s) = mp_shown s"
  by (simp_all add: game_update_status_key_def game_update_status_timer_def)

lemma game_rtc_mp: "game_update_status_rtc E s = Some s' \<Longrightarrow> mp_shown s' = mp_shown s"
  by (auto simp: game_update_status_rtc_def Let_def seconds_alarm.cmd_state split: if_splits Option.bind_splits dest!: end_game_mp)

lemma drawn_mp: "drawn s s' \<Longrightarrow> mp_shown s' = mp_shown s"
  by (auto simp: drawn_def)

lemmas mp_shown_drawing = draw_screen_drawn [THEN drawn_mp] draw_text_box_drawn [THEN drawn_mp]
  draw_leaderboard_drawn [THEN drawn_mp] draw_glyph_drawn [THEN drawn_mp] draw_xpm_x_y_drawn [THEN drawn_mp] remove_drawn [THEN drawn_mp]

lemma mp_shown_statics [simp]:
  "mp_shown (s\<lparr>mouse_img := m\<rparr>) = mp_shown s" "mp_shown (s\<lparr>counter_number := i, counter_previous_time := t\<rparr>) = mp_shown s"
  "mp_shown (s\<lparr>round_round := r, round_text := b\<rparr>) = mp_shown s"
  by (simp_all add: mp_shown_def mp_view_def)

lemma game_graphics_mp: "draw_game_graphics E s = Some s' \<Longrightarrow> mp_shown s' = mp_shown s"
  by (auto simp: draw_game_graphics_def draw_buttons_def draw_player_def print_player1_def print_player2_def
      draw_counter_def draw_round_def draw_mouse_def get_mouse_def draw_winner_graphics_def Let_def
      split: if_splits Option.bind_splits Play_Screens.splits Winners.splits dest!: mp_shown_drawing)

lemma game_case_mp: "game_case E s = Some s' \<Longrightarrow> mp_shown s' = mp_shown s"
  by (auto simp: game_case_def Let_def split: if_splits Option.bind_splits dest!: game_graphics_mp game_mouse_mp game_rtc_mp)

lemma mp_shown_count [simp]: "mp_shown (s\<lparr>count := n\<rparr>) = mp_shown s"
  by (simp add: mp_shown_def mp_view_def)

lemma menu_case_mp: "menu_case s = Some s' \<Longrightarrow> mp_shown s' = mp_shown s"
  by (auto simp: menu_case_def draw_menu_graphics_def inc_int_def Let_def menu_mp split: if_splits Option.bind_splits dest!: mp_shown_drawing)

lemma getDate_mp: "getDate E s = Some (b, s') \<Longrightarrow> mp_shown s' = mp_shown s"
  by (auto simp: getDate_def Let_def split: Option.bind_splits prod.splits dest!: get_date_frame elim!: only_devE)

lemma updateData_mp [simp]: "mp_shown (updateData s) = mp_shown s"
  using updateData_frame [of s] by auto

lemma highscore_mp: "highscore_update_status E k s = Some s' \<Longrightarrow> mp_shown s' = mp_shown s"
  by (auto simp: highscore_update_status_def hiscore_enter_def hiscore_type_def hiscore_backspace_def Let_def
      split: if_splits Option.bind_splits dest!: getDate_mp mp_shown_drawing)

lemma copy_to_video_mp: "copy_to_video s = Some s' \<Longrightarrow> mp_shown s' = mp_shown s"
  by (auto simp: copy_to_video_def split: Option.bind_splits)

section \<open>One event\<close>

definition tame :: "'d env \<Rightarrow> ('d, 'z) simon_st_scheme \<Rightarrow> bool" where
  "tame E s \<longleftrightarrow> (case mode s of
       MENU \<Rightarrow> count s < 2147483647
     | NUM_ROUNDS \<Rightarrow> got_key_press s \<and> key (keyboard_packet s) = ENTER \<longrightarrow>
         malloc E (4 * uint (num_rounds_value s)) (dev s) \<noteq> None
     | GAME \<Rightarrow> (got_mouse_packet s \<longrightarrow> game_end s \<or> \<not> vs_overflow s) \<and>
         (rtc_interrupt s \<longrightarrow> \<not> stale_timeout s \<and> (got_mouse_packet s \<and> \<not> game_end s \<longrightarrow> time_left_for_click s \<noteq> 0))
     | HIGHSCORE \<Rightarrow> got_key_press s \<and> \<not> down (keyboard_packet s) \<longrightarrow> name_key_ok E (key (keyboard_packet s)) s
     | MP_GAME \<Rightarrow> serial_tame E s
     | _ \<Rightarrow> True)"

text \<open>The invariant of both games and the screens.\<close>

definition all_ok :: "('d, 'z) menu_st_scheme \<Rightarrow> bool" where
  "all_ok s \<longleftrightarrow> prog_ok s \<and> mp_ok s"

lemma all_okI: "prog_ok s' \<Longrightarrow> mp_shown s' = mp_shown s \<Longrightarrow> all_ok s \<Longrightarrow> all_ok s'"
  using mp_ok_shown [of s' s] by (simp add: all_ok_def)

lemma in_mp_all_ok: "in_mp s \<Longrightarrow> all_ok s"
  by (auto simp: in_mp_def all_ok_def prog_ok_def mode_ok_def)

lemma all_ok_in_mp: "all_ok s \<Longrightarrow> mode s = MP_GAME \<Longrightarrow> in_mp s"
  by (simp add: in_mp_def all_ok_def prog_ok_def)

lemma all_ok_only_buffer: "only_buffer s s' \<Longrightarrow> all_ok s \<Longrightarrow> all_ok s'"
  using prog_ok_only_buffer mp_shown_only_buffer all_okI all_ok_def by blast

lemma back_to_menu_all_ok:
  "all_ok s \<Longrightarrow> all_ok (how_to_play_update_status k s)" "all_ok s \<Longrightarrow> all_ok (leaderboard_update_status k s)"
  by (simp_all add: how_to_play_update_status_def leaderboard_update_status_def all_ok_def prog_ok_MENU)

lemma rounds_event_ok:
  assumes a: "all_ok s" and m: "mode s = NUM_ROUNDS" and t: "tame E s"
  shows "\<exists>s'. screen_event E s = Some s' \<and> all_ok s'"
proof -
  have p: "prog_ok s" using a by (simp add: all_ok_def)
  obtain s1 where s1: "draw_num_of_rounds_graphics E s = Some s1" "only_buffer s s1" "prog_ok s1"
    using draw_rounds_prog [OF p m] by blast
  have a1: "all_ok s1" by (rule all_ok_only_buffer [OF s1(2) a])
  obtain b where b: "s1 = s\<lparr>buffer := b\<rparr>" using s1(2) by (rule only_bufferE)
  show ?thesis
  proof (cases "got_key_press s")
    case True
    have c: "key (keyboard_packet s1) = ENTER \<Longrightarrow> malloc E (4 * uint (num_rounds_value s1)) (dev s1) \<noteq> None"
      using t m True by (simp add: tame_def b)
    obtain s2 where s2: "number_of_rounds_update_status E (keyboard_packet s1) s1 = Some s2" "prog_ok s2"
      using rounds_key_ok [OF s1(3) _ c] m by (auto simp: b)
    have "mp_ok s2" by (rule rounds_key_mp [OF s1(3) _ _ c s2(1)]) (use a1 m in \<open>simp_all add: b all_ok_def\<close>)
    then show ?thesis using s1(1) s2 m True b by (simp add: screen_event_def all_ok_def)
  next
    case False
    then show ?thesis using s1(1) a1 m b by (simp add: screen_event_def)
  qed
qed

lemma highscore_event_ok:
  assumes a: "all_ok s" and m: "mode s = HIGHSCORE" and t: "tame E s"
  shows "\<exists>s'. screen_event E s = Some s' \<and> all_ok s'"
proof -
  have p: "prog_ok s" using a by (simp add: all_ok_def)
  obtain s1 where s1: "draw_highscore_graph E s = Some s1" "only_buffer s s1" "prog_ok s1"
    using draw_highscore_prog [OF p] by blast
  then obtain b where b: "s1 = s\<lparr>buffer := b\<rparr>" by (auto elim: only_bufferE)
  have a1: "all_ok s1" by (rule all_ok_only_buffer [OF s1(2) a])
  have "name_key_ok E c s1" if "name_key_ok E c s" for c
    using that get_date_dev [of E s _ s1] by (auto simp: name_key_ok_def b split: option.splits)
  then have "got_key_press s \<Longrightarrow> \<exists>s2. highscore_update_status E (keyboard_packet s1) s1 = Some s2 \<and> prog_ok s2"
    using highscore_key_ok [OF s1(3), of "keyboard_packet s1" E] t m by (simp add: tame_def b)
  then show ?thesis using s1(1) a1 m all_okI [OF _ highscore_mp [of E "keyboard_packet s1" s1] a1] by (auto simp: screen_event_def b)
qed

lemma screen_event_ok:
  assumes a: "all_ok s" and m: "img_ok (xpm_load E ''mouse_xpm'' XPM_5_6_5)" and t: "tame E s"
  shows "\<exists>s'. screen_event E s = Some s' \<and> all_ok s'"
proof -
  have p: "prog_ok s" using a by (simp add: all_ok_def)
  show ?thesis
  proof (cases "mode s")
    case MENU
    then show ?thesis using menu_case_ok [OF p MENU] t all_okI [OF _ menu_case_mp a] by (auto simp: screen_event_def tame_def)
  next
    case HOW_TO_PLAY
    obtain s1 where "draw_screen 5 s = Some s1" "only_buffer s s1" using draw_screen_prog [OF p, of 5] by auto
    then show ?thesis using all_ok_only_buffer [OF _ a] back_to_menu_all_ok(1) [of s1] HOW_TO_PLAY
      by (simp add: screen_event_def draw_how_to_play_graphics_def)
  next
    case LEADERBOARD
    obtain s1 where "draw_leaderboard_graphics E s = Some s1" "only_buffer s s1" using draw_leaderboard_prog [OF p] by blast
    then show ?thesis using all_ok_only_buffer [OF _ a] back_to_menu_all_ok(2) [of s1] LEADERBOARD by (simp add: screen_event_def)
  next
    case NUM_ROUNDS
    then show ?thesis using rounds_event_ok [OF a _ t] by simp
  next
    case GAME
    then show ?thesis using game_case_ok [OF p GAME m] t all_okI [OF _ game_case_mp a] by (auto simp: screen_event_def tame_def)
  next
    case HIGHSCORE
    then show ?thesis using highscore_event_ok [OF a _ t] by simp
  next
    case HOST
    obtain s1 where s1: "draw_host_graphics s = Some s1" "only_buffer s s1" "prog_ok s1"
      using draw_host_prog [OF p] by blast
    then have "mode s1 = HOST" using HOST by (auto elim: only_bufferE)
    then show ?thesis using s1 host_ok [OF s1(3)] HOST all_ok_only_buffer [OF s1(2) a] host_mp [of s1 E "keyboard_packet s1"]
      by (simp add: screen_event_def all_ok_def)
  next
    case MP_GAME
    then show ?thesis using mp_game_case_ok [OF all_ok_in_mp [OF a] m] t in_mp_all_ok by (auto simp: screen_event_def tame_def)
  next
    case EXIT
    then show ?thesis using a by (simp add: screen_event_def)
  qed
qed

lemma event_handler_ok:
  assumes "all_ok s" "img_ok (xpm_load E ''mouse_xpm'' XPM_5_6_5)" "tame E s"
  shows "\<exists>exit s'. event_handler E s = Some (exit, s') \<and> all_ok s'"
proof -
  obtain s1 where s1: "screen_event E s = Some s1" "all_ok s1" using screen_event_ok [OF assms] by blast
  then obtain s2 where s2: "copy_to_video s1 = Some s2" "prog_ok s2" using copy_to_video_ok by (auto simp: all_ok_def)
  then have "all_ok s2" using all_okI [OF _ copy_to_video_mp s1(2)] by blast
  then show ?thesis using s1(1) s2(1) by (auto simp: event_handler_def Let_def)
qed

section \<open>The interrupt loop\<close>

lemma keyboard_handler_shown: "shown (snd (keyboard_handler E k s)) = shown s" "mouse_inv (snd (keyboard_handler E k s)) = mouse_inv s"
  by (simp_all add: keyboard_handler_def kbc_ih_def Let_def split_beta inb.snd_op shown_def bufs_def names_def mouse_inv_def)

lemma mouse_handler_shown: "mouse_handler E pk s = Some (r, s') \<Longrightarrow> shown s' = shown s"
  by (auto simp: mouse_handler_def mouse_assemble_def mouse_get_state_def Let_def split_beta inb.snd_op shown_def bufs_def names_def
      split: if_splits)

lemma shown_flags [simp]:
  "shown (s\<lparr>dev := d\<rparr>) = shown s" "shown (s\<lparr>keyboard_packet := k\<rparr>) = shown s" "shown (s\<lparr>got_key_press := b\<rparr>) = shown s"
  "shown (s\<lparr>mouse_packet := pk\<rparr>) = shown s" "shown (s\<lparr>got_mouse_packet := b\<rparr>) = shown s"
  "shown (s\<lparr>timer_interrupt := b\<rparr>) = shown s" "shown (s\<lparr>rtc_interrupt := b\<rparr>) = shown s"
  "shown (s\<lparr>data_packet := w\<rparr>) = shown s" "shown (s\<lparr>uart_type_interrupt := w\<rparr>) = shown s" "shown (s\<lparr>uart_interrupt := b\<rparr>) = shown s"
  by (simp_all add: shown_def bufs_def names_def)

lemma mouse_inv_flags [simp]:
  "mouse_inv (s\<lparr>dev := d\<rparr>) = mouse_inv s" "mouse_inv (s\<lparr>keyboard_packet := k\<rparr>) = mouse_inv s" "mouse_inv (s\<lparr>got_key_press := b\<rparr>) = mouse_inv s"
  "mouse_inv (s\<lparr>mouse_packet := pk\<rparr>) = mouse_inv s" "mouse_inv (s\<lparr>got_mouse_packet := b\<rparr>) = mouse_inv s"
  "mouse_inv (s\<lparr>timer_interrupt := b\<rparr>) = mouse_inv s" "mouse_inv (s\<lparr>rtc_interrupt := b\<rparr>) = mouse_inv s"
  "mouse_inv (s\<lparr>data_packet := w\<rparr>) = mouse_inv s" "mouse_inv (s\<lparr>uart_type_interrupt := w\<rparr>) = mouse_inv s" "mouse_inv (s\<lparr>uart_interrupt := b\<rparr>) = mouse_inv s"
  by (simp_all add: mouse_inv_def)

lemma dispatch_ok:
  assumes "mouse_inv s"
  shows "\<exists>s'. dispatch E irqs ints s = Some s' \<and> shown s' = shown s \<and> mouse_inv s'"
proof -
  let ?s1 = "if truth (ints AND keyboard_irq_set irqs) then
       let ((r, k), s) = keyboard_handler E (keyboard_packet s) s in s\<lparr>keyboard_packet := k, got_key_press := r\<rparr>
     else s\<lparr>got_key_press := False, keyboard_packet := (keyboard_packet s)\<lparr>key := CHR 0x00\<rparr>\<rparr>"
  have s1: "shown ?s1 = shown s" "mouse_inv ?s1"
    using assms by (simp_all add: Let_def split_beta keyboard_handler_shown)
  have "\<exists>s2. (if truth (ints AND mouse_irq_set irqs) then
       do { ((r, pk), s) \<leftarrow> mouse_handler E (mouse_packet ?s1) ?s1; Some (s\<lparr>mouse_packet := pk, got_mouse_packet := r\<rparr>) }
     else Some (?s1\<lparr>got_mouse_packet := False\<rparr>)) = Some s2 \<and> shown s2 = shown s \<and> mouse_inv s2"
    using mouse_handler_safe [OF s1(2), of E "mouse_packet ?s1"] s1 mouse_handler_shown [of E "mouse_packet ?s1" ?s1]
    by (cases "truth (ints AND mouse_irq_set irqs)") (force, simp)
  then obtain s2 where s2: "(if truth (ints AND mouse_irq_set irqs) then
       do { ((r, pk), s) \<leftarrow> mouse_handler E (mouse_packet ?s1) ?s1; Some (s\<lparr>mouse_packet := pk, got_mouse_packet := r\<rparr>) }
     else Some (?s1\<lparr>got_mouse_packet := False\<rparr>)) = Some s2" "shown s2 = shown s" "mouse_inv s2" by blast
  show ?thesis
    unfolding dispatch_def Let_def [of ?s1] s2(1) using s2(2,3)
    by (simp add: Let_def split_beta rtc_int.snd_op uart_int.snd_op)
qed

text \<open>
  One iteration of the loop with the interrupts it receives as its event: the iteration is tame
  where the state its handlers leave is.
\<close>

definition loop_step :: "'d env \<Rightarrow> irq_sets \<Rightarrow> bool \<Rightarrow> ('d, 'z) simon_st_scheme \<Rightarrow> ('d, 'z) simon_st_scheme option" where
  "loop_step E irqs exit s = map_option snd (run_body E irqs exit s)"

definition tame_iteration :: "'d env \<Rightarrow> irq_sets \<Rightarrow> bool \<Rightarrow> ('d, 'z) simon_st_scheme \<Rightarrow> bool" where
  "tame_iteration E irqs exit s \<longleftrightarrow>
     (let ((r, notify, msg), d) = driver_receive E (dev s) in
      r = 0 \<and> notify \<and> m_source_hardware msg \<longrightarrow>
        (case dispatch E irqs (interrupts msg) (s\<lparr>dev := d\<rparr>) of None \<Rightarrow> True | Some s1 \<Rightarrow> tame E s1))"

lemma mp_shown_flags [simp]:
  "mp_shown (s\<lparr>keyboard_packet := k\<rparr>) = mp_shown s" "mp_shown (s\<lparr>got_key_press := b\<rparr>) = mp_shown s"
  "mp_shown (s\<lparr>mouse_packet := pk\<rparr>) = mp_shown s" "mp_shown (s\<lparr>got_mouse_packet := b\<rparr>) = mp_shown s"
  "mp_shown (s\<lparr>timer_interrupt := b\<rparr>) = mp_shown s" "mp_shown (s\<lparr>rtc_interrupt := b\<rparr>) = mp_shown s"
  "mp_shown (s\<lparr>data_packet := w\<rparr>) = mp_shown s" "mp_shown (s\<lparr>uart_type_interrupt := w\<rparr>) = mp_shown s"
  "mp_shown (s\<lparr>uart_interrupt := b\<rparr>) = mp_shown s"
  by (simp_all add: mp_shown_def mp_view_def)

lemma keyboard_handler_mp [simp]: "mp_shown (snd (keyboard_handler E k s)) = mp_shown s"
  by (simp add: keyboard_handler_def kbc_ih_def Let_def split_beta inb.snd_op mp_shown_def mp_view_def)

lemma mouse_handler_mp: "mouse_handler E pk s = Some (r, s') \<Longrightarrow> mp_shown s' = mp_shown s"
  by (auto simp: mouse_handler_def mouse_assemble_def mouse_get_state_def Let_def split_beta inb.snd_op mp_shown_def mp_view_def
      split: if_splits)

lemma dispatch_mp: "dispatch E irqs ints s = Some s' \<Longrightarrow> mp_shown s' = mp_shown s"
  by (auto simp: dispatch_def Let_def split_beta rtc_int.snd_op uart_int.snd_op split: if_splits Option.bind_splits dest!: mouse_handler_mp)

lemma run_body_ok:
  assumes p: "all_ok s" and m: "img_ok (xpm_load E ''mouse_xpm'' XPM_5_6_5)" and t: "tame_iteration E irqs exit s"
  shows "\<exists>exit' s'. run_body E irqs exit s = Some (exit', s') \<and> all_ok s'"
proof -
  obtain r notify msg d where rc: "driver_receive E (dev s) = ((r, notify, msg), d)" by (metis prod_cases3 surj_pair)
  let ?s = "s\<lparr>dev := d\<rparr>"
  have mi: "mouse_inv ?s" using p prog_ok_mouse [of s] by (simp add: all_ok_def)
  have "prog_ok ?s" using prog_ok_shown [OF _ mi, of s] p by (simp add: all_ok_def)
  then have p0: "all_ok ?s" by (rule all_okI [OF _ _ p]) simp
  obtain s1 where s1: "dispatch E irqs (interrupts msg) ?s = Some s1" "shown s1 = shown ?s" "mouse_inv s1"
    using dispatch_ok [OF mi] by blast
  have p1: "all_ok s1"
    by (rule all_okI [OF prog_ok_shown [OF s1(2,3)] dispatch_mp [OF s1(1)] p0]) (use p0 in \<open>simp add: all_ok_def\<close>)
  show ?thesis
  proof (cases "r = 0 \<and> notify \<and> m_source_hardware msg")
    case True
    then have "tame E s1" using t rc s1(1) by (simp add: tame_iteration_def)
    then show ?thesis using event_handler_ok [OF p1 m] True rc s1(1) by (simp add: run_body_def Let_def)
  next
    case False
    then show ?thesis using p0 rc by (auto simp: run_body_def Let_def)
  qed
qed

text \<open>The invariant of the loop, for a machine whose cursor image can be drawn.\<close>

definition loop_inv :: "'d env \<Rightarrow> ('d, 'z) simon_st_scheme \<Rightarrow> bool" where
  "loop_inv E s \<longleftrightarrow> all_ok s \<and> img_ok (xpm_load E ''mouse_xpm'' XPM_5_6_5)"

interpretation main_loop: safe_machine "loop_step E irqs :: _ \<Rightarrow> ('d, 'z) simon_st_scheme \<Rightarrow> _" "loop_inv E" "tame_iteration E irqs"
proof
  fix s :: "('d, 'z) simon_st_scheme" and exit
  assume "loop_inv E s" and "tame_iteration E irqs exit s"
  then show "\<exists>s'. loop_step E irqs exit s = Some s' \<and> loop_inv E s'"
    using run_body_ok [of s E irqs exit] by (auto simp: loop_inv_def loop_step_def)
qed

end
