(* ===== verification/Program_Start.thy ===== *)
theory Program_Start
  imports Simon_Rules
begin

text \<open>
  The state the program starts in, as C initialises its globals: zero, the null pointer and the
  first member of an enumeration, but for the statics with an initialiser. Together with a
  small machine (one pixel, a free transmitter, a clock that stands still) it is where the
  theorems with hypotheses are applied.
\<close>

section \<open>The globals at program start\<close>

definition zero_image :: xpm_image_t where
  "zero_image = \<lparr>img_type = XPM_INDEXED, width = 0, height = 0, img_bytes = []\<rparr>"

definition zero_box :: text_box where
  "zero_box = \<lparr>char_prop = replicate MAX_TEXT_BOX_SIZE None, xi = 0, yi = 0, max_x = 0, min_x = 0, cursor_x = 0,
     char_size = 0, char_max_size = 0\<rparr>"

definition zero_winner :: cont_winner where
  "zero_winner = \<lparr>w_date = replicate 11 NUL, w_name = replicate 11 NUL, int_score = 0\<rparr>"

definition zero_mouse :: mouse_state where
  "zero_mouse = \<lparr>x_pos = 0, y_pos = 0, left_hold = False, left_click = False\<rparr>"

definition zero_packet :: packet where
  "zero_packet = \<lparr>pk_bytes = [0, 0, 0], rb = False, mb = False, lb = False, delta_x = 0, delta_y = 0, x_ov = False, y_ov = False\<rparr>"

definition init_state :: "'d \<Rightarrow> 'd simon_st" where
  "init_state d =
     \<lparr>dev = d,
      kbc_ih_output = 0, kbc_ih_stat_reg = 0, kbc_ih_err = False, kbc_ih_obf = False, kbc_ih_ibf = False,
      assemblied_word = False, kbd_bytes = (0, 0),
      m_kbc_ih_output = 0, m_kbc_ih_err = False, m_kbc_ih_obf = False, m_kbc_ih_ibf = False, m_kbc_ih_aux = False,
      mouse_bytes = [0, 0, 0], byte_count = 0,
      timer_freq_counter = 0, timer_hook_id = 0,
      letters = replicate 28 zero_image, numbers = replicate 10 zero_image, lilletters = replicate 27 zero_image,
      lilnumbers = replicate 10 zero_image, mouse_img = zero_image,
      bppixel = 0, x_res = 0, y_res = 0, bytes_per_pixel = 0, vram_base = 0, vram_size = 0, video_mem = [], buffer = [],
      screens = replicate 26 zero_image, mode = MENU,
      dummy = zero_winner, leaderboard = replicate 5 zero_winner, newWinner = zero_winner,
      new_hiscore = zero_box, player = replicate 11 NUL,
      ws = WINNER1, buttons = Null, ps = DEFAULT, mouse = zero_mouse, buttons_size = 0, player_score = 0,
      max_buttons_size = 0, is_player_1 = False, guessed = 0, time_left_for_click = 0, game_end = False,
      VS_was_pressed = False, is_vs_round = False, counter_number = zero_image, counter_previous_time = - 1,
      round_round = - 1, round_text = zero_box,
      mp_ws = WINNER1, mp_buttons = Null, mp_ps = DEFAULT, mp_mouse = zero_mouse, mp_buttons_size = 0,
      mp_player_score = 0, mp_max_buttons_size = 0, mp_is_player_1 = False, is_host = False, mp_guessed = 0,
      mp_time_left_for_click = 0, time_left_for_screen = 0, mp_game_end = False, mp_VS_was_pressed = False,
      VS_screen = False, mp_is_vs_round = False, game_started = False, uart_data = 0, uart_has_data_to_send = False,
      received_no_bytes = 0, num_round_sent_bytes = 0, received_byte = 0, mp_counter_number = zero_image,
      mp_counter_previous_time = - 1, mp_round_round = - 1, mp_round_text = zero_box,
      num_rounds = zero_box, num_rounds_value = 0, is_mp = False, host_position = 0, position = 0,
      mouse_packet = zero_packet, keyboard_packet = \<lparr>key = NUL, down = False\<rparr>, data_packet = 0,
      got_mouse_packet = False, got_key_press = False, timer_interrupt = False, rtc_interrupt = False,
      uart_interrupt = False, uart_type_interrupt = 0, count = 0\<rparr>"

section \<open>A small machine\<close>

definition dot :: xpm_image_t where
  "dot = \<lparr>img_type = XPM_5_6_5, width = 1, height = 1, img_bytes = [1, 0]\<rparr>"

text \<open>
  Every port reads 0 but the line status register, which says that the transmitter is free;
  every request for memory is granted with sixteen bytes to spare; the disk is one file.
\<close>

definition small_env :: "string env" where
  "small_env =
     \<lparr>sys_inb = (\<lambda>port d. ((0, if port = COM1 + LSR then 0x20 else 0), d)),
      sys_outb = (\<lambda>port v d. (0, d)),
      sys_irqsetpolicy = (\<lambda>irq policy hook d. ((0, hook), d)),
      sys_irqrmpolicy = (\<lambda>hook d. (0, d)), sys_irqenable = (\<lambda>hook d. (0, d)), sys_irqdisable = (\<lambda>hook d. (0, d)),
      micros_to_ticks = (\<lambda>us. us), tickdelay = (\<lambda>ticks d. d), rand = (\<lambda>d. (1, d)), srand_time = (\<lambda>d. d),
      malloc = (\<lambda>n d. Some (nat n + 16)), uninit = (\<lambda>d. 0),
      read_file = (\<lambda>path d. Some d), write_file = (\<lambda>path text d. Some text),
      xpm_load = (\<lambda>name ty. dot), xpm_transparency_color = (\<lambda>ty. 0),
      vbe_get_mode_info = (\<lambda>mode d. (\<lparr>XResolution = 1, YResolution = 1, BitsPerPixel = 16, MemoryModel = 6,
        RedMaskSize = 5, RedFieldPosition = 11, GreenMaskSize = 6, GreenFieldPosition = 5, BlueMaskSize = 5, BlueFieldPosition = 0, PhysBasePtr = 0\<rparr>, d)),
      sys_int86 = (\<lambda>ah al bx intno d. (0, d)), sys_privctl_add_mem = (\<lambda>lo hi d. (0, d)),
      vm_map_phys_ok = (\<lambda>base sz d. (True, d)), vg_exit = (\<lambda>d. (0, d)),
      driver_receive = (\<lambda>d. ((0, False, \<lparr>m_source_hardware = False, interrupts = 0\<rparr>), d))\<rparr>"

lemma small_env_fields [simp]:
  "sys_inb small_env port d = ((0, if port = COM1 + LSR then 0x20 else 0), d)" "sys_outb small_env port v d = (0, d)"
  "rand small_env d = (1, d)" "srand_time small_env d = d" "malloc small_env n d = Some (nat n + 16)"
  "uninit small_env d = 0" "read_file small_env path d = Some d" "write_file small_env path txt d = Some txt"
  "xpm_load small_env name ty = dot"
  "driver_receive small_env d = ((0, False, \<lparr>m_source_hardware = False, interrupts = 0\<rparr>), d)"
  by (simp_all add: small_env_def)

text \<open>The state with the video mode set and the images loaded.\<close>

definition small_state :: "string simon_st" where
  "small_state = load_props small_env
     ((init_state '''')\<lparr>bppixel := 16, x_res := 1, y_res := 1, bytes_per_pixel := 2, vram_size := 2,
                       video_mem := [0, 0], buffer := [0, 0]\<rparr>)"

lemma small_state_eq:
  "small_state = (init_state '''')\<lparr>bppixel := 16, x_res := 1, y_res := 1, bytes_per_pixel := 2, vram_size := 2,
     video_mem := [0, 0], buffer := [0, 0], screens := replicate 26 dot, letters := replicate 28 dot,
     numbers := replicate 10 dot, lilletters := replicate 27 dot, lilnumbers := replicate 10 dot\<rparr>"
proof -
  have l: "load_xpms small_env ns = replicate (length ns) dot" for ns
    by (induction ns) (simp_all add: load_xpms_def)
  have n: "length screen_xpms = 26" by (simp add: screen_xpms_def)
  show ?thesis
    by (simp add: small_state_def load_props_def loadscreens_def loadnums_def loadlet_def loadlilnums_def loadlilet_def
        l n Let_def init_state_def)
qed

lemma small_gfx_ok: "gfx_ok small_state"
  by (simp add: small_state_eq init_state_def gfx_ok_def glyphs_ok_def props_ok_def bytes_per_pixel_ceil_def
      img_ok_def dot_def list_all_iff)

lemma small_screens_ok: "screens_ok small_state"
  by (simp add: small_state_eq init_state_def screens_ok_def dot_def list_all_iff)

end
