(* ===== verification/Program_Run.thy ===== *)
theory Program_Run
  imports Loop_Safety Program_Start
begin

text \<open>
  The program from its start: what the first part of \<open>proj_main_loop\<close> and \<open>run\<close> sets up, and that
  the interrupt loop is entered in its invariant, on a machine with the video mode, the images,
  the memory and the file the code relies on.
\<close>

section \<open>Up to the loop\<close>

text \<open>
  The state \<open>run\<close> enters its loop with, and the notification numbers it keeps: \<open>None\<close> for
  undefined behaviour, \<open>Some None\<close> where the program gives up before the loop.
\<close>

definition boot :: "'d env \<Rightarrow> ('d, 'z) simon_st_scheme \<Rightarrow> ((irq_sets \<times> int \<times> int \<times> int) \<times> ('d, 'z) simon_st_scheme) option option" where
  "boot E s =
     do { s \<leftarrow> retrieveData E s;
          Some (case get_mode_info E 0x114 s of
             Inl msg \<Rightarrow> None
           | Inr (r, s) \<Rightarrow>
               if r = 1 then None
               else let (r, s) = set_vbe_mode E 0x114 s in
                 if r = 1 then None else Some (subscribe_all E (load_props E s))) }"

lemma proj_main_loop_boot:
  assumes "boot E s = Some (Some ((irqs, k, m, r), s0))"
  shows "proj_main_loop E s =
    do { s \<leftarrow> run_loop E irqs False s0; map_option Inr (saveData E (unsubscribe_all E k m r s)) }"
proof -
  obtain s1 where s1: "retrieveData E s = Some s1" using assms by (cases "retrieveData E s") (simp_all add: boot_def)
  obtain q s2 where s2: "get_mode_info E 0x114 s1 = Inr (q, s2)" "q \<noteq> 1"
    using assms s1 by (auto simp: boot_def split: sum.splits if_splits)
  obtain p s3 where s3: "set_vbe_mode E 0x114 s2 = (p, s3)" "p \<noteq> 1" "subscribe_all E (load_props E s3) = ((irqs, k, m, r), s0)"
    using assms s1 s2 by (auto simp: boot_def Let_def split: prod.splits if_splits)
  show ?thesis by (cases "run_loop E irqs False s0") (simp_all add: proj_main_loop_def run_def s1 s2 s3 Let_def)
qed

section \<open>What the program relies on\<close>

text \<open>
  The file holds five entries as \<open>saveData\<close> writes them; the mode has whole bytes per pixel and
  a memory that can be addressed and allocated; the glyphs and the cursor have all their
  pixels, and the screens are as large as the buffer.
\<close>

definition stored_board :: "'d env \<Rightarrow> 'd \<Rightarrow> bool" where
  "stored_board E d \<longleftrightarrow> (\<exists>ws t. length ws = SIZE \<and> list_all entry_ok ws \<and> list_all (\<lambda>w. 0 \<le> int_score w \<and> int_score w < 1000) ws \<and>
     board_text ws = Some t \<and> read_file E leaderboard_txt d = Some t)"

definition mode_bytes :: "vbe_mode_info_t \<Rightarrow> nat" where
  "mode_bytes info = unat (XResolution info) * unat (YResolution info) * (unat (BitsPerPixel info) div 8)"

definition video_ok :: "'d env \<Rightarrow> 'd \<Rightarrow> bool" where
  "video_ok E d \<longleftrightarrow> (let info = fst (vbe_get_mode_info E 0x114 d) in
     8 dvd unat (BitsPerPixel info) \<and> mode_bytes info < 2 ^ 32 \<and> (\<forall>d. malloc E (int (mode_bytes info)) d \<noteq> None))"

definition images_ok :: "'d env \<Rightarrow> nat \<Rightarrow> bool" where
  "images_ok E n \<longleftrightarrow> list_all img_ok (xpm_load E ''mouse_xpm'' XPM_5_6_5 # load_xpms E (letter_xpms @ number_xpms @ lilletter_xpms @ lilnumber_xpms)) \<and>
     list_all (\<lambda>img. n \<le> length (img_bytes img)) (load_xpms E screen_xpms)"

definition machine_ok :: "'d env \<Rightarrow> 'd \<Rightarrow> bool" where
  "machine_ok E d \<longleftrightarrow> stored_board E d \<and> video_ok E d \<and> images_ok E (mode_bytes (fst (vbe_get_mode_info E 0x114 d)))"

section \<open>The steps\<close>

lemma cstr_some_NUL: "cstr a = Some w \<Longrightarrow> NUL \<in> set a"
  by (auto simp: cstr_def split: if_splits)

lemma view_showable:
  assumes "map entry_view es' = map entry_view es" "list_all entry_ok es" "list_all (\<lambda>w. 0 \<le> int_score w \<and> int_score w < 1000) es"
  shows "list_all showable es'"
proof (simp add: list_all_length, intro allI impI)
  fix i assume "i < length es'"
  moreover have "length es' = length es" using assms(1) map_eq_imp_length_eq by blast
  ultimately have i: "i < length es" "entry_view (es' ! i) = entry_view (es ! i)" using assms(1) by (metis nth_map)+
  then have "entry_ok (es ! i)" "0 \<le> int_score (es ! i)" "int_score (es ! i) < 1000" using assms(2,3) by (simp_all add: list_all_length)
  moreover from this obtain n d where "cstr (w_name (es ! i)) = Some n" "cstr (w_date (es ! i)) = Some d"
    unfolding entry_ok_def by (metis word_arrayE)
  ultimately show "showable (es' ! i)" using i(2) by (auto simp: showable_def entry_view_def dest: cstr_some_NUL)
qed

lemma unat_widen:
  "unat (ucast x :: u32) = unat x" "unat (ucast y :: u32) = unat y" for x :: u16 and y :: u8
  by (simp_all add: unsigned_ucast_eq take_bit_nat_eq_self unsigned_less [THEN less_trans])

lemma unat_product: "unat x * unat y * unat z < 2 ^ 32 \<Longrightarrow> unat (x * y * z) = unat x * unat y * unat z" for x y z :: u32
  by (simp add: unat_word_ariths mod_mult_left_eq)

lemma pixel_ceil: "8 dvd unat b \<Longrightarrow> unat (bytes_per_pixel_ceil (ucast b)) = unat (ucast b div 8 :: u32)" for b :: u8
proof -
  assume "8 dvd unat b"
  then obtain k where k: "unat b = 8 * k" by blast
  have "unat b < 2 ^ LENGTH(8)" by (rule unsigned_less)
  then have "8 * k < 256" using k by simp
  then show ?thesis using k by (simp add: bytes_per_pixel_ceil_def unat_widen unat_div unat_of_nat)
qed

lemma mode_info_gfx:
  assumes v: "video_ok E (dev s)" and g: "get_mode_info E 0x114 s = Inr (r, s')"
  defines "n \<equiv> mode_bytes (fst (vbe_get_mode_info E 0x114 (dev s)))"
  shows "n < 2 ^ 32 \<and> (\<exists>d xr yr bpp bytes vb vs vm bf. s' = s\<lparr>dev := d, x_res := xr, y_res := yr, bppixel := bpp, bytes_per_pixel := bytes,
      vram_base := vb, vram_size := vs, video_mem := vm, buffer := bf\<rparr> \<and> unat xr * unat yr * unat bytes = n \<and> length bf = n \<and> length vm = n \<and>
      unat (bytes_per_pixel_ceil bpp) = unat bytes)"
proof -
  obtain info d where i: "vbe_get_mode_info E 0x114 (dev s) = (info, d)" by fastforce
  obtain x y b p :: u32 where w: "ucast (XResolution info) = x" "ucast (YResolution info) = y" "ucast (BitsPerPixel info) = p" "p div 8 = b" by blast
  have n: "n = mode_bytes info" "8 dvd unat (BitsPerPixel info)" "n < 2 ^ 32" "malloc E (int n) d' \<noteq> None" for d'
    using v by (simp_all add: n_def video_ok_def i)
  have e: "unat x * unat y * unat b = n" by (simp add: n(1) mode_bytes_def flip: w) (simp add: unat_widen unat_div)
  then have u: "unat (x * y * b) = n" using unat_product n(3) by metis
  obtain q d1 where q: "sys_privctl_add_mem E (PhysBasePtr info) (PhysBasePtr info + x * y * b) d = (q, d1)" by fastforce
  obtain ok d2 where ok: "vm_map_phys_ok E (PhysBasePtr info) (x * y * b) d1 = (ok, d2)" by fastforce
  have "s' = s\<lparr>dev := d2, x_res := x, y_res := y, bppixel := p, bytes_per_pixel := b, vram_base := PhysBasePtr info,
      vram_size := x * y * b, video_mem := replicate n (uninit E d2), buffer := replicate n (uninit E d2)\<rparr>"
    using g n(4) by (auto simp: get_mode_info_def i w q ok u Let_def split: if_splits)
  moreover have "unat (bytes_per_pixel_ceil p) = unat b" using pixel_ceil [OF n(2)] by (simp add: w)
  ultimately show ?thesis using e n(3) by (intro conjI exI) auto
qed

lemma load_props_eq:
  "load_props E s = s\<lparr>dev := srand_time E (dev s), screens := load_xpms E screen_xpms, mode := MENU, numbers := load_xpms E number_xpms,
     letters := load_xpms E letter_xpms, lilnumbers := load_xpms E lilnumber_xpms, lilletters := load_xpms E lilletter_xpms\<rparr>"
  by (simp add: load_props_def loadscreens_def loadnums_def loadlet_def loadlilnums_def loadlilet_def Let_def)

text \<open>
  The subscriptions change the device, the hook of the timer and what the drivers have last read
  from the controller, and nothing of the program above them.
\<close>

definition upper :: "('d, 'z) timer_st_scheme \<Rightarrow> u8 list \<times> int \<times> 'z" where
  "upper s = (mouse_bytes s, byte_count s, timer_st.more s)"

lemma upper_dev [simp]: "upper (s\<lparr>dev := d\<rparr>) = upper s" "upper (s\<lparr>timer_hook_id := h\<rparr>) = upper s"
  by (simp_all add: upper_def)

lemma upper_mouse [simp]: "upper (mouse_get_state E s) = upper s" "upper (mouse_delay E s) = upper s"
  by (simp_all add: upper_def mouse_get_state_def mouse_delay_def Let_def split_beta inb.snd_op)

lemma upper_write_loop: "upper (snd (mouse_write_byte_loop E b n s)) = upper s"
  by (induction E b n s rule: mouse_write_byte_loop.induct)
    (simp_all add: Let_def mouse_write_byte_ack_def split_beta inb.snd_op out_def outb_def)

lemma upper_write_args: "upper (snd (mouse_write_args E args s)) = upper s"
  by (induction args arbitrary: s) (simp_all add: split_beta mouse_write_byte_def upper_write_loop)

lemma upper_write_command: "upper (snd (mouse_write_command E c args r h s)) = upper s"
  by (simp add: mouse_write_command_def mouse_write_byte_def Let_def split_beta upper_write_loop upper_write_args)

lemma upper_try: "upper (snd (try_mouse_operation E c args r h n s)) = upper s"
  by (induction n arbitrary: r s) (simp_all add: Let_def split_beta upper_write_command)

lemma upper_reporting [simp]: "upper (snd (mouse_data_reporting_enable E s)) = upper s"
  by (simp add: mouse_data_reporting_enable_def split_beta upper_try)

lemma upper_timer [simp]: "upper (snd (timer_subscribe_int E s)) = upper s"
  by (simp add: timer_subscribe_int_def Let_def split_beta)

lemma upper_clock [simp]:
  "upper (set_seconds_alarm E s) = upper s" "upper (enable_alarm_int E s) = upper s"
  "upper (disable_updates E s) = upper s" "upper (disable_periodic_int E s) = upper s"
  by (subst seconds_alarm.cmd_state enable_alarm.cmd_state disable_upd.cmd_state disable_per.cmd_state, simp)+

lemma upper_subscribe: "upper (snd (subscribe_all E s)) = upper s"
  by (simp add: subscribe_all_def Let_def split_beta kbd_sub.snd_op mouse_sub.snd_op rtc_sub.snd_op uart_sub.snd_op
      check_buf.snd_op serial_read.snd_op)

lemma upper_shown:
  fixes s s' :: "('d, 'z) simon_st_scheme"
  assumes "upper s' = upper s"
  shows "shown s' = shown s" "mp_shown s' = mp_shown s" "mouse_inv s' = mouse_inv s" "count s' = count s"
  using assms by (cases s; cases s'; simp add: upper_def shown_def bufs_def names_def mp_shown_def mp_view_def mouse_inv_def)+

section \<open>The invariant at the start of the loop\<close>

lemma loaded_ok:
  assumes i: "images_ok E n" and n: "length (buffer s) = n" "length (video_mem s) = n" "n < 2 ^ 32"
    and m: "unat (x_res s) * unat (y_res s) * unat (bytes_per_pixel s) = n" "unat (bytes_per_pixel_ceil (bppixel s)) = unat (bytes_per_pixel s)"
  shows "gfx_ok (load_props E s)" "screens_ok (load_props E s)"
  using assms by (simp_all add: load_props_eq gfx_ok_def glyphs_ok_def props_ok_def screens_ok_def images_ok_def load_xpms_def screen_xpms_def)

lemma zero_box_ok: "box_ok s zero_box"
  by (simp add: box_ok_def zero_box_def MAX_TEXT_BOX_SIZE_def)

text \<open>What the invariant asks of the globals that still have their initial values.\<close>

lemma fresh_ok:
  fixes s :: "'d simon_st"
  assumes g: "gfx_ok s" "screens_ok s" and l: "list_all showable (leaderboard s)" "length (leaderboard s) = SIZE" and m: "mode s = MENU"
    and f: "counter_number s = zero_image" "round_text s = zero_box" "new_hiscore s = zero_box" "player s = replicate 11 NUL"
      "mouse_bytes s = [0, 0, 0]" "byte_count s = 0" "mp_view s = mp_view (init_state d)" "mp_counter_number s = zero_image" "mp_round_text s = zero_box"
  shows "all_ok s"
proof -
  have z: "img_ok zero_image" by (simp add: img_ok_def zero_image_def)
  have "mp_core (init_state d)" by (simp add: mp_core_def mp_bounds_def init_state_def)
  then have "mp_core s" using mp_core_cong [OF f(7)] by simp
  then have "mp_ok s" using f z zero_box_ok by (simp add: mp_ok_def)
  moreover have "names_ok s" using f l zero_box_ok by (simp add: names_ok_def)
  then have "base_ok s" using g f z zero_box_ok by (simp add: base_ok_def statics_ok_def mouse_inv_def MOUSE_PACKET_SIZE_def)
  ultimately show ?thesis using m by (simp add: all_ok_def prog_ok_def mode_ok_def)
qed

lemma boot_loaded:
  fixes d :: 'd
  assumes m: "machine_ok E d" and l: "list_all showable es" "length es = SIZE"
    and s2: "get_mode_info E 0x114 ((loadDummySt (init_state d))\<lparr>leaderboard := es\<rparr>) = Inr (q, s2)"
  shows "all_ok (load_props E (s2\<lparr>dev := d'\<rparr>))" "count (load_props E (s2\<lparr>dev := d'\<rparr>)) = 0"
proof -
  let ?s1 = "(loadDummySt (init_state d))\<lparr>leaderboard := es\<rparr>"
  have dev: "dev ?s1 = d" by (simp add: loadDummySt_def init_state_def)
  let ?n = "mode_bytes (fst (vbe_get_mode_info E 0x114 d))"
  have v: "video_ok E (dev ?s1)" and i: "images_ok E ?n" using m dev by (simp_all add: machine_ok_def)
  obtain d2 xr yr bpp bytes vb vs vm bf where e: "s2 = ?s1\<lparr>dev := d2, x_res := xr, y_res := yr, bppixel := bpp, bytes_per_pixel := bytes,
      vram_base := vb, vram_size := vs, video_mem := vm, buffer := bf\<rparr>" and n: "?n < 2 ^ 32" "unat xr * unat yr * unat bytes = ?n"
      "length bf = ?n" "length vm = ?n" "unat (bytes_per_pixel_ceil bpp) = unat bytes"
    using mode_info_gfx [OF v s2] unfolding dev by blast
  have "gfx_ok (load_props E (s2\<lparr>dev := d'\<rparr>))" "screens_ok (load_props E (s2\<lparr>dev := d'\<rparr>))"
    by (rule loaded_ok [OF i _ _ n(1)]; simp add: e n)+
  then show "all_ok (load_props E (s2\<lparr>dev := d'\<rparr>))"
    by (rule fresh_ok [where d = d]) (use l in \<open>simp_all add: load_props_eq e loadDummySt_def mp_view_def\<close>, simp_all add: init_state_def)
  show "count (load_props E (s2\<lparr>dev := d'\<rparr>)) = 0" by (simp add: load_props_eq e loadDummySt_def init_state_def)
qed

lemma boot_ok:
  assumes m: "machine_ok E d"
  shows "\<exists>r. boot E (init_state d) = Some r \<and> (\<forall>irqs ns s0. r = Some ((irqs, ns), s0) \<longrightarrow> loop_inv E s0 \<and> mode s0 = MENU \<and> count s0 = 0)"
proof -
  obtain es t where es: "length es = SIZE" "list_all entry_ok es" "list_all (\<lambda>w. 0 \<le> int_score w \<and> int_score w < 1000) es"
      "board_text es = Some t" "read_file E leaderboard_txt d = Some t"
    using m by (auto simp: machine_ok_def stored_board_def)
  obtain es' where r: "retrieveData E (init_state d) = Some ((loadDummySt (init_state d))\<lparr>leaderboard := es'\<rparr>)"
      "map entry_view es' = map entry_view es"
    using retrieveData_text [OF es(2,4), of E "init_state d"] es(1,5) by (auto simp: init_state_def SIZE_def)
  have sh: "list_all showable es'" "length es' = SIZE"
    using view_showable [OF r(2) es(2,3)] map_eq_imp_length_eq [OF r(2)] es(1) by simp_all
  have "loop_inv E s0 \<and> mode s0 = MENU \<and> count s0 = 0" if b: "boot E (init_state d) = Some (Some ((irqs, ns), s0))" for irqs ns s0
  proof -
    obtain q s2 d' where s2: "get_mode_info E 0x114 ((loadDummySt (init_state d))\<lparr>leaderboard := es'\<rparr>) = Inr (q, s2)"
        "s0 = snd (subscribe_all E (load_props E (s2\<lparr>dev := d'\<rparr>)))"
      using b r(1) by (auto simp: boot_def set_vbe_mode_def Let_def split: sum.splits if_splits prod.splits) (metis snd_conv)+
    let ?s = "load_props E (s2\<lparr>dev := d'\<rparr>)"
    have a: "all_ok ?s" "count ?s = 0" by (rule boot_loaded [OF m sh s2(1)])+
    have u: "upper s0 = upper ?s" unfolding s2(2) by (rule upper_subscribe)
    have "mouse_inv s0" using a(1) upper_shown(3) [OF u] by (simp add: all_ok_def prog_ok_def base_ok_def)
    then have "prog_ok s0" using a(1) prog_ok_shown [OF upper_shown(1) [OF u]] by (simp add: all_ok_def)
    then have "all_ok s0" using a(1) mp_ok_shown [OF upper_shown(2) [OF u]] by (simp add: all_ok_def)
    moreover have "mode s0 = MENU" using upper_shown(1) [OF u] by (simp add: shown_def load_props_eq)
    moreover have "count s0 = 0" using upper_shown(4) [OF u] a(2) by simp
    moreover have "img_ok (xpm_load E ''mouse_xpm'' XPM_5_6_5)" using m by (simp add: machine_ok_def images_ok_def)
    ultimately show ?thesis by (simp add: loop_inv_def)
  qed
  moreover have "boot E (init_state d) \<noteq> None" by (simp add: boot_def r(1))
  ultimately show ?thesis by auto
qed

text \<open>The interrupt handlers do not count.\<close>

lemma mouse_handler_count: "mouse_handler E pk s = Some (r, s') \<Longrightarrow> count s' = count s" for s :: "('d, 'z) simon_st_scheme"
  by (auto simp: mouse_handler_def mouse_assemble_def mouse_get_state_def Let_def split_beta inb.snd_op split: if_splits)

lemma keyboard_handler_count [simp]: "count (snd (keyboard_handler E k s)) = count s" for s :: "('d, 'z) simon_st_scheme"
  by (simp add: keyboard_handler_def kbc_ih_def Let_def split_beta inb.snd_op)

lemma dispatch_count: "dispatch E irqs ints s = Some s' \<Longrightarrow> count s' = count s"
  by (auto simp: dispatch_def Let_def split_beta rtc_int.snd_op uart_int.snd_op split: if_splits Option.bind_splits
      dest!: mouse_handler_count)

lemma menu_tame:
  assumes "mode s = MENU" "count s < 2147483647"
  shows "tame_iteration E irqs exit s"
proof -
  have "tame E s1" if "dispatch E irqs ints (s\<lparr>dev := d\<rparr>) = Some s1" for s1 ints d
    using dispatch_mode [OF that] dispatch_count [OF that] assms by (simp add: tame_def)
  then show ?thesis by (auto simp: tame_iteration_def split: option.splits prod.splits)
qed

section \<open>The end of the program\<close>

text \<open>The state after so many iterations, where the loop goes on that long.\<close>

fun loop_n :: "'d env \<Rightarrow> irq_sets \<Rightarrow> nat \<Rightarrow> ('d, 'z) simon_st_scheme \<Rightarrow> ('d, 'z) simon_st_scheme option" where
  "loop_n E irqs 0 s = Some s"
| "loop_n E irqs (Suc n) s =
     do { (exit, s1) \<leftarrow> run_body E irqs False s; if exit \<or> scancode_is_esc_break s1 then None else loop_n E irqs n s1 }"

lemma loop_n_to: "loop_n E irqs n s = Some s' \<Longrightarrow> loop_to E irqs s s'"
  by (induction n arbitrary: s) (auto intro: loop_start loop_next split: Option.bind_splits if_splits)

lemma loop_to_trans: "loop_to E irqs s s1 \<Longrightarrow> loop_to E irqs s1 s2 \<Longrightarrow> loop_to E irqs s s2"
  by (induction rule: loop_to.induct) (auto intro: loop_next)

lemma tame_step:
  assumes "loop_inv E s" "tame_iteration E irqs False s"
  shows "\<exists>exit s'. run_body E irqs False s = Some (exit, s') \<and> loop_inv E s'"
  using assms run_body_ok by (auto simp: loop_inv_def)

lemma tame_loop_to:
  "loop_to E irqs s s1 \<Longrightarrow> loop_inv E s \<Longrightarrow> (\<And>t. loop_to E irqs s t \<Longrightarrow> tame_iteration E irqs False t) \<Longrightarrow> loop_inv E s1"
proof (induction rule: loop_to.induct)
  case (loop_next s s1 s2)
  then have "loop_inv E s1" using tame_step [OF loop_next.prems(1) loop_next.prems(2) [OF loop_start]] by auto
  then show ?case using loop_next loop_to.loop_next [OF loop_next.hyps(1,2)] by blast
qed

text \<open>A loop of tame iterations stops or goes on for ever: it is never stuck.\<close>

lemma loop_goes_on:
  assumes "loop_inv E s" "\<And>t. loop_to E irqs s t \<Longrightarrow> tame_iteration E irqs False t"
    "\<And>t s2. loop_to E irqs s t \<Longrightarrow> \<not> stops_at E irqs t s2"
  shows "loop_n E irqs n s \<noteq> None"
  using assms
proof (induction n arbitrary: s)
  case (Suc n)
  obtain exit s1 where r: "run_body E irqs False s = Some (exit, s1)" "loop_inv E s1"
    using tame_step [OF Suc.prems(1) Suc.prems(2) [OF loop_start]] by blast
  moreover have g: "\<not> exit" "\<not> scancode_is_esc_break s1" using Suc.prems(3) [OF loop_start] r(1) by (auto simp: stops_at_def)
  ultimately have "loop_to E irqs s1 t \<Longrightarrow> loop_to E irqs s t" for t by (auto intro: loop_next)
  then have "loop_n E irqs n s1 \<noteq> None" using Suc.IH [OF r(2)] Suc.prems(2,3) by blast
  then show ?case using r(1) g by simp
qed simp

lemma board_text_showable: "list_all showable es \<Longrightarrow> \<exists>t. board_text es = Some t"
proof (induction es)
  case (Cons w es)
  then show ?case by (auto simp: entry_text_def showable_def cstr_def)
qed simp

lemma unsubscribe_frame: "\<exists>d'. unsubscribe_all E k m r s = s\<lparr>dev := d'\<rparr>"
  by (auto simp: unsubscribe_all_def timer_unsubscribe_int_def Let_def split_beta kbd_unsub.snd_op mouse_unsub.snd_op rtc_unsub.cmd_state)

lemma save_ok:
  assumes a: "all_ok s" and w: "\<And>text d. write_file E leaderboard_txt text d \<noteq> None"
  shows "\<exists>t s3 d1. board_text (leaderboard s) = Some t \<and> saveData E (unsubscribe_all E k m r s) = Some s3 \<and>
    write_file E leaderboard_txt t d1 = Some (dev s3)"
proof -
  obtain d' where u: "unsubscribe_all E k m r s = s\<lparr>dev := d'\<rparr>" by (rule exE [OF unsubscribe_frame])
  obtain t where t: "board_text (leaderboard s) = Some t"
    using board_text_showable a by (auto simp: all_ok_def prog_ok_def base_ok_def names_ok_def)
  obtain d2 where "write_file E leaderboard_txt t d' = Some d2" using w by blast
  then show ?thesis using t by (auto simp: u saveData_def)
qed

lemma run_ends:
  assumes i: "loop_inv E s0" and t: "\<And>s. loop_to E irqs s0 s \<Longrightarrow> tame_iteration E irqs False s"
  shows "(\<exists>s1 s2. loop_to E irqs s0 s1 \<and> stops_at E irqs s1 s2 \<and> run_loop E irqs False s0 = Some s2 \<and> all_ok s2) \<or>
    (run_loop E irqs False s0 = None \<and> (\<forall>n. loop_n E irqs n s0 \<noteq> None))"
proof (cases "\<exists>s1 s2. loop_to E irqs s0 s1 \<and> stops_at E irqs s1 s2")
  case True
  then obtain s1 s2 where s: "loop_to E irqs s0 s1" "stops_at E irqs s1 s2" by blast
  have "loop_inv E s1" by (rule tame_loop_to [OF s(1) i t])
  then have "all_ok s2" using tame_step [OF _ t [OF s(1)]] s(2) by (auto simp: stops_at_def loop_inv_def)
  then show ?thesis using s run_loop_stops [OF s] by blast
next
  case False
  then have "run_loop E irqs False s0 = None" using run_loop_stopped [of E irqs False s0] by (cases "run_loop E irqs False s0") auto
  then show ?thesis using loop_goes_on [OF i t] False by blast
qed

text \<open>The byte of the keyboard that an iteration on the menu reads is the one the loop tests at its end.\<close>

lemma mouse_handler_kbd: "mouse_handler E pk s = Some (r, s') \<Longrightarrow> kbc_ih_output s' = kbc_ih_output s"
  by (auto simp: mouse_handler_def mouse_assemble_def mouse_get_state_def Let_def split_beta inb.snd_op split: if_splits)

lemma keyboard_handler_byte: "kbc_ih_output (snd (keyboard_handler E k s)) = kbc_ih_output (kbc_ih E s)"
  by (simp add: keyboard_handler_def Let_def split_beta)

lemma dispatch_byte:
  assumes "dispatch E irqs ints s = Some s1" "truth (ints AND keyboard_irq_set irqs)"
  shows "kbc_ih_output s1 = kbc_ih_output (kbc_ih E s)"
  using assms by (auto simp: dispatch_def Let_def split_beta rtc_int.snd_op uart_int.snd_op keyboard_handler_byte
      split: if_splits Option.bind_splits dest!: mouse_handler_kbd)

lemma drawn_kbd: "drawn s s' \<Longrightarrow> kbc_ih_output s' = kbc_ih_output s"
  by (auto simp: drawn_def)

lemma menu_event_byte:
  assumes "event_handler E s = Some (exit, s')" "mode s = MENU"
  shows "kbc_ih_output s' = kbc_ih_output s"
proof -
  obtain s1 where s1: "menu_case s = Some s1" "copy_to_video s1 = Some s'"
    using assms by (auto simp: event_handler_def screen_event_def Let_def split: Option.bind_splits)
  have "kbc_ih_output (menu_update_status k t) = kbc_ih_output t" for k and t :: "('a, 'b) simon_st_scheme"
    by (simp add: menu_update_status_def reset_number_of_rounds_def create_num_box_def Let_def)
  then have "kbc_ih_output s1 = kbc_ih_output s"
    using s1(1) by (auto simp: menu_case_def draw_menu_graphics_def inc_int_def Let_def
        split: if_splits Option.bind_splits dest!: draw_screen_drawn [THEN drawn_kbd])
  then show ?thesis using s1(2) by (auto simp: copy_to_video_def split: Option.bind_splits)
qed

lemma menu_escape:
  assumes b: "run_body E irqs False s = Some (exit, s')" and m: "mode s = MENU"
    and r: "driver_receive E (dev s) = ((0, True, msg), d)" "m_source_hardware msg" "truth (interrupts msg AND keyboard_irq_set irqs)"
    and k: "kbc_ih_output (kbc_ih E (s\<lparr>dev := d\<rparr>)) = ESC_BREAK_CODE"
  shows "scancode_is_esc_break s'"
proof -
  obtain s1 where s1: "dispatch E irqs (interrupts msg) (s\<lparr>dev := d\<rparr>) = Some s1" "event_handler E s1 = Some (exit, s')"
    using b r by (auto simp: run_body_def split: Option.bind_splits)
  have "mode s1 = MENU" using dispatch_mode [OF s1(1)] m by simp
  then show ?thesis using menu_event_byte [OF s1(2)] dispatch_byte [OF s1(1) r(3)] k by (simp add: scancode_is_esc_break_def)
qed

lemma subscribed_keyboard: "keyboard_irq_set (fst (fst (subscribe_all E s))) = 2"
  by (simp add: subscribe_all_def keyboard_subscribe_def irq_mask_def KBD_IRQ_def BIT_def Let_def split_beta)

end
