(* ===== verification/Program_Entry.thy ===== *)
theory Program_Entry
  imports Simon
begin

text \<open>
  The \<open>main\<close> functions of the game (\<open>src/proj/proj.c\<close>) and of the exercises. Each hands control to
  the course framework, LCF, which is not in the repository: its functions are the fields of the
  record \<open>lcf_entry\<close> over the state of the whole program. \<open>lcf_start\<close> parses the arguments and calls
  the function of the program they name, so it may panic (the left summand) and, as that function
  may be undefined or not return, it may have no outcome at all.
\<close>

section \<open>Data\<close>

record 's lcf_entry =
  lcf_set_language :: "string \<Rightarrow> 's \<Rightarrow> 's"
  lcf_trace_calls :: "string \<Rightarrow> 's \<Rightarrow> 's"
  lcf_log_output :: "string \<Rightarrow> 's \<Rightarrow> 's"
  lcf_start :: "string list \<Rightarrow> 's \<Rightarrow> (string + (int \<times> 's)) option"
  lcf_cleanup :: "'s \<Rightarrow> 's"

section \<open>The functions\<close>

text \<open>The statements from the call of \<open>lcf_start\<close> on, which all programs share.\<close>

definition start_and_cleanup :: "'s lcf_entry \<Rightarrow> string list \<Rightarrow> 's \<Rightarrow> (string + (int \<times> 's)) option" where
  "start_and_cleanup L argv s =
     (case lcf_start L argv s of
        None \<Rightarrow> None
      | Some (Inl msg) \<Rightarrow> Some (Inl msg)
      | Some (Inr (r, s)) \<Rightarrow> Some (Inr (if r \<noteq> 0 then (1, s) else (0, lcf_cleanup L s))))"

text \<open>The game does not trace its calls.\<close>

definition main :: "'s lcf_entry \<Rightarrow> string list \<Rightarrow> 's \<Rightarrow> (string + (int \<times> 's)) option" where
  "main L argv s =
     (let s = lcf_set_language L ''EN-US'' s;
          s = lcf_log_output L ''/home/lcom/labs/proj/code/output.txt'' s
      in start_and_cleanup L argv s)"

definition main_lab2 :: "'s lcf_entry \<Rightarrow> string list \<Rightarrow> 's \<Rightarrow> (string + (int \<times> 's)) option" where
  "main_lab2 L argv s =
     (let s = lcf_set_language L ''EN-US'' s;
          s = lcf_trace_calls L ''/home/lcom/labs/lab2/trace.txt'' s;
          s = lcf_log_output L ''/home/lcom/labs/lab2/output.txt'' s
      in start_and_cleanup L argv s)"

definition main_lab3 :: "'s lcf_entry \<Rightarrow> string list \<Rightarrow> 's \<Rightarrow> (string + (int \<times> 's)) option" where
  "main_lab3 L argv s =
     (let s = lcf_set_language L ''EN-US'' s;
          s = lcf_trace_calls L ''/home/lcom/labs/lab3/trace.txt'' s;
          s = lcf_log_output L ''/home/lcom/labs/lab3/output.txt'' s
      in start_and_cleanup L argv s)"

definition main_lab4 :: "'s lcf_entry \<Rightarrow> string list \<Rightarrow> 's \<Rightarrow> (string + (int \<times> 's)) option" where
  "main_lab4 L argv s =
     (let s = lcf_set_language L ''EN-US'' s;
          s = lcf_trace_calls L ''/home/lcom/labs/lab4/trace.txt'' s;
          s = lcf_log_output L ''/home/lcom/labs/lab4/output.txt'' s
      in start_and_cleanup L argv s)"

text \<open>The two video exercises have the same \<open>main\<close>.\<close>

definition main_lab5 :: "'s lcf_entry \<Rightarrow> string list \<Rightarrow> 's \<Rightarrow> (string + (int \<times> 's)) option" where
  "main_lab5 L argv s =
     (let s = lcf_set_language L ''EN-US'' s;
          s = lcf_trace_calls L ''/home/lcom/labs/lab5/trace.txt'' s;
          s = lcf_log_output L ''/home/lcom/labs/lab5/output.txt'' s
      in start_and_cleanup L argv s)"

section \<open>What they return\<close>

text \<open>
  The framework clean-up runs exactly where the program returns 0. A framework whose other
  functions leave the program alone and whose \<open>lcf_start\<close> runs the loop of the game is named by
  \<open>starts_game\<close>; under it, \<open>main\<close> is that loop.
\<close>

definition starts_game :: "'d env \<Rightarrow> 'd simon_st lcf_entry \<Rightarrow> bool" where
  "starts_game E L \<longleftrightarrow>
     lcf_set_language L = (\<lambda>_ s. s) \<and> lcf_log_output L = (\<lambda>_ s. s) \<and> lcf_cleanup L = (\<lambda>s. s) \<and>
     lcf_start L = (\<lambda>_ s. map_option (map_sum (\<lambda>msg. msg) (Pair 0)) (proj_main_loop E s))"

lemma start_and_cleanup_zero:
  "start_and_cleanup L argv s = Some (Inr (0, s')) \<longleftrightarrow> (\<exists>s1. lcf_start L argv s = Some (Inr (0, s1)) \<and> s' = lcf_cleanup L s1)"
  by (auto simp: start_and_cleanup_def split: option.splits sum.splits)

lemma main_is_loop:
  assumes "starts_game E L"
  shows "main L argv s = map_option (map_sum (\<lambda>msg. msg) (Pair 0)) (proj_main_loop E s)"
proof (cases "proj_main_loop E s")
  case (Some r)
  then show ?thesis using assms by (cases r) (simp_all add: main_def starts_game_def start_and_cleanup_def)
qed (use assms in \<open>simp add: main_def starts_game_def start_and_cleanup_def\<close>)

end
