(* ===== verification/Lab_Timer.thy ===== *)
theory Lab_Timer
  imports Props
begin

text \<open>
  The timer exercise that precedes the game, \<open>src/lab2\<close>: the driver of the i8254 in \<open>timer.c\<close> and
  \<open>utils.c\<close>, and the three tests of \<open>lab2.c\<close>. The later exercises keep copies of the driver; the
  one of \<open>src/lab3\<close> and \<open>src/lab4\<close> has another check of the frequency. The functions of the course
  library that print are recorded with their arguments, in order; what they return is a
  parameter. A read of a variable that no branch has assigned is \<open>None\<close>.
\<close>

section \<open>Constants and data\<close>

definition TIMER_FREQ :: u32 where "TIMER_FREQ = 1193182"

definition TIMER_0 :: int where "TIMER_0 = 0x40"
definition TIMER_1 :: int where "TIMER_1 = 0x41"
definition TIMER_2 :: int where "TIMER_2 = 0x42"
definition TIMER_CTRL :: int where "TIMER_CTRL = 0x43"

definition TIMER_SEL0 :: u8 where "TIMER_SEL0 = 0x00"
definition TIMER_SEL1 :: u8 where "TIMER_SEL1 = BIT 6"
definition TIMER_SEL2 :: u8 where "TIMER_SEL2 = BIT 7"
definition TIMER_RB_CMD :: u32 where "TIMER_RB_CMD = BIT 7 OR BIT 6"
definition TIMER_LSB :: u8 where "TIMER_LSB = BIT 4"
definition TIMER_MSB :: u8 where "TIMER_MSB = BIT 5"
definition TIMER_LSB_MSB :: u8 where "TIMER_LSB_MSB = TIMER_LSB OR TIMER_MSB"
definition TIMER_BIN :: u8 where "TIMER_BIN = 0x00"
definition TIMER_RB_COUNT :: u32 where "TIMER_RB_COUNT = BIT 5"
definition TIMER_RB_SEL :: "nat \<Rightarrow> u32" where "TIMER_RB_SEL n = BIT (n + 1)"

lemmas timer_consts = TIMER_FREQ_def TIMER_0_def TIMER_1_def TIMER_2_def TIMER_CTRL_def TIMER_SEL0_def TIMER_SEL1_def
  TIMER_SEL2_def TIMER_RB_CMD_def TIMER_LSB_def TIMER_MSB_def TIMER_LSB_MSB_def TIMER_BIN_def TIMER_RB_COUNT_def
  TIMER_RB_SEL_def

text \<open>The types of the course library: the field to display, and the union with its value.\<close>

datatype timer_status_field = tsf_all | tsf_initial | tsf_mode | tsf_base

datatype timer_status_field_val = conf_byte u8 | conf_in_mode u8 | conf_count_mode u8 | conf_bcd bool

text \<open>The calls of the course library that print.\<close>

datatype lcf_call =
    timer_print_config u8 timer_status_field timer_status_field_val
  | timer_print_elapsed_time
  | kbd_print_scancode bool u8 "u8 list"
  | kbd_print_no_sysinb int
  | mouse_print_packet packet

text \<open>What the library returns: the status of \<open>timer_print_config\<close>, \<open>sys_hz()\<close> and the default command byte.\<close>

record lcf =
  print_config_status :: "u8 \<Rightarrow> timer_status_field \<Rightarrow> timer_status_field_val \<Rightarrow> int"
  sys_hz :: int
  minix_get_dflt_kbc_cmd_byte :: u8

record 'd lab_timer_st = "'d machine" +
  lab_counter :: int
  lab_hook_id :: int
  lcf_calls :: "lcf_call list"

definition lcf_print :: "lcf_call \<Rightarrow> ('d, 'z) lab_timer_st_scheme \<Rightarrow> ('d, 'z) lab_timer_st_scheme" where
  "lcf_print c s = s\<lparr>lcf_calls := lcf_calls s @ [c]\<rparr>"

section \<open>utils.c\<close>

definition util_get_LSB_lab :: "u16 \<Rightarrow> u8" where
  "util_get_LSB_lab val = (let sixtlsb = val AND 0x00ff in ucast sixtlsb)"

definition util_get_MSB_lab :: "u16 \<Rightarrow> u8" where
  "util_get_MSB_lab val = (let sixtmsb = val AND 0xff00; sixtmsb = drop_bit 8 sixtmsb in ucast sixtmsb)"

text \<open>The status of \<open>sys_inb\<close> is dropped; where it failed, the byte is the uninitialised variable.\<close>

definition util_sys_inb_lab :: "'d env \<Rightarrow> int \<Rightarrow> ('d, 'z) machine_scheme \<Rightarrow> (int \<times> u8) \<times> ('d, 'z) machine_scheme" where
  "util_sys_inb_lab E port s =
     (let ((r, byte), d) = sys_inb E port (dev s)
      in ((0, if r = 0 then ucast byte else uninit E d), s\<lparr>dev := d\<rparr>))"

section \<open>timer.c\<close>

definition timer_port :: "u8 \<Rightarrow> int option" where
  "timer_port timer =
     (if timer = 0 then Some TIMER_0 else if timer = 1 then Some TIMER_1 else if timer = 2 then Some TIMER_2 else None)"

definition timer_get_conf_lab ::
  "'d env \<Rightarrow> u8 \<Rightarrow> u8 \<Rightarrow> ('d, 'z) machine_scheme \<Rightarrow> ((int \<times> u8) \<times> ('d, 'z) machine_scheme) option" where
  "timer_get_conf_lab E timer st s =
     (if unat timer + 1 < 31 then
        let rbc = TIMER_RB_CMD OR TIMER_RB_COUNT OR TIMER_RB_SEL (unat timer);
            (r, s) = outb E TIMER_CTRL rbc s
        in if r = 1 then Some ((1, st), s)
           else do { port \<leftarrow> timer_port timer;
                     let ((r, st), s) = util_sys_inb_lab E port s;
                     Some (if r = 1 then ((1, st), s) else ((0, st), s)) }
      else None)"

definition timer_sel :: "u8 \<Rightarrow> u8 option" where
  "timer_sel timer =
     (if timer = 0 then Some TIMER_SEL0 else if timer = 1 then Some TIMER_SEL1 else if timer = 2 then Some TIMER_SEL2 else None)"

text \<open>The body of \<open>timer_set_frequency\<close> after the check of the frequency; a division by 0 is undefined.\<close>

definition timer_load ::
  "'d env \<Rightarrow> u8 \<Rightarrow> u32 \<Rightarrow> ('d, 'z) machine_scheme \<Rightarrow> (int \<times> ('d, 'z) machine_scheme) option" where
  "timer_load E timer freq s =
     do { ((r, st), s) \<leftarrow> timer_get_conf_lab E timer (uninit E (dev s)) s;
          if r = 1 then Some (1, s)
          else do {
            let savefb = st AND 0x0f;
            sel \<leftarrow> timer_sel timer;
            port \<leftarrow> timer_port timer;
            let (r, s) = outb E TIMER_CTRL (ucast (sel OR TIMER_LSB_MSB OR savefb)) s;
            if r = 1 then Some (1, s)
            else if freq = 0 then None
            else
              let d_value = TIMER_FREQ div freq;
                  new_d_value = ucast d_value;
                  (r, s) = outb E port (ucast (util_get_LSB_lab new_d_value)) s
              in if r = 1 then Some (1, s)
                 else let (r, s) = outb E port (ucast (util_get_MSB_lab new_d_value)) s
                      in Some (if r = 1 then (1, s) else (0, s)) } }"

definition timer_set_frequency_lab2 ::
  "'d env \<Rightarrow> u8 \<Rightarrow> u32 \<Rightarrow> ('d, 'z) machine_scheme \<Rightarrow> (int \<times> ('d, 'z) machine_scheme) option" where
  "timer_set_frequency_lab2 E timer freq s =
     (if freq < 19 \<or> freq > TIMER_FREQ then Some (1, s) else timer_load E timer freq s)"

text \<open>The check of \<open>src/lab3\<close> and \<open>src/lab4\<close>.\<close>

definition timer_set_frequency_lab3 ::
  "'d env \<Rightarrow> u8 \<Rightarrow> u32 \<Rightarrow> ('d, 'z) machine_scheme \<Rightarrow> (int \<times> ('d, 'z) machine_scheme) option" where
  "timer_set_frequency_lab3 E timer freq s = (if freq > TIMER_FREQ then Some (1, s) else timer_load E timer freq s)"

definition timer_subscribe_int_lab :: "'d env \<Rightarrow> u8 \<Rightarrow> ('d, 'z) lab_timer_st_scheme \<Rightarrow> int \<times> ('d, 'z) lab_timer_st_scheme" where
  "timer_subscribe_int_lab E bit_no s =
     (let ((r, hook), d) = sys_irqsetpolicy E TIMER0_IRQ IRQ_REENABLE (uint bit_no) (dev s)
      in (if r = 1 then 1 else 0, s\<lparr>dev := d, lab_hook_id := hook\<rparr>))"

definition timer_unsubscribe_int_lab :: "'d env \<Rightarrow> ('d, 'z) lab_timer_st_scheme \<Rightarrow> int \<times> ('d, 'z) lab_timer_st_scheme" where
  "timer_unsubscribe_int_lab E s =
     (let (r, d) = sys_irqrmpolicy E (lab_hook_id s) (dev s) in (if r = 1 then 1 else 0, s\<lparr>dev := d\<rparr>))"

text \<open>The largest \<open>int\<close> has no successor.\<close>

definition timer_int_handler_lab :: "('d, 'z) lab_timer_st_scheme \<Rightarrow> ('d, 'z) lab_timer_st_scheme option" where
  "timer_int_handler_lab s = (if lab_counter s < 2147483647 then Some (s\<lparr>lab_counter := lab_counter s + 1\<rparr>) else None)"

definition timer_display_conf_lab ::
  "lcf \<Rightarrow> u8 \<Rightarrow> u8 \<Rightarrow> timer_status_field \<Rightarrow> ('d, 'z) lab_timer_st_scheme \<Rightarrow> int \<times> ('d, 'z) lab_timer_st_scheme" where
  "timer_display_conf_lab L timer st field s =
     (let conf = (case field of
           tsf_all \<Rightarrow> conf_byte st
         | tsf_initial \<Rightarrow> conf_in_mode (drop_bit 4 (st AND TIMER_LSB_MSB))
         | tsf_mode \<Rightarrow> conf_count_mode (drop_bit 1 (st AND 0xf))
         | tsf_base \<Rightarrow> if TIMER_BIN AND st = 1 then conf_bcd False else conf_bcd True);
          s = lcf_print (timer_print_config timer field conf) s
      in if print_config_status L timer field conf = 1 then (1, s) else (0, s))"

section \<open>lab2.c\<close>

text \<open>The test \<open>timer < 0\<close> of an unsigned byte is never true.\<close>

definition timer_test_read_config ::
  "'d env \<Rightarrow> lcf \<Rightarrow> u8 \<Rightarrow> timer_status_field \<Rightarrow> ('d, 'z) lab_timer_st_scheme \<Rightarrow> (int \<times> ('d, 'z) lab_timer_st_scheme) option" where
  "timer_test_read_config E L timer field s =
     (if timer > 2 then Some (1, s)
      else do { ((r, st), s) \<leftarrow> timer_get_conf_lab E timer (uninit E (dev s)) s;
                if r = 1 then Some (1, s)
                else let (r, s) = timer_display_conf_lab L timer st field s in Some (if r = 1 then (1, s) else (0, s)) })"

definition timer_test_time_base ::
  "'d env \<Rightarrow> u8 \<Rightarrow> u32 \<Rightarrow> ('d, 'z) lab_timer_st_scheme \<Rightarrow> (int \<times> ('d, 'z) lab_timer_st_scheme) option" where
  "timer_test_time_base E timer freq s =
     (if timer > 2 then Some (1, s)
      else do { (r, s) \<leftarrow> timer_set_frequency_lab2 E timer freq s; Some (if r = 1 then (1, s) else (0, s)) })"

text \<open>What the kernel sends next: whether it is an interrupt of a line in the mask, and the device after it.\<close>

definition irq_message :: "'d env \<Rightarrow> u32 \<Rightarrow> 'd \<Rightarrow> bool" where
  "irq_message E irq_set d =
     (let ((r, notify, msg), _) = driver_receive E d
      in r = 0 \<and> notify \<and> m_source_hardware msg \<and> truth (interrupts msg AND irq_set))"

definition after_message :: "'d env \<Rightarrow> ('d, 'z) machine_scheme \<Rightarrow> ('d, 'z) machine_scheme" where
  "after_message E s = s\<lparr>dev := snd (driver_receive E (dev s))\<rparr>"

definition timer_test_int_body :: "'d env \<Rightarrow> u8 \<Rightarrow> ('d, 'z) lab_timer_st_scheme \<Rightarrow> ('d, 'z) lab_timer_st_scheme option" where
  "timer_test_int_body E bit_no s =
     (if irq_message E (BIT (unat bit_no)) (dev s)
      then do { s \<leftarrow> timer_int_handler_lab (after_message E s);
                Some (if lab_counter s smod 60 = 0 then lcf_print timer_print_elapsed_time s else s) }
      else Some (after_message E s))"

partial_function (option) timer_test_int_loop ::
  "'d env \<Rightarrow> u8 \<Rightarrow> u8 \<Rightarrow> ('d, 'z) lab_timer_st_scheme \<Rightarrow> ('d, 'z) lab_timer_st_scheme option" where
  "timer_test_int_loop E bit_no time s =
     (if lab_counter s < uint time * 60
      then Option.bind (timer_test_int_body E bit_no s) (timer_test_int_loop E bit_no time)
      else Some s)"

definition timer_test_int :: "'d env \<Rightarrow> u8 \<Rightarrow> ('d, 'z) lab_timer_st_scheme \<Rightarrow> (int \<times> ('d, 'z) lab_timer_st_scheme) option" where
  "timer_test_int E time s =
     (let bit_no = word_of_int TIMER0_IRQ;
          (r, s) = timer_subscribe_int_lab E bit_no s
      in if r = 1 then Some (1, s)
         else do { s \<leftarrow> timer_test_int_loop E bit_no time s;
                   let (r, s) = timer_unsubscribe_int_lab E s;
                   Some (if r = 1 then (1, s) else (0, s)) })"

section \<open>Loading the divisor\<close>

text \<open>The device after a sequence of port writes.\<close>

definition writes :: "'d env \<Rightarrow> (int \<times> u32) list \<Rightarrow> 'd \<Rightarrow> 'd" where
  "writes E ws d = fold (\<lambda>(p, v) d. snd (sys_outb E p v d)) ws d"

lemma writes_simps [simp]: "writes E [] d = d" "writes E ((p, v) # ws) d = writes E ws (snd (sys_outb E p v d))"
  by (simp_all add: writes_def)

lemma LSB_MSB_lab: "uint (util_get_LSB_lab v) + 256 * uint (util_get_MSB_lab v) = uint v"
proof -
  have "0 \<le> uint v div 256" "uint v div 256 < 256" using uint_bounded [of v] by (simp_all add: div_less_iff_less_mult pos_imp_zdiv_nonneg_iff)
  then have "uint (ucast (take_bit 8 v) :: u8) = uint v mod 256" "uint (ucast (drop_bit 8 v) :: u8) = uint v div 256"
    by (simp_all add: unsigned_ucast_eq take_bit_eq_mod drop_bit_eq_div uint_mod uint_div)
  then show ?thesis unfolding util_get_LSB_lab_def util_get_MSB_lab_def Let_def and_0xFF drop_bit_and_0xFF00 by simp
qed

lemma divisor_fits:
  assumes "19 \<le> freq"
  shows "uint (ucast (TIMER_FREQ div freq) :: u16) = 1193182 div uint freq"
proof -
  have f: "19 \<le> uint freq" using assms by (simp add: word_le_def)
  have "1193182 div uint freq \<le> 1193182 div 19" using f by (intro zdiv_mono2) simp_all
  then have "0 \<le> 1193182 div uint freq" "1193182 div uint freq < 2 ^ 16" using f by (simp_all add: pos_imp_zdiv_nonneg_iff)
  then show ?thesis by (simp add: unsigned_ucast_eq uint_div TIMER_FREQ_def take_bit_eq_mod)
qed

text \<open>What \<open>timer_load\<close> does where no call reports the status 1: the configuration is read back, then the divisor is written.\<close>

definition readback :: "u8 \<Rightarrow> u32" where
  "readback timer = TIMER_RB_CMD OR TIMER_RB_COUNT OR TIMER_RB_SEL (unat timer)"

lemma timer_load_ok:
  assumes ok: "\<And>p v d. fst (sys_outb E p v d) \<noteq> 1" and t: "timer_sel timer = Some sel" "timer_port timer = Some port"
    and f: "freq \<noteq> 0" and i: "sys_inb E port (writes E [(TIMER_CTRL, readback timer)] (dev s)) = ((0, st), d)"
  shows "timer_load E timer freq s = Some (0, s\<lparr>dev :=
    writes E [(TIMER_CTRL, ucast (sel OR TIMER_LSB_MSB OR ucast st AND 0x0f)),
              (port, ucast (util_get_LSB_lab (ucast (TIMER_FREQ div freq)))),
              (port, ucast (util_get_MSB_lab (ucast (TIMER_FREQ div freq))))] d\<rparr>)"
proof -
  have "unat timer + 1 < 31" using t(1) by (auto simp: timer_sel_def split: if_splits)
  then show ?thesis using ok t f i
    by (simp add: timer_load_def timer_get_conf_lab_def util_sys_inb_lab_def outb_def readback_def Let_def split_beta)
qed

section \<open>Counting the interrupts\<close>

text \<open>The number of interrupts of a mask among the next \<open>n\<close> messages.\<close>

fun irq_count :: "'d env \<Rightarrow> u32 \<Rightarrow> nat \<Rightarrow> 'd \<Rightarrow> nat" where
  "irq_count E m 0 d = 0"
| "irq_count E m (Suc n) d = (if irq_message E m d then 1 else 0) + irq_count E m n (snd (driver_receive E d))"

lemma after_message_simps [simp]:
  "dev (after_message E s) = snd (driver_receive E (dev s))"
  "lab_counter (after_message E t) = lab_counter t" "lcf_calls (after_message E t) = lcf_calls t"
  by (simp_all add: after_message_def)

lemma timer_test_int_loop_done: "uint time * 60 \<le> lab_counter s \<Longrightarrow> timer_test_int_loop E b time s = Some s"
  by (subst timer_test_int_loop.simps) simp

lemma timer_unsubscribe_fields [simp]:
  "lab_counter (snd (timer_unsubscribe_int_lab E s)) = lab_counter s"
  "lcf_calls (snd (timer_unsubscribe_int_lab E s)) = lcf_calls s"
  by (simp_all add: timer_unsubscribe_int_lab_def split_beta Let_def)

lemma second_boundary:
  assumes "(0 :: int) \<le> c"
  shows "(c + 1) div 60 = c div 60 + (if (c + 1) mod 60 = 0 then 1 else 0)"
proof -
  have "Suc (nat c) div 60 = nat c div 60 + (if Suc (nat c) mod 60 = 0 then 1 else 0)" by (simp add: div_Suc)
  then have "int (Suc (nat c) div 60) = int (nat c div 60) + (if int (Suc (nat c) mod 60) = 0 then 1 else 0)" by simp
  moreover have "int (Suc (nat c)) = c + 1" using assms by simp
  ultimately show ?thesis using assms unfolding zdiv_int zmod_int by (simp add: add.commute)
qed

lemma timer_test_int_loop_runs:
  assumes "0 \<le> lab_counter s" "lab_counter s \<le> uint time * 60" "uint time * 60 - lab_counter s \<le> int (irq_count E (BIT (unat b)) n (dev s))"
  shows "\<exists>s'. timer_test_int_loop E b time s = Some s' \<and> lab_counter s' = uint time * 60 \<and>
    lcf_calls s' = lcf_calls s @ replicate (nat (uint time - lab_counter s div 60)) timer_print_elapsed_time"
  using assms
proof (induction n arbitrary: s)
  case 0
  then show ?case by (simp add: timer_test_int_loop_done)
next
  case (Suc n)
  let ?m = "BIT (unat b) :: u32"
  consider "lab_counter s = uint time * 60" | "lab_counter s < uint time * 60" "irq_message E ?m (dev s)"
    | "lab_counter s < uint time * 60" "\<not> irq_message E ?m (dev s)" using Suc.prems(2) by linarith
  then show ?case
  proof cases
    case 1
    then show ?thesis by (simp add: timer_test_int_loop_done)
  next
    case 2
    have "uint time \<le> 255" using uint_bounded [of time] by simp
    then have c: "lab_counter s < 2147483647" using 2(1) by linarith
    let ?t = "(after_message E s)\<lparr>lab_counter := lab_counter s + 1\<rparr>"
    let ?s1 = "if (lab_counter s + 1) mod 60 = 0 then lcf_print timer_print_elapsed_time ?t else ?t"
    have body: "timer_test_int_body E b s = Some ?s1"
      using 2 c Suc.prems(1) by (simp add: timer_test_int_body_def timer_int_handler_lab_def)
    have s1: "lab_counter ?s1 = lab_counter s + 1" "dev ?s1 = snd (driver_receive E (dev s))"
      "lcf_calls ?s1 = lcf_calls s @ (if (lab_counter s + 1) mod 60 = 0 then [timer_print_elapsed_time] else [])"
      by (simp_all add: lcf_print_def)
    have n: "nat (uint time - lab_counter s div 60) =
        (if (lab_counter s + 1) mod 60 = 0 then 1 else 0) + nat (uint time - (lab_counter s + 1) div 60)"
    proof -
      have "lab_counter s div 60 < uint time" using 2(1) by (simp add: div_less_iff_less_mult)
      then show ?thesis using second_boundary [OF Suc.prems(1)] by auto
    qed
    obtain s' where "timer_test_int_loop E b time ?s1 = Some s'" "lab_counter s' = uint time * 60"
        "lcf_calls s' = lcf_calls ?s1 @ replicate (nat (uint time - lab_counter ?s1 div 60)) timer_print_elapsed_time"
      using Suc.IH [of ?s1] Suc.prems 2 unfolding s1(1,2) by auto
    then show ?thesis using 2(1) body n unfolding s1(1,3) by (subst timer_test_int_loop.simps) auto
  next
    case 3
    have "timer_test_int_body E b s = Some (after_message E s)" using 3 by (simp add: timer_test_int_body_def)
    then show ?thesis using Suc.IH [of "after_message E s"] Suc.prems 3 by (subst timer_test_int_loop.simps) simp
  qed
qed

text \<open>Conversely the loop returns only after that many interrupts.\<close>

lemma timer_test_int_body_cases:
  assumes "timer_test_int_body E b s = Some s1"
  shows "dev s1 = snd (driver_receive E (dev s)) \<and>
    lab_counter s1 = lab_counter s + (if irq_message E (BIT (unat b)) (dev s) then 1 else 0)"
  using assms
  by (auto simp: timer_test_int_body_def timer_int_handler_lab_def lcf_print_def split: if_splits Option.bind_splits)

lemma timer_test_int_loop_needs:
  assumes "timer_test_int_loop E b time s = Some s'"
  shows "\<exists>n. uint time * 60 - lab_counter s \<le> int (irq_count E (BIT (unat b)) n (dev s))"
proof (rule timer_test_int_loop.raw_induct [of "\<lambda>E b time s s'. \<exists>n. uint time * 60 - lab_counter s \<le> int (irq_count E (BIT (unat b)) n (dev s))", OF _ assms])
  fix loop E b time s s'
  assume IH: "\<And>E b time s s'. loop E b time s = Some s' \<Longrightarrow>
      \<exists>n. uint time * 60 - lab_counter s \<le> int (irq_count E (BIT (unat b)) n (dev s))"
    and eq: "(if lab_counter s < uint time * 60 then Option.bind (timer_test_int_body E b s) (loop E b time) else Some s) = Some s'"
  show "\<exists>n. uint time * 60 - lab_counter s \<le> int (irq_count E (BIT (unat b)) n (dev s))"
  proof (cases "lab_counter s < uint time * 60")
    case True
    then obtain s1 where s1: "timer_test_int_body E b s = Some s1" "loop E b time s1 = Some s'"
      using eq by (auto split: Option.bind_splits)
    from IH [OF s1(2)] obtain n where "uint time * 60 - lab_counter s1 \<le> int (irq_count E (BIT (unat b)) n (dev s1))" ..
    then have "uint time * 60 - lab_counter s \<le> int (irq_count E (BIT (unat b)) (Suc n) (dev s))"
      using timer_test_int_body_cases [OF s1(1)] by (simp split: if_splits)
    then show ?thesis ..
  next
    case False
    then show ?thesis by (intro exI [of _ 0]) simp
  qed
qed

section \<open>Reading frames byte by byte\<close>

text \<open>
  The contract of the loops of the later exercises that assemble scancodes and mouse packets: a
  frame that starts where the reader is idle is logged once and leaves it idle.
\<close>

locale frame_reader =
  fixes step :: "'b \<Rightarrow> 's \<Rightarrow> 's option"
    and idle :: "'s \<Rightarrow> bool"
    and wire :: "'f \<Rightarrow> 'b list"
    and valid :: "'f \<Rightarrow> bool"
    and log :: "'s \<Rightarrow> 'c list"
    and logged :: "'f \<Rightarrow> 'c \<Rightarrow> bool"
  assumes one_frame: "idle s \<Longrightarrow> valid f \<Longrightarrow>
    \<exists>s' c. run_steps step (wire f) s = Some s' \<and> idle s' \<and> log s' = log s @ [c] \<and> logged f c"
begin

lemma frames_read:
  "idle s \<Longrightarrow> list_all valid fs \<Longrightarrow>
   \<exists>s' cs. run_steps step (concat (map wire fs)) s = Some s' \<and> idle s' \<and> log s' = log s @ cs \<and> list_all2 logged fs cs"
proof (induction fs arbitrary: s)
  case Nil
  then show ?case by simp
next
  case (Cons f fs)
  obtain s1 c where s1: "run_steps step (wire f) s = Some s1" "idle s1" "log s1 = log s @ [c]" "logged f c"
    using one_frame [OF Cons.prems(1), of f] Cons.prems(2) by auto
  obtain s2 cs where "run_steps step (concat (map wire fs)) s1 = Some s2" "idle s2" "log s2 = log s1 @ cs" "list_all2 logged fs cs"
    using Cons.IH [OF s1(2)] Cons.prems(2) by auto
  then show ?case using s1 by (intro exI [of _ s2] exI [of _ "c # cs"]) (simp add: run_steps_append)
qed

end

section \<open>Loops that a flag ends\<close>

text \<open>
  The interrupt loops of the later exercises run a body until it sets a flag. \<open>passes\<close> is an
  iteration that does not. What such a loop promises: it returns exactly where the iterations come
  to one that sets the flag, with the state after it.
\<close>

definition passes :: "('s \<Rightarrow> (bool \<times> 's) option) \<Rightarrow> 's \<Rightarrow> 's \<Rightarrow> bool" where
  "passes body s s1 \<longleftrightarrow> body s = Some (False, s1)"

definition flagged_after :: "('s \<Rightarrow> (bool \<times> 's) option) \<Rightarrow> 's \<Rightarrow> 's \<Rightarrow> bool" where
  "flagged_after body s s' \<longleftrightarrow> (\<exists>s1. (passes body)\<^sup>*\<^sup>* s s1 \<and> body s1 = Some (True, s'))"

lemma flagged_step:
  assumes "Option.bind (body s) (\<lambda>(flag, s). if flag then Some s else loop s) = Some s'"
    and "\<And>t. loop t = Some s' \<Longrightarrow> flagged_after body t s'"
  shows "flagged_after body s s'"
proof -
  obtain flag t where t: "body s = Some (flag, t)" "(if flag then Some t else loop t) = Some s'"
    using assms(1) by (auto split: Option.bind_splits)
  show ?thesis
  proof (cases flag)
    case True
    then show ?thesis using t by (auto simp: flagged_after_def)
  next
    case False
    then obtain s1 where "(passes body)\<^sup>*\<^sup>* t s1" "body s1 = Some (True, s')"
      using t(2) assms(2) [of t] by (auto simp: flagged_after_def)
    moreover have "passes body s t" using t(1) False by (simp add: passes_def)
    ultimately show ?thesis by (auto simp: flagged_after_def intro: converse_rtranclp_into_rtranclp)
  qed
qed

locale flag_loop =
  fixes body :: "'s \<Rightarrow> (bool \<times> 's) option" and loop :: "'s \<Rightarrow> 's option"
  assumes iterates: "loop s = do { (flag, s) \<leftarrow> body s; if flag then Some s else loop s }"
    and flagged: "loop s = Some s' \<Longrightarrow> flagged_after body s s'"
begin

lemma returns_iff: "loop s = Some s' \<longleftrightarrow> flagged_after body s s'"
proof
  assume "flagged_after body s s'"
  then obtain s1 where "(passes body)\<^sup>*\<^sup>* s s1" and s1: "body s1 = Some (True, s')" by (auto simp: flagged_after_def)
  then show "loop s = Some s'"
  proof (induction rule: converse_rtranclp_induct)
    case base
    then show ?case by (subst iterates) simp
  next
    case (step s t)
    then show ?case by (subst iterates) (simp add: passes_def)
  qed
qed (rule flagged)

text \<open>What every iteration keeps, the loop keeps.\<close>

lemma keeps:
  assumes "loop s = Some s'" and "\<And>t f t'. body t = Some (f, t') \<Longrightarrow> g t' = g t"
  shows "g s' = g s"
proof -
  obtain s1 where s1: "(passes body)\<^sup>*\<^sup>* s s1" "body s1 = Some (True, s')" using flagged [OF assms(1)] by (auto simp: flagged_after_def)
  have "g s1 = g s" using s1(1) by (induction rule: rtranclp_induct) (auto simp: passes_def dest: assms(2))
  then show ?thesis using assms(2) [OF s1(2)] by simp
qed

end

end
