(* ===== verification/Lab_Kbc.thy ===== *)
theory Lab_Kbc
  imports Lab_Timer
begin

text \<open>
  The keyboard exercise, \<open>src/lab3\<close>: \<open>kbc.c\<close> and the three tests of \<open>lab3.c\<close>. The array \<open>bytes\<close>
  of the scancode under assembly has two cells; a store outside it is undefined. The statement
  that the tests share, from the byte in \<open>sc_byte\<close> to the printed scancode, is \<open>scan_byte\<close>.
\<close>

section \<open>Constants and state\<close>

definition ESC_BREAKCODE :: u8 where "ESC_BREAKCODE = 0x81"
definition KBC_IRQ :: int where "KBC_IRQ = 1"
definition KBC_ST_REG :: int where "KBC_ST_REG = 0x64"
definition KBC_RBC_COMMAND :: u32 where "KBC_RBC_COMMAND = 0x20"
definition KBC_WRT_COMMAND :: u32 where "KBC_WRT_COMMAND = 0x60"
definition ENB_KBD_INT :: u32 where "ENB_KBD_INT = 0xAE"
definition FB_OF_TB :: u8 where "FB_OF_TB = 0xE0"
definition PAR :: u8 where "PAR = BIT 7"
definition TIMEOUT :: u8 where "TIMEOUT = BIT 6"
definition IBF :: u8 where "IBF = BIT 1"
definition OBF :: u8 where "OBF = BIT 0"

lemmas kbc_consts = ESC_BREAKCODE_def KBC_IRQ_def KBC_ST_REG_def KBC_RBC_COMMAND_def KBC_WRT_COMMAND_def ENB_KBD_INT_def
  FB_OF_TB_def PAR_def TIMEOUT_def IBF_def OBF_def

record 'd lab_kbc_st = "'d lab_timer_st" +
  hook_id_kbc :: int
  sc_byte :: u8
  inb_counter :: int
  scan_size :: u8
  scan_bytes :: "u8 list"

section \<open>kbc.c\<close>

text \<open>The counter of the reads is an \<open>int\<close>: past its largest value it is undefined.\<close>

definition sys_inb_cnt :: "'d env \<Rightarrow> int \<Rightarrow> ('d, 'z) lab_kbc_st_scheme \<Rightarrow> ((int \<times> u8) \<times> ('d, 'z) lab_kbc_st_scheme) option" where
  "sys_inb_cnt E port s =
     (let ((r, byte), d) = sys_inb E port (dev s);
          value = (if r = 0 then ucast byte else uninit E d)
      in if inb_counter s < 2147483647 then Some ((0, value), s\<lparr>dev := d, inb_counter := inb_counter s + 1\<rparr>) else None)"

definition kbc_subscribe_int :: "'d env \<Rightarrow> u8 \<Rightarrow> ('d, 'z) lab_kbc_st_scheme \<Rightarrow> int \<times> ('d, 'z) lab_kbc_st_scheme" where
  "kbc_subscribe_int E bit_no s =
     (let ((r, hook), d) = sys_irqsetpolicy E KBC_IRQ (IRQ_REENABLE OR IRQ_EXCLUSIVE) (uint bit_no) (dev s)
      in (if r = 1 then 1 else 0, s\<lparr>dev := d, hook_id_kbc := hook\<rparr>))"

definition kbc_unsubscribe_int :: "'d env \<Rightarrow> ('d, 'z) lab_kbc_st_scheme \<Rightarrow> int \<times> ('d, 'z) lab_kbc_st_scheme" where
  "kbc_unsubscribe_int E s =
     (let (r, d) = sys_irqrmpolicy E (hook_id_kbc s) (dev s) in (if r = 1 then 1 else 0, s\<lparr>dev := d\<rparr>))"

definition kbc_read_status :: "'d env \<Rightarrow> ('d, 'z) lab_kbc_st_scheme \<Rightarrow> ((int \<times> u8) \<times> ('d, 'z) lab_kbc_st_scheme) option" where
  "kbc_read_status E s =
     do { ((r, st), s) \<leftarrow> sys_inb_cnt E KBC_ST_REG s; Some ((if r = 1 then 1 else 0, st), s) }"

definition kbc_read_buf :: "'d env \<Rightarrow> ('d, 'z) lab_kbc_st_scheme \<Rightarrow> ((int \<times> u8) \<times> ('d, 'z) lab_kbc_st_scheme) option" where
  "kbc_read_buf E s =
     do { ((r, b), s) \<leftarrow> sys_inb_cnt E KBC_OUT_BUF s; Some ((if r = 1 then 1 else 0, b), s) }"

definition kbc_check_status :: "'d env \<Rightarrow> ('d, 'z) lab_kbc_st_scheme \<Rightarrow> (bool \<times> ('d, 'z) lab_kbc_st_scheme) option" where
  "kbc_check_status E s =
     do { ((r, st), s) \<leftarrow> kbc_read_status E s;
          Some (if r = 1 then (False, s)
                else if truth (OBF AND st) then
                  if st AND (PAR OR TIMEOUT) = 1 then (False, s) else (True, s)
                else (False, s)) }"

definition kbc_ih_lab :: "'d env \<Rightarrow> ('d, 'z) lab_kbc_st_scheme \<Rightarrow> ('d, 'z) lab_kbc_st_scheme option" where
  "kbc_ih_lab E s =
     do { (ok, s) \<leftarrow> kbc_check_status E s;
          if ok then do { ((_, b), s) \<leftarrow> kbc_read_buf E s; Some (s\<lparr>sc_byte := b\<rparr>) } else Some s }"

definition kbc_wrt_cmd :: "'d env \<Rightarrow> u32 \<Rightarrow> u32 \<Rightarrow> ('d, 'z) lab_kbc_st_scheme \<Rightarrow> (int \<times> ('d, 'z) lab_kbc_st_scheme) option" where
  "kbc_wrt_cmd E cmd args s =
     do { ((r, st), s) \<leftarrow> kbc_read_status E s;
          Some (if r = 1 then (1, s)
                else if st AND IBF = 0 then
                  let (r, s) = outb E KBC_CMD_REG cmd s in if r = 1 then (1, s) else (0, s)
                else
                  let (r, s) = outb E KBC_ARG_REG args s in if r = 1 then (1, s) else (0, s)) }"

section \<open>lab3.c\<close>

definition scan_byte :: "('d, 'z) lab_kbc_st_scheme \<Rightarrow> ('d, 'z) lab_kbc_st_scheme option" where
  "scan_byte s =
     (if sc_byte s = FB_OF_TB then Some (s\<lparr>scan_bytes := (scan_bytes s)[0 := sc_byte s], scan_size := scan_size s + 1\<rparr>)
      else if unat (scan_size s) < length (scan_bytes s) then
        let s = s\<lparr>scan_bytes := (scan_bytes s)[unat (scan_size s) := sc_byte s]\<rparr>;
            s = s\<lparr>scan_size := scan_size s + 1\<rparr>;
            make = (if BIT 7 AND sc_byte s = BIT 7 then False else True);
            s = lcf_print (kbd_print_scancode make (scan_size s) (scan_bytes s)) s
        in Some (s\<lparr>scan_size := 0\<rparr>)
      else None)"

definition esc_seen :: "('d, 'z) lab_kbc_st_scheme \<Rightarrow> bool" where
  "esc_seen s \<longleftrightarrow> scan_bytes s ! 0 = ESC_BREAKCODE"

text \<open>One iteration of an interrupt loop, with \<open>ESC_flag\<close> after it.\<close>

definition kbd_test_scan_body :: "'d env \<Rightarrow> u8 \<Rightarrow> ('d, 'z) lab_kbc_st_scheme \<Rightarrow> (bool \<times> ('d, 'z) lab_kbc_st_scheme) option" where
  "kbd_test_scan_body E bit_no s =
     (if irq_message E (BIT (unat bit_no)) (dev s)
      then do { s \<leftarrow> kbc_ih_lab E (after_message E s);
                s \<leftarrow> scan_byte s;
                Some (esc_seen s, s) }
      else Some (False, after_message E s))"

partial_function (option) kbd_test_scan_loop :: "'d env \<Rightarrow> u8 \<Rightarrow> ('d, 'z) lab_kbc_st_scheme \<Rightarrow> ('d, 'z) lab_kbc_st_scheme option" where
  "kbd_test_scan_loop E bit_no s =
     do { (ESC_flag, s) \<leftarrow> kbd_test_scan_body E bit_no s; if ESC_flag then Some s else kbd_test_scan_loop E bit_no s }"

definition kbd_test_scan :: "'d env \<Rightarrow> ('d, 'z) lab_kbc_st_scheme \<Rightarrow> (int \<times> ('d, 'z) lab_kbc_st_scheme) option" where
  "kbd_test_scan E s =
     (let bit_no = word_of_int KBC_IRQ;
          (r, s) = kbc_subscribe_int E bit_no s
      in if r = 1 then Some (1, s)
         else do { s \<leftarrow> kbd_test_scan_loop E bit_no s;
                   let s = lcf_print (kbd_print_no_sysinb (inb_counter s)) s;
                   let (r, s) = kbc_unsubscribe_int E s;
                   Some (if r = 1 then (1, s) else (0, s)) })"

partial_function (option) poll_status :: "'d env \<Rightarrow> ('d, 'z) lab_kbc_st_scheme \<Rightarrow> ('d, 'z) lab_kbc_st_scheme option" where
  "poll_status E s = do { (ok, s) \<leftarrow> kbc_check_status E s; if ok then Some s else poll_status E s }"

partial_function (option) kbd_test_poll_loop :: "'d env \<Rightarrow> ('d, 'z) lab_kbc_st_scheme \<Rightarrow> ('d, 'z) lab_kbc_st_scheme option" where
  "kbd_test_poll_loop E s =
     do { s \<leftarrow> poll_status E s;
          ((_, b), s) \<leftarrow> kbc_read_buf E s;
          s \<leftarrow> scan_byte (s\<lparr>sc_byte := b\<rparr>);
          if esc_seen s then Some s else kbd_test_poll_loop E s }"

definition kbd_test_poll :: "'d env \<Rightarrow> ('d, 'z) lab_kbc_st_scheme \<Rightarrow> (int \<times> ('d, 'z) lab_kbc_st_scheme) option" where
  "kbd_test_poll E s =
     do { s \<leftarrow> kbd_test_poll_loop E s;
          let s = lcf_print (kbd_print_no_sysinb (inb_counter s)) s;
          (r, s) \<leftarrow> kbc_wrt_cmd E KBC_RBC_COMMAND 0 s;
          if r = 1 then Some (1, s)
          else do {
            let s = s\<lparr>dev := tickdelay E (micros_to_ticks E DELAY_US) (dev s)\<rparr>;
            ((r, kbc_cmdbyte), s) \<leftarrow> kbc_read_buf E s;
            if r = 1 then Some (1, s)
            else do {
              let eint = ucast kbc_cmdbyte OR ENB_KBD_INT;
              (r, s) \<leftarrow> kbc_wrt_cmd E KBC_WRT_COMMAND eint s;
              Some (if r = 1 then (1, s) else (0, s)) } } }"

definition kbd_timed_body :: "'d env \<Rightarrow> u8 \<Rightarrow> u8 \<Rightarrow> ('d, 'z) lab_kbc_st_scheme \<Rightarrow> (bool \<times> ('d, 'z) lab_kbc_st_scheme) option" where
  "kbd_timed_body E bit_no_kbc bit_no_timer s =
     do { let kbd = irq_message E (BIT (unat bit_no_kbc)) (dev s);
          let tick = irq_message E (BIT (unat bit_no_timer)) (dev s);
          let s = after_message E s;
          (ESC_flag, s) \<leftarrow> (if kbd then do { s \<leftarrow> kbc_ih_lab E s;
                                           s \<leftarrow> scan_byte (s\<lparr>lab_counter := 0\<rparr>);
                                           Some (esc_seen s, s) }
                           else Some (False, s));
          s \<leftarrow> (if tick then timer_int_handler_lab s else Some s);
          Some (ESC_flag, s) }"

partial_function (option) kbd_timed_loop :: "'d env \<Rightarrow> u8 \<Rightarrow> u8 \<Rightarrow> u8 \<Rightarrow> bool \<Rightarrow> ('d, 'z) lab_kbc_st_scheme \<Rightarrow> ('d, 'z) lab_kbc_st_scheme option" where
  "kbd_timed_loop E bit_no_kbc bit_no_timer n ESC_flag s =
     (if \<not> ESC_flag \<and> lab_counter s < uint n * 60
      then do { (ESC_flag, s) \<leftarrow> kbd_timed_body E bit_no_kbc bit_no_timer s;
                kbd_timed_loop E bit_no_kbc bit_no_timer n ESC_flag s }
      else Some s)"

definition kbd_test_timed_scan :: "'d env \<Rightarrow> u8 \<Rightarrow> ('d, 'z) lab_kbc_st_scheme \<Rightarrow> (int \<times> ('d, 'z) lab_kbc_st_scheme) option" where
  "kbd_test_timed_scan E n s =
     (let bit_no_kbc = word_of_int KBC_IRQ;
          (r, s) = kbc_subscribe_int E bit_no_kbc s
      in if r = 1 then Some (1, s)
         else
           let bit_no_timer = word_of_int TIMER0_IRQ;
               (r, s) = timer_subscribe_int_lab E bit_no_timer s
           in if r = 1 then Some (1, s)
              else do { s \<leftarrow> kbd_timed_loop E bit_no_kbc bit_no_timer n False s;
                        let (r, s) = kbc_unsubscribe_int E s;
                        if r = 1 then Some (1, s)
                        else let (r, s) = timer_unsubscribe_int_lab E s in Some (if r = 1 then (1, s) else (0, s)) })"

section \<open>Assembling scancodes\<close>

text \<open>A byte that was read, as the tests handle it.\<close>

definition scan_read :: "u8 \<Rightarrow> ('d, 'z) lab_kbc_st_scheme \<Rightarrow> ('d, 'z) lab_kbc_st_scheme option" where
  "scan_read b s = scan_byte (s\<lparr>sc_byte := b\<rparr>)"

text \<open>The scancodes of a keyboard: one byte, or the prefix and a byte.\<close>

datatype kbd_code = Plain u8 | Extended u8

fun kbd_code_bytes :: "kbd_code \<Rightarrow> u8 list" where
  "kbd_code_bytes (Plain b) = [b]"
| "kbd_code_bytes (Extended b) = [FB_OF_TB, b]"

fun code_last :: "kbd_code \<Rightarrow> u8" where
  "code_last (Plain b) = b"
| "code_last (Extended b) = b"

fun prints :: "kbd_code \<Rightarrow> lcf_call \<Rightarrow> bool" where
  "prints c (kbd_print_scancode mk n bs) \<longleftrightarrow>
     (mk \<longleftrightarrow> \<not> bit (code_last c) 7) \<and> unat n = length (kbd_code_bytes c) \<and> take (unat n) bs = kbd_code_bytes c"
| "prints c _ \<longleftrightarrow> False"

definition scan_idle :: "('d, 'z) lab_kbc_st_scheme \<Rightarrow> bool" where
  "scan_idle s \<longleftrightarrow> scan_size s = 0 \<and> length (scan_bytes s) = 2"

lemma bit_BIT: "bit (BIT n :: 'a::len word) m \<longleftrightarrow> n = m \<and> m < LENGTH('a)"
  by (auto simp: BIT_def bit_simps)

lemma break_bit: "(BIT 7 AND b = BIT 7) \<longleftrightarrow> bit b 7" for b :: u8
proof
  assume "BIT 7 AND b = BIT 7"
  then have "bit (BIT 7 AND b) 7 \<longleftrightarrow> bit (BIT 7 :: u8) 7" by simp
  then show "bit b 7" by (simp add: bit_and_iff bit_BIT)
next
  assume "bit b 7"
  then show "BIT 7 AND b = BIT 7" by (intro bit_word_eqI) (auto simp: bit_and_iff bit_BIT)
qed

lemma scan_code:
  assumes "scan_idle s" and "code_last c \<noteq> FB_OF_TB"
  shows "\<exists>s' call. run_steps scan_read (kbd_code_bytes c) s = Some s' \<and> scan_idle s' \<and> lcf_calls s' = lcf_calls s @ [call] \<and> prints c call"
proof -
  obtain a b where "scan_bytes s = [a, b]" using assms(1) by (auto simp: scan_idle_def numeral_2_eq_2 length_Suc_conv)
  then show ?thesis using assms
    by (cases c) (simp_all add: scan_read_def scan_idle_def scan_byte_def lcf_print_def break_bit Let_def)
qed

interpretation scan_reader: frame_reader "scan_read :: _ \<Rightarrow> ('d, 'z) lab_kbc_st_scheme \<Rightarrow> _" scan_idle kbd_code_bytes
  "\<lambda>c. code_last c \<noteq> FB_OF_TB" lcf_calls prints
  by unfold_locales (rule scan_code)

text \<open>A byte is stored outside the array exactly where two prefixes came before it.\<close>

lemma scan_byte_undefined:
  "length (scan_bytes s) = 2 \<Longrightarrow> scan_byte s = None \<longleftrightarrow> sc_byte s \<noteq> FB_OF_TB \<and> 2 \<le> unat (scan_size s)"
  by (simp add: scan_byte_def not_less)

section \<open>The status register\<close>

text \<open>
  The test for a parity or timeout error compares bits 6 and 7 with 1, which they never equal:
  a byte that came with an error is taken as well.
\<close>

lemma error_bits_not_one: "(st :: u8) AND (PAR OR TIMEOUT) \<noteq> 1"
proof
  assume "st AND (PAR OR TIMEOUT) = 1"
  then have "bit (st AND (PAR OR TIMEOUT)) 0" by simp
  then show False by (simp add: PAR_def TIMEOUT_def BIT_def bit_simps)
qed

lemma kbc_check_status_eq:
  assumes "inb_counter s < 2147483647" "sys_inb E KBC_ST_REG (dev s) = ((0, w), d)"
  shows "kbc_check_status E s = Some (bit w 0, s\<lparr>dev := d, inb_counter := inb_counter s + 1\<rparr>)"
proof -
  have "OBF AND ucast w = (ucast w :: u8) AND BIT 0" by (simp add: OBF_def and.commute)
  then have "truth (OBF AND (ucast w :: u8)) \<longleftrightarrow> bit w 0" by (simp add: truth_and_BIT bit_simps)
  then show ?thesis using assms
    by (simp add: kbc_check_status_def kbc_read_status_def sys_inb_cnt_def error_bits_not_one)
qed

text \<open>A command is written, or its argument, never both.\<close>

lemma kbc_wrt_cmd_eq:
  assumes "inb_counter s < 2147483647" "sys_inb E KBC_ST_REG (dev s) = ((0, w), d)"
  shows "kbc_wrt_cmd E cmd args s = Some
    (let (r, d') = sys_outb E (if bit w 1 then KBC_ARG_REG else KBC_CMD_REG) (if bit w 1 then args else cmd) d
     in (if r = 1 then 1 else 0, s\<lparr>dev := d', inb_counter := inb_counter s + 1\<rparr>))"
proof -
  have "truth ((ucast w :: u8) AND IBF) \<longleftrightarrow> bit w 1" by (simp add: IBF_def truth_and_BIT bit_simps)
  then have "((ucast w :: u8) AND IBF = 0) \<longleftrightarrow> \<not> bit w 1" unfolding truth_def by blast
  then show ?thesis using assms
    by (simp add: kbc_wrt_cmd_def kbc_read_status_def sys_inb_cnt_def outb_def Let_def split_beta)
qed

section \<open>The interrupt loop\<close>

lemma kbd_test_scan_loop_flagged:
  assumes "kbd_test_scan_loop E b s = Some s'"
  shows "flagged_after (kbd_test_scan_body E b) s s'"
proof (rule kbd_test_scan_loop.raw_induct [of "\<lambda>E b s s'. flagged_after (kbd_test_scan_body E b) s s'", OF _ assms])
  fix loop E b s s'
  assume "\<And>E b s s'. loop E b s = Some s' \<Longrightarrow> flagged_after (kbd_test_scan_body E b) s s'"
    and "Option.bind (kbd_test_scan_body E b s) (\<lambda>(flag, s). if flag then Some s else loop E b s) = Some s'"
  then show "flagged_after (kbd_test_scan_body E b) s s'"
    by (blast intro: flagged_step)
qed

interpretation scan_loop: flag_loop "kbd_test_scan_body E b" "kbd_test_scan_loop E b"
  by unfold_locales (subst kbd_test_scan_loop.simps, simp, rule kbd_test_scan_loop_flagged)

text \<open>The handler changes the device and the byte read only.\<close>

lemma kbc_ih_lab_more: "kbc_ih_lab E s = Some s' \<Longrightarrow> lab_kbc_st.more s' = lab_kbc_st.more s"
  by (auto simp: kbc_ih_lab_def kbc_check_status_def kbc_read_status_def kbc_read_buf_def sys_inb_cnt_def split_beta Let_def
      split: Option.bind_splits if_splits)

end
