(* ===== verification/Lab_Mouse.thy ===== *)
theory Lab_Mouse
  imports Lab_Kbc "HOL-Library.Sublist"
begin

text \<open>
  The mouse exercise, \<open>src/lab4\<close>: \<open>mouse.c\<close> and the four tests of \<open>lab4.c\<close>. The statics of
  \<open>mouse_get_event\<close> and \<open>mouse_detect_gesture\<close> are fields of the state; the event they share is
  passed by address, so what \<open>mouse_detect_gesture\<close> adds to its deltas is added to the static. A
  division by zero is \<open>None\<close>. The messages of \<open>printf\<close> are not modelled.
\<close>

section \<open>Constants and state\<close>

definition WRITE_B_MOUSE :: u32 where "WRITE_B_MOUSE = 0xD4"
definition MOUSE_ENABLE_REPORT :: u32 where "MOUSE_ENABLE_REPORT = 0xF4"
definition MOUSE_DISABLE_REPORT :: u32 where "MOUSE_DISABLE_REPORT = 0xF5"
definition MOUSE_STREAM_MODE :: u32 where "MOUSE_STREAM_MODE = 0xEA"
definition MOUSE_READ_DATA :: u32 where "MOUSE_READ_DATA = 0xEB"
definition ACK :: u8 where "ACK = 0xFA"
definition NACK :: u8 where "NACK = 0xFE"
definition ERROR :: u8 where "ERROR = 0xFC"
definition PK_LB :: u8 where "PK_LB = BIT 0"
definition PK_RB :: u8 where "PK_RB = BIT 1"
definition PK_MB :: u8 where "PK_MB = BIT 2"
definition PK_BIT3 :: u8 where "PK_BIT3 = BIT 3"
definition PK_XSIGN :: u8 where "PK_XSIGN = BIT 4"
definition PK_YSIGN :: u8 where "PK_YSIGN = BIT 5"
definition PK_XOVF :: u8 where "PK_XOVF = BIT 6"
definition PK_YOVF :: u8 where "PK_YOVF = BIT 7"

lemmas pk_consts = PK_LB_def PK_RB_def PK_MB_def PK_BIT3_def PK_XSIGN_def PK_YSIGN_def PK_XOVF_def PK_YOVF_def

datatype mouse_ev_type = RB_PRESSED | RB_RELEASED | LB_PRESSED | LB_RELEASED | BUTTON_EV | MOUSE_MOV

record mouse_ev =
  ev_type :: mouse_ev_type
  ev_delta_x :: u16
  ev_delta_y :: u16

datatype state = init | drag1 | wait | drag2

record 'd lab_mouse_st = "'d lab_timer_st" +
  hook_id_mouse :: int
  mouse_sc_byte :: u8
  gesture :: bool
  pkt_size :: u8
  pkt_bytes :: "u8 list"
  ev_oldpk :: packet
  ev_event :: mouse_ev
  ev_first :: bool
  g_st :: state
  g_accepted_line :: bool
  g_sum_x :: u16

section \<open>mouse.c: the controller\<close>

definition sys_inb_mouse :: "'d env \<Rightarrow> int \<Rightarrow> ('d, 'z) machine_scheme \<Rightarrow> (int \<times> u8) \<times> ('d, 'z) machine_scheme" where
  "sys_inb_mouse E port s =
     (let ((r, byte), d) = sys_inb E port (dev s)
      in ((0, if r = 0 then ucast byte else uninit E d), s\<lparr>dev := d\<rparr>))"

definition kbc_read_status_lab4 :: "'d env \<Rightarrow> ('d, 'z) machine_scheme \<Rightarrow> (int \<times> u8) \<times> ('d, 'z) machine_scheme" where
  "kbc_read_status_lab4 E s =
     (let ((r, st), s) = sys_inb_mouse E KBC_ST_REG s in ((if r = 1 then 1 else 0, st), s))"

definition kbc_read_buf_lab4 :: "'d env \<Rightarrow> ('d, 'z) machine_scheme \<Rightarrow> (int \<times> u8) \<times> ('d, 'z) machine_scheme" where
  "kbc_read_buf_lab4 E s =
     (let ((r, b), s) = sys_inb_mouse E KBC_OUT_BUF s in ((if r = 1 then 1 else 0, b), s))"

definition kbc_check_status_lab4 :: "'d env \<Rightarrow> ('d, 'z) machine_scheme \<Rightarrow> bool \<times> ('d, 'z) machine_scheme" where
  "kbc_check_status_lab4 E s =
     (let ((r, st), s) = kbc_read_status_lab4 E s
      in if r = 1 then (False, s)
         else if truth (OBF AND st) then if st AND (PAR OR TIMEOUT) = 1 then (False, s) else (True, s)
         else (False, s))"

definition mouse_subscribe_int :: "'d env \<Rightarrow> u8 \<Rightarrow> ('d, 'z) lab_mouse_st_scheme \<Rightarrow> int \<times> ('d, 'z) lab_mouse_st_scheme" where
  "mouse_subscribe_int E bit_no s =
     (let ((r, hook), d) = sys_irqsetpolicy E MOUSE_IRQ (IRQ_REENABLE OR IRQ_EXCLUSIVE) (uint bit_no) (dev s)
      in (if r = 1 then 1 else 0, s\<lparr>dev := d, hook_id_mouse := hook\<rparr>))"

definition mouse_unsubscribe_int :: "'d env \<Rightarrow> ('d, 'z) lab_mouse_st_scheme \<Rightarrow> int \<times> ('d, 'z) lab_mouse_st_scheme" where
  "mouse_unsubscribe_int E s =
     (let (r, d) = sys_irqrmpolicy E (hook_id_mouse s) (dev s) in (if r = 1 then 1 else 0, s\<lparr>dev := d\<rparr>))"

definition kbc_check_out_buf :: "'d env \<Rightarrow> ('d, 'z) machine_scheme \<Rightarrow> bool \<times> ('d, 'z) machine_scheme" where
  "kbc_check_out_buf E s =
     (let ((r, status), s) = kbc_read_status_lab4 E s
      in if r = 1 then (True, s)
         else if truth (status AND OBF) then if status AND (PAR OR TIMEOUT) = 0 then (True, s) else (False, s)
         else (False, s))"

definition kbc_check_in_buf :: "'d env \<Rightarrow> ('d, 'z) machine_scheme \<Rightarrow> bool \<times> ('d, 'z) machine_scheme" where
  "kbc_check_in_buf E s =
     (let ((r, status), s) = kbc_read_status_lab4 E s
      in if r = 1 then (True, s) else if status AND IBF = 0 then (True, s) else (False, s))"

definition mouse_ih :: "'d env \<Rightarrow> ('d, 'z) lab_mouse_st_scheme \<Rightarrow> ('d, 'z) lab_mouse_st_scheme" where
  "mouse_ih E s =
     (let (ok, s) = kbc_check_out_buf E s
      in if ok then let ((_, b), s) = kbc_read_buf_lab4 E s in s\<lparr>mouse_sc_byte := b\<rparr> else s)"

definition kbc_delay :: "'d env \<Rightarrow> ('d, 'z) machine_scheme \<Rightarrow> ('d, 'z) machine_scheme" where
  "kbc_delay E s = s\<lparr>dev := tickdelay E (micros_to_ticks E DELAY_US) (dev s)\<rparr>"

text \<open>The loop of \<open>kbc_write_command\<close> and of \<open>kbc_write_argument\<close>, with the tries that are left.\<close>

fun kbc_write_loop :: "'d env \<Rightarrow> int \<Rightarrow> u32 \<Rightarrow> nat \<Rightarrow> ('d, 'z) machine_scheme \<Rightarrow> int \<times> ('d, 'z) machine_scheme" where
  "kbc_write_loop E port v 0 s = (1, s)"
| "kbc_write_loop E port v (Suc tries) s =
     (let (ready, s) = kbc_check_in_buf E s
      in if ready then let (r, s) = outb E port v s in if r = 1 then (1, s) else (0, s)
         else kbc_write_loop E port v tries (kbc_delay E s))"

definition kbc_write_command :: "'d env \<Rightarrow> u32 \<Rightarrow> ('d, 'z) machine_scheme \<Rightarrow> int \<times> ('d, 'z) machine_scheme" where
  "kbc_write_command E cmd s = kbc_write_loop E KBC_CMD_REG cmd 3 s"

definition kbc_write_argument :: "'d env \<Rightarrow> u32 \<Rightarrow> ('d, 'z) machine_scheme \<Rightarrow> int \<times> ('d, 'z) machine_scheme" where
  "kbc_write_argument E arg s = kbc_write_loop E KBC_ARG_REG arg 3 s"

text \<open>The response is meaningful where the status is not 1.\<close>

fun mouse_write_loop :: "'d env \<Rightarrow> u32 \<Rightarrow> nat \<Rightarrow> ('d, 'z) machine_scheme \<Rightarrow> (int \<times> u8) \<times> ('d, 'z) machine_scheme" where
  "mouse_write_loop E cmd 0 s = ((1, 0), s)"
| "mouse_write_loop E cmd (Suc tries) s =
     (let (ready, s) = kbc_check_in_buf E s
      in if ready then
           let (r, s) = outb E KBC_ARG_REG cmd s
           in if r = 1 then ((1, 0), s)
              else
                let s = kbc_delay E s;
                    ((r, tmp), d) = sys_inb E KBC_OUT_BUF (dev s);
                    s = s\<lparr>dev := d\<rparr>
                in if r = 1 then ((1, 0), s) else ((0, if r = 0 then ucast tmp else uninit E d), s)
         else mouse_write_loop E cmd tries (kbc_delay E s))"

definition mouse_write_command_lab4 :: "'d env \<Rightarrow> u32 \<Rightarrow> ('d, 'z) machine_scheme \<Rightarrow> (int \<times> u8) \<times> ('d, 'z) machine_scheme" where
  "mouse_write_command_lab4 E cmd s = mouse_write_loop E cmd 3 s"

partial_function (option) kbc_command_loop ::
  "'d env \<Rightarrow> u32 \<Rightarrow> u32 \<Rightarrow> nat \<Rightarrow> ('d, 'z) machine_scheme \<Rightarrow> (int \<times> ('d, 'z) machine_scheme) option" where
  "kbc_command_loop E cmd arg tries s =
     (let (r, s) = kbc_write_command E cmd s
      in if r = 1 then Some (1, s)
         else if cmd = WRITE_B_MOUSE then
           let ((r, resp), s) = mouse_write_command_lab4 E arg s
           in if r = 1 then Some (1, s)
              else if resp = ACK then Some (0, s)
              else if resp = NACK then
                if tries + 1 < 3 then kbc_command_loop E cmd arg (tries + 1) s else Some (1, s)
              else if resp = ERROR then Some (1, s)
              else if tries < 3 then kbc_command_loop E cmd arg tries s
              else Some (1, s)
         else if cmd = KBC_WRT_COMMAND then
           let (r, s) = kbc_write_argument E arg s in Some (if r = 1 then (1, s) else (0, s))
         else if tries < 3 then kbc_command_loop E cmd arg tries s
         else Some (1, s))"

definition kbc_command_handler :: "'d env \<Rightarrow> u32 \<Rightarrow> u32 \<Rightarrow> ('d, 'z) machine_scheme \<Rightarrow> (int \<times> ('d, 'z) machine_scheme) option" where
  "kbc_command_handler E cmd arg s = kbc_command_loop E cmd arg 0 s"

section \<open>mouse.c: packets, events and the gesture\<close>

definition mouse_parse_packet :: "packet \<Rightarrow> u8 list \<Rightarrow> u8 \<Rightarrow> packet option" where
  "mouse_parse_packet pp bs sz =
     (if 3 \<le> length bs \<and> unat sz \<le> length bs \<and> unat sz \<le> length (pk_bytes pp) then
        let dx = word_of_int (uint (bs ! 1)) :: u16;
            dy = word_of_int (uint (bs ! 2)) :: u16;
            dx = (if bs ! 0 AND PK_XSIGN \<noteq> 0 then dx - 256 else dx);
            dy = (if bs ! 0 AND PK_YSIGN \<noteq> 0 then dy - 256 else dy)
        in Some \<lparr>pk_bytes = take (unat sz) bs @ drop (unat sz) (pk_bytes pp),
                 rb = truth (bs ! 0 AND PK_RB), mb = truth (bs ! 0 AND PK_MB), lb = truth (bs ! 0 AND PK_LB),
                 delta_x = dx, delta_y = dy,
                 x_ov = truth (bs ! 0 AND PK_XOVF), y_ov = truth (bs ! 0 AND PK_YOVF)\<rparr>
      else None)"

text \<open>The type of the event of a packet after an earlier one; \<open>None\<close> keeps the type of the last event.\<close>

definition mouse_event_type :: "packet \<Rightarrow> packet \<Rightarrow> mouse_ev_type option" where
  "mouse_event_type oldpk pp =
     (let temp = pk_bytes pp ! 0; old = pk_bytes oldpk ! 0 in
      if temp AND PK_LB = PK_LB \<and> old AND PK_LB = 0 then Some LB_PRESSED
      else if temp AND PK_RB = PK_RB \<and> old AND PK_RB = 0 then Some RB_PRESSED
      else if temp AND PK_MB = PK_MB \<and> old AND PK_MB = 0 then Some BUTTON_EV
      else if temp AND PK_LB = 0 \<and> old AND PK_LB = PK_LB then Some LB_RELEASED
      else if temp AND PK_RB = 0 \<and> old AND PK_RB = PK_RB then Some RB_RELEASED
      else if temp AND PK_MB = 0 \<and> old AND PK_MB = PK_MB then Some BUTTON_EV
      else if pk_bytes pp ! 1 \<noteq> 0 \<or> pk_bytes pp ! 2 \<noteq> 0 then Some MOUSE_MOV
      else None)"

definition mouse_get_event :: "packet \<Rightarrow> ('d, 'z) lab_mouse_st_scheme \<Rightarrow> ('d, 'z) lab_mouse_st_scheme" where
  "mouse_get_event pp s =
     (let s = (if ev_first s then s\<lparr>ev_event := (ev_event s)\<lparr>ev_type := BUTTON_EV\<rparr>, ev_first := False\<rparr>
               else
                 (case mouse_event_type (ev_oldpk s) pp of
                    None \<Rightarrow> s
                  | Some MOUSE_MOV \<Rightarrow> s\<lparr>ev_event := \<lparr>ev_type = MOUSE_MOV, ev_delta_x = delta_x pp, ev_delta_y = delta_y pp\<rparr>\<rparr>
                  | Some t \<Rightarrow> s\<lparr>ev_event := (ev_event s)\<lparr>ev_type := t\<rparr>\<rparr>))
      in s\<lparr>ev_oldpk := pp\<rparr>)"

definition beyond :: "u8 \<Rightarrow> mouse_ev \<Rightarrow> bool" where
  "beyond tolerance e \<longleftrightarrow> \<bar>sint (ev_delta_x e)\<bar> > uint tolerance \<or> \<bar>sint (ev_delta_y e)\<bar> > uint tolerance"

definition slope :: "mouse_ev \<Rightarrow> int option" where
  "slope e = (if ev_delta_x e = 0 then None else Some (sint (ev_delta_y e) sdiv sint (ev_delta_x e)))"

definition extend_line :: "u8 \<Rightarrow> ('d, 'z) lab_mouse_st_scheme \<Rightarrow> ('d, 'z) lab_mouse_st_scheme" where
  "extend_line x_len s =
     (let s = s\<lparr>g_sum_x := g_sum_x s + ev_delta_x (ev_event s)\<rparr>
      in if \<bar>sint (g_sum_x s)\<bar> \<ge> uint x_len then s\<lparr>g_accepted_line := True\<rparr> else s)"

definition mouse_detect_gesture :: "u8 \<Rightarrow> u8 \<Rightarrow> ('d, 'z) lab_mouse_st_scheme \<Rightarrow> ('d, 'z) lab_mouse_st_scheme option" where
  "mouse_detect_gesture x_len tolerance s =
     (let t = ev_type (ev_event s) in
      case g_st s of
        init \<Rightarrow> Some (if t = LB_PRESSED then s\<lparr>g_st := drag1\<rparr> else s)
      | drag1 \<Rightarrow>
          if t = MOUSE_MOV then
            let s = (if ev_delta_y (ev_event s) = 0 \<or> ev_delta_x (ev_event s) = 0
                     then s\<lparr>ev_event := (ev_event s)\<lparr>ev_delta_y := ev_delta_y (ev_event s) + 1,
                                                     ev_delta_x := ev_delta_x (ev_event s) + 1\<rparr>\<rparr>
                     else s)
            in do { sl \<leftarrow> slope (ev_event s);
                    Some (if sl \<le> 1 \<and> beyond tolerance (ev_event s) then s\<lparr>g_st := init\<rparr> else extend_line x_len s) }
          else if t = LB_RELEASED \<and> g_accepted_line s
          then Some (s\<lparr>g_sum_x := 0, g_accepted_line := False, g_st := wait\<rparr>)
          else Some (s\<lparr>g_st := init\<rparr>)
      | wait \<Rightarrow>
          Some (if t = MOUSE_MOV then if beyond tolerance (ev_event s) then s\<lparr>g_st := init\<rparr> else s
                else if t = RB_PRESSED then s\<lparr>g_st := drag2\<rparr>
                else if t = LB_PRESSED then s\<lparr>g_st := drag1\<rparr>
                else s\<lparr>g_st := init\<rparr>)
      | drag2 \<Rightarrow>
          if t = MOUSE_MOV then
            do { sl \<leftarrow> slope (ev_event s);
                 Some (if sl \<ge> - 1 \<and> beyond tolerance (ev_event s) then s\<lparr>g_st := init\<rparr> else extend_line x_len s) }
          else if t = RB_RELEASED \<and> g_accepted_line s
          then Some (s\<lparr>g_sum_x := 0, g_accepted_line := False, gesture := True\<rparr>)
          else Some (s\<lparr>g_st := init\<rparr>))"

section \<open>lab4.c\<close>

text \<open>The statements that every test runs on a byte of the mouse: skipped, stored, or a packet completed.\<close>

datatype collected = Skipped | Stored | Completed

definition collect_byte :: "packet \<Rightarrow> ('d, 'z) lab_mouse_st_scheme \<Rightarrow> ((collected \<times> packet) \<times> ('d, 'z) lab_mouse_st_scheme) option" where
  "collect_byte pp s =
     (if pkt_size s = 0 \<and> mouse_sc_byte s AND PK_BIT3 = 0 then Some ((Skipped, pp), s)
      else if unat (pkt_size s) < length (pkt_bytes s) then
        let s = s\<lparr>pkt_bytes := (pkt_bytes s)[unat (pkt_size s) := mouse_sc_byte s], pkt_size := pkt_size s + 1\<rparr> in
        if pkt_size s = 3 then
          do { pp \<leftarrow> mouse_parse_packet pp (pkt_bytes s) (pkt_size s);
               Some ((Completed, pp), (lcf_print (mouse_print_packet pp) s)\<lparr>pkt_size := 0\<rparr>) }
        else Some ((Stored, pp), s)
      else None)"

text \<open>A packet variable that nothing has assigned yet.\<close>

definition uninit_packet :: "u8 \<Rightarrow> packet" where
  "uninit_packet b = \<lparr>pk_bytes = [b, b, b], rb = truth b, mb = truth b, lb = truth b, delta_x = ucast b, delta_y = ucast b,
     x_ov = truth b, y_ov = truth b\<rparr>"

definition mouse_packet_body :: "'d env \<Rightarrow> u32 \<Rightarrow> u32 \<Rightarrow> ('d, 'z) lab_mouse_st_scheme \<Rightarrow> (u32 \<times> ('d, 'z) lab_mouse_st_scheme) option" where
  "mouse_packet_body E irq_set num_packets s =
     (if irq_message E irq_set (dev s)
      then do { let s = mouse_ih E (after_message E s);
                ((c, _), s) \<leftarrow> collect_byte (uninit_packet (uninit E (dev s))) s;
                Some (if c = Completed then num_packets + 1 else num_packets, s) }
      else Some (num_packets, after_message E s))"

partial_function (option) mouse_packet_loop :: "'d env \<Rightarrow> u32 \<Rightarrow> u32 \<Rightarrow> u32 \<Rightarrow> ('d, 'z) lab_mouse_st_scheme \<Rightarrow> ('d, 'z) lab_mouse_st_scheme option" where
  "mouse_packet_loop E irq_set cnt num_packets s =
     (if num_packets < cnt
      then do { (num_packets, s) \<leftarrow> mouse_packet_body E irq_set num_packets s; mouse_packet_loop E irq_set cnt num_packets s }
      else Some s)"

definition mouse_test_packet :: "'d env \<Rightarrow> u32 \<Rightarrow> ('d, 'z) lab_mouse_st_scheme \<Rightarrow> (int \<times> ('d, 'z) lab_mouse_st_scheme) option" where
  "mouse_test_packet E cnt s =
     (let bit_no = word_of_int MOUSE_IRQ :: u8;
          (r, s) = mouse_subscribe_int E bit_no s
      in if r = 1 then Some (1, s)
         else do {
           (r, s) \<leftarrow> kbc_command_handler E WRITE_B_MOUSE MOUSE_ENABLE_REPORT s;
           if r = 1 then Some (1, s)
           else do {
             s \<leftarrow> mouse_packet_loop E (BIT (unat bit_no)) cnt 0 s;
             (r, s) \<leftarrow> kbc_command_handler E WRITE_B_MOUSE MOUSE_DISABLE_REPORT s;
             if r = 1 then Some (1, s)
             else let (r, s) = mouse_unsubscribe_int E s in Some (if r = 1 then (1, s) else (0, s)) } })"

definition mouse_async_body ::
  "'d env \<Rightarrow> int \<Rightarrow> u32 \<Rightarrow> u32 \<Rightarrow> int \<Rightarrow> ('d, 'z) lab_mouse_st_scheme \<Rightarrow> (int \<times> ('d, 'z) lab_mouse_st_scheme) option" where
  "mouse_async_body E frequency irq_set_timer irq_set_mouse seconds s =
     do { let tick = irq_message E irq_set_timer (dev s);
          let moved = irq_message E irq_set_mouse (dev s);
          let s = after_message E s;
          (seconds, s) \<leftarrow> (if tick then
                            do { s \<leftarrow> timer_int_handler_lab s;
                                 if frequency = 0 then None
                                 else Some (if lab_counter s smod frequency = 0 then seconds + 1 else seconds, s) }
                          else Some (seconds, s));
          if moved then
            do { let s = (mouse_ih E s)\<lparr>lab_counter := 0\<rparr>;
                 (_, s) \<leftarrow> collect_byte (uninit_packet (uninit E (dev s))) s;
                 Some (0, s) }
          else Some (seconds, s) }"

partial_function (option) mouse_async_loop ::
  "'d env \<Rightarrow> int \<Rightarrow> u32 \<Rightarrow> u32 \<Rightarrow> u8 \<Rightarrow> int \<Rightarrow> ('d, 'z) lab_mouse_st_scheme \<Rightarrow> ('d, 'z) lab_mouse_st_scheme option" where
  "mouse_async_loop E frequency irq_set_timer irq_set_mouse idle_time seconds s =
     (if seconds \<noteq> uint idle_time
      then do { (seconds, s) \<leftarrow> mouse_async_body E frequency irq_set_timer irq_set_mouse seconds s;
                mouse_async_loop E frequency irq_set_timer irq_set_mouse idle_time seconds s }
      else Some s)"

definition mouse_test_async :: "'d env \<Rightarrow> lcf \<Rightarrow> u8 \<Rightarrow> ('d, 'z) lab_mouse_st_scheme \<Rightarrow> (int \<times> ('d, 'z) lab_mouse_st_scheme) option" where
  "mouse_test_async E L idle_time s =
     (let bit_no_mouse = word_of_int MOUSE_IRQ :: u8;
          (r, s) = mouse_subscribe_int E bit_no_mouse s
      in if r = 1 then Some (1, s)
         else
           let bit_no_timer = word_of_int TIMER0_IRQ :: u8;
               (r, s) = timer_subscribe_int_lab E bit_no_timer s
           in if r = 1 then Some (1, s)
              else do {
                (r, s) \<leftarrow> kbc_command_handler E WRITE_B_MOUSE MOUSE_ENABLE_REPORT s;
                if r = 1 then Some (1, s)
                else do {
                  s \<leftarrow> mouse_async_loop E (sys_hz L) (BIT (unat bit_no_timer)) (BIT (unat bit_no_mouse)) idle_time 0 s;
                  (r, s) \<leftarrow> kbc_command_handler E WRITE_B_MOUSE MOUSE_DISABLE_REPORT s;
                  if r = 1 then Some (1, s)
                  else
                    let (r, s) = mouse_unsubscribe_int E s
                    in if r = 1 then Some (1, s)
                       else let (r, s) = timer_unsubscribe_int_lab E s in Some (if r = 1 then (1, s) else (0, s)) } })"

text \<open>Every byte that is not skipped runs the event and the gesture on the last packet that was completed.\<close>

definition mouse_gesture_body ::
  "'d env \<Rightarrow> u32 \<Rightarrow> u8 \<Rightarrow> u8 \<Rightarrow> packet \<Rightarrow> ('d, 'z) lab_mouse_st_scheme \<Rightarrow> (packet \<times> ('d, 'z) lab_mouse_st_scheme) option" where
  "mouse_gesture_body E irq_set x_len tolerance pk s =
     (if irq_message E irq_set (dev s)
      then do { let s = mouse_ih E (after_message E s);
                ((c, pk), s) \<leftarrow> collect_byte pk s;
                if c = Skipped then Some (pk, s)
                else do { s \<leftarrow> mouse_detect_gesture x_len tolerance (mouse_get_event pk s); Some (pk, s) } }
      else Some (pk, after_message E s))"

partial_function (option) mouse_gesture_loop ::
  "'d env \<Rightarrow> u32 \<Rightarrow> u8 \<Rightarrow> u8 \<Rightarrow> packet \<Rightarrow> ('d, 'z) lab_mouse_st_scheme \<Rightarrow> ('d, 'z) lab_mouse_st_scheme option" where
  "mouse_gesture_loop E irq_set x_len tolerance pk s =
     (if \<not> gesture s
      then do { (pk, s) \<leftarrow> mouse_gesture_body E irq_set x_len tolerance pk s; mouse_gesture_loop E irq_set x_len tolerance pk s }
      else Some s)"

text \<open>\<open>irq_bitmask\<close> is read before anything was assigned to it; a shift by more than 30 is undefined.\<close>

definition mouse_test_gesture :: "'d env \<Rightarrow> u8 \<Rightarrow> u8 \<Rightarrow> ('d, 'z) lab_mouse_st_scheme \<Rightarrow> (int \<times> ('d, 'z) lab_mouse_st_scheme) option" where
  "mouse_test_gesture E x_len tolerance s =
     do { let irq_bitmask = uninit E (dev s);
          (r, s) \<leftarrow> kbc_command_handler E WRITE_B_MOUSE MOUSE_ENABLE_REPORT s;
          if r = 1 then Some (1, s)
          else
            let (r, s) = mouse_subscribe_int E irq_bitmask s
            in if r = 1 then Some (1, s)
               else if 31 \<le> unat irq_bitmask then None
               else do {
                 s \<leftarrow> mouse_gesture_loop E (BIT (unat irq_bitmask)) x_len tolerance (uninit_packet (uninit E (dev s))) s;
                 (r, s) \<leftarrow> kbc_command_handler E WRITE_B_MOUSE MOUSE_DISABLE_REPORT s;
                 if r = 1 then Some (1, s)
                 else let (r, s) = mouse_unsubscribe_int E s in Some (if r = 1 then (1, s) else (0, s)) } }"

partial_function (option) poll_out_buf :: "'d env \<Rightarrow> ('d, 'z) machine_scheme \<Rightarrow> ('d, 'z) machine_scheme option" where
  "poll_out_buf E s = (let (ok, s) = kbc_check_out_buf E s in if ok then Some s else poll_out_buf E s)"

text \<open>The left summand is the early return of 1.\<close>

partial_function (option) mouse_remote_loop ::
  "'d env \<Rightarrow> u16 \<Rightarrow> u8 \<Rightarrow> u32 \<Rightarrow> ('d, 'z) lab_mouse_st_scheme \<Rightarrow> (('d, 'z) lab_mouse_st_scheme + ('d, 'z) lab_mouse_st_scheme) option" where
  "mouse_remote_loop E period cnt num_packets s =
     do { s \<leftarrow> poll_out_buf E s;
          let ((_, b), s) = kbc_read_buf_lab4 E s;
          ((c, _), s) \<leftarrow> collect_byte (uninit_packet (uninit E (dev s))) (s\<lparr>mouse_sc_byte := b\<rparr>);
          if c = Completed then
            if ucast cnt = num_packets + 1 then Some (Inr s)
            else do {
              let s = s\<lparr>dev := tickdelay E (micros_to_ticks E (uint period * 1000)) (dev s)\<rparr>;
              (r, s) \<leftarrow> kbc_command_handler E WRITE_B_MOUSE MOUSE_READ_DATA s;
              if r = 1 then Some (Inl s) else mouse_remote_loop E period cnt (num_packets + 1) s }
          else mouse_remote_loop E period cnt num_packets s }"

definition mouse_test_remote :: "'d env \<Rightarrow> lcf \<Rightarrow> u16 \<Rightarrow> u8 \<Rightarrow> ('d, 'z) lab_mouse_st_scheme \<Rightarrow> (int \<times> ('d, 'z) lab_mouse_st_scheme) option" where
  "mouse_test_remote E L period cnt s =
     do { (r, s) \<leftarrow> kbc_command_handler E WRITE_B_MOUSE MOUSE_READ_DATA s;
          if r = 1 then Some (1, s)
          else do {
            res \<leftarrow> mouse_remote_loop E period cnt 0 s;
            (case res of
               Inl s \<Rightarrow> Some (1, s)
             | Inr s \<Rightarrow> do {
                 (r, s) \<leftarrow> kbc_command_handler E WRITE_B_MOUSE MOUSE_STREAM_MODE s;
                 if r \<noteq> 0 then Some (1, s)
                 else do {
                   (r, s) \<leftarrow> kbc_command_handler E WRITE_B_MOUSE MOUSE_DISABLE_REPORT s;
                   if r \<noteq> 0 then Some (1, s)
                   else do {
                     (r, s) \<leftarrow> kbc_command_handler E KBC_WRT_COMMAND (ucast (minix_get_dflt_kbc_cmd_byte L)) s;
                     Some (if r \<noteq> 0 then (1, s) else (0, s)) } } }) } }"

section \<open>Packets\<close>

lemma truth_test: "truth w \<longleftrightarrow> w \<noteq> 0"
  by (simp add: truth_def)

lemma length_3: "length xs = 3 \<Longrightarrow> xs = [xs ! 0, xs ! 1, xs ! 2]"
  by (auto simp: numeral_3_eq_3 length_Suc_conv)

lemma minus_256: "(word_of_int (uint (b :: u8)) :: u16) - 256 = word_of_int (- (2 ^ 8) + uint b)"
proof -
  have "(word_of_int (- (2 ^ 8) + uint b) :: u16) = word_of_int (uint b) - word_of_int 256"
    by (simp add: algebra_simps)
  then show ?thesis by simp
qed

text \<open>The exercise and the game decode the bytes of a packet alike.\<close>

lemma mouse_parse_packet_assembly:
  assumes "length bs = 3" and "length (pk_bytes pp) = 3"
  shows "mouse_parse_packet pp bs 3 = Some (assembly_packet bs)"
proof -
  have "take 3 bs @ drop 3 (pk_bytes pp) = [bs ! 0, bs ! 1, bs ! 2]" using assms length_3 [of bs] by simp
  then show ?thesis using assms
    by (simp add: mouse_parse_packet_def assembly_packet_def cpl2_9_to_16_def minus_256 pk_consts truth_test Let_def
        PACKET_RB_def PACKET_MB_def PACKET_LB_def PACKET_X_MSB_def PACKET_Y_MSB_def PACKET_X_OVFL_def PACKET_Y_OVFL_def)
qed

definition pkt_idle :: "('d, 'z) lab_mouse_st_scheme \<Rightarrow> bool" where
  "pkt_idle s \<longleftrightarrow> pkt_size s = 0 \<and> length (pkt_bytes s) = 3"

text \<open>A byte that was read, as the tests handle it, with a packet variable whose contents do not matter.\<close>

definition collect_read :: "packet \<Rightarrow> u8 \<Rightarrow> ('d, 'z) lab_mouse_st_scheme \<Rightarrow> ('d, 'z) lab_mouse_st_scheme option" where
  "collect_read pp b s = map_option snd (collect_byte pp (s\<lparr>mouse_sc_byte := b\<rparr>))"

lemma bit3_test: "(b AND PK_BIT3 = 0) \<longleftrightarrow> \<not> bit b 3" for b :: u8
  using truth_and_BIT [of 3 b] by (simp add: truth_def PK_BIT3_def) blast

text \<open>Between packets, bytes that cannot start one are skipped.\<close>

lemma collect_skip:
  "pkt_idle s \<Longrightarrow> list_all (\<lambda>b. \<not> bit b 3) bs \<Longrightarrow>
   \<exists>s'. run_steps (collect_read pp) bs s = Some s' \<and> pkt_idle s' \<and> lcf_calls s' = lcf_calls s"
proof (induction bs arbitrary: s)
  case Nil
  then show ?case by simp
next
  case (Cons b bs)
  let ?s = "s\<lparr>mouse_sc_byte := b\<rparr>"
  have "collect_read pp b s = Some ?s"
    using Cons.prems by (simp add: collect_read_def collect_byte_def pkt_idle_def bit3_test)
  then show ?case using Cons.IH [of ?s] Cons.prems by (simp add: pkt_idle_def)
qed

text \<open>A packet on the wire, after the bytes that are skipped.\<close>

fun packet_wire :: "u8 list \<times> u8 list \<Rightarrow> u8 list" where
  "packet_wire (junk, p) = junk @ p"

fun packet_valid :: "u8 list \<times> u8 list \<Rightarrow> bool" where
  "packet_valid (junk, p) \<longleftrightarrow> list_all (\<lambda>b. \<not> bit b 3) junk \<and> length p = 3 \<and> bit (p ! 0) 3"

lemma collect_packet:
  assumes s: "pkt_idle s" and p: "length p = 3" "bit (p ! 0) 3" and pp: "length (pk_bytes pp) = 3"
  shows "\<exists>s'. run_steps (collect_read pp) p s = Some s' \<and> pkt_idle s' \<and> lcf_calls s' = lcf_calls s @ [mouse_print_packet (assembly_packet p)]"
proof -
  obtain a b c where p3: "p = [a, b, c]" using length_3 [OF p(1)] by blast
  obtain x y z where b3: "pkt_bytes s = [x, y, z]" using length_3 [of "pkt_bytes s"] s by (auto simp: pkt_idle_def)
  have "mouse_parse_packet pp [a, b, c] 3 = Some (assembly_packet p)"
    using mouse_parse_packet_assembly [of p pp] p(1) pp p3 by simp
  then show ?thesis using s p(2) p3 b3
    by (simp add: collect_read_def collect_byte_def pkt_idle_def bit3_test lcf_print_def)
qed

lemma collect_frame:
  assumes "length (pk_bytes pp) = 3" "pkt_idle s" "packet_valid f"
  shows "\<exists>s' c. run_steps (collect_read pp) (packet_wire f) s = Some s' \<and> pkt_idle s' \<and> lcf_calls s' = lcf_calls s @ [c] \<and>
    c = mouse_print_packet (assembly_packet (snd f))"
proof -
  obtain junk p where f: "f = (junk, p)" by force
  then obtain s1 where "run_steps (collect_read pp) junk s = Some s1" "pkt_idle s1" "lcf_calls s1 = lcf_calls s"
    using collect_skip [OF assms(2)] assms(3) by auto
  then show ?thesis using collect_packet [of s1 p pp] assms f by (auto simp: run_steps_append)
qed

interpretation packet_reader: frame_reader "collect_read (uninit_packet b) :: _ \<Rightarrow> ('d, 'z) lab_mouse_st_scheme \<Rightarrow> _"
  pkt_idle packet_wire packet_valid lcf_calls "\<lambda>f c. c = mouse_print_packet (assembly_packet (snd f))"
  by unfold_locales (rule collect_frame, simp_all add: uninit_packet_def)

section \<open>The gesture\<close>

text \<open>An event, as the machine of the gesture handles it.\<close>

definition detect :: "u8 \<Rightarrow> u8 \<Rightarrow> mouse_ev \<Rightarrow> ('d, 'z) lab_mouse_st_scheme \<Rightarrow> ('d, 'z) lab_mouse_st_scheme option" where
  "detect x_len tol e s = mouse_detect_gesture x_len tol (s\<lparr>ev_event := e\<rparr>)"

text \<open>The strokes that lead to a state of the machine.\<close>

fun strokes :: "state \<Rightarrow> mouse_ev_type list" where
  "strokes init = []"
| "strokes drag1 = [LB_PRESSED]"
| "strokes wait = [LB_PRESSED, LB_RELEASED]"
| "strokes drag2 = [LB_PRESSED, LB_RELEASED, RB_PRESSED]"

definition all_strokes :: "mouse_ev_type list" where
  "all_strokes = [LB_PRESSED, LB_RELEASED, RB_PRESSED, RB_RELEASED]"

lemma extend_line_fields [simp]:
  "g_st (extend_line x_len s) = g_st s" "gesture (extend_line x_len s) = gesture s"
  by (simp_all add: extend_line_def Let_def)

lemma detect_step:
  assumes "mouse_detect_gesture x_len tol s = Some s'"
  shows "(g_st s' = g_st s \<or> g_st s' = init \<or> strokes (g_st s') = strokes (g_st s) @ [ev_type (ev_event s)] \<or>
      g_st s' = drag1 \<and> ev_type (ev_event s) = LB_PRESSED) \<and>
    (gesture s' \<longrightarrow> gesture s \<or> g_st s = drag2 \<and> ev_type (ev_event s) = RB_RELEASED \<and> g_accepted_line s)"
  using assms
  by (auto simp: mouse_detect_gesture_def Let_def split: state.splits if_splits Option.bind_splits)

lemma subseq_snoc: "subseq xs h \<Longrightarrow> subseq (xs @ [a]) (h @ [a])"
  by (simp add: list_emb_append_mono)

lemma strokes_inv:
  "run_steps (detect x_len tol) es s = Some s' \<Longrightarrow> subseq (strokes (g_st s)) h \<Longrightarrow> (gesture s \<longrightarrow> subseq all_strokes h) \<Longrightarrow>
   subseq (strokes (g_st s')) (h @ map ev_type es) \<and> (gesture s' \<longrightarrow> subseq all_strokes (h @ map ev_type es))"
proof (induction es arbitrary: s h)
  case Nil
  then show ?case by simp
next
  case (Cons e es)
  let ?s = "s\<lparr>ev_event := e\<rparr>" and ?h = "h @ [ev_type e]"
  obtain s1 where s1: "mouse_detect_gesture x_len tol ?s = Some s1" "run_steps (detect x_len tol) es s1 = Some s'"
    using Cons.prems(1) by (auto simp: detect_def [of x_len tol e s] split: Option.bind_splits)
  have more: "subseq xs ?h" if "subseq xs h" for xs using that list_emb_append_mono [of "(=)" xs h "[]" "[ev_type e]"] by simp
  have st: "subseq (strokes (g_st s1)) ?h"
  proof -
    consider "g_st s1 = g_st s" | "g_st s1 = init" | "strokes (g_st s1) = strokes (g_st s) @ [ev_type e]"
      | "g_st s1 = drag1" "ev_type e = LB_PRESSED" using detect_step [OF s1(1)] by auto
    then show ?thesis
    proof cases
      case 3
      then show ?thesis using subseq_snoc [OF Cons.prems(2), of "ev_type e"] by (simp only:)
    qed (use more Cons.prems(2) in \<open>simp_all add: subseq_singleton_left\<close>)
  qed
  have "subseq all_strokes ?h" if "g_st s = drag2" "ev_type e = RB_RELEASED"
  proof -
    have "all_strokes = strokes drag2 @ [RB_RELEASED]" by (simp add: all_strokes_def)
    then show ?thesis using subseq_snoc [of "strokes drag2" h RB_RELEASED] Cons.prems(2) that by (simp only:)
  qed
  then have "gesture s1 \<longrightarrow> subseq all_strokes ?h" using detect_step [OF s1(1)] Cons.prems(3) more by auto
  then show ?case using Cons.IH [OF s1(2) st] by simp
qed

text \<open>Where the slope of a movement divides by zero.\<close>

lemma detect_undefined:
  "mouse_detect_gesture x_len tol s = None \<longleftrightarrow>
     ev_type (ev_event s) = MOUSE_MOV \<and>
     (g_st s = drag1 \<and> ev_delta_x (ev_event s) = - 1 \<and> ev_delta_y (ev_event s) = 0 \<or>
      g_st s = drag2 \<and> ev_delta_x (ev_event s) = 0)"
proof -
  have m: "(x + 1 = 0) \<longleftrightarrow> x = - 1" for x :: u16 using eq_neg_iff_add_eq_0 by metis
  show ?thesis
    by (cases "g_st s") (auto simp: mouse_detect_gesture_def slope_def m Let_def split: if_splits)
qed

section \<open>The command handler\<close>

text \<open>
  A controller that is always ready for a byte and whose writes never report the status 1.
\<close>

definition ready :: "'d env \<Rightarrow> bool" where
  "ready E \<longleftrightarrow> (\<forall>d. fst (fst (sys_inb E KBC_ST_REG d)) = 0 \<and> \<not> bit (snd (fst (sys_inb E KBC_ST_REG d))) 1) \<and>
     (\<forall>p v d. fst (sys_outb E p v d) \<noteq> 1)"

text \<open>The device when the response to a command of the mouse is read, and the response.\<close>

definition asked :: "'d env \<Rightarrow> u32 \<Rightarrow> 'd \<Rightarrow> 'd" where
  "asked E arg d = (let d = snd (sys_inb E KBC_ST_REG d); d = snd (sys_outb E KBC_CMD_REG WRITE_B_MOUSE d);
     d = snd (sys_inb E KBC_ST_REG d); d = snd (sys_outb E KBC_ARG_REG arg d)
     in tickdelay E (micros_to_ticks E DELAY_US) d)"

definition response :: "'d env \<Rightarrow> u32 \<Rightarrow> 'd \<Rightarrow> (int \<times> u32) \<times> 'd" where
  "response E arg d = sys_inb E KBC_OUT_BUF (asked E arg d)"

lemma in_buf_ready:
  assumes "ready E"
  shows "kbc_check_in_buf E s = (True, s\<lparr>dev := snd (sys_inb E KBC_ST_REG (dev s))\<rparr>)"
proof -
  obtain w d where w: "sys_inb E KBC_ST_REG (dev s) = ((0, w), d)" "\<not> bit w 1"
    using assms unfolding ready_def by (metis prod.collapse fst_conv snd_conv)
  have "\<not> truth ((ucast w :: u8) AND IBF)" using w(2) by (simp add: IBF_def truth_and_BIT bit_simps)
  then have "(ucast w :: u8) AND IBF = 0" by (simp add: truth_def)
  then show ?thesis using w(1) by (simp add: kbc_check_in_buf_def kbc_read_status_lab4_def sys_inb_mouse_def)
qed

lemma command_round:
  assumes r: "ready E" and w: "response E arg (dev s) = ((0, w), d)"
  obtains s1 where "kbc_write_command E WRITE_B_MOUSE s = (0, s1)" "mouse_write_command_lab4 E arg s1 = ((0, ucast w), s\<lparr>dev := d\<rparr>)"
proof
  let ?s1 = "s\<lparr>dev := snd (sys_outb E KBC_CMD_REG WRITE_B_MOUSE (snd (sys_inb E KBC_ST_REG (dev s))))\<rparr>"
  have o: "fst (sys_outb E p v d) \<noteq> 1" for p v d using r by (simp add: ready_def)
  show "kbc_write_command E WRITE_B_MOUSE s = (0, ?s1)"
    using o by (simp add: kbc_write_command_def numeral_3_eq_3 in_buf_ready [OF r] outb_def split_beta)
  show "mouse_write_command_lab4 E arg ?s1 = ((0, ucast w), s\<lparr>dev := d\<rparr>)"
    using o w by (simp add: mouse_write_command_lab4_def numeral_3_eq_3 in_buf_ready [OF r] outb_def split_beta kbc_delay_def
        response_def asked_def Let_def)
qed

text \<open>What the handler is meant to do: ask up to \<open>n\<close> times, as long as the mouse asks to repeat the byte.\<close>

fun ask :: "'d env \<Rightarrow> u32 \<Rightarrow> nat \<Rightarrow> 'd \<Rightarrow> int \<times> 'd" where
  "ask E arg 0 d = (1, d)"
| "ask E arg (Suc n) d =
     (let ((_, w), d) = response E arg d; resp = ucast w
      in if resp = ACK then (0, d) else if resp = NACK then ask E arg n d else (1, d))"

definition answers :: "'d env \<Rightarrow> u32 \<Rightarrow> bool" where
  "answers E arg \<longleftrightarrow> (\<forall>d. fst (fst (response E arg d)) = 0 \<and> ucast (snd (fst (response E arg d))) \<in> {ACK, NACK, ERROR})"

definition strays :: "'d env \<Rightarrow> u32 \<Rightarrow> bool" where
  "strays E arg \<longleftrightarrow> (\<forall>d. fst (fst (response E arg d)) = 0 \<and> ucast (snd (fst (response E arg d))) \<notin> {ACK, NACK, ERROR})"

lemma ack_codes: "ACK \<noteq> NACK" "ACK \<noteq> ERROR" "NACK \<noteq> ERROR"
  by (simp_all add: ACK_def NACK_def ERROR_def)

lemma command_loop_asks:
  assumes r: "ready E" and a: "answers E arg"
  shows "n \<le> 2 \<Longrightarrow> kbc_command_loop E WRITE_B_MOUSE arg (2 - n) s = Some (let (r, d) = ask E arg (Suc n) (dev s) in (r, s\<lparr>dev := d\<rparr>))"
proof (induction n arbitrary: s)
  case 0
  obtain w d where w: "response E arg (dev s) = ((0, w), d)" "ucast w \<in> {ACK, NACK, ERROR}"
    using a unfolding answers_def by (metis prod.collapse fst_conv snd_conv)
  obtain s1 where "kbc_write_command E WRITE_B_MOUSE s = (0, s1)" "mouse_write_command_lab4 E arg s1 = ((0, ucast w), s\<lparr>dev := d\<rparr>)"
    using command_round [OF r w(1)] .
  then show ?case using w ack_codes by (subst kbc_command_loop.simps) auto
next
  case (Suc n)
  obtain w d where w: "response E arg (dev s) = ((0, w), d)" "ucast w \<in> {ACK, NACK, ERROR}"
    using a unfolding answers_def by (metis prod.collapse fst_conv snd_conv)
  obtain s1 where s1: "kbc_write_command E WRITE_B_MOUSE s = (0, s1)" "mouse_write_command_lab4 E arg s1 = ((0, ucast w), s\<lparr>dev := d\<rparr>)"
    using command_round [OF r w(1)] .
  have n: "2 - Suc n + 1 = 2 - n" "2 - Suc n + 1 < 3" using Suc.prems by simp_all
  have ih: "kbc_command_loop E WRITE_B_MOUSE arg (2 - n) (s\<lparr>dev := d\<rparr>) =
      Some (let (r, d) = ask E arg (Suc n) d in (r, s\<lparr>dev := d\<rparr>))" using Suc.IH [of "s\<lparr>dev := d\<rparr>"] Suc.prems by simp
  show ?case using w ack_codes s1 n ih
    by (subst kbc_command_loop.simps) (auto simp del: ask.simps simp: ask.simps(2) [of E arg "Suc n"])
qed

lemma command_loop_diverges:
  assumes "kbc_command_loop E cmd arg tries s = Some x"
  shows "ready E \<and> strays E arg \<and> cmd = WRITE_B_MOUSE \<and> tries < 3 \<longrightarrow> False"
proof (rule kbc_command_loop.raw_induct [of "\<lambda>E cmd arg tries s x. ready E \<and> strays E arg \<and> cmd = WRITE_B_MOUSE \<and> tries < 3 \<longrightarrow> False", OF _ assms])
  fix loop E cmd arg tries s x
  assume IH: "\<And>E cmd arg tries s x. loop E cmd arg tries s = Some x \<Longrightarrow>
      ready E \<and> strays E arg \<and> cmd = WRITE_B_MOUSE \<and> tries < 3 \<longrightarrow> False"
    and eq: "(let (r, s) = kbc_write_command E cmd s
      in if r = 1 then Some (1, s)
         else if cmd = WRITE_B_MOUSE then
           let ((r, resp), s) = mouse_write_command_lab4 E arg s
           in if r = 1 then Some (1, s)
              else if resp = ACK then Some (0, s)
              else if resp = NACK then
                if tries + 1 < 3 then loop E cmd arg (tries + 1) s else Some (1, s)
              else if resp = ERROR then Some (1, s)
              else if tries < 3 then loop E cmd arg tries s
              else Some (1, s)
         else if cmd = KBC_WRT_COMMAND then
           let (r, s) = kbc_write_argument E arg s in Some (if r = 1 then (1, s) else (0, s))
         else if tries < 3 then loop E cmd arg tries s
         else Some (1, s)) = Some x"
  show "ready E \<and> strays E arg \<and> cmd = WRITE_B_MOUSE \<and> tries < 3 \<longrightarrow> False"
  proof
    assume h: "ready E \<and> strays E arg \<and> cmd = WRITE_B_MOUSE \<and> tries < 3"
    then obtain w d where w: "response E arg (dev s) = ((0, w), d)" "ucast w \<notin> {ACK, NACK, ERROR}"
      unfolding strays_def by (metis prod.collapse fst_conv snd_conv)
    obtain s1 where "kbc_write_command E WRITE_B_MOUSE s = (0, s1)" "mouse_write_command_lab4 E arg s1 = ((0, ucast w), s\<lparr>dev := d\<rparr>)"
      using command_round [of E arg s w d] h w(1) by blast
    then have "loop E cmd arg tries (s\<lparr>dev := d\<rparr>) = Some x" using eq h w(2) by simp
    then show False using IH h by blast
  qed
qed

end
