(* ===== verification/Lab_Video.thy ===== *)
theory Lab_Video
  imports Lab_Timer Vc "HOL-Library.Log_Nat"
begin

text \<open>
  The video exercise that precedes the game, \<open>src/lab5\<close>: the video card in \<open>graphics.c\<close>, its own
  timer driver \<open>timer.c\<close>, the keyboard driver \<open>keyboard.c\<close> and the tests of \<open>lab5.c\<close>. The functions
  of \<open>keyboard.c\<close> and \<open>utils.c\<close> that the game keeps unchanged (\<open>kbc_ih\<close>, \<open>keyboard_subscribe\<close>,
  \<open>keyboard_get_scancode\<close>, \<open>scancode_get_size\<close>, \<open>scancode_is_make\<close>, \<open>scancode_is_esc_break\<close>,
  \<open>util_get_LSB\<close>, \<open>util_sys_inb\<close>) are the definitions of the game. The video memory is a byte list of
  the size that was mapped. A \<open>panic\<close> is the left summand of a result, undefined behaviour is \<open>None\<close>.

  The exercise keeps the place of a moving image in \<open>float\<close> variables. Every value they get is a
  whole number, so a \<open>float\<close> is an integer here, and a stored sum is rounded as the 24 bits of its
  significand require.
\<close>

section \<open>Constants and data\<close>

definition INTNO :: u8 where "INTNO = 0x10"
definition VBE_CALL_REG_VAL :: u8 where "VBE_CALL_REG_VAL = 0x4F"
definition VBE_SET_MODE :: u8 where "VBE_SET_MODE = 0x02"
definition SET_LINEAR :: u16 where "SET_LINEAR = BIT 14"
definition TIMER_RB_STATUS :: u32 where "TIMER_RB_STATUS = BIT 4"
definition READ_CMD_BYTE :: u8 where "READ_CMD_BYTE = 0x20"
definition WRITE_CMD_BYTE :: u8 where "WRITE_CMD_BYTE = 0x60"
definition CMD_BYTE_ENABLE_KBD_INTERRUPT :: u8 where "CMD_BYTE_ENABLE_KBD_INTERRUPT = BIT 0"
definition CMD_BYTE_ENABLE_MOUSE_INTERRUPT :: u8 where "CMD_BYTE_ENABLE_MOUSE_INTERRUPT = BIT 1"

text \<open>A whole number as a \<open>float\<close>: rounded to 24 significant bits, to the even neighbour on a tie.\<close>

definition float_round :: "int \<Rightarrow> int" where
  "float_round n =
     (let a = \<bar>n\<bar>; e = nat (bitlen a - 24); q = a div 2 ^ e; r = 2 * (a mod 2 ^ e)
      in sgn n * (if r > 2 ^ e \<or> r = 2 ^ e \<and> odd q then q + 1 else q) * 2 ^ e)"

record sprite_mov_t =
  sprite_id :: int
  sp_xi :: int
  sp_yi :: int
  sp_xf :: u16
  sp_yf :: u16
  speed_x :: int
  speed_y :: int
  sp_img :: xpm_image_t

text \<open>
  \<open>vmem\<close> is the block at \<open>video_mem\<close>, \<open>pixel_size\<close> the static \<open>bytes_per_pixel\<close> and \<open>mode_masks\<close> holds the six
  statics with the sizes and the places of the colours.
\<close>

record 'd lab_video_st = "'d kbd" +
  previous_byte :: u8
  timer_freq_counter :: int
  video_timer_hook :: int
  video_calls :: "lcf_call list"
  vmem :: "u8 list"
  aux_buffer :: "u8 list"
  h_res :: u32
  v_res :: u32
  bits_per_pixel :: u32
  pixel_size :: u32
  mode_masks :: vbe_mode_info_t
  max_sprites :: int
  num_sprites :: int
  sprites :: "sprite_mov_t block"

definition video_print :: "lcf_call \<Rightarrow> ('d, 'z) lab_video_st_scheme \<Rightarrow> ('d, 'z) lab_video_st_scheme" where
  "video_print c s = s\<lparr>video_calls := video_calls s @ [c]\<rparr>"

section \<open>keyboard.c\<close>

definition keyboard_handler_lab5 :: "'d env \<Rightarrow> ('d, 'z) lab_video_st_scheme \<Rightarrow> ('d, 'z) lab_video_st_scheme" where
  "keyboard_handler_lab5 E s =
     (let s = kbc_ih E s in
      if kbc_ih_err s \<or> \<not> kbc_ih_obf s then s
      else
        let (word_done, bs) = keyboard_get_scancode (kbd_bytes s) (kbc_ih_output s) (assemblied_word s);
            s = s\<lparr>assemblied_word := word_done, kbd_bytes := bs\<rparr>;
            s = (if word_done then
                   let sz = scancode_get_size (fst bs)
                   in video_print (kbd_print_scancode (scancode_is_make (if sz = 1 then fst bs else snd bs)) (word_of_nat sz)
                        [fst bs, snd bs]) s
                 else s)
        in s\<lparr>previous_byte := kbc_ih_output s\<rparr>)"

text \<open>The buffers are empty and the last byte had no error.\<close>

definition kbc_free :: "('d, 'z) kbd_scheme \<Rightarrow> bool" where
  "kbc_free s \<longleftrightarrow> \<not> kbc_ih_err s \<and> \<not> kbc_ih_obf s \<and> \<not> kbc_ih_ibf s"

definition keyboard_delay :: "'d env \<Rightarrow> ('d, 'z) machine_scheme \<Rightarrow> ('d, 'z) machine_scheme" where
  "keyboard_delay E s = s\<lparr>dev := tickdelay E (micros_to_ticks E DELAY_US) (dev s)\<rparr>"

text \<open>The loops of \<open>keyboard_input\<close> and \<open>keyboard_input_arg\<close> with the attempts left.\<close>

fun keyboard_input_loop :: "'d env \<Rightarrow> u8 \<Rightarrow> nat \<Rightarrow> ('d, 'z) kbd_scheme \<Rightarrow> int \<times> ('d, 'z) kbd_scheme" where
  "keyboard_input_loop E byte 0 s = (1, s)"
| "keyboard_input_loop E byte (Suc n) s =
     (let s = kbc_ih E s in
      if kbc_free s then outb E KBC_CMD_REG (ucast byte) s
      else keyboard_input_loop E byte n (keyboard_delay E s))"

definition keyboard_input :: "'d env \<Rightarrow> u8 \<Rightarrow> ('d, 'z) kbd_scheme \<Rightarrow> int \<times> ('d, 'z) kbd_scheme" where
  "keyboard_input E byte s = keyboard_input_loop E byte 10 s"

fun keyboard_input_arg_loop :: "'d env \<Rightarrow> u8 \<Rightarrow> u8 \<Rightarrow> nat \<Rightarrow> ('d, 'z) kbd_scheme \<Rightarrow> int \<times> ('d, 'z) kbd_scheme" where
  "keyboard_input_arg_loop E byte arg 0 s = (1, s)"
| "keyboard_input_arg_loop E byte arg (Suc n) s =
     (let s = kbc_ih E s in
      if kbc_free s then
        let (r1, s) = outb E KBC_ARG_REG (ucast arg) s;
            (r2, s) = outb E KBC_CMD_REG (ucast byte) s
        in (r1 OR r2, s)
      else keyboard_input_arg_loop E byte arg n (keyboard_delay E s))"

definition keyboard_input_arg :: "'d env \<Rightarrow> u8 \<Rightarrow> u8 \<Rightarrow> ('d, 'z) kbd_scheme \<Rightarrow> int \<times> ('d, 'z) kbd_scheme" where
  "keyboard_input_arg E byte arg s = keyboard_input_arg_loop E byte arg 10 s"

definition keyboard_write_command_byte :: "'d env \<Rightarrow> u8 \<Rightarrow> ('d, 'z) kbd_scheme \<Rightarrow> int \<times> ('d, 'z) kbd_scheme" where
  "keyboard_write_command_byte E command_byte s = keyboard_input_arg E WRITE_CMD_BYTE command_byte s"

definition keyboard_enable_interrupts :: "'d env \<Rightarrow> u8 \<Rightarrow> ('d, 'z) kbd_scheme \<Rightarrow> int \<times> ('d, 'z) kbd_scheme" where
  "keyboard_enable_interrupts E previous_command_byte s =
     keyboard_write_command_byte E
       (previous_command_byte OR CMD_BYTE_ENABLE_MOUSE_INTERRUPT OR CMD_BYTE_ENABLE_KBD_INTERRUPT) s"

text \<open>The status, and the pointed-to command byte after the call.\<close>

definition keyboard_read_command_byte :: "'d env \<Rightarrow> u8 \<Rightarrow> ('d, 'z) kbd_scheme \<Rightarrow> (int \<times> u8) \<times> ('d, 'z) kbd_scheme" where
  "keyboard_read_command_byte E command_byte s =
     (let (call_back, s) = keyboard_input E READ_CMD_BYTE s;
          s = kbc_ih E s
      in if \<not> kbc_ih_err s \<and> \<not> kbc_ih_obf s then ((call_back, kbc_ih_output s), s) else ((1, command_byte), s))"

section \<open>timer.c\<close>

definition timer_get_conf_lab5 :: "'d env \<Rightarrow> u8 \<Rightarrow> u8 \<Rightarrow> ('d, 'z) machine_scheme \<Rightarrow> (int \<times> u8) \<times> ('d, 'z) machine_scheme" where
  "timer_get_conf_lab5 E timer st s =
     (case timer_port timer of
        None \<Rightarrow> ((1, st), s)
      | Some timer_address \<Rightarrow>
          let st = ucast (TIMER_RB_CMD OR TIMER_RB_COUNT OR lnot TIMER_RB_STATUS OR TIMER_RB_SEL (unat timer));
              (r1, s) = outb E TIMER_CTRL (ucast (st :: u8)) s;
              ((r2, st), s) = util_sys_inb E timer_address s
          in ((r1 OR r2, st), s))"

text \<open>The division comes before the test of the divisor.\<close>

definition timer_set_frequency_lab5 :: "'d env \<Rightarrow> u8 \<Rightarrow> u32 \<Rightarrow> ('d, 'z) machine_scheme \<Rightarrow> (int \<times> ('d, 'z) machine_scheme) option" where
  "timer_set_frequency_lab5 E timer freq s =
     (case (timer_sel timer, timer_port timer) of
        (Some timer_control, Some timer_address) \<Rightarrow>
          if freq = 0 then None
          else if TIMER_FREQ div freq \<ge> BIT 16 then Some (1, s)
          else
            let ((r1, st), s) = timer_get_conf_lab5 E timer (uninit E (dev s)) s;
                st = timer_control OR TIMER_LSB_MSB OR (st AND 0xF);
                (r2, s) = outb E TIMER_CTRL (ucast st) s;
                half_word_freq = ucast (TIMER_FREQ div freq);
                (r3, lsb) = util_get_LSB half_word_freq (Some st);
                (r4, s) = outb E timer_address (ucast (the lsb)) s;
                (r5, msb) = util_get_MSB half_word_freq lsb;
                (r6, s) = outb E timer_address (ucast (the msb)) s
            in Some (r1 OR r2 OR r3 OR r4 OR r5 OR r6, s)
      | _ \<Rightarrow> Some (1, s))"

definition timer_subscribe_int_lab5 :: "'d env \<Rightarrow> ('d, 'z) lab_video_st_scheme \<Rightarrow> (int \<times> u8) \<times> ('d, 'z) lab_video_st_scheme" where
  "timer_subscribe_int_lab5 E s =
     (let hook_id = TIMER0_IRQ;
          bit_no = word_of_int hook_id;
          ((call_back, hook_id), d) = sys_irqsetpolicy E TIMER0_IRQ IRQ_REENABLE hook_id (dev s)
      in ((call_back, bit_no), s\<lparr>dev := d, video_timer_hook := hook_id\<rparr>))"

definition timer_unsubscribe_int_lab5 :: "'d env \<Rightarrow> ('d, 'z) lab_video_st_scheme \<Rightarrow> int \<times> ('d, 'z) lab_video_st_scheme" where
  "timer_unsubscribe_int_lab5 E s = (let (r, d) = sys_irqrmpolicy E (video_timer_hook s) (dev s) in (r, s\<lparr>dev := d\<rparr>))"

definition timer_int_handler_lab5 :: "('d, 'z) lab_video_st_scheme \<Rightarrow> ('d, 'z) lab_video_st_scheme option" where
  "timer_int_handler_lab5 s =
     (if timer_freq_counter s < 2147483647 then Some (s\<lparr>timer_freq_counter := timer_freq_counter s + 1\<rparr>) else None)"

definition timer_display_conf_lab5 ::
  "lcf \<Rightarrow> u8 \<Rightarrow> u8 \<Rightarrow> timer_status_field \<Rightarrow> ('d, 'z) lab_video_st_scheme \<Rightarrow> int \<times> ('d, 'z) lab_video_st_scheme" where
  "timer_display_conf_lab5 L timer st field s =
     (if timer > 2 then (1, s)
      else
        let conf = (case field of
              tsf_all \<Rightarrow> conf_byte st
            | tsf_initial \<Rightarrow> conf_in_mode (drop_bit 4 (0x30 AND st))
            | tsf_mode \<Rightarrow> conf_count_mode (drop_bit 1 (0xe AND st))
            | tsf_base \<Rightarrow> conf_bcd (truth (st AND 1)))
        in (print_config_status L timer field conf, video_print (timer_print_config timer field conf) s))"

section \<open>graphics.c\<close>

definition graphics_set_mode :: "'d env \<Rightarrow> u16 \<Rightarrow> ('d, 'z) machine_scheme \<Rightarrow> int \<times> ('d, 'z) machine_scheme" where
  "graphics_set_mode E mode s =
     (let (r, d) = sys_int86 E VBE_CALL_REG_VAL VBE_SET_MODE (SET_LINEAR OR mode) INTNO (dev s)
      in (if r \<noteq> 0 then 1 else 0, s\<lparr>dev := d\<rparr>))"

definition map_video_mem :: "'d env \<Rightarrow> u32 \<Rightarrow> u32 \<Rightarrow> ('d, 'z) lab_video_st_scheme \<Rightarrow> string + (int \<times> ('d, 'z) lab_video_st_scheme)" where
  "map_video_mem E base sz s =
     (let n = unat sz;
          s = s\<lparr>aux_buffer := (if malloc E (int n) (dev s) \<noteq> None then replicate n (uninit E (dev s)) else [])\<rparr>;
          (r, d) = sys_privctl_add_mem E base (base + sz) (dev s);
          s = s\<lparr>dev := d\<rparr>
      in if r \<noteq> 0 then Inl ''sys_privctl (ADD_MEM) failed''
         else
           let (mapped, d) = vm_map_phys_ok E base sz (dev s);
               s = s\<lparr>dev := d, vmem := replicate n (uninit E d)\<rparr>
           in if \<not> mapped then Inl ''couldn't map video memory'' else Inr (0, s))"

text \<open>\<open>ceil(bits_per_pixel+7 / 8.0)\<close>, the ceiling of the bits and seven eighths.\<close>

definition bytes_of_bits :: "u32 \<Rightarrow> u32" where
  "bytes_of_bits bits = word_of_nat ((8 * unat bits + 7 + 7) div 8)"

definition mode_get_info :: "'d env \<Rightarrow> u16 \<Rightarrow> ('d, 'z) lab_video_st_scheme \<Rightarrow> string + (int \<times> ('d, 'z) lab_video_st_scheme)" where
  "mode_get_info E mode s =
     (let (mode_info, d) = vbe_get_mode_info E mode (dev s);
          s = s\<lparr>dev := d, h_res := ucast (XResolution mode_info), v_res := ucast (YResolution mode_info),
                bits_per_pixel := ucast (BitsPerPixel mode_info)\<rparr>;
          s = s\<lparr>pixel_size := bytes_of_bits (bits_per_pixel s), mode_masks := mode_info\<rparr>
      in case map_video_mem E (PhysBasePtr mode_info) (h_res s * v_res s * pixel_size s) s of
           Inl msg \<Rightarrow> Inl msg
         | Inr (_, s) \<Rightarrow> Inr (0, s))"

definition vmem_write :: "nat \<Rightarrow> u8 \<Rightarrow> ('d, 'z) lab_video_st_scheme \<Rightarrow> ('d, 'z) lab_video_st_scheme option" where
  "vmem_write i v s = (if i < length (vmem s) then Some (s\<lparr>vmem := (vmem s)[i := v]\<rparr>) else None)"

text \<open>
  The bytes \<open>j\<close> to \<open>j + n - 1\<close> of a colour, written from \<open>left\<close> on; a shift of a 32-bit number by 32
  or more is undefined.
\<close>

fun colour_loop :: "nat \<Rightarrow> nat \<Rightarrow> nat \<Rightarrow> u32 \<Rightarrow> ('d, 'z) lab_video_st_scheme \<Rightarrow> ('d, 'z) lab_video_st_scheme option" where
  "colour_loop 0 j left color s = Some s"
| "colour_loop (Suc n) j left color s =
     (if 8 * j < 32
      then do { s \<leftarrow> vmem_write left (ucast (drop_bit (8 * j) color)) s; colour_loop n (Suc j) (Suc left) color s }
      else None)"

text \<open>The offset of a pixel, computed in \<open>unsigned\<close>.\<close>

definition pixel_offset :: "u16 \<Rightarrow> u16 \<Rightarrow> ('d, 'z) lab_video_st_scheme \<Rightarrow> nat" where
  "pixel_offset x y s = unat ((ucast y * h_res s + ucast x) * pixel_size s)"

definition draw_pixel_lab5 :: "u16 \<Rightarrow> u16 \<Rightarrow> u32 \<Rightarrow> ('d, 'z) lab_video_st_scheme \<Rightarrow> (int \<times> ('d, 'z) lab_video_st_scheme) option" where
  "draw_pixel_lab5 x y color s =
     do { s \<leftarrow> colour_loop (unat (pixel_size s)) 0 (pixel_offset x y s) color s; Some (0, s) }"

fun hline_loop :: "nat \<Rightarrow> nat \<Rightarrow> u32 \<Rightarrow> ('d, 'z) lab_video_st_scheme \<Rightarrow> ('d, 'z) lab_video_st_scheme option" where
  "hline_loop 0 left color s = Some s"
| "hline_loop (Suc n) left color s =
     do { s \<leftarrow> colour_loop (unat (pixel_size s)) 0 left color s; hline_loop n (left + unat (pixel_size s)) color s }"

definition vg_draw_hline :: "u16 \<Rightarrow> u16 \<Rightarrow> u16 \<Rightarrow> u32 \<Rightarrow> ('d, 'z) lab_video_st_scheme \<Rightarrow> (int \<times> ('d, 'z) lab_video_st_scheme) option" where
  "vg_draw_hline x y len color s = do { s \<leftarrow> hline_loop (unat len) (pixel_offset x y s) color s; Some (0, s) }"

text \<open>The rows of a rectangle; the row number is passed as 16 bits.\<close>

fun rectangle_loop :: "nat \<Rightarrow> nat \<Rightarrow> u16 \<Rightarrow> u16 \<Rightarrow> u32 \<Rightarrow> ('d, 'z) lab_video_st_scheme \<Rightarrow> ('d, 'z) lab_video_st_scheme option" where
  "rectangle_loop 0 i x w color s = Some s"
| "rectangle_loop (Suc n) i x w color s =
     do { (_, s) \<leftarrow> vg_draw_hline x (word_of_nat i) w color s; rectangle_loop n (Suc i) x w color s }"

definition draw_rectangle :: "u16 \<Rightarrow> u16 \<Rightarrow> u16 \<Rightarrow> u16 \<Rightarrow> u32 \<Rightarrow> ('d, 'z) lab_video_st_scheme \<Rightarrow> (int \<times> ('d, 'z) lab_video_st_scheme) option" where
  "draw_rectangle x y w h color s =
     do { s \<leftarrow> rectangle_loop (unat h) (unat y) x w color s; Some (0, s) }"

section \<open>Images that move\<close>

text \<open>The conversion of a \<open>float\<close> to \<open>int\<close>.\<close>

definition float_int :: "int \<Rightarrow> int option" where
  "float_int v = (if - 2147483648 \<le> v \<and> v \<le> 2147483647 then Some v else None)"

text \<open>The iterations of the nested loops over an image at \<open>(x, y)\<close>, in their order.\<close>

definition image_pixels :: "xpm_image_t \<Rightarrow> int \<Rightarrow> int \<Rightarrow> (int \<times> int) list" where
  "image_pixels img x y = [(j, i). i \<leftarrow> [y .. uint (height img) + y - 1], j \<leftarrow> [x .. uint (width img) + x - 1]]"

text \<open>The loop that assembles a colour from \<open>n\<close> bytes of the image.\<close>

fun colour_of :: "u8 list \<Rightarrow> nat \<Rightarrow> nat \<Rightarrow> u32 \<Rightarrow> u32 option" where
  "colour_of bs 0 bcount color = Some color"
| "colour_of bs (Suc n) bcount color =
     (if bcount < length bs then colour_of bs n (Suc bcount) (push_bit 8 color OR ucast (bs ! bcount)) else None)"

fun sprite_loop :: "xpm_image_t \<Rightarrow> (int \<times> int) list \<Rightarrow> nat \<Rightarrow> ('d, 'z) lab_video_st_scheme \<Rightarrow> ('d, 'z) lab_video_st_scheme option" where
  "sprite_loop img [] bcount s = Some s"
| "sprite_loop img ((j, i) # ps) bcount s =
     do { color \<leftarrow> colour_of (img_bytes img) (unat (pixel_size s)) bcount 0;
          (_, s) \<leftarrow> draw_pixel_lab5 (word_of_int j) (word_of_int i) color s;
          sprite_loop img ps (bcount + unat (pixel_size s)) s }"

definition draw_sprite :: "int \<Rightarrow> ('d, 'z) lab_video_st_scheme \<Rightarrow> (int \<times> ('d, 'z) lab_video_st_scheme) option" where
  "draw_sprite i s =
     do { sp \<leftarrow> blk_read (sprites s) i;
          y \<leftarrow> float_int (sp_yi sp);
          x \<leftarrow> float_int (sp_xi sp);
          s \<leftarrow> sprite_loop (sp_img sp) (image_pixels (sp_img sp) x y) 0 s;
          Some (0, s) }"

fun erase_loop :: "u32 \<Rightarrow> (int \<times> int) list \<Rightarrow> ('d, 'z) lab_video_st_scheme \<Rightarrow> ('d, 'z) lab_video_st_scheme option" where
  "erase_loop color [] s = Some s"
| "erase_loop color ((j, i) # ps) s =
     do { (_, s) \<leftarrow> draw_pixel_lab5 (word_of_int j) (word_of_int i) color s; erase_loop color ps s }"

definition erase_sprite :: "'d env \<Rightarrow> int \<Rightarrow> ('d, 'z) lab_video_st_scheme \<Rightarrow> (int \<times> ('d, 'z) lab_video_st_scheme) option" where
  "erase_sprite E i s =
     do { let color = xpm_transparency_color E XPM_INDEXED;
          sp \<leftarrow> blk_read (sprites s) i;
          y \<leftarrow> float_int (sp_yi sp);
          x \<leftarrow> float_int (sp_xi sp);
          s \<leftarrow> erase_loop color (image_pixels (sp_img sp) x y) s;
          Some (0, s) }"

definition move_x :: "sprite_mov_t \<Rightarrow> sprite_mov_t" where
  "move_x sp =
     (let sp = sp\<lparr>sp_xi := float_round (sp_xi sp + speed_x sp)\<rparr>
      in if sp_xi sp > uint (sp_xf sp) then sp\<lparr>sp_xi := uint (sp_xf sp), speed_x := 0\<rparr> else sp)"

definition move_y :: "sprite_mov_t \<Rightarrow> sprite_mov_t" where
  "move_y sp =
     (let sp = sp\<lparr>sp_yi := float_round (sp_yi sp + speed_y sp)\<rparr>
      in if sp_yi sp > uint (sp_yf sp) then sp\<lparr>sp_yi := uint (sp_yf sp), speed_y := 0\<rparr> else sp)"

definition move_sprite :: "int \<Rightarrow> ('d, 'z) lab_video_st_scheme \<Rightarrow> (int \<times> ('d, 'z) lab_video_st_scheme) option" where
  "move_sprite i s =
     do { sp \<leftarrow> blk_read (sprites s) i;
          b \<leftarrow> blk_write (sprites s) i (move_y (move_x sp));
          Some (0, s\<lparr>sprites := b\<rparr>) }"

text \<open>\<open>sizeof(sprite_mov_t)\<close> is 40 on the target.\<close>

definition create_sprite_memory :: "'d env \<Rightarrow> int \<Rightarrow> ('d, 'z) lab_video_st_scheme \<Rightarrow> ('d, 'z) lab_video_st_scheme" where
  "create_sprite_memory E max_num_sprites s =
     s\<lparr>sprites := blk_malloc (malloc E (40 * max_num_sprites) (dev s) \<noteq> None) max_num_sprites,
       max_sprites := max_num_sprites\<rparr>"

definition add_sprite ::
  "'d env \<Rightarrow> string \<Rightarrow> int \<Rightarrow> int \<Rightarrow> u16 \<Rightarrow> u16 \<Rightarrow> int \<Rightarrow> int \<Rightarrow> ('d, 'z) lab_video_st_scheme \<Rightarrow> (int \<times> ('d, 'z) lab_video_st_scheme) option" where
  "add_sprite E xpm x y xf yf vx vy s =
     do { b \<leftarrow> blk_write (sprites s) (num_sprites s)
              \<lparr>sprite_id = num_sprites s, sp_xi = x, sp_yi = y, sp_xf = xf, sp_yf = yf, speed_x = vx, speed_y = vy,
               sp_img = xpm_load E xpm XPM_INDEXED\<rparr>;
          let s = s\<lparr>sprites := b, num_sprites := num_sprites s + 1\<rparr>;
          Some (num_sprites s - 1, s) }"

definition remove_sprite_memory :: "('d, 'z) lab_video_st_scheme \<Rightarrow> ('d, 'z) lab_video_st_scheme option" where
  "remove_sprite_memory s = do { b \<leftarrow> blk_free (sprites s); Some (s\<lparr>sprites := b\<rparr>) }"

text \<open>
  The inner loop of \<open>draw_pix_map\<close>: \<open>n\<close> times it reads the byte and the 16-bit pixel with the number
  \<open>byte_count\<close> and draws the latter at the same place. The colour it assembles from the bytes is not used.
\<close>

fun pix_map_bytes :: "'d env \<Rightarrow> xpm_image_t \<Rightarrow> int \<Rightarrow> int \<Rightarrow> nat \<Rightarrow> nat \<Rightarrow> ('d, 'z) lab_video_st_scheme \<Rightarrow> ('d, 'z) lab_video_st_scheme option" where
  "pix_map_bytes E img j i 0 bcount s = Some s"
| "pix_map_bytes E img j i (Suc n) bcount s =
     do { c \<leftarrow> pixel16 img bcount;
          s \<leftarrow> (if ucast c \<noteq> xpm_transparency_color E (img_type img)
               then map_option snd (draw_pixel_lab5 (word_of_int j) (word_of_int i) (ucast c) s)
               else Some s);
          pix_map_bytes E img j i n (Suc bcount) s }"

fun pix_map_loop :: "'d env \<Rightarrow> xpm_image_t \<Rightarrow> (int \<times> int) list \<Rightarrow> nat \<Rightarrow> ('d, 'z) lab_video_st_scheme \<Rightarrow> ('d, 'z) lab_video_st_scheme option" where
  "pix_map_loop E img [] bcount s = Some s"
| "pix_map_loop E img ((j, i) # ps) bcount s =
     do { s \<leftarrow> pix_map_bytes E img j i (unat (pixel_size s)) bcount s;
          pix_map_loop E img ps (bcount + unat (pixel_size s)) s }"

definition draw_pix_map :: "'d env \<Rightarrow> string \<Rightarrow> u16 \<Rightarrow> u16 \<Rightarrow> ('d, 'z) lab_video_st_scheme \<Rightarrow> (int \<times> ('d, 'z) lab_video_st_scheme) option" where
  "draw_pix_map E xpm x y s =
     do { let img = xpm_load E xpm XPM_5_6_5;
          s \<leftarrow> pix_map_loop E img (image_pixels img (uint x) (uint y)) 0 s;
          Some (0, s) }"

section \<open>Patterns\<close>

definition get_rectangles_size :: "u8 \<Rightarrow> ('d, 'z) lab_video_st_scheme \<Rightarrow> (u8 \<times> u8) option" where
  "get_rectangles_size no_rectangles s =
     (if no_rectangles = 0 then None
      else Some (ucast (h_res s div ucast no_rectangles), ucast (v_res s div ucast no_rectangles)))"

text \<open>
  One colour: \<open>((first >> pos) & ((1 << sz) - 1) + add) % (1 << sz)\<close>, where the sum binds tighter than
  the conjunction, cut to eight bits.
\<close>

definition colour_field :: "u32 \<Rightarrow> u8 \<Rightarrow> u8 \<Rightarrow> int \<Rightarrow> u8 option" where
  "colour_field first pos sz add =
     (if unat pos < 32 \<and> unat sz < 31
      then Some (ucast ((drop_bit (unat pos) first AND word_of_int (2 ^ unat sz - 1 + add)) mod BIT (unat sz)))
      else None)"

text \<open>The shift of a byte that was promoted to \<open>int\<close>.\<close>

definition place_field :: "u8 \<Rightarrow> u8 \<Rightarrow> u32 option" where
  "place_field c pos =
     (if unat pos < 32 \<and> uint c * 2 ^ unat pos \<le> 2147483647 then Some (word_of_int (uint c * 2 ^ unat pos)) else None)"

definition get_rectangles_color :: "u16 \<Rightarrow> u32 \<Rightarrow> u8 \<Rightarrow> u8 \<Rightarrow> u8 \<Rightarrow> u8 \<Rightarrow> ('d, 'z) lab_video_st_scheme \<Rightarrow> u32 option" where
  "get_rectangles_color mode first no_rectangles step row col s =
     (if mode = 0x105 then
        if unat (bits_per_pixel s) < 31
        then Some ((first + word_of_int ((uint row * uint no_rectangles + uint col) * uint step)) mod BIT (unat (bits_per_pixel s)))
        else None
      else
        do { let m = mode_masks s;
             red \<leftarrow> colour_field first (RedFieldPosition m) (RedMaskSize m) (uint col * uint step);
             green \<leftarrow> colour_field first (GreenFieldPosition m) (GreenMaskSize m) (uint row * uint step);
             blue \<leftarrow> colour_field first (BlueFieldPosition m) (BlueMaskSize m) ((uint col + uint row) * uint step);
             g \<leftarrow> place_field green (GreenFieldPosition m);
             b \<leftarrow> place_field blue (BlueFieldPosition m);
             Some (ucast red OR g OR b) })"

section \<open>lab5.c\<close>

text \<open>\<open>sleep\<close> is a parameter.\<close>

definition video_test_init :: "'d env \<Rightarrow> (u8 \<Rightarrow> 'd \<Rightarrow> 'd) \<Rightarrow> u16 \<Rightarrow> u8 \<Rightarrow> ('d, 'z) machine_scheme \<Rightarrow> int \<times> ('d, 'z) machine_scheme" where
  "video_test_init E sleep mode delay s =
     (let (_, s) = graphics_set_mode E mode s;
          s = s\<lparr>dev := sleep delay (dev s)\<rparr>;
          (_, d) = vg_exit E (dev s)
      in (0, s\<lparr>dev := d\<rparr>))"

text \<open>The loop that ends the tests: read the keyboard until the escape key is released.\<close>

partial_function (option) esc_loop :: "'d env \<Rightarrow> u32 \<Rightarrow> ('d, 'z) lab_video_st_scheme \<Rightarrow> ('d, 'z) lab_video_st_scheme option" where
  "esc_loop E irq_set s =
     (let s = (if irq_message E irq_set (dev s) then keyboard_handler_lab5 E (after_message E s) else after_message E s)
      in if \<not> scancode_is_esc_break s then esc_loop E irq_set s else Some s)"

definition wait_for_esc :: "'d env \<Rightarrow> ('d, 'z) lab_video_st_scheme \<Rightarrow> (int \<times> ('d, 'z) lab_video_st_scheme) option" where
  "wait_for_esc E s =
     do { let ((call_back, hook_id, notification), s) = keyboard_subscribe E s;
          s \<leftarrow> esc_loop E (BIT (unat hook_id)) s;
          let (_, s) = keyboard_unsubscribe E notification s;
          let (_, d) = vg_exit E (dev s);
          Some (call_back, s\<lparr>dev := d\<rparr>) }"

text \<open>A video mode is set and the rest of the test runs, unless the memory could not be mapped.\<close>

definition in_mode :: "'d env \<Rightarrow> u16 \<Rightarrow> (('d, 'z) lab_video_st_scheme \<Rightarrow> (int \<times> ('d, 'z) lab_video_st_scheme) option) \<Rightarrow>
  ('d, 'z) lab_video_st_scheme \<Rightarrow> (string + (int \<times> ('d, 'z) lab_video_st_scheme)) option" where
  "in_mode E mode test s =
     (case mode_get_info E mode s of
        Inl msg \<Rightarrow> Some (Inl msg)
      | Inr (_, s) \<Rightarrow> map_option Inr (test (snd (graphics_set_mode E mode s))))"

definition video_test_rectangle ::
  "'d env \<Rightarrow> u16 \<Rightarrow> u16 \<Rightarrow> u16 \<Rightarrow> u16 \<Rightarrow> u16 \<Rightarrow> u32 \<Rightarrow> ('d, 'z) lab_video_st_scheme \<Rightarrow>
   (string + (int \<times> ('d, 'z) lab_video_st_scheme)) option" where
  "video_test_rectangle E mode x y w h color s =
     in_mode E mode (\<lambda>s. do { (_, s) \<leftarrow> draw_rectangle x y w h color s; wait_for_esc E s }) s"

text \<open>The rectangles of a pattern, row by row; their corners are passed as 16 bits.\<close>

fun pattern_loop ::
  "u16 \<Rightarrow> u8 \<Rightarrow> u32 \<Rightarrow> u8 \<Rightarrow> u8 \<Rightarrow> u8 \<Rightarrow> (nat \<times> nat) list \<Rightarrow> ('d, 'z) lab_video_st_scheme \<Rightarrow> ('d, 'z) lab_video_st_scheme option" where
  "pattern_loop mode no_rectangles first step w h [] s = Some s"
| "pattern_loop mode no_rectangles first step w h ((i, j) # ijs) s =
     do { color \<leftarrow> get_rectangles_color mode first no_rectangles step (word_of_nat i) (word_of_nat j) s;
          (_, s) \<leftarrow> draw_rectangle (word_of_nat (unat w * j)) (word_of_nat (unat h * i)) (ucast w) (ucast h) color s;
          pattern_loop mode no_rectangles first step w h ijs s }"

definition video_test_pattern ::
  "'d env \<Rightarrow> u16 \<Rightarrow> u8 \<Rightarrow> u32 \<Rightarrow> u8 \<Rightarrow> ('d, 'z) lab_video_st_scheme \<Rightarrow> (string + (int \<times> ('d, 'z) lab_video_st_scheme)) option" where
  "video_test_pattern E mode no_rectangles first step s =
     in_mode E mode
       (\<lambda>s. do { (w, h) \<leftarrow> get_rectangles_size no_rectangles s;
                 s \<leftarrow> pattern_loop mode no_rectangles first step w h
                        [(i, j). i \<leftarrow> [0..<unat no_rectangles], j \<leftarrow> [0..<unat no_rectangles]] s;
                 wait_for_esc E s }) s"

text \<open>The argument \<open>xpm\<close> is not used.\<close>

definition video_test_xpm :: "'d env \<Rightarrow> string \<Rightarrow> u16 \<Rightarrow> u16 \<Rightarrow> ('d, 'z) lab_video_st_scheme \<Rightarrow> (string + (int \<times> ('d, 'z) lab_video_st_scheme)) option" where
  "video_test_xpm E xpm x y s =
     in_mode E 0x11A (\<lambda>s. do { (_, s) \<leftarrow> draw_pix_map E ''leaderboard_menu_xpm'' x y s; wait_for_esc E s }) s"

definition move_loop_body :: "'d env \<Rightarrow> u32 \<Rightarrow> u32 \<Rightarrow> int \<Rightarrow> ('d, 'z) lab_video_st_scheme \<Rightarrow> ('d, 'z) lab_video_st_scheme option" where
  "move_loop_body E kbd_irq_set timer_irq_set i s =
     (let kbd = irq_message E kbd_irq_set (dev s);
          timer = irq_message E timer_irq_set (dev s);
          s = after_message E s;
          s = (if kbd then keyboard_handler_lab5 E s else s)
      in if timer then
           do { (_, s) \<leftarrow> erase_sprite E i s; (_, s) \<leftarrow> move_sprite i s; (_, s) \<leftarrow> draw_sprite i s; Some s }
         else Some s)"

partial_function (option) move_loop :: "'d env \<Rightarrow> u32 \<Rightarrow> u32 \<Rightarrow> int \<Rightarrow> ('d, 'z) lab_video_st_scheme \<Rightarrow> ('d, 'z) lab_video_st_scheme option" where
  "move_loop E kbd_irq_set timer_irq_set i s =
     Option.bind (move_loop_body E kbd_irq_set timer_irq_set i s)
       (\<lambda>s. if \<not> scancode_is_esc_break s then move_loop E kbd_irq_set timer_irq_set i s else Some s)"

text \<open>The speed as a \<open>float\<close>: the quotient \<open>1 / speed\<close> is taken in \<open>int\<close>.\<close>

definition f_speed :: "16 word \<Rightarrow> int option" where
  "f_speed speed = (if sint speed > 0 then Some (sint speed) else if speed = 0 then None else Some (1 sdiv sint speed))"

definition video_test_move ::
  "'d env \<Rightarrow> string \<Rightarrow> u16 \<Rightarrow> u16 \<Rightarrow> u16 \<Rightarrow> u16 \<Rightarrow> 16 word \<Rightarrow> u8 \<Rightarrow> ('d, 'z) lab_video_st_scheme \<Rightarrow>
   (string + (int \<times> ('d, 'z) lab_video_st_scheme)) option" where
  "video_test_move E xpm x y xf yf speed fr_rate s =
     do { (call_back, s) \<leftarrow> timer_set_frequency_lab5 E 0 (ucast fr_rate) s;
          if call_back \<noteq> 0 then Some (Inr (1, s))
          else
            in_mode E 0x105
              (\<lambda>s. do { let s = create_sprite_memory E 1 s;
                        v \<leftarrow> f_speed speed;
                        (i, s) \<leftarrow> add_sprite E xpm (uint x) (uint y) xf yf (if xf \<noteq> x then v else 0) (if yf \<noteq> y then v else 0) s;
                        (_, s) \<leftarrow> draw_sprite i s;
                        let ((r1, kbd_hook_id, notification), s) = keyboard_subscribe E s;
                        let ((r2, timer_hook_id), s) = timer_subscribe_int_lab5 E s;
                        s \<leftarrow> move_loop E (BIT (unat kbd_hook_id)) (BIT (unat timer_hook_id)) i s;
                        let (_, s) = keyboard_unsubscribe E notification s;
                        let (_, s) = timer_unsubscribe_int_lab5 E s;
                        let (_, d) = vg_exit E (dev s);
                        Some (r1 OR r2, s\<lparr>dev := d\<rparr>) }) s }"

definition video_test_controller :: int where
  "video_test_controller = 1"

section \<open>The number of bytes of a pixel\<close>

text \<open>It is one more than the number of bits, so that every colour is shifted too far.\<close>

lemma bytes_of_bits: "bytes_of_bits (ucast (b :: u8)) = ucast b + 1"
  by (simp add: bytes_of_bits_def flip: Suc_eq_plus1)

lemma mode_pixel_size:
  assumes "mode_get_info E mode s = Inr (r, s')"
  shows "unat (pixel_size s') = unat (BitsPerPixel (fst (vbe_get_mode_info E mode (dev s)))) + 1"
proof -
  have "pixel_size s' = bytes_of_bits (ucast (BitsPerPixel (fst (vbe_get_mode_info E mode (dev s)))))"
    using assms by (auto simp: mode_get_info_def map_video_mem_def Let_def split_beta split: if_splits)
  moreover have "unat (ucast b + 1 :: u32) = unat b + 1" for b :: u8
    using unsigned_less [where ?'a = nat, of b] by (subst unat_add_lem [THEN iffD1]) simp_all
  ultimately show ?thesis by (simp add: bytes_of_bits)
qed

lemma colour_loop_undefined: "j \<le> 4 \<Longrightarrow> 4 < j + n \<Longrightarrow> colour_loop n j left color s = None"
proof (induction n arbitrary: j left s)
  case (Suc n)
  then show ?case by (cases "j = 4") (auto split: Option.bind_split)
qed simp

lemma draw_pixel_undefined: "4 < unat (pixel_size s) \<Longrightarrow> draw_pixel_lab5 x y color s = None"
  by (simp add: draw_pixel_lab5_def colour_loop_undefined)

lemma draw_rectangle_undefined:
  assumes "4 < unat (pixel_size s)" and "w \<noteq> 0" and "h \<noteq> 0"
  shows "draw_rectangle x y w h color s = None"
proof -
  obtain a b where "unat w = Suc a" "unat h = Suc b" using assms(2,3) by (metis not0_implies_Suc unat_eq_zero)
  then show ?thesis using assms(1) by (simp add: draw_rectangle_def vg_draw_hline_def colour_loop_undefined)
qed

lemma image_pixels_not_Nil: "width img \<noteq> 0 \<Longrightarrow> height img \<noteq> 0 \<Longrightarrow> image_pixels img x y \<noteq> []"
proof -
  assume "width img \<noteq> 0" "height img \<noteq> 0"
  then have "0 < uint (width img)" "0 < uint (height img)" by (simp_all add: word_neq_0_conv word_less_def)
  then show ?thesis by (auto simp: image_pixels_def intro: exI [of _ y])
qed

lemma draw_sprite_undefined:
  assumes "4 < unat (pixel_size s)" and "blk_read (sprites s) i = Some sp"
    and "width (sp_img sp) \<noteq> 0" and "height (sp_img sp) \<noteq> 0"
  shows "draw_sprite i s = None"
proof -
  have "sprite_loop (sp_img sp) ps 0 s = None" if "ps \<noteq> []" for ps
    using that assms(1) by (cases ps) (auto simp: draw_pixel_undefined split: Option.bind_split)
  then show ?thesis using assms(2) image_pixels_not_Nil [OF assms(3,4)] by (auto simp: draw_sprite_def split: Option.bind_split)
qed

section \<open>Filling a rectangle\<close>

text \<open>The memory with the bytes at the places \<open>K\<close> replaced by those of a colour.\<close>

definition paint :: "nat \<Rightarrow> u32 \<Rightarrow> nat set \<Rightarrow> u8 list \<Rightarrow> u8 list" where
  "paint bpp color K m = map (\<lambda>k. if k \<in> K then ucast (drop_bit (8 * (k mod bpp)) color) else m ! k) [0..<length m]"

lemma length_paint [simp]: "length (paint bpp color K m) = length m"
  by (simp add: paint_def)

lemma nth_paint [simp]:
  "k < length m \<Longrightarrow> paint bpp color K m ! k = (if k \<in> K then ucast (drop_bit (8 * (k mod bpp)) color) else m ! k)"
  by (simp add: paint_def)

lemma paint_empty [simp]: "paint bpp color {} m = m"
  by (rule nth_equalityI) simp_all

lemma paint_paint [simp]: "paint bpp color K (paint bpp color L m) = paint bpp color (K \<union> L) m"
  by (rule nth_equalityI) auto

lemma paint_one: "i < length m \<Longrightarrow> m[i := ucast (drop_bit (8 * (i mod bpp)) color)] = paint bpp color {i} m"
  by (rule nth_equalityI) (auto simp: nth_list_update)

lemma colour_loop_paints:
  "left mod bpp = j \<Longrightarrow> j + n \<le> bpp \<Longrightarrow> bpp \<le> 4 \<Longrightarrow> left + n \<le> length (vmem s) \<Longrightarrow>
   colour_loop n j left color s = Some (s\<lparr>vmem := paint bpp color {left..<left + n} (vmem s)\<rparr>)"
proof (induction n arbitrary: j left s)
  case (Suc n)
  have step: "Suc left mod bpp = Suc j" if "n \<noteq> 0" using Suc.prems that by (simp add: mod_Suc)
  have set: "{Suc left..<Suc (left + n)} \<union> {left} = {left..<Suc (left + n)}" by auto
  have w: "vmem_write left (ucast (drop_bit (8 * j) color)) s = Some (s\<lparr>vmem := paint bpp color {left} (vmem s)\<rparr>)"
    using Suc.prems paint_one [of left "vmem s" bpp color] by (simp add: vmem_write_def)
  show ?case
  proof (cases n)
    case 0
    then show ?thesis using Suc.prems w by simp
  next
    case (Suc m)
    then show ?thesis using Suc.prems w set Suc.IH [OF step, of "s\<lparr>vmem := paint bpp color {left} (vmem s)\<rparr>"] by simp
  qed
qed simp

lemma hline_loop_paints:
  "left mod bpp = 0 \<Longrightarrow> bpp = unat (pixel_size s) \<Longrightarrow> bpp \<le> 4 \<Longrightarrow> left + n * bpp \<le> length (vmem s) \<Longrightarrow>
   hline_loop n left color s = Some (s\<lparr>vmem := paint bpp color {left..<left + n * bpp} (vmem s)\<rparr>)"
proof (induction n arbitrary: left s)
  case (Suc n)
  have set: "{left + bpp..<left + bpp + n * bpp} \<union> {left..<left + bpp} = {left..<left + (bpp + n * bpp)}" by auto
  show ?case
    using Suc.prems colour_loop_paints [of left bpp 0 bpp s color] set
      Suc.IH [of "left + bpp" "s\<lparr>vmem := paint bpp color {left..<left + bpp} (vmem s)\<rparr>"] by (simp add: add.assoc)
qed simp

text \<open>The bytes of the pixels of a rectangle on a screen with rows of \<open>res\<close> pixels.\<close>

definition rectangle_bytes :: "nat \<Rightarrow> nat \<Rightarrow> nat \<Rightarrow> nat \<Rightarrow> nat \<Rightarrow> nat \<Rightarrow> nat set" where
  "rectangle_bytes bpp res x y w h =
     {k. x \<le> k div bpp mod res \<and> k div bpp mod res < x + w \<and> y \<le> k div bpp div res \<and> k div bpp div res < y + h}"

text \<open>A row of it is a run of bytes.\<close>

lemma row_bytes:
  assumes "x + w \<le> res" and "0 < bpp"
  shows "{(y * res + x) * bpp..<(y * res + x) * bpp + w * bpp} = rectangle_bytes bpp res x y w 1"
proof -
  have "k \<in> {(y * res + x) * bpp..<(y * res + x) * bpp + w * bpp} \<longleftrightarrow> k \<in> rectangle_bytes bpp res x y w 1" for k
  proof -
    let ?p = "k div bpp"
    have p: "k \<in> {(y * res + x) * bpp..<(y * res + x) * bpp + w * bpp} \<longleftrightarrow> y * res + x \<le> ?p \<and> ?p < y * res + x + w"
      using assms(2) by (simp add: less_eq_div_iff_mult_less_eq div_less_iff_less_mult flip: add_mult_distrib)
    show ?thesis
    proof (cases "?p div res = y")
      case True
      then have m: "?p = y * res + ?p mod res" using div_mult_mod_eq [of ?p res] by simp
      have "y * res + x \<le> ?p \<and> ?p < y * res + x + w \<longleftrightarrow> x \<le> ?p mod res \<and> ?p mod res < x + w" using m by linarith
      then show ?thesis unfolding p using True by (simp add: rectangle_bytes_def)
    next
      case False
      have "?p div res = y" if "y * res + x \<le> ?p" "?p < y * res + x + w"
        using that assms(1) by (intro div_nat_eqI) (auto simp: mult.commute)
      then show ?thesis using False p by (auto simp: rectangle_bytes_def)
    qed
  qed
  then show ?thesis by blast
qed

lemma rectangle_bytes_rows:
  "rectangle_bytes bpp res x (Suc y) w h \<union> rectangle_bytes bpp res x y w 1 = rectangle_bytes bpp res x y w (Suc h)"
  by (auto simp: rectangle_bytes_def)

text \<open>A screen whose memory holds all its pixels, and can be addressed without a wrap-around.\<close>

definition screen_mapped :: "('d, 'z) lab_video_st_scheme \<Rightarrow> bool" where
  "screen_mapped s \<longleftrightarrow> 0 < pixel_size s \<and> unat (pixel_size s) \<le> 4 \<and>
     length (vmem s) = unat (h_res s) * unat (v_res s) * unat (pixel_size s) \<and> length (vmem s) < 2 ^ 32"

lemma pixel_offset_eq:
  assumes "screen_mapped s" and "unat x < unat (h_res s)" and "unat y < unat (v_res s)"
  shows "pixel_offset x y s = (unat y * unat (h_res s) + unat x) * unat (pixel_size s)"
    and "(unat y * unat (h_res s) + unat x) * unat (pixel_size s) + (unat (h_res s) - unat x) * unat (pixel_size s) \<le> length (vmem s)"
proof -
  let ?h = "unat (h_res s)" and ?b = "unat (pixel_size s)"
  have "(unat y + 1) * ?h \<le> unat (v_res s) * ?h" using assms(3) by (intro mult_right_mono) simp_all
  then have le: "(unat y * ?h + ?h) * ?b \<le> length (vmem s)"
    using assms(1) by (auto simp: screen_mapped_def mult.commute intro: mult_right_mono)
  have "(unat y * ?h + unat x) * ?b + (?h - unat x) * ?b = (unat y * ?h + ?h) * ?b"
    using assms(2) by (simp flip: add_mult_distrib)
  then show "(unat y * ?h + unat x) * ?b + (?h - unat x) * ?b \<le> length (vmem s)" using le by simp
  have "1 \<le> ?b" using assms(1) by (auto simp: screen_mapped_def word_less_nat_alt)
  have lt: "(unat y * ?h + unat x) * ?b < 2 ^ 32"
    using le assms(1) \<open>_ = (unat y * ?h + ?h) * ?b\<close> unfolding screen_mapped_def by linarith
  have 1: "unat y * ?h + unat x \<le> (unat y * ?h + unat x) * ?b" using \<open>1 \<le> ?b\<close> by simp
  have 2: "unat y * ?h + unat x < 2 ^ 32" "unat y * ?h < 2 ^ 32" using 1 lt by linarith+
  have u: "unat (ucast y * h_res s) = unat y * ?h" using 2(2) by (subst unat_mult_lem [THEN iffD1]) simp_all
  have v: "unat (ucast y * h_res s + ucast x) = unat y * ?h + unat x"
    using 2(1) u by (subst unat_add_lem [THEN iffD1]) simp_all
  show "pixel_offset x y s = (unat y * ?h + unat x) * ?b"
    unfolding pixel_offset_def using lt v by (subst unat_mult_lem [THEN iffD1]) simp_all
qed

lemma screen_mapped_paint [simp]: "screen_mapped (s\<lparr>vmem := paint bpp color K (vmem s)\<rparr>) = screen_mapped s"
  by (simp add: screen_mapped_def)

lemma hline_paints:
  assumes "screen_mapped s" and "unat x + unat w \<le> unat (h_res s)" and "unat y < unat (v_res s)" and "unat x < unat (h_res s)"
  shows "vg_draw_hline x y w color s = Some (0, s\<lparr>vmem :=
    paint (unat (pixel_size s)) color (rectangle_bytes (unat (pixel_size s)) (unat (h_res s)) (unat x) (unat y) (unat w) 1) (vmem s)\<rparr>)"
proof -
  let ?b = "unat (pixel_size s)"
  have b: "0 < ?b" "?b \<le> 4" using assms(1) by (auto simp: screen_mapped_def word_less_nat_alt)
  have "unat w * ?b \<le> (unat (h_res s) - unat x) * ?b" using assms(2) by (intro mult_right_mono) simp_all
  then have "pixel_offset x y s + unat w * ?b \<le> length (vmem s)"
    using pixel_offset_eq [OF assms(1,4,3)] by linarith
  then show ?thesis
    using hline_loop_paints [of "pixel_offset x y s" ?b s "unat w" color] b pixel_offset_eq(1) [OF assms(1,4,3)]
      row_bytes [OF assms(2) b(1), of "unat y"] by (simp add: vg_draw_hline_def)
qed

lemma rectangle_loop_paints:
  "screen_mapped s \<Longrightarrow> unat x + unat w \<le> unat (h_res s) \<Longrightarrow> unat x < unat (h_res s) \<Longrightarrow> i + n \<le> unat (v_res s) \<Longrightarrow> i + n \<le> 2 ^ 16 \<Longrightarrow>
   rectangle_loop n i x w color s = Some (s\<lparr>vmem :=
     paint (unat (pixel_size s)) color (rectangle_bytes (unat (pixel_size s)) (unat (h_res s)) (unat x) i (unat w) n) (vmem s)\<rparr>)"
proof (induction n arbitrary: i s)
  case 0
  have "rectangle_bytes b r a i c 0 = {}" for b r a c by (auto simp: rectangle_bytes_def)
  then show ?case by simp
next
  case (Suc n)
  have i: "unat (word_of_nat i :: u16) = i" using Suc.prems(5) by (simp add: unat_of_nat)
  show ?case
    using Suc.prems hline_paints [of s x w "word_of_nat i" color] i
      Suc.IH [of "s\<lparr>vmem := paint (unat (pixel_size s)) color
        (rectangle_bytes (unat (pixel_size s)) (unat (h_res s)) (unat x) i (unat w) 1) (vmem s)\<rparr>" "Suc i"]
    by (simp add: rectangle_bytes_rows [of _ _ _ i, simplified])
qed

section \<open>The path of an image\<close>

lemma float_round_exact: "\<bar>n\<bar> < 2 ^ 24 \<Longrightarrow> float_round n = n"
proof -
  assume "\<bar>n\<bar> < 2 ^ 24"
  then have "bitlen \<bar>n\<bar> \<le> 24" by (simp add: bitlen_le_iff_power)
  then show ?thesis by (simp add: float_round_def Let_def sgn_mult_abs)
qed

definition on_path :: "int \<Rightarrow> int \<Rightarrow> int \<Rightarrow> int \<Rightarrow> int \<Rightarrow> int \<Rightarrow> bool" where
  "on_path start v goal k x v' \<longleftrightarrow> x = min (start + k * v) goal \<and> (v' = v \<or> x = goal \<and> v' = 0)"

lemma on_path_step:
  assumes "on_path start v goal k x v'" and "0 \<le> v" and "v < 2 ^ 15" and "0 \<le> x" and "goal < 2 ^ 16"
  shows "if float_round (x + v') > goal then on_path start v goal (k + 1) goal 0
    else on_path start v goal (k + 1) (float_round (x + v')) v'"
proof -
  have x: "x \<le> goal" using assms(1) by (auto simp: on_path_def)
  have v': "v' = v \<or> v' = 0" using assms(1) by (auto simp: on_path_def)
  have r: "float_round (x + v') = x + v'" using x v' assms by (intro float_round_exact) auto
  show ?thesis unfolding r using assms(1,2) x by (auto simp: on_path_def min_def algebra_simps split: if_splits)
qed

lemma on_path_nonneg: "on_path start v goal k x v' \<Longrightarrow> 0 \<le> start \<Longrightarrow> 0 \<le> v \<Longrightarrow> 0 \<le> goal \<Longrightarrow> 0 \<le> k \<Longrightarrow> 0 \<le> x"
  by (simp add: on_path_def)

text \<open>An image that starts before its goal and does not move back.\<close>

definition forward :: "sprite_mov_t \<Rightarrow> bool" where
  "forward sp \<longleftrightarrow> 0 \<le> sp_xi sp \<and> sp_xi sp \<le> uint (sp_xf sp) \<and> 0 \<le> speed_x sp \<and> speed_x sp < 2 ^ 15 \<and>
     0 \<le> sp_yi sp \<and> sp_yi sp \<le> uint (sp_yf sp) \<and> 0 \<le> speed_y sp \<and> speed_y sp < 2 ^ 15"

text \<open>The image after \<open>k\<close> frames.\<close>

primrec moved :: "nat \<Rightarrow> sprite_mov_t \<Rightarrow> sprite_mov_t" where
  "moved 0 sp = sp"
| "moved (Suc k) sp = move_y (move_x (moved k sp))"

lemma moved_Suc: "moved (Suc k) sp = moved k (move_y (move_x sp))"
  by (induction k) simp_all

lemma move_path:
  assumes "forward sp"
  shows "on_path (sp_xi sp) (speed_x sp) (uint (sp_xf sp)) (int k) (sp_xi (moved k sp)) (speed_x (moved k sp)) \<and>
    on_path (sp_yi sp) (speed_y sp) (uint (sp_yf sp)) (int k) (sp_yi (moved k sp)) (speed_y (moved k sp)) \<and>
    sp_xf (moved k sp) = sp_xf sp \<and> sp_yf (moved k sp) = sp_yf sp"
proof (induction k)
  case 0
  then show ?case using assms by (simp add: on_path_def forward_def)
next
  case (Suc k)
  let ?q = "moved k sp"
  have g: "uint (sp_xf sp) < 2 ^ 16" "uint (sp_yf sp) < 2 ^ 16"
    using uint_bounded [of "sp_xf sp"] uint_bounded [of "sp_yf sp"] by simp_all
  have n: "0 \<le> sp_xi ?q" "0 \<le> sp_yi ?q" using Suc.IH on_path_nonneg assms by (auto simp: forward_def)
  note x = on_path_step [OF conjunct1 [OF Suc.IH] _ _ n(1) g(1)]
  note y = on_path_step [OF conjunct1 [OF conjunct2 [OF Suc.IH]] _ _ n(2) g(2)]
  show ?case using x y Suc.IH assms by (simp add: forward_def move_x_def move_y_def Let_def add.commute split: if_splits)
qed

lemma move_sprite_steps:
  assumes "blk_read (sprites s) i = Some sp"
  shows "\<exists>b. run_steps (\<lambda>_ s. map_option snd (move_sprite i s)) (replicate k ()) s = Some (s\<lparr>sprites := b\<rparr>) \<and>
    blk_read b i = Some (moved k sp)"
  using assms
proof (induction k arbitrary: s sp)
  case 0
  then show ?case by (intro exI [of _ "sprites s"]) simp
next
  case (Suc k)
  then obtain cs where cs: "sprites s = Alloc cs" "0 \<le> i" "i < int (length cs)" "cs ! nat i = Some sp"
    by (cases "sprites s") (auto split: if_splits)
  let ?s = "s\<lparr>sprites := Alloc (cs[nat i := Some (move_y (move_x sp))])\<rparr>"
  have "move_sprite i s = Some (0, ?s)" using cs by (simp add: move_sprite_def)
  moreover have "blk_read (sprites ?s) i = Some (move_y (move_x sp))" using cs by simp
  ultimately show ?case using Suc.IH [of ?s "move_y (move_x sp)"] by (simp add: moved_Suc del: moved.simps(2))
qed

text \<open>A speed below -1 is taken for none.\<close>

lemma slow_speed: "sint speed < - 1 \<Longrightarrow> f_speed speed = Some 0"
  by (auto simp: f_speed_def signed_divide_int_def sgn_if zdiv_eq_0_iff)

end
