(* ===== verification/Lab_Mel.thy ===== *)
theory Lab_Mel
  imports Lab_Kbc Lab_Video
begin

text \<open>
  The second video exercise, \<open>src/lab5/mel\<close>: the video card in \<open>vc.c\<close> and the tests of \<open>lab5.c\<close>. Its
  \<open>kbc.c\<close>, \<open>timer.c\<close> and \<open>utils.c\<close> are those of the keyboard and timer exercises, and \<open>vbe_get_mode_inf\<close> is
  the function of the game. The globals have the suffix \<open>_mel\<close>; \<open>video_mem_mel\<close> is the block at
  \<open>video_mem\<close>. The tests \<open>video_test_xpm\<close> and \<open>video_test_move\<close> are left out: they call \<open>draw_xpm\<close>, which
  no header declares, with an argument of another type than its parameter, and do not compile.
\<close>

section \<open>State\<close>

record 'd lab_mel_st = "'d lab_kbc_st" +
  bppixel_mel :: u32
  x_res_mel :: u32
  y_res_mel :: u32
  bytes_per_pixel_mel :: u32
  vram_base_mel :: u32
  vram_size_mel :: u32
  mode_info_mel :: vbe_mode_info_t
  video_mem_mel :: "u8 list"
  aux_buffer_mel :: "u8 list"

section \<open>vc.c\<close>

definition set_vbe_mode_mel :: "'d env \<Rightarrow> u16 \<Rightarrow> ('d, 'z) machine_scheme \<Rightarrow> int \<times> ('d, 'z) machine_scheme" where
  "set_vbe_mode_mel E mode s =
     (let (r, d) = sys_int86 E 0x4f 0x02 (BIT 14 OR mode) 0x10 (dev s)
      in (if r = 1 then 1 else 0, s\<lparr>dev := d\<rparr>))"

definition get_mode_info_mel ::
  "'d env \<Rightarrow> 'd liblm \<Rightarrow> u16 \<Rightarrow> ('d, 'z) lab_mel_st_scheme \<Rightarrow> (string + (int \<times> ('d, 'z) lab_mel_st_scheme)) option" where
  "get_mode_info_mel E LM mode s =
     do { ((_, info), s) \<leftarrow> vbe_get_mode_inf LM mode s;
          let s = s\<lparr>mode_info_mel := info, x_res_mel := ucast (XResolution info), y_res_mel := ucast (YResolution info),
                    bppixel_mel := ucast (BitsPerPixel info)\<rparr>;
          let s = s\<lparr>bytes_per_pixel_mel := (bppixel_mel s + 7) div 8, vram_base_mel := PhysBasePtr info\<rparr>;
          let s = s\<lparr>vram_size_mel := x_res_mel s * y_res_mel s * bytes_per_pixel_mel s\<rparr>;
          let (r, d) = sys_privctl_add_mem E (vram_base_mel s) (vram_base_mel s + vram_size_mel s) (dev s);
          let s = s\<lparr>dev := d\<rparr>;
          if r \<noteq> 0 then Some (Inl ''sys_privctl (ADD_MEM) failed'')
          else do {
            let (mapped, d) = vm_map_phys_ok E (vram_base_mel s) (vram_size_mel s) (dev s);
            let n = unat (vram_size_mel s);
            let s = s\<lparr>dev := d, video_mem_mel := replicate n (uninit E d)\<rparr>;
            if \<not> mapped then Some (Inl ''couldn't map video memory'')
            else Some (Inr (0, s\<lparr>aux_buffer_mel :=
                   (if malloc E (int n) (dev s) \<noteq> None then replicate n (uninit E (dev s)) else [])\<rparr>)) } }"

definition video_write :: "nat \<Rightarrow> u8 \<Rightarrow> ('d, 'z) lab_mel_st_scheme \<Rightarrow> ('d, 'z) lab_mel_st_scheme option" where
  "video_write i v s = (if i < length (video_mem_mel s) then Some (s\<lparr>video_mem_mel := (video_mem_mel s)[i := v]\<rparr>) else None)"

fun pixel_bytes_mel :: "nat \<Rightarrow> nat \<Rightarrow> u32 \<Rightarrow> ('d, 'z) lab_mel_st_scheme \<Rightarrow> ('d, 'z) lab_mel_st_scheme option" where
  "pixel_bytes_mel 0 i color s = Some s"
| "pixel_bytes_mel (Suc n) i color s =
     do { s \<leftarrow> video_write i (ucast color) s; pixel_bytes_mel n (Suc i) (drop_bit 8 color) s }"

text \<open>A pixel outside the screen is not drawn.\<close>

definition draw_pixel_mel :: "u16 \<Rightarrow> u16 \<Rightarrow> u32 \<Rightarrow> ('d, 'z) lab_mel_st_scheme \<Rightarrow> (int \<times> ('d, 'z) lab_mel_st_scheme) option" where
  "draw_pixel_mel x y color s =
     (if ucast y \<ge> y_res_mel s \<or> ucast x \<ge> x_res_mel s then Some (1, s)
      else
        let bpp = bytes_per_pixel_ceil (bppixel_mel s) in
        if bpp = 1 then
          do { s \<leftarrow> video_write (unat (ucast y * x_res_mel s * ucast bpp) + unat x * unat bpp) (ucast color) s;
               Some (0, s) }
        else
          do { s \<leftarrow> pixel_bytes_mel (unat bpp) (unat (ucast bpp * ucast y * x_res_mel s) + unat x * unat bpp) color s;
               Some (0, s) })"

text \<open>The loops count in 16 bits; the coordinates are cut to 16 bits when they are passed.\<close>

fun hline_loop_mel :: "nat \<Rightarrow> nat \<Rightarrow> u16 \<Rightarrow> u16 \<Rightarrow> u32 \<Rightarrow> ('d, 'z) lab_mel_st_scheme \<Rightarrow> ('d, 'z) lab_mel_st_scheme option" where
  "hline_loop_mel 0 j x y color s = Some s"
| "hline_loop_mel (Suc n) j x y color s =
     do { (_, s) \<leftarrow> draw_pixel_mel (x + word_of_nat j) y color s; hline_loop_mel n (Suc j) x y color s }"

definition vg_draw_hline_mel :: "u16 \<Rightarrow> u16 \<Rightarrow> u16 \<Rightarrow> u32 \<Rightarrow> ('d, 'z) lab_mel_st_scheme \<Rightarrow> (int \<times> ('d, 'z) lab_mel_st_scheme) option" where
  "vg_draw_hline_mel x y len color s = do { s \<leftarrow> hline_loop_mel (unat len) 0 x y color s; Some (0, s) }"

fun rectangle_loop_mel :: "nat \<Rightarrow> nat \<Rightarrow> u16 \<Rightarrow> u16 \<Rightarrow> u16 \<Rightarrow> u32 \<Rightarrow> ('d, 'z) lab_mel_st_scheme \<Rightarrow> ('d, 'z) lab_mel_st_scheme option" where
  "rectangle_loop_mel 0 i x y w color s = Some s"
| "rectangle_loop_mel (Suc n) i x y w color s =
     do { (_, s) \<leftarrow> vg_draw_hline_mel x (y + word_of_nat i) w color s; rectangle_loop_mel n (Suc i) x y w color s }"

definition vg_draw_rectangle ::
  "u16 \<Rightarrow> u16 \<Rightarrow> u16 \<Rightarrow> u16 \<Rightarrow> u32 \<Rightarrow> ('d, 'z) lab_mel_st_scheme \<Rightarrow> (int \<times> ('d, 'z) lab_mel_st_scheme) option" where
  "vg_draw_rectangle x y w h color s = do { s \<leftarrow> rectangle_loop_mel (unat h) 0 x y w color s; Some (0, s) }"

fun xpm_loop_mel :: "'d env \<Rightarrow> xpm_image_t \<Rightarrow> (int \<times> int) list \<Rightarrow> nat \<Rightarrow> ('d, 'z) lab_mel_st_scheme \<Rightarrow> ('d, 'z) lab_mel_st_scheme option" where
  "xpm_loop_mel E img [] bcount s = Some s"
| "xpm_loop_mel E img ((j, i) # ps) bcount s =
     do { c \<leftarrow> pixel16 img bcount;
          s \<leftarrow> (if ucast c \<noteq> xpm_transparency_color E (img_type img)
               then map_option snd (draw_pixel_mel (word_of_int j) (word_of_int i) (ucast c) s)
               else Some s);
          xpm_loop_mel E img ps (Suc bcount) s }"

text \<open>The bounds of the loops are sums of type \<open>int\<close>.\<close>

definition draw_xpm_mel :: "'d env \<Rightarrow> int \<Rightarrow> int \<Rightarrow> xpm_image_t \<Rightarrow> ('d, 'z) lab_mel_st_scheme \<Rightarrow> (int \<times> ('d, 'z) lab_mel_st_scheme) option" where
  "draw_xpm_mel E x y img s =
     (if uint (height img) + y > 2147483647 \<or> height img \<noteq> 0 \<and> uint (width img) + x > 2147483647 then None
      else do { s \<leftarrow> xpm_loop_mel E img (image_pixels img x y) 0 s; Some (0, s) })"

section \<open>lab5.c\<close>

text \<open>
  The functions of the library: \<open>vg_exit\<close> is in the environment, \<open>sleep\<close> a parameter. A failed
  mapping panics; the status of \<open>get_mode_info\<close> is otherwise 0.
\<close>

definition video_test_init_mel ::
  "'d env \<Rightarrow> 'd liblm \<Rightarrow> (u8 \<Rightarrow> 'd \<Rightarrow> 'd) \<Rightarrow> u16 \<Rightarrow> u8 \<Rightarrow> ('d, 'z) lab_mel_st_scheme \<Rightarrow> (string + (int \<times> ('d, 'z) lab_mel_st_scheme)) option" where
  "video_test_init_mel E LM sleep mode delay s =
     (let (r, s) = set_vbe_mode_mel E mode s in
      if r = 1 then Some (Inr (1, s))
      else do {
        m \<leftarrow> get_mode_info_mel E LM mode s;
        (case m of
           Inl msg \<Rightarrow> Some (Inl msg)
         | Inr (r, s) \<Rightarrow>
             if r = 1 then Some (Inr (1, s))
             else
               let (r, d) = vg_exit E (sleep delay (dev s)); s = s\<lparr>dev := d\<rparr>
               in Some (Inr (if r = 1 then (1, s) else (0, s)))) })"

text \<open>The loop of the tests: the keyboard is read until \<open>sc_byte\<close> is the release of the escape key.\<close>

definition esc_body_mel :: "'d env \<Rightarrow> u8 \<Rightarrow> ('d, 'z) lab_kbc_st_scheme \<Rightarrow> (bool \<times> ('d, 'z) lab_kbc_st_scheme) option" where
  "esc_body_mel E bit_no s =
     (if irq_message E (BIT (unat bit_no)) (dev s)
      then do { s \<leftarrow> kbc_ih_lab E (after_message E s); Some (sc_byte s = ESC_BREAKCODE, s) }
      else Some (False, after_message E s))"

partial_function (option) esc_loop_mel :: "'d env \<Rightarrow> u8 \<Rightarrow> ('d, 'z) lab_kbc_st_scheme \<Rightarrow> ('d, 'z) lab_kbc_st_scheme option" where
  "esc_loop_mel E bit_no s =
     do { (ESC_flag, s) \<leftarrow> esc_body_mel E bit_no s; if ESC_flag then Some s else esc_loop_mel E bit_no s }"

text \<open>The end of the tests: the loop, the subscription and the text mode.\<close>

definition esc_and_exit :: "'d env \<Rightarrow> u8 \<Rightarrow> ('d, 'z) lab_kbc_st_scheme \<Rightarrow> (int \<times> ('d, 'z) lab_kbc_st_scheme) option" where
  "esc_and_exit E bit_no s =
     do { s \<leftarrow> esc_loop_mel E bit_no s;
          let (r, s) = kbc_unsubscribe_int E s;
          if r = 1 then Some (1, s)
          else let (r, d) = vg_exit E (dev s); s = s\<lparr>dev := d\<rparr> in Some (if r = 1 then (1, s) else (0, s)) }"

text \<open>Their beginning: the memory is mapped, the mode set and the keyboard subscribed.\<close>

definition in_mode_mel :: "'d env \<Rightarrow> 'd liblm \<Rightarrow> u16 \<Rightarrow>
  (u8 \<Rightarrow> ('d, 'z) lab_mel_st_scheme \<Rightarrow> (int \<times> ('d, 'z) lab_mel_st_scheme) option) \<Rightarrow>
  ('d, 'z) lab_mel_st_scheme \<Rightarrow> (string + (int \<times> ('d, 'z) lab_mel_st_scheme)) option" where
  "in_mode_mel E LM mode test s =
     do { m \<leftarrow> get_mode_info_mel E LM mode s;
          (case m of
             Inl msg \<Rightarrow> Some (Inl msg)
           | Inr (r, s) \<Rightarrow>
               if r = 1 then Some (Inr (1, s))
               else
                 let (r, s) = set_vbe_mode_mel E mode s in
                 if r = 1 then Some (Inr (1, s))
                 else
                   let bit_no = word_of_int KBC_IRQ; (r, s) = kbc_subscribe_int E bit_no s in
                   if r = 1 then Some (Inr (1, s)) else map_option Inr (test bit_no s)) }"

definition video_test_rectangle_mel ::
  "'d env \<Rightarrow> 'd liblm \<Rightarrow> u16 \<Rightarrow> u16 \<Rightarrow> u16 \<Rightarrow> u16 \<Rightarrow> u16 \<Rightarrow> u32 \<Rightarrow> ('d, 'z) lab_mel_st_scheme \<Rightarrow>
   (string + (int \<times> ('d, 'z) lab_mel_st_scheme)) option" where
  "video_test_rectangle_mel E LM mode x y w h color s =
     in_mode_mel E LM mode
       (\<lambda>bit_no s. do { (_, s) \<leftarrow> vg_draw_rectangle x y w h color s; esc_and_exit E bit_no s }) s"

text \<open>\<open>1 << n\<close> in \<open>int\<close>, and the shifts of a 32-bit number.\<close>

definition one_shl :: "u8 \<Rightarrow> u32 option" where
  "one_shl n = (if n < 31 then Some (push_bit (unat n) 1) else None)"

definition shl32 :: "u32 \<Rightarrow> u8 \<Rightarrow> u32 option" where
  "shl32 v n = (if n < 32 then Some (push_bit (unat n) v) else None)"

definition shr32 :: "u32 \<Rightarrow> u8 \<Rightarrow> u32 option" where
  "shr32 v n = (if n < 32 then Some (drop_bit (unat n) v) else None)"

text \<open>The colour of a rectangle in a packed pixel mode, and in a direct mode from the red, green and blue of the first.\<close>

definition indexed_color :: "u32 \<Rightarrow> u8 \<Rightarrow> u32 \<Rightarrow> u8 \<Rightarrow> u32 \<Rightarrow> u32 \<Rightarrow> u32 option" where
  "indexed_color bpp no_rectangles first step row col =
     (if bpp < 31
      then Some ((first + (row * ucast no_rectangles + col) * ucast step) mod push_bit (unat bpp) 1)
      else None)"

definition direct_color :: "vbe_mode_info_t \<Rightarrow> u32 \<Rightarrow> u8 \<Rightarrow> u32 \<Rightarrow> u32 \<Rightarrow> u32 option" where
  "direct_color info first step row col =
     do { red_size \<leftarrow> one_shl (RedMaskSize info);
          let red_mask = red_size - 1;
          r \<leftarrow> shr32 first (RedFieldPosition info);
          let red = ((r AND red_mask) + col * ucast step) mod red_size;
          green_size \<leftarrow> one_shl (GreenMaskSize info);
          let green_mask = green_size - 1;
          g \<leftarrow> shr32 first (GreenFieldPosition info);
          let green = ((g AND green_mask) + row * ucast step) mod green_size;
          blue_size \<leftarrow> one_shl (BlueMaskSize info);
          let blue_mask = blue_size - 1;
          b \<leftarrow> shl32 first (BlueFieldPosition info);
          let blue = ((b AND blue_mask) + (col + row) * ucast step) mod blue_size;
          red \<leftarrow> shl32 red (RedFieldPosition info);
          green \<leftarrow> shl32 green (GreenFieldPosition info);
          Some (red OR green OR blue) }"

text \<open>The variable \<open>color\<close> after the two tests of the memory model; another model keeps it.\<close>

definition pattern_color :: "('d, 'z) lab_mel_st_scheme \<Rightarrow> u8 \<Rightarrow> u32 \<Rightarrow> u8 \<Rightarrow> u32 \<Rightarrow> u32 \<Rightarrow> u32 \<Rightarrow> u32 option" where
  "pattern_color s no_rectangles first step row col color =
     do { color \<leftarrow> (if MemoryModel (mode_info_mel s) = 0x04
                    then indexed_color (bppixel_mel s) no_rectangles first step row col else Some color);
          if MemoryModel (mode_info_mel s) = 0x06 then direct_color (mode_info_mel s) first step row col else Some color }"

text \<open>The two loops over the rectangles; the flag says that the test has returned 1.\<close>

fun pattern_loop_mel ::
  "u8 \<Rightarrow> u32 \<Rightarrow> u8 \<Rightarrow> u16 \<Rightarrow> u16 \<Rightarrow> (nat \<times> nat) list \<Rightarrow> u32 \<Rightarrow> ('d, 'z) lab_mel_st_scheme \<Rightarrow> (bool \<times> ('d, 'z) lab_mel_st_scheme) option" where
  "pattern_loop_mel no_rectangles first step recWidth recHeight [] color s = Some (False, s)"
| "pattern_loop_mel no_rectangles first step recWidth recHeight ((row, col) # cells) color s =
     do { color \<leftarrow> pattern_color s no_rectangles first step (word_of_nat row) (word_of_nat col) color;
          (r, s) \<leftarrow> vg_draw_rectangle (ucast (ucast recWidth * word_of_nat col :: u32)) (ucast (ucast recHeight * word_of_nat row :: u32))
                     recWidth recHeight color s;
          if r = 1 then Some (True, s) else pattern_loop_mel no_rectangles first step recWidth recHeight cells color s }"

definition pattern_cells :: "u8 \<Rightarrow> (nat \<times> nat) list" where
  "pattern_cells no_rectangles = [(row, col). row \<leftarrow> [0..<unat no_rectangles], col \<leftarrow> [0..<unat no_rectangles]]"

text \<open>The statements from the size of a rectangle to the end of the loops; a division by 0 is undefined.\<close>

definition draw_pattern :: "u8 \<Rightarrow> u32 \<Rightarrow> u8 \<Rightarrow> ('d, 'z) lab_mel_st_scheme \<Rightarrow> (bool \<times> ('d, 'z) lab_mel_st_scheme) option" where
  "draw_pattern no_rectangles first step s =
     (if no_rectangles = 0 then None
      else
        let recWidth = ucast (x_res_mel s div ucast no_rectangles);
            recHeight = ucast (y_res_mel s div ucast no_rectangles)
        in pattern_loop_mel no_rectangles first step recWidth recHeight (pattern_cells no_rectangles) first s)"

definition video_test_pattern_mel ::
  "'d env \<Rightarrow> 'd liblm \<Rightarrow> u16 \<Rightarrow> u8 \<Rightarrow> u32 \<Rightarrow> u8 \<Rightarrow> ('d, 'z) lab_mel_st_scheme \<Rightarrow>
   (string + (int \<times> ('d, 'z) lab_mel_st_scheme)) option" where
  "video_test_pattern_mel E LM mode no_rectangles first step s =
     in_mode_mel E LM mode
       (\<lambda>bit_no s. do { (returned, s) \<leftarrow> draw_pattern no_rectangles first step s;
                        if returned then Some (1, s) else esc_and_exit E bit_no s }) s"

section \<open>Tinting pixels\<close>

text \<open>The memory with the pixels to which \<open>f\<close> gives a colour replaced by it, low byte first.\<close>

definition tint :: "nat \<Rightarrow> (nat \<Rightarrow> u32 option) \<Rightarrow> u8 list \<Rightarrow> u8 list" where
  "tint bpp f m =
     map (\<lambda>k. case f (k div bpp) of Some c \<Rightarrow> ucast (drop_bit (8 * (k mod bpp)) c) | None \<Rightarrow> m ! k) [0..<length m]"

lemma length_tint [simp]: "length (tint bpp f m) = length m"
  by (simp add: tint_def)

lemma nth_tint [simp]:
  "k < length m \<Longrightarrow> tint bpp f m ! k = (case f (k div bpp) of Some c \<Rightarrow> ucast (drop_bit (8 * (k mod bpp)) c) | None \<Rightarrow> m ! k)"
  by (simp add: tint_def split: option.split)

lemma tint_tint: "tint bpp g (tint bpp f m) = tint bpp (f ++ g) m"
  by (rule nth_equalityI) (auto simp: map_add_def split: option.split)

lemma tint_cong: "(\<And>p. p * bpp < length m \<Longrightarrow> f p = g p) \<Longrightarrow> tint bpp f m = tint bpp g m"
proof (rule nth_equalityI)
  fix k assume fg: "\<And>p. p * bpp < length m \<Longrightarrow> f p = g p" and "k < length (tint bpp f m)"
  then have "f (k div bpp) = g (k div bpp)" by (intro fg) (simp add: le_less_trans [OF div_times_less_eq_dividend])
  then show "tint bpp f m ! k = tint bpp g m ! k" using \<open>k < _\<close> by simp
qed simp

lemma tint_None [simp]: "tint bpp (\<lambda>_. None) m = m"
  by (rule nth_equalityI) simp_all

section \<open>Plotting\<close>

text \<open>The bytes of a pixel, as \<open>draw_pixel\<close> computes them.\<close>

definition mel_bpp :: "('d, 'z) lab_mel_st_scheme \<Rightarrow> nat" where
  "mel_bpp s = unat (bytes_per_pixel_ceil (bppixel_mel s))"

text \<open>A screen whose memory holds all its pixels, and can be addressed without a wrap-around.\<close>

definition mel_screen :: "('d, 'z) lab_mel_st_scheme \<Rightarrow> bool" where
  "mel_screen s \<longleftrightarrow> 0 < mel_bpp s \<and> unat (x_res_mel s) < 2 ^ 16 \<and> unat (y_res_mel s) < 2 ^ 16 \<and>
     length (video_mem_mel s) = unat (x_res_mel s) * unat (y_res_mel s) * mel_bpp s \<and> length (video_mem_mel s) < 2 ^ 32"

text \<open>The pixels whose coordinates, as 16-bit numbers, are in \<open>K\<close> get a colour.\<close>

definition spots :: "nat \<Rightarrow> (u16 \<times> u16) set \<Rightarrow> u32 \<Rightarrow> nat \<Rightarrow> u32 option" where
  "spots xr K color p = (if (word_of_nat (p mod xr), word_of_nat (p div xr)) \<in> K then Some color else None)"

definition plot :: "(u16 \<times> u16) set \<Rightarrow> u32 \<Rightarrow> ('d, 'z) lab_mel_st_scheme \<Rightarrow> ('d, 'z) lab_mel_st_scheme" where
  "plot K color s = s\<lparr>video_mem_mel := tint (mel_bpp s) (spots (unat (x_res_mel s)) K color) (video_mem_mel s)\<rparr>"

lemma mel_screen_upd [simp]: "length m = length (video_mem_mel s) \<Longrightarrow> mel_screen (s\<lparr>video_mem_mel := m\<rparr>) = mel_screen s"
  by (simp add: mel_screen_def mel_bpp_def)

lemma mel_bpp_upd [simp]: "mel_bpp (s\<lparr>video_mem_mel := m\<rparr>) = mel_bpp s"
  by (simp add: mel_bpp_def)

lemma mel_screen_plot [simp]: "mel_screen (plot K color s) = mel_screen s"
  by (simp add: plot_def)

lemma spots_empty [simp]: "spots xr {} color = (\<lambda>_. None)"
  by (simp add: spots_def fun_eq_iff)

lemma plot_empty [simp]: "plot {} color s = s"
  by (simp add: plot_def)

lemma plot_plot: "plot L color (plot K color s) = plot (K \<union> L) color s"
proof -
  have "spots xr K color ++ spots xr L color = spots xr (K \<union> L) color" for xr
    by (auto simp: spots_def map_add_def)
  then show ?thesis by (simp add: plot_def tint_tint)
qed

lemma pixel_bytes_mel_eq:
  "i + n \<le> length (video_mem_mel s) \<Longrightarrow>
   \<exists>m. pixel_bytes_mel n i color s = Some (s\<lparr>video_mem_mel := m\<rparr>) \<and> length m = length (video_mem_mel s) \<and>
     (\<forall>k < length m. m ! k = (if i \<le> k \<and> k < i + n then ucast (drop_bit (8 * (k - i)) color) else video_mem_mel s ! k))"
proof (induction n arbitrary: i color s)
  case 0
  then show ?case by (intro exI [of _ "video_mem_mel s"]) auto
next
  case (Suc n)
  let ?s = "s\<lparr>video_mem_mel := (video_mem_mel s)[i := ucast color]\<rparr>"
  obtain m where m: "pixel_bytes_mel n (Suc i) (drop_bit 8 color) ?s = Some (?s\<lparr>video_mem_mel := m\<rparr>)"
      "length m = length (video_mem_mel s)"
      "\<And>k. k < length m \<Longrightarrow> m ! k = (if Suc i \<le> k \<and> k < Suc i + n then ucast (drop_bit (8 * (k - Suc i)) (drop_bit 8 color))
         else video_mem_mel ?s ! k)"
    using Suc.IH [of "Suc i" ?s "drop_bit 8 color"] Suc.prems by auto
  have "m ! k = (if i \<le> k \<and> k < i + Suc n then ucast (drop_bit (8 * (k - i)) color) else video_mem_mel s ! k)"
    if "k < length m" for k
  proof (cases "Suc i \<le> k")
    case True
    then have "8 * (k - Suc i) + 8 = 8 * (k - i)" by simp
    then have "drop_bit (8 * (k - Suc i)) (drop_bit 8 color) = drop_bit (8 * (k - i)) color" by simp
    then show ?thesis using m(3) [OF that] True by simp
  next
    case False
    then show ?thesis using m(3) [OF that] Suc.prems that m(2) by (cases "k = i") simp_all
  qed
  then show ?case using m(1,2) Suc.prems by (intro exI [of _ m]) (simp add: video_write_def)
qed

text \<open>The place of a pixel on the screen, computed in \<open>unsigned\<close>.\<close>

lemma mel_offset:
  fixes x y :: u16
  assumes "mel_screen s" and "unat x < unat (x_res_mel s)" and "unat y < unat (y_res_mel s)"
  shows "unat (ucast (bytes_per_pixel_ceil (bppixel_mel s)) * ucast y * x_res_mel s) + unat x * mel_bpp s
      = (unat y * unat (x_res_mel s) + unat x) * mel_bpp s"
    and "(unat y * unat (x_res_mel s) + unat x) * mel_bpp s + mel_bpp s \<le> length (video_mem_mel s)"
proof -
  let ?h = "unat (x_res_mel s)" and ?b = "mel_bpp s"
  have "unat y * ?h + unat x + 1 \<le> unat y * ?h + ?h" using assms(2) by simp
  also have "\<dots> = (unat y + 1) * ?h" by simp
  also have "\<dots> \<le> unat (y_res_mel s) * ?h" using assms(3) by (intro mult_right_mono) simp_all
  finally have "(unat y * ?h + unat x + 1) * ?b \<le> (unat (y_res_mel s) * ?h) * ?b" by (rule mult_right_mono) simp
  then show le: "(unat y * ?h + unat x) * ?b + ?b \<le> length (video_mem_mel s)"
    using assms(1) by (simp add: mel_screen_def algebra_simps)
  have b: "?b < 2 ^ 8" unfolding mel_bpp_def using unsigned_less [where ?'a = nat, of "bytes_per_pixel_ceil (bppixel_mel s)"] by simp
  have y: "unat y < 2 ^ 16" by (rule order.strict_trans2 [OF unsigned_less]) simp
  have "?b * unat y < 2 ^ 8 * 2 ^ 16" by (rule mult_strict_mono [OF b y]) simp_all
  then have 1: "unat (ucast (bytes_per_pixel_ceil (bppixel_mel s)) * ucast y :: u32) = ?b * unat y"
    by (subst unat_mult_lem [THEN iffD1]) (simp_all add: mel_bpp_def)
  have "?b * unat y * ?h \<le> (unat y * ?h + unat x) * ?b" by (simp add: algebra_simps)
  then have "?b * unat y * ?h < 2 ^ 32" using le assms(1) unfolding mel_screen_def by linarith
  then have "unat (ucast (bytes_per_pixel_ceil (bppixel_mel s)) * ucast y * x_res_mel s) = ?b * unat y * ?h"
    using 1 by (subst unat_mult_lem [THEN iffD1]) simp_all
  then show "unat (ucast (bytes_per_pixel_ceil (bppixel_mel s)) * ucast y * x_res_mel s) + unat x * ?b = (unat y * ?h + unat x) * ?b"
    by (simp add: algebra_simps)
qed

text \<open>The one-byte branch of \<open>draw_pixel\<close> is the loop with one byte.\<close>

lemma draw_pixel_mel_inside:
  assumes "unat x < unat (x_res_mel s)" and "unat y < unat (y_res_mel s)"
  shows "draw_pixel_mel x y color s =
    do { s \<leftarrow> pixel_bytes_mel (mel_bpp s)
           (unat (ucast (bytes_per_pixel_ceil (bppixel_mel s)) * ucast y * x_res_mel s) + unat x * mel_bpp s) color s; Some (0, s) }"
proof -
  have "\<not> (ucast y \<ge> y_res_mel s \<or> ucast x \<ge> x_res_mel s)"
    using assms by (simp add: word_le_nat_alt not_le)
  then show ?thesis by (simp add: draw_pixel_mel_def Let_def mel_bpp_def mult.commute split: Option.bind_split)
qed

text \<open>A pixel of the screen is given by its 16-bit coordinates.\<close>

lemma mel_coords:
  assumes "mel_screen s" and "p * mel_bpp s < length (video_mem_mel s)"
  shows "unat (word_of_nat (p mod unat (x_res_mel s)) :: u16) = p mod unat (x_res_mel s)"
    and "unat (word_of_nat (p div unat (x_res_mel s)) :: u16) = p div unat (x_res_mel s)"
    and "p mod unat (x_res_mel s) < unat (x_res_mel s)" and "p div unat (x_res_mel s) < unat (y_res_mel s)"
proof -
  have p: "p < unat (y_res_mel s) * unat (x_res_mel s)" using assms by (simp add: mel_screen_def mult.commute)
  then have "0 < unat (x_res_mel s)" by (metis gr0I less_nat_zero_code mult_0_right)
  then show x: "p mod unat (x_res_mel s) < unat (x_res_mel s)" by simp
  show y: "p div unat (x_res_mel s) < unat (y_res_mel s)" using p by (simp add: less_mult_imp_div_less)
  show "unat (word_of_nat (p mod unat (x_res_mel s)) :: u16) = p mod unat (x_res_mel s)"
    using assms(1) x by (simp add: mel_screen_def unat_of_nat)
  show "unat (word_of_nat (p div unat (x_res_mel s)) :: u16) = p div unat (x_res_mel s)"
    using assms(1) y by (simp add: mel_screen_def unat_of_nat)
qed

lemma spots_one:
  assumes "mel_screen s" and "p * mel_bpp s < length (video_mem_mel s)"
  shows "spots (unat (x_res_mel s)) {(x, y)} color p =
    (if p mod unat (x_res_mel s) = unat x \<and> p div unat (x_res_mel s) = unat y then Some color else None)"
  using mel_coords(1,2) [OF assms] by (auto simp: spots_def word_unat_eq_iff)

lemma div_eq_interval: "0 < b \<Longrightarrow> k div b = q \<longleftrightarrow> q * b \<le> k \<and> k < q * b + b" for b k q :: nat
proof -
  assume b: "0 < b"
  have "k div b = q \<longleftrightarrow> q \<le> k div b \<and> k div b < Suc q" by auto
  also have "\<dots> \<longleftrightarrow> q * b \<le> k \<and> k < Suc q * b"
    using b by (simp only: less_eq_div_iff_mult_less_eq div_less_iff_less_mult)
  finally show ?thesis by (simp add: add.commute)
qed

lemma draw_pixel_plots:
  assumes "mel_screen s"
  shows "\<exists>r. draw_pixel_mel x y color s = Some (r, plot {(x, y)} color s)"
proof (cases "unat x < unat (x_res_mel s) \<and> unat y < unat (y_res_mel s)")
  case True
  let ?b = "mel_bpp s" and ?h = "unat (x_res_mel s)"
  let ?q = "unat y * ?h + unat x"
  have b: "0 < ?b" using assms by (simp add: mel_screen_def)
  obtain m where m: "pixel_bytes_mel ?b (?q * ?b) color s = Some (s\<lparr>video_mem_mel := m\<rparr>)" "length m = length (video_mem_mel s)"
      "\<And>k. k < length m \<Longrightarrow> m ! k = (if ?q * ?b \<le> k \<and> k < ?q * ?b + ?b then ucast (drop_bit (8 * (k - ?q * ?b)) color) else video_mem_mel s ! k)"
    using pixel_bytes_mel_eq [OF mel_offset(2) [OF assms conjunct1 [OF True] conjunct2 [OF True]]] by metis
  have "m ! k = tint ?b (spots ?h {(x, y)} color) (video_mem_mel s) ! k" if "k < length m" for k
  proof -
    have "k div ?b * ?b < length (video_mem_mel s)" using that m(2) by (metis div_times_less_eq_dividend order.strict_trans1)
    moreover have "p mod ?h = unat x \<and> p div ?h = unat y \<longleftrightarrow> p = ?q" for p
    proof
      assume "p mod ?h = unat x \<and> p div ?h = unat y"
      then show "p = ?q" using div_mult_mod_eq [of p ?h] by metis
    qed (use True in simp)
    ultimately have "spots ?h {(x, y)} color (k div ?b) = (if k div ?b = ?q then Some color else None)"
      using spots_one [OF assms] by simp
    moreover have "k div ?b = ?q \<longleftrightarrow> ?q * ?b \<le> k \<and> k < ?q * ?b + ?b"
      by (rule div_eq_interval [OF b])
    moreover have "k - ?q * ?b = k mod ?b" if "k div ?b = ?q" using that by (metis minus_div_mult_eq_mod)
    ultimately show ?thesis using m(2,3) that by simp
  qed
  then have "s\<lparr>video_mem_mel := m\<rparr> = plot {(x, y)} color s" using m(2) by (simp add: plot_def list_eq_iff_nth_eq)
  then show ?thesis using draw_pixel_mel_inside [of x s y color] mel_offset(1) [of s x y] assms True m(1) by simp
next
  case False
  have "spots (unat (x_res_mel s)) {(x, y)} color p = None" if p: "p * mel_bpp s < length (video_mem_mel s)" for p
  proof -
    have "\<not> (p mod unat (x_res_mel s) = unat x \<and> p div unat (x_res_mel s) = unat y)"
      using mel_coords(3,4) [OF assms p] False by metis
    then show ?thesis using spots_one [OF assms p] by simp
  qed
  then have "tint (mel_bpp s) (spots (unat (x_res_mel s)) {(x, y)} color) (video_mem_mel s) = tint (mel_bpp s) (\<lambda>_. None) (video_mem_mel s)"
    by (rule tint_cong)
  moreover have "ucast y \<ge> y_res_mel s \<or> ucast x \<ge> x_res_mel s" using False by (auto simp: word_le_nat_alt not_less)
  ultimately show ?thesis by (simp add: draw_pixel_mel_def plot_def)
qed

text \<open>A line, and a rectangle: the coordinates wrap around, so it is given by the distance from its corner.\<close>

lemma hline_loop_plots:
  "mel_screen s \<Longrightarrow> hline_loop_mel n j x y color s = Some (plot ((\<lambda>i. (x + word_of_nat i, y)) ` {j..<j + n}) color s)"
proof (induction n arbitrary: j s)
  case (Suc n)
  obtain r where "draw_pixel_mel (x + word_of_nat j) y color s = Some (r, plot {(x + word_of_nat j, y)} color s)"
    using draw_pixel_plots [OF Suc.prems] by blast
  moreover have "{j..<j + Suc n} = insert j {Suc j..<Suc j + n}" by auto
  ultimately show ?case using Suc by (simp add: plot_plot)
qed simp

lemma rectangle_loop_plots:
  "mel_screen s \<Longrightarrow> rectangle_loop_mel n j x y w color s =
     Some (plot {(x + word_of_nat i, y + word_of_nat k) |i k. i < unat w \<and> j \<le> k \<and> k < j + n} color s)"
proof (induction n arbitrary: j s)
  case 0
  have "{(x + word_of_nat i, y + word_of_nat k) |i k. i < unat w \<and> j \<le> k \<and> k < j + 0} = {}" by auto
  then show ?case by (simp only: plot_empty rectangle_loop_mel.simps)
next
  case (Suc n)
  have "{(x + word_of_nat i, y + word_of_nat k) |i k. i < unat w \<and> j \<le> k \<and> k < j + Suc n} =
      (\<lambda>i. (x + word_of_nat i, y + word_of_nat j)) ` {0..<unat w} \<union>
      {(x + word_of_nat i, y + word_of_nat k) |i k. i < unat w \<and> Suc j \<le> k \<and> k < Suc j + n}"
    by (fastforce simp: le_less Suc_le_eq)
  then show ?case using Suc by (simp add: vg_draw_hline_mel_def hline_loop_plots plot_plot)
qed

lemma word_within: "(\<exists>i < unat w. a = x + word_of_nat i) \<longleftrightarrow> a - x < w" for a x w :: "'a::len word"
proof
  assume "\<exists>i < unat w. a = x + word_of_nat i"
  then obtain i where i: "i < unat w" "a = x + word_of_nat i" by blast
  have "unat (word_of_nat i :: 'a word) \<le> i" by (simp add: unat_of_nat)
  then show "a - x < w" using i by (simp add: word_less_nat_alt)
next
  assume "a - x < w"
  then show "\<exists>i < unat w. a = x + word_of_nat i" by (intro exI [of _ "unat (a - x)"]) (simp add: word_less_nat_alt)
qed

definition rectangle_spots :: "u16 \<Rightarrow> u16 \<Rightarrow> u16 \<Rightarrow> u16 \<Rightarrow> (u16 \<times> u16) set" where
  "rectangle_spots x y w h = {(a, b). a - x < w \<and> b - y < h}"

lemma rectangle_plots:
  assumes "mel_screen s"
  shows "vg_draw_rectangle x y w h color s = Some (0, plot (rectangle_spots x y w h) color s)"
proof -
  have "{(x + word_of_nat i, y + word_of_nat k) |i k. i < unat w \<and> 0 \<le> k \<and> k < 0 + unat h} = rectangle_spots x y w h"
    by (auto simp: rectangle_spots_def simp flip: word_within)
  then show ?thesis using rectangle_loop_plots [OF assms] by (simp add: vg_draw_rectangle_def)
qed

section \<open>The pattern\<close>

text \<open>The shifts of a colour are defined.\<close>

definition colours_ok :: "vbe_mode_info_t \<Rightarrow> bool" where
  "colours_ok info \<longleftrightarrow>
     (MemoryModel info = 4 \<longrightarrow> BitsPerPixel info < 31) \<and>
     (MemoryModel info = 6 \<longrightarrow> RedMaskSize info < 31 \<and> GreenMaskSize info < 31 \<and> BlueMaskSize info < 31 \<and>
        RedFieldPosition info < 32 \<and> GreenFieldPosition info < 32 \<and> BlueFieldPosition info < 32)"

lemma pattern_color_None:
  assumes "bppixel_mel s = ucast (BitsPerPixel (mode_info_mel s))"
  shows "pattern_color s n first step row col color = None \<longleftrightarrow> \<not> colours_ok (mode_info_mel s)"
proof -
  have "(ucast b < (31 :: u32)) \<longleftrightarrow> b < 31" for b :: u8 by (simp add: word_less_nat_alt)
  then show ?thesis using assms
    by (auto simp: pattern_color_def indexed_color_def direct_color_def one_shl_def shl32_def shr32_def colours_ok_def Let_def)
qed

text \<open>The colour does not depend on the one before, but where it is \<open>first\<close> throughout.\<close>

lemma pattern_color_first:
  "pattern_color s n first step row col first = Some c \<Longrightarrow> pattern_color s n first step row' col' c = pattern_color s n first step row' col' first"
  by (auto simp: pattern_color_def)

lemma pattern_color_upd [simp]:
  "pattern_color (s\<lparr>video_mem_mel := m\<rparr>) n first step row col color = pattern_color s n first step row col color"
  by (simp add: pattern_color_def)

text \<open>The colour of the rectangle a pixel is in, of those drawn.\<close>

definition pattern_map ::
  "('d, 'z) lab_mel_st_scheme \<Rightarrow> u8 \<Rightarrow> u32 \<Rightarrow> u8 \<Rightarrow> nat \<Rightarrow> nat \<Rightarrow> (nat \<times> nat) set \<Rightarrow> nat \<Rightarrow> u32 option" where
  "pattern_map s n first step w h cells p =
     (let px = p mod unat (x_res_mel s); py = p div unat (x_res_mel s) in
      if 0 < w \<and> 0 < h \<and> (py div h, px div w) \<in> cells
      then pattern_color s n first step (word_of_nat (py div h)) (word_of_nat (px div w)) first else None)"

lemma word_interval:
  assumes "px < 2 ^ 16" and "w * c + w < 2 ^ 16"
  shows "(word_of_nat px - word_of_nat (w * c) :: u16) < word_of_nat w \<longleftrightarrow> 0 < w \<and> px div w = c"
proof (cases "w * c \<le> px")
  case True
  then have "(word_of_nat px - word_of_nat (w * c) :: u16) = word_of_nat (px - w * c)" by (simp add: of_nat_diff)
  then have "(word_of_nat px - word_of_nat (w * c) :: u16) < word_of_nat w \<longleftrightarrow> px - w * c < w"
    using assms by (simp add: word_less_nat_alt unat_of_nat)
  then show ?thesis using True div_eq_interval [of w px c] by (auto simp: mult.commute)
next
  case False
  define d where "d = 2 ^ 16 - (w * c - px)"
  have d: "d < 2 ^ 16" "w \<le> d" "d + w * c = 2 ^ 16 + px" using False assms by (simp_all add: d_def)
  have "(word_of_nat d :: u16) + word_of_nat (w * c) = word_of_nat (2 ^ 16 + px)" unfolding d(3) [symmetric] by simp
  also have "\<dots> = word_of_nat px" by simp
  finally have "(word_of_nat px :: u16) - word_of_nat (w * c) = word_of_nat d" by (simp add: diff_eq_eq)
  moreover have "unat (word_of_nat d :: u16) = d" using d(1) by (simp add: unat_of_nat)
  ultimately have "\<not> (word_of_nat px - word_of_nat (w * c) :: u16) < word_of_nat w"
    using assms d(2) by (simp add: word_less_nat_alt unat_of_nat)
  moreover have "px div w \<noteq> c" if "0 < w" using False div_eq_interval [OF that, of px c] by (auto simp: mult.commute)
  ultimately show ?thesis by blast
qed

lemma pattern_map_upd [simp]: "pattern_map (s\<lparr>video_mem_mel := m\<rparr>) n first step w h cells = pattern_map s n first step w h cells"
  by (simp add: pattern_map_def fun_eq_iff Let_def)

lemma pattern_map_insert:
  "pattern_map s n first step w h {c} ++ pattern_map s n first step w h cells = pattern_map s n first step w h (insert c cells)"
proof
  fix p show "(pattern_map s n first step w h {c} ++ pattern_map s n first step w h cells) p = pattern_map s n first step w h (insert c cells) p"
    by (auto simp: pattern_map_def map_add_def Let_def split: option.split)
qed

lemma ucast_product: "(ucast (ucast a * word_of_nat c :: u32) :: u16) = word_of_nat (unat a * c)" for a :: u16
proof -
  have "(ucast a * word_of_nat c :: u32) = word_of_nat (unat a * c)" by simp
  then show ?thesis by (simp add: unsigned_of_nat word_of_nat_eq_iff del: of_nat_mult)
qed

text \<open>A rectangle of the pattern holds the pixels of its row and column.\<close>

lemma spots_cell:
  assumes "mel_screen s" and "p * mel_bpp s < length (video_mem_mel s)"
    and "unat rw * col + unat rw \<le> unat (x_res_mel s)" and "unat rh * row + unat rh \<le> unat (y_res_mel s)"
    and "pattern_color s n first step (word_of_nat row) (word_of_nat col) first = Some c"
  shows "spots (unat (x_res_mel s)) (rectangle_spots (word_of_nat (unat rw * col)) (word_of_nat (unat rh * row)) rw rh) c p =
    pattern_map s n first step (unat rw) (unat rh) {(row, col)} p"
proof -
  let ?px = "p mod unat (x_res_mel s)" and ?py = "p div unat (x_res_mel s)"
  have r: "unat (x_res_mel s) < 2 ^ 16" "unat (y_res_mel s) < 2 ^ 16" using assms(1) by (simp_all add: mel_screen_def)
  have p: "?px < 2 ^ 16" "?py < 2 ^ 16" using mel_coords(3,4) [OF assms(1,2)] r by simp_all
  have "(word_of_nat ?px - word_of_nat (unat rw * col)) < rw \<longleftrightarrow> 0 < unat rw \<and> ?px div unat rw = col"
    using word_interval [OF p(1), of "unat rw" col] assms(3) r by simp
  moreover have "(word_of_nat ?py - word_of_nat (unat rh * row)) < rh \<longleftrightarrow> 0 < unat rh \<and> ?py div unat rh = row"
    using word_interval [OF p(2), of "unat rh" row] assms(4) r by simp
  ultimately show ?thesis using assms(5) by (auto simp: spots_def rectangle_spots_def pattern_map_def Let_def)
qed

lemma pattern_loop_tints:
  assumes "mel_screen s" and "bppixel_mel s = ucast (BitsPerPixel (mode_info_mel s))" and "colours_ok (mode_info_mel s)"
    and "\<And>row col. (row, col) \<in> set cells \<Longrightarrow>
      unat rw * col + unat rw \<le> unat (x_res_mel s) \<and> unat rh * row + unat rh \<le> unat (y_res_mel s)"
    and "\<And>row col. pattern_color s n first step row col color = pattern_color s n first step row col first"
  shows "pattern_loop_mel n first step rw rh cells color s = Some (False, s\<lparr>video_mem_mel :=
    tint (mel_bpp s) (pattern_map s n first step (unat rw) (unat rh) (set cells)) (video_mem_mel s)\<rparr>)"
  using assms
proof (induction cells arbitrary: color s)
  case Nil
  have "pattern_map s n first step (unat rw) (unat rh) {} = (\<lambda>_. None)" by (simp add: pattern_map_def fun_eq_iff Let_def)
  then show ?case by simp
next
  case (Cons cell cells)
  obtain row col where cell: "cell = (row, col)" by fastforce
  obtain c where c: "pattern_color s n first step (word_of_nat row) (word_of_nat col) first = Some c"
    using pattern_color_None [OF Cons.prems(2)] Cons.prems(3) by (metis option.exhaust)
  note le = Cons.prems(4) [OF list.set_intros(2)]
  let ?m = "tint (mel_bpp s) (pattern_map s n first step (unat rw) (unat rh) {cell}) (video_mem_mel s)"
  let ?K = "rectangle_spots (word_of_nat (unat rw * col)) (word_of_nat (unat rh * row)) rw rh"
  have "plot ?K c s = s\<lparr>video_mem_mel := ?m\<rparr>"
    using tint_cong [OF spots_cell [OF Cons.prems(1) _ _ _ c, of _ rw rh]] Cons.prems(4) [of row col]
    by (simp add: plot_def cell)
  moreover have "pattern_loop_mel n first step rw rh cells c (s\<lparr>video_mem_mel := ?m\<rparr>) = Some (False, s\<lparr>video_mem_mel :=
      tint (mel_bpp s) (pattern_map s n first step (unat rw) (unat rh) (set cells)) ?m\<rparr>)"
    by (subst Cons.IH) (use Cons.prems(1-3) le pattern_color_first [OF c] in simp_all)
  ultimately show ?case using Cons.prems(1,5) c
    by (simp add: cell ucast_product rectangle_plots tint_tint pattern_map_insert)
qed

text \<open>The rectangles of the pattern fit on the screen.\<close>

lemma cells_fit:
  fixes x :: u32 and n :: u8
  assumes "unat x < 2 ^ 16" and "c < unat n"
  shows "unat (ucast (x div ucast n) :: u16) = unat x div unat n"
    and "unat x div unat n * c + unat x div unat n \<le> unat x"
proof -
  have "unat x div unat n < 2 ^ 16" using assms(1) by (rule order.strict_trans1 [OF div_le_dividend])
  then show "unat (ucast (x div ucast n) :: u16) = unat x div unat n"
    by (simp add: unsigned_ucast_eq unat_div take_bit_nat_eq_self_iff)
  have "unat x div unat n * Suc c \<le> unat x div unat n * unat n" using assms(2) by (intro mult_left_mono) simp_all
  also have "\<dots> \<le> unat x" by (rule div_times_less_eq_dividend)
  finally show "unat x div unat n * c + unat x div unat n \<le> unat x" by simp
qed

lemma draw_pattern_tints:
  assumes "mel_screen s" and "bppixel_mel s = ucast (BitsPerPixel (mode_info_mel s))" and "colours_ok (mode_info_mel s)" and "n \<noteq> 0"
  defines "w \<equiv> unat (x_res_mel s) div unat n" and "h \<equiv> unat (y_res_mel s) div unat n"
  shows "draw_pattern n first step s = Some (False, s\<lparr>video_mem_mel :=
    tint (mel_bpp s) (pattern_map s n first step w h ({..<unat n} \<times> {..<unat n})) (video_mem_mel s)\<rparr>)"
proof -
  let ?rw = "ucast (x_res_mel s div ucast n) :: u16" and ?rh = "ucast (y_res_mel s div ucast n) :: u16"
  have r: "unat (x_res_mel s) < 2 ^ 16" "unat (y_res_mel s) < 2 ^ 16" using assms(1) by (simp_all add: mel_screen_def)
  have "0 < unat n" using assms(4) by (simp add: unat_gt_0)
  then have wh: "unat ?rw = w" "unat ?rh = h" using cells_fit(1) r unfolding w_def h_def by blast+
  have cells: "set (pattern_cells n) = {..<unat n} \<times> {..<unat n}" by (auto simp: pattern_cells_def)
  have "pattern_loop_mel n first step ?rw ?rh (pattern_cells n) first s = Some (False, s\<lparr>video_mem_mel :=
      tint (mel_bpp s) (pattern_map s n first step (unat ?rw) (unat ?rh) (set (pattern_cells n))) (video_mem_mel s)\<rparr>)"
    by (rule pattern_loop_tints [OF assms(1-3)])
      (use cells_fit(2) r in \<open>auto simp: cells wh w_def h_def\<close>)
  then show ?thesis using assms(4) by (simp add: draw_pattern_def wh cells)
qed

lemma draw_pattern_undefined:
  assumes "bppixel_mel s = ucast (BitsPerPixel (mode_info_mel s))" and "n = 0 \<or> \<not> colours_ok (mode_info_mel s)"
  shows "draw_pattern n first step s = None"
proof (cases "n = 0")
  case False
  then obtain cs where "pattern_cells n = (0, 0) # cs" by (simp add: pattern_cells_def unat_gt_0 upt_conv_Cons)
  moreover have "pattern_color s n first step row col first = None" for row col
    using pattern_color_None [OF assms(1)] assms(2) False by blast
  ultimately have "pattern_loop_mel n first step rw rh (pattern_cells n) first s = None" for rw rh
    by simp
  then show ?thesis by (simp add: draw_pattern_def)
qed (simp add: draw_pattern_def)

text \<open>A pixel of the pattern has the colour of its rectangle.\<close>

lemma pattern_map_cell:
  assumes "bppixel_mel s = ucast (BitsPerPixel (mode_info_mel s))" and "colours_ok (mode_info_mel s)"
  shows "let px = p mod unat (x_res_mel s); py = p div unat (x_res_mel s); f = pattern_map s n first step w h ({..<unat n} \<times> {..<unat n}) in
    if px < unat n * w \<and> py < unat n * h
    then \<exists>c. pattern_color s n first step (word_of_nat (py div h)) (word_of_nat (px div w)) first = Some c \<and> f p = Some c
    else f p = None"
proof -
  have "\<exists>c. pattern_color s n first step row col first = Some c" for row col
    using pattern_color_None [OF assms(1)] assms(2) by (metis option.exhaust)
  moreover have "0 < w \<and> q div w < unat n \<longleftrightarrow> q < unat n * w" for q w :: nat
    by (cases "w = 0") (simp_all add: div_less_iff_less_mult)
  ultimately show ?thesis by (auto simp: pattern_map_def Let_def)
qed

lemma draw_pattern_paints:
  assumes "mel_screen s" and "bppixel_mel s = ucast (BitsPerPixel (mode_info_mel s))" and "colours_ok (mode_info_mel s)" and "n \<noteq> 0"
  shows "\<exists>m. draw_pattern n first step s = Some (False, s\<lparr>video_mem_mel := m\<rparr>) \<and> length m = length (video_mem_mel s) \<and>
    (\<forall>k < length m.
      let px = k div mel_bpp s mod unat (x_res_mel s); py = k div mel_bpp s div unat (x_res_mel s);
          w = unat (x_res_mel s) div unat n; h = unat (y_res_mel s) div unat n in
      if px < unat n * w \<and> py < unat n * h
      then \<exists>c. pattern_color s n first step (word_of_nat (py div h)) (word_of_nat (px div w)) first = Some c \<and>
        m ! k = ucast (drop_bit (8 * (k mod mel_bpp s)) c)
      else m ! k = video_mem_mel s ! k)"
proof -
  let ?w = "unat (x_res_mel s) div unat n" and ?h = "unat (y_res_mel s) div unat n" and ?b = "mel_bpp s"
  let ?f = "pattern_map s n first step ?w ?h ({..<unat n} \<times> {..<unat n})"
  let ?m = "tint ?b ?f (video_mem_mel s)"
  have "let px = k div ?b mod unat (x_res_mel s); py = k div ?b div unat (x_res_mel s) in
      if px < unat n * ?w \<and> py < unat n * ?h
      then \<exists>c. pattern_color s n first step (word_of_nat (py div ?h)) (word_of_nat (px div ?w)) first = Some c \<and>
        ?m ! k = ucast (drop_bit (8 * (k mod ?b)) c)
      else ?m ! k = video_mem_mel s ! k" if "k < length ?m" for k
  proof -
    have "?m ! k = (case ?f (k div ?b) of Some c \<Rightarrow> ucast (drop_bit (8 * (k mod ?b)) c) | None \<Rightarrow> video_mem_mel s ! k)"
      using that by (intro nth_tint) simp
    then show ?thesis using pattern_map_cell [OF assms(2,3), of "k div ?b" n first step ?w ?h]
      unfolding Let_def by (metis (no_types, lifting) option.simps(4,5))
  qed
  then show ?thesis using draw_pattern_tints [OF assms] length_tint unfolding Let_def by blast
qed

section \<open>The mode\<close>

lemma get_mode_info_mel_res:
  assumes "get_mode_info_mel E LM md s = Some (Inr (r, s'))"
  shows "x_res_mel s' = ucast (XResolution (mode_info_mel s'))" and "y_res_mel s' = ucast (YResolution (mode_info_mel s'))"
    and "bppixel_mel s' = ucast (BitsPerPixel (mode_info_mel s'))"
    and "length (video_mem_mel s') = unat (x_res_mel s' * y_res_mel s' * ((bppixel_mel s' + 7) div 8))"
proof -
  obtain info d where "vbe_get_mode_inf LM md s = Some ((0, info), s\<lparr>dev := d\<rparr>)"
    using assms by (auto simp: get_mode_info_mel_def vbe_get_mode_inf_def split_beta Let_def split: option.splits Option.bind_splits)
  then show "x_res_mel s' = ucast (XResolution (mode_info_mel s'))" "y_res_mel s' = ucast (YResolution (mode_info_mel s'))"
      "bppixel_mel s' = ucast (BitsPerPixel (mode_info_mel s'))"
      "length (video_mem_mel s') = unat (x_res_mel s' * y_res_mel s' * ((bppixel_mel s' + 7) div 8))"
    using assms by (auto simp: get_mode_info_mel_def split_beta Let_def split: if_splits)
qed

text \<open>The two ways to round the bits of a pixel up to bytes agree.\<close>

lemma get_mode_info_mel_bpp:
  assumes "get_mode_info_mel E LM md s = Some (Inr (r, s'))"
  shows "mel_bpp s' = (unat (BitsPerPixel (mode_info_mel s')) + 7) div 8" and "unat ((bppixel_mel s' + 7) div 8) = mel_bpp s'"
proof -
  have "unat (BitsPerPixel (mode_info_mel s')) < 2 ^ 8"
    using unsigned_less [where ?'a = nat, of "BitsPerPixel (mode_info_mel s')"] by simp
  then show "mel_bpp s' = (unat (BitsPerPixel (mode_info_mel s')) + 7) div 8" "unat ((bppixel_mel s' + 7) div 8) = mel_bpp s'"
    by (simp_all add: mel_bpp_def get_mode_info_mel_res(3) [OF assms] bytes_per_pixel_ceil_def unat_of_nat unat_div unat_word_ariths)
qed

text \<open>Where the size of the screen does not wrap around, the mode is mapped.\<close>

lemma get_mode_info_mel_screen:
  assumes "get_mode_info_mel E LM md s = Some (Inr (r, s'))" and "BitsPerPixel (mode_info_mel s') \<noteq> 0"
    and "unat (XResolution (mode_info_mel s')) * unat (YResolution (mode_info_mel s')) * mel_bpp s' < 2 ^ 32"
  shows "mel_screen s'"
proof -
  let ?x = "XResolution (mode_info_mel s')" and ?y = "YResolution (mode_info_mel s')"
  note res = get_mode_info_mel_res [OF assms(1)] and bpp = get_mode_info_mel_bpp [OF assms(1)]
  have xy: "unat ?x < 2 ^ 16" "unat ?y < 2 ^ 16"
    using unsigned_less [where ?'a = nat, of ?x] unsigned_less [where ?'a = nat, of ?y] by simp_all
  have "unat ?x * unat ?y < 2 ^ 16 * 2 ^ 16" by (rule mult_strict_mono [OF xy]) simp_all
  then have "unat (ucast ?x * ucast ?y :: u32) = unat ?x * unat ?y" by (subst unat_mult_lem [THEN iffD1]) simp_all
  then have "length (video_mem_mel s') = unat ?x * unat ?y * mel_bpp s'"
    unfolding res(4) bpp(2) [symmetric] using assms(3) bpp(2) by (subst unat_mult_lem [THEN iffD1]) (simp_all add: res)
  moreover have "0 < unat (BitsPerPixel (mode_info_mel s'))" using assms(2) by (simp add: unat_gt_0)
  then have "0 < mel_bpp s'" unfolding bpp(1) by simp
  ultimately show ?thesis using xy assms(3) by (simp add: mel_screen_def res)
qed

lemma mapped_mode:
  assumes "get_mode_info_mel E LM md s0 = Some (Inr (r, s))" and "BitsPerPixel (mode_info_mel s) \<noteq> 0"
    and "bpp = (unat (BitsPerPixel (mode_info_mel s)) + 7) div 8"
    and "xr = unat (XResolution (mode_info_mel s))" and "yr = unat (YResolution (mode_info_mel s))" and "xr * yr * bpp < 2 ^ 32"
  shows "mel_screen s" and "bppixel_mel s = ucast (BitsPerPixel (mode_info_mel s))" and "mel_bpp s = bpp"
    and "unat (x_res_mel s) = xr" and "unat (y_res_mel s) = yr" and "length (video_mem_mel s) = xr * yr * bpp"
proof -
  note res = get_mode_info_mel_res [OF assms(1)]
  show "bppixel_mel s = ucast (BitsPerPixel (mode_info_mel s))" by (rule res(3))
  show b: "mel_bpp s = bpp" using get_mode_info_mel_bpp(1) [OF assms(1)] assms(3) by simp
  show x: "unat (x_res_mel s) = xr" "unat (y_res_mel s) = yr" using res(1,2) assms(4,5) by simp_all
  show sc: "mel_screen s" using get_mode_info_mel_screen [OF assms(1,2)] assms(4-6) by (simp add: b)
  show "length (video_mem_mel s) = xr * yr * bpp" using sc by (simp add: mel_screen_def b x)
qed

text \<open>The distance of a coordinate from the corner of a rectangle.\<close>

lemma word_distance: "(word_of_nat p - x) < w \<longleftrightarrow> (p + 2 ^ 16 - unat x) mod 2 ^ 16 < unat w" for x w :: u16
proof -
  have x: "unat x \<le> p + 2 ^ 16" using unsigned_less [where ?'a = nat, of x] by simp
  have "(word_of_nat (p + 2 ^ 16 - unat x) :: u16) = word_of_nat (p + 2 ^ 16) - word_of_nat (unat x)" by (rule of_nat_diff [OF x])
  also have "\<dots> = word_of_nat p - x" by simp
  finally have "word_of_nat p - x = word_of_nat (p + 2 ^ 16 - unat x)" by simp
  then show ?thesis by (simp add: word_less_nat_alt unat_of_nat)
qed

section \<open>The end of the tests\<close>

lemma esc_loop_mel_flagged:
  assumes "esc_loop_mel E b s = Some s'"
  shows "flagged_after (esc_body_mel E b) s s'"
proof (rule esc_loop_mel.raw_induct [of "\<lambda>E b s s'. flagged_after (esc_body_mel E b) s s'", OF _ assms])
  fix loop E b s s'
  assume "\<And>E b s s'. loop E b s = Some s' \<Longrightarrow> flagged_after (esc_body_mel E b) s s'"
    and "Option.bind (esc_body_mel E b s) (\<lambda>(flag, s). if flag then Some s else loop E b s) = Some s'"
  then show "flagged_after (esc_body_mel E b) s s'"
    by (blast intro: flagged_step)
qed

interpretation escape: flag_loop "esc_body_mel E b" "esc_loop_mel E b"
  by unfold_locales (subst esc_loop_mel.simps, simp, rule esc_loop_mel_flagged)

text \<open>It leaves the screen alone.\<close>

lemma esc_and_exit_more: "esc_and_exit E b s = Some (r, s') \<Longrightarrow> lab_kbc_st.more s' = lab_kbc_st.more s"
proof -
  assume "esc_and_exit E b s = Some (r, s')"
  then obtain s1 where s1: "esc_loop_mel E b s = Some s1" "lab_kbc_st.more s' = lab_kbc_st.more s1"
    by (auto simp: esc_and_exit_def kbc_unsubscribe_int_def split_beta Let_def split: Option.bind_splits if_splits)
  have "lab_kbc_st.more s1 = lab_kbc_st.more s"
    by (rule escape.keeps [OF s1(1)]) (auto simp: esc_body_mel_def after_message_def dest!: kbc_ih_lab_more split: if_splits Option.bind_splits)
  then show ?thesis using s1(2) by simp
qed

lemma more_video_mem: "lab_kbc_st.more s' = lab_kbc_st.more s \<Longrightarrow> video_mem_mel s' = video_mem_mel s"
  by (cases s; cases s') simp

text \<open>A test that returns 0 has set its mode, subscribed the keyboard and drawn.\<close>

lemma in_mode_mel_zero:
  assumes "in_mode_mel E LM md test s0 = Some (Inr (0, s'))"
  shows "\<exists>r s b d h. get_mode_info_mel E LM md s0 = Some (Inr (r, s)) \<and> test b (s\<lparr>dev := d, hook_id_kbc := h\<rparr>) = Some (0, s')"
  using assms
  by (force simp: in_mode_mel_def set_vbe_mode_mel_def kbc_subscribe_int_def split_beta Let_def
      split: Option.bind_splits sum.splits if_splits)

text \<open>The memory that a test leaves is what it drew in the state after the mode was set.\<close>

lemma other_fields [simp]:
  "mel_screen (s\<lparr>dev := d\<rparr>) = mel_screen s" "mel_screen (s\<lparr>hook_id_kbc := h\<rparr>) = mel_screen s"
  "mel_bpp (s\<lparr>dev := d\<rparr>) = mel_bpp s" "mel_bpp (s\<lparr>hook_id_kbc := h\<rparr>) = mel_bpp s"
  "pattern_map (s\<lparr>dev := d\<rparr>) n first step w h' cells = pattern_map s n first step w h' cells"
  "pattern_map (s\<lparr>hook_id_kbc := h\<rparr>) n first step w h' cells = pattern_map s n first step w h' cells"
  by (simp_all add: mel_screen_def mel_bpp_def pattern_map_def pattern_color_def fun_eq_iff Let_def)

lemma rectangle_test_draws:
  assumes "get_mode_info_mel E LM md s0 = Some (Inr (r, s))" and "mel_screen s"
    and "video_test_rectangle_mel E LM md x y w h color s0 = Some (Inr (0, s'))"
  shows "video_mem_mel s' = video_mem_mel (plot (rectangle_spots x y w h) color s)"
proof -
  obtain b d k where "do { (_, s) \<leftarrow> vg_draw_rectangle x y w h color (s\<lparr>dev := d, hook_id_kbc := k\<rparr>); esc_and_exit E b s } = Some (0, s')"
    using in_mode_mel_zero [OF assms(3) [unfolded video_test_rectangle_mel_def]] assms(1) by auto
  then have "esc_and_exit E b (plot (rectangle_spots x y w h) color (s\<lparr>dev := d, hook_id_kbc := k\<rparr>)) = Some (0, s')"
    using assms(2) by (simp add: rectangle_plots)
  from more_video_mem [OF esc_and_exit_more [OF this]] show ?thesis by (simp add: plot_def)
qed

lemma pattern_test_draws:
  assumes "get_mode_info_mel E LM md s0 = Some (Inr (r, s))" and "mel_screen s" and "colours_ok (mode_info_mel s)" and "n \<noteq> 0"
    and "draw_pattern n first step s = Some (False, s1)"
    and "video_test_pattern_mel E LM md n first step s0 = Some (Inr (0, s'))"
  shows "video_mem_mel s' = video_mem_mel s1"
proof -
  note bits = get_mode_info_mel_res(3) [OF assms(1)]
  obtain b d k where "do { (returned, s) \<leftarrow> draw_pattern n first step (s\<lparr>dev := d, hook_id_kbc := k\<rparr>);
      if returned then Some (1, s) else esc_and_exit E b s } = Some (0, s')"
    using in_mode_mel_zero [OF assms(6) [unfolded video_test_pattern_mel_def]] assms(1) by auto
  then obtain t where t: "draw_pattern n first step (s\<lparr>dev := d, hook_id_kbc := k\<rparr>) = Some (False, t)" "esc_and_exit E b t = Some (0, s')"
    by (auto split: Option.bind_splits if_splits)
  have "video_mem_mel t = video_mem_mel s1"
    using t(1) assms(2-5) bits draw_pattern_tints [of "s\<lparr>dev := d, hook_id_kbc := k\<rparr>" n first step]
      draw_pattern_tints [of s n first step] by auto
  then show ?thesis using more_video_mem [OF esc_and_exit_more [OF t(2)]] by simp
qed

end
