(* ===== verification/Lab_Properties.thy ===== *)
theory Lab_Properties
  imports Lab_Mouse Lab_Mel Program_Start
begin

text \<open>
  The properties of the exercises that the drivers of the game grew from: the frequency and the
  interrupt loop of the timer, scancodes and mouse packets assembled byte by byte, the dialogue
  with the mouse, the gesture, rectangles, the pattern and moving images. Each theorem with hypotheses is applied to a concrete state.
\<close>

section \<open>States to apply them to\<close>

text \<open>A kernel that sends an interrupt of the timer whenever it is asked.\<close>

definition ticking :: "string env" where
  "ticking = small_env\<lparr>driver_receive := \<lambda>d. ((0, True, \<lparr>m_source_hardware = True, interrupts = 1\<rparr>), d)\<rparr>"

definition lab_timer_start :: "string lab_timer_st" where
  "lab_timer_start = \<lparr>dev = '''', lab_counter = 0, lab_hook_id = 0, lcf_calls = []\<rparr>"

definition lab_kbc_start :: "string lab_kbc_st" where
  "lab_kbc_start = \<lparr>dev = '''', lab_counter = 0, lab_hook_id = 0, lcf_calls = [], hook_id_kbc = 0, sc_byte = 0,
     inb_counter = 0, scan_size = 0, scan_bytes = [0, 0]\<rparr>"

definition lab_mouse_start :: "string lab_mouse_st" where
  "lab_mouse_start = \<lparr>dev = '''', lab_counter = 0, lab_hook_id = 0, lcf_calls = [], hook_id_mouse = 0, mouse_sc_byte = 0,
     gesture = False, pkt_size = 0, pkt_bytes = [0, 0, 0], ev_oldpk = zero_packet,
     ev_event = \<lparr>ev_type = RB_PRESSED, ev_delta_x = 0, ev_delta_y = 0\<rparr>, ev_first = True,
     g_st = init, g_accepted_line = False, g_sum_x = 0\<rparr>"

section \<open>The timer\<close>

text \<open>
  C33: Where no port access fails, setting a frequency between 19 and 1193182 reads the configuration
  of the timer back, keeps its four low bits in the control word, and writes the divisor, low
  byte first; the two bytes make the quotient of the clock by the frequency, which is never cut
  to 16 bits.
\<close>

theorem frequency_loaded:
  assumes "\<And>p v d. fst (sys_outb E p v d) \<noteq> 1" and "timer_sel timer = Some sel" and "timer_port timer = Some port"
    and "19 \<le> freq" and "freq \<le> TIMER_FREQ"
    and "sys_inb E port (writes E [(TIMER_CTRL, readback timer)] (dev s)) = ((0, st), d)"
  shows "\<exists>lo hi. timer_set_frequency_lab2 E timer freq s = Some (0, s\<lparr>dev :=
      writes E [(TIMER_CTRL, ucast (sel OR TIMER_LSB_MSB OR ucast st AND 0x0f)), (port, ucast lo), (port, ucast hi)] d\<rparr>) \<and>
    uint (lo :: u8) + 256 * uint (hi :: u8) = 1193182 div uint freq"
proof -
  let ?v = "ucast (TIMER_FREQ div freq) :: u16"
  have f: "freq \<noteq> 0" "\<not> freq < 19" "\<not> freq > TIMER_FREQ" using assms(4,5) by auto
  show ?thesis
    by (intro exI [of _ "util_get_LSB_lab ?v"] exI [of _ "util_get_MSB_lab ?v"] conjI)
      (use timer_load_ok [OF assms(1-3) f(1) assms(6)] f in \<open>simp add: timer_set_frequency_lab2_def\<close>,
       simp only: LSB_MSB_lab divisor_fits [OF assms(4)])
qed

theorem frequency_loaded_witness:
  "\<exists>lo hi. timer_set_frequency_lab2 small_env 0 60 (init_state '''') = Some (0, init_state '''') \<and>
     uint (lo :: u8) + 256 * uint (hi :: u8) = 19886"
proof -
  have "sys_inb small_env TIMER_0 (writes small_env [(TIMER_CTRL, readback 0)] (dev (init_state ''''))) = ((0, 0), '''')"
    by (simp add: timer_consts COM1_def LSR_def init_state_def)
  moreover have "(60 :: u32) \<le> TIMER_FREQ" by (simp add: TIMER_FREQ_def)
  moreover have "dev (init_state '''') = ''''" by (simp add: init_state_def)
  moreover have "(init_state '''')\<lparr>dev := ''''\<rparr> = init_state ''''" by (simp add: init_state_def)
  ultimately show ?thesis
    using frequency_loaded [of small_env 0 TIMER_SEL0 TIMER_0 60 "init_state ''''" 0 "''''"]
    by (simp add: timer_sel_def timer_port_def)
qed

text \<open>
  In the copies of the driver that the later exercises use, which do not test for a lowest
  frequency, a frequency of 0 divides by zero after the control word was written, and from 1 to
  18 the divisor that is loaded is not the quotient of the clock by the frequency.
\<close>

lemma low_frequency:
  assumes "\<And>p v d. fst (sys_outb E p v d) \<noteq> 1" and "timer_sel timer \<noteq> None"
  shows "timer_set_frequency_lab3 E timer 0 s = None \<and>
    (\<forall>freq. 1 \<le> uint freq \<and> uint freq < 19 \<longrightarrow> timer_set_frequency_lab3 E timer freq s = timer_load E timer freq s \<and>
       uint (util_get_LSB_lab (ucast (TIMER_FREQ div freq))) + 256 * uint (util_get_MSB_lab (ucast (TIMER_FREQ div freq)))
         \<noteq> 1193182 div uint freq)"
proof
  obtain sel port where t: "timer_sel timer = Some sel" "timer_port timer = Some port"
    using assms(2) by (auto simp: timer_sel_def timer_port_def split: if_splits)
  have "unat timer + 1 < 31" using t(1) by (auto simp: timer_sel_def split: if_splits)
  then show "timer_set_frequency_lab3 E timer 0 s = None"
    using assms(1) t by (simp add: timer_set_frequency_lab3_def timer_load_def timer_get_conf_lab_def util_sys_inb_lab_def
        outb_def Let_def split_beta)
  show "\<forall>freq. 1 \<le> uint freq \<and> uint freq < 19 \<longrightarrow> timer_set_frequency_lab3 E timer freq s = timer_load E timer freq s \<and>
       uint (util_get_LSB_lab (ucast (TIMER_FREQ div freq))) + 256 * uint (util_get_MSB_lab (ucast (TIMER_FREQ div freq)))
         \<noteq> 1193182 div uint freq"
  proof (intro allI impI conjI)
    fix freq :: u32
    assume f: "1 \<le> uint freq \<and> uint freq < 19"
    then have "\<not> freq > TIMER_FREQ" by (simp add: TIMER_FREQ_def word_less_def)
    then show "timer_set_frequency_lab3 E timer freq s = timer_load E timer freq s" by (simp add: timer_set_frequency_lab3_def)
    have "1193182 div 18 \<le> 1193182 div uint freq" using f by (intro zdiv_mono2) simp_all
    moreover have "uint (ucast (TIMER_FREQ div freq) :: u16) < 65536" using uint_bounded [of "ucast (TIMER_FREQ div freq) :: u16"] by simp
    ultimately show "uint (util_get_LSB_lab (ucast (TIMER_FREQ div freq))) + 256 * uint (util_get_MSB_lab (ucast (TIMER_FREQ div freq)))
         \<noteq> 1193182 div uint freq" unfolding LSB_MSB_lab by linarith
  qed
qed

text \<open>
  C32: The interrupt test of the timer, once subscribed with its counter at 0, returns exactly where
  the kernel sends 60 timer interrupts for every second asked for, and has then printed the
  elapsed time once per second.
\<close>

theorem timer_test_int_returns:
  assumes "lab_counter s = 0" and "sys_irqsetpolicy E TIMER0_IRQ IRQ_REENABLE 0 (dev s) = ((r, hook), d)" and "r \<noteq> 1"
  shows "((\<exists>x. timer_test_int E time s = Some x) \<longleftrightarrow> (\<exists>n. 60 * unat time \<le> irq_count E (BIT 0) n d)) \<and>
    (\<forall>r' s'. timer_test_int E time s = Some (r', s') \<longrightarrow> lab_counter s' = 60 * uint time \<and>
       lcf_calls s' = lcf_calls s @ replicate (unat time) timer_print_elapsed_time)"
proof -
  let ?s = "s\<lparr>dev := d, lab_hook_id := hook\<rparr>"
  have sub: "timer_subscribe_int_lab E 0 s = (0, ?s)"
    using assms(2,3) by (simp add: timer_subscribe_int_lab_def TIMER0_IRQ_def)
  have eq: "timer_test_int E time s =
      map_option (\<lambda>s. let (r, s) = timer_unsubscribe_int_lab E s in if r = 1 then (1, s) else (0, s))
        (timer_test_int_loop E 0 time ?s)"
    by (cases "timer_test_int_loop E 0 time ?s") (simp_all add: timer_test_int_def sub TIMER0_IRQ_def split: prod.split)
  have n: "(uint time * 60 \<le> int k) \<longleftrightarrow> 60 * unat time \<le> k" for k
    using of_nat_le_iff [of "60 * unat time" k, where 'a = int] by (simp add: mult.commute)
  have runs: "\<exists>s'. timer_test_int_loop E 0 time ?s = Some s' \<and> lab_counter s' = uint time * 60 \<and>
      lcf_calls s' = lcf_calls s @ replicate (unat time) timer_print_elapsed_time" if "60 * unat time \<le> irq_count E (BIT 0) k d" for k
    using timer_test_int_loop_runs [of ?s time E 0 k] assms(1) that n by simp
  have needs: "\<exists>k. 60 * unat time \<le> irq_count E (BIT 0) k d" if "timer_test_int_loop E 0 time ?s = Some s'" for s'
    using timer_test_int_loop_needs [OF that] assms(1) n by simp
  have "(\<exists>x. timer_test_int E time s = Some x) \<longleftrightarrow> (\<exists>s'. timer_test_int_loop E 0 time ?s = Some s')" by (auto simp: eq)
  also have "\<dots> \<longleftrightarrow> (\<exists>n. 60 * unat time \<le> irq_count E (BIT 0) n d)" using runs needs by blast
  finally have "(\<exists>x. timer_test_int E time s = Some x) \<longleftrightarrow> (\<exists>n. 60 * unat time \<le> irq_count E (BIT 0) n d)" .
  moreover have "lab_counter s' = 60 * uint time \<and> lcf_calls s' = lcf_calls s @ replicate (unat time) timer_print_elapsed_time"
    if x: "timer_test_int E time s = Some (r', s')" for r' s'
  proof -
    obtain s1 where s1: "timer_test_int_loop E 0 time ?s = Some s1" "s' = snd (timer_unsubscribe_int_lab E s1)"
      using x by (auto simp: eq split_beta Let_def split: if_splits)
    obtain k where "60 * unat time \<le> irq_count E (BIT 0) k d" using needs [OF s1(1)] ..
    then show ?thesis using runs s1 by auto
  qed
  ultimately show ?thesis by blast
qed

theorem timer_test_int_returns_witness:
  "\<exists>x. timer_test_int ticking 1 lab_timer_start = Some x"
proof -
  have t: "irq_message ticking (BIT 0) d" "driver_receive ticking d = ((0, True, \<lparr>m_source_hardware = True, interrupts = 1\<rparr>), d)" for d
    by (simp_all add: irq_message_def ticking_def truth_def BIT_def)
  have "irq_count ticking (BIT 0) n d = n" for n d by (induction n) (simp_all add: t)
  then have "\<exists>n. 60 * unat (1 :: u8) \<le> irq_count ticking (BIT 0) n ''''" by (intro exI [of _ 60]) simp
  moreover have "sys_irqsetpolicy ticking TIMER0_IRQ IRQ_REENABLE 0 (dev lab_timer_start) = ((0, 0), '''')"
    by (simp add: ticking_def small_env_def lab_timer_start_def)
  ultimately show ?thesis
    using timer_test_int_returns [of lab_timer_start ticking 0 0 "''''" 1] by (simp add: lab_timer_start_def)
qed

section \<open>The keyboard\<close>

text \<open>
  C31: From an idle state, every sequence of scancodes, of one byte or of the prefix and a byte, is
  printed code by code: one call per scancode, in order, with its size, its bytes and whether it
  is a make code.
\<close>

theorem scancodes_printed:
  assumes "scan_idle s" and "list_all (\<lambda>c. code_last c \<noteq> FB_OF_TB) cs"
  shows "\<exists>s' calls. run_steps scan_read (concat (map kbd_code_bytes cs)) s = Some s' \<and> scan_idle s' \<and>
    lcf_calls s' = lcf_calls s @ calls \<and> list_all2 prints cs calls"
  by (rule scan_reader.frames_read [OF assms])

theorem scancodes_printed_witness:
  "\<exists>s' calls. run_steps scan_read [0x1e, 0xe0, 0xc8] lab_kbc_start = Some s' \<and> lcf_calls s' = calls \<and>
     list_all2 prints [Plain 0x1e, Extended 0xc8] calls"
  using scancodes_printed [of lab_kbc_start "[Plain 0x1e, Extended 0xc8]"]
  by (simp add: scan_idle_def lab_kbc_start_def FB_OF_TB_def) blast

text \<open>
  A byte is stored outside the two-byte array exactly where it is no prefix and at least two
  prefixes came since the last scancode, so a repeated prefix, which is never reported, is
  followed by undefined behaviour.
\<close>

lemma repeated_prefix:
  assumes "length (scan_bytes s) = 2"
  shows "(scan_read b s = None \<longleftrightarrow> b \<noteq> FB_OF_TB \<and> 2 \<le> unat (scan_size s)) \<and>
    (scan_size s = 0 \<and> b \<noteq> FB_OF_TB \<longrightarrow> run_steps scan_read [FB_OF_TB, FB_OF_TB, b] s = None)"
proof
  show "scan_read b s = None \<longleftrightarrow> b \<noteq> FB_OF_TB \<and> 2 \<le> unat (scan_size s)"
    using scan_byte_undefined [of "s\<lparr>sc_byte := b\<rparr>"] assms by (simp add: scan_read_def)
  show "scan_size s = 0 \<and> b \<noteq> FB_OF_TB \<longrightarrow> run_steps scan_read [FB_OF_TB, FB_OF_TB, b] s = None"
    using assms by (simp add: scan_read_def scan_byte_def)
qed

section \<open>The mouse\<close>

text \<open>
  C30: From an idle state, whatever bytes without the synchronisation bit come before a packet,
  every packet of three bytes is printed once, in order, and decoded as the driver of the game
  decodes it.
\<close>

theorem packets_printed:
  assumes "pkt_idle s" and "list_all packet_valid fs"
  shows "\<exists>s'. run_steps (collect_read (uninit_packet b)) (concat (map packet_wire fs)) s = Some s' \<and> pkt_idle s' \<and>
    lcf_calls s' = lcf_calls s @ map (\<lambda>f. mouse_print_packet (assembly_packet (snd f))) fs"
proof -
  obtain s' cs where "run_steps (collect_read (uninit_packet b)) (concat (map packet_wire fs)) s = Some s'" "pkt_idle s'"
      "lcf_calls s' = lcf_calls s @ cs" "list_all2 (\<lambda>f c. c = mouse_print_packet (assembly_packet (snd f))) fs cs"
    using packet_reader.frames_read [OF assms] by blast
  moreover have "cs = map (\<lambda>f. mouse_print_packet (assembly_packet (snd f))) fs"
    using calculation(4) by (induction rule: list_all2_induct) simp_all
  ultimately show ?thesis by blast
qed

theorem packets_printed_witness:
  "\<exists>s'. run_steps (collect_read (uninit_packet 0)) [0, 0x28, 5, 0xff] lab_mouse_start = Some s' \<and>
     lcf_calls s' = [mouse_print_packet (assembly_packet [0x28, 5, 0xff])]"
proof -
  have "bit (0x28 :: u8) 3" by simp
  then have "list_all packet_valid [([0], [0x28, 5, 0xff])]" by simp
  moreover have "pkt_idle lab_mouse_start" by (simp add: pkt_idle_def lab_mouse_start_def)
  ultimately show ?thesis using packets_printed [of lab_mouse_start "[([0], [0x28, 5, 0xff])]" 0]
    by (auto simp: lab_mouse_start_def simp del: run_steps.simps)
qed

text \<open>
  C28: With a controller that is ready and a mouse that answers every command with an
  acknowledgement, a request to repeat it or an error, the command handler asks at most three
  times and returns 0 exactly on an acknowledgement; with a mouse that answers anything else it
  never returns, though a comment says that it always does.
\<close>

theorem command_dialogue:
  assumes "ready E"
  shows "(answers E arg \<longrightarrow> kbc_command_handler E WRITE_B_MOUSE arg s = Some (let (r, d) = ask E arg 3 (dev s) in (r, s\<lparr>dev := d\<rparr>))) \<and>
    (strays E arg \<longrightarrow> kbc_command_handler E WRITE_B_MOUSE arg s = None)"
proof (intro conjI impI)
  assume "answers E arg"
  then show "kbc_command_handler E WRITE_B_MOUSE arg s = Some (let (r, d) = ask E arg 3 (dev s) in (r, s\<lparr>dev := d\<rparr>))"
    using command_loop_asks [OF assms, of arg 2 s] by (simp add: kbc_command_handler_def numeral_3_eq_3)
next
  assume "strays E arg"
  then show "kbc_command_handler E WRITE_B_MOUSE arg s = None"
    using command_loop_diverges [of E WRITE_B_MOUSE arg 0 s] assms by (cases "kbc_command_handler E WRITE_B_MOUSE arg s")
      (simp_all add: kbc_command_handler_def)
qed

text \<open>A mouse that answers every command with one byte.\<close>

definition answering :: "u32 \<Rightarrow> string env" where
  "answering w = small_env\<lparr>sys_inb := \<lambda>port d. ((0, if port = KBC_OUT_BUF then w else 0), d)\<rparr>"

theorem command_dialogue_witness:
  "kbc_command_handler (answering 0xfa) WRITE_B_MOUSE MOUSE_ENABLE_REPORT lab_mouse_start = Some (0, lab_mouse_start) \<and>
   kbc_command_handler (answering 0) WRITE_B_MOUSE MOUSE_ENABLE_REPORT lab_mouse_start = None"
proof -
  have p: "KBC_OUT_BUF \<noteq> KBC_ST_REG" by (simp add: KBC_OUT_BUF_def KBC_ST_REG_def)
  have r: "ready (answering w)" for w using p by (simp add: ready_def answering_def)
  have resp: "response (answering w) arg d = ((0, w), asked (answering w) arg d)" for w arg d
    by (simp add: response_def answering_def)
  have a: "asked (answering w) arg d = d" for w arg d by (simp add: asked_def answering_def small_env_def Let_def)
  have "answers (answering 0xfa) MOUSE_ENABLE_REPORT" "strays (answering 0) MOUSE_ENABLE_REPORT"
    by (simp_all add: answers_def strays_def resp ACK_def NACK_def ERROR_def)
  moreover have "ask (answering 0xfa) MOUSE_ENABLE_REPORT 3 (dev lab_mouse_start) = (0, dev lab_mouse_start)"
    by (simp add: numeral_3_eq_3 resp a ACK_def)
  ultimately show ?thesis
    using command_dialogue [of "answering 0xfa" MOUSE_ENABLE_REPORT lab_mouse_start] r
      command_dialogue [of "answering 0" MOUSE_ENABLE_REPORT lab_mouse_start]
    by simp
qed

text \<open>
  C29: Whatever the movements, the lengths and the tolerance, a gesture that starts in the initial
  state is recognised only after the left button was pressed and released and then the right
  button was pressed and released.
\<close>

theorem gesture_strokes:
  assumes "g_st s = init" and "\<not> gesture s" and "run_steps (detect x_len tolerance) es s = Some s'" and "gesture s'"
  shows "subseq [LB_PRESSED, LB_RELEASED, RB_PRESSED, RB_RELEASED] (map ev_type es)"
  using strokes_inv [OF assms(3), of "[]"] assms by (simp add: all_strokes_def)

text \<open>A press of the left button, a movement up and right, its release, a press of the right one, a movement down, its release.\<close>

definition a_gesture :: "mouse_ev list" where
  "a_gesture = map (\<lambda>(t, x, y). \<lparr>ev_type = t, ev_delta_x = x, ev_delta_y = y\<rparr>)
     [(LB_PRESSED, 0, 0), (MOUSE_MOV, 10, 30), (LB_RELEASED, 0, 0), (RB_PRESSED, 0, 0), (MOUSE_MOV, 10, - 30), (RB_RELEASED, 0, 0)]"

theorem gesture_strokes_witness:
  "subseq [LB_PRESSED, LB_RELEASED, RB_PRESSED, RB_RELEASED] (map ev_type a_gesture)"
proof -
  have "map_option gesture (run_steps (detect 10 5) a_gesture lab_mouse_start) = Some True" by code_simp
  then obtain s' where "run_steps (detect 10 5) a_gesture lab_mouse_start = Some s'" "gesture s'" by auto
  then show ?thesis by (intro gesture_strokes [of lab_mouse_start]) (simp_all add: lab_mouse_start_def)
qed

text \<open>
  C38: The gesture divides by zero exactly on a movement with no horizontal displacement while the
  right button draws, and on a movement by -1 with no vertical displacement while the left
  button draws, where the correction that is meant to avoid the division makes it 0.
\<close>

theorem gesture_divides_by_zero:
  "mouse_detect_gesture x_len tolerance s = None \<longleftrightarrow>
     ev_type (ev_event s) = MOUSE_MOV \<and>
     (g_st s = drag1 \<and> ev_delta_x (ev_event s) = - 1 \<and> ev_delta_y (ev_event s) = 0 \<or>
      g_st s = drag2 \<and> ev_delta_x (ev_event s) = 0)"
  by (rule detect_undefined)

section \<open>The video card\<close>

definition lab_video_start :: "string lab_video_st" where
  "lab_video_start = \<lparr>dev = '''', kbc_ih_output = 0, kbc_ih_stat_reg = 0, kbc_ih_err = False, kbc_ih_obf = False, kbc_ih_ibf = False,
     assemblied_word = False, kbd_bytes = (0, 0), previous_byte = 0, timer_freq_counter = 0, video_timer_hook = 0,
     video_calls = [], vmem = [], aux_buffer = [], h_res = 0, v_res = 0, bits_per_pixel = 0, pixel_size = 0,
     mode_masks = fst (vbe_get_mode_info small_env 0 ''''), max_sprites = 0, num_sprites = 0, sprites = Null\<rparr>"

text \<open>
  On a screen whose memory is mapped and whose pixels have one to four bytes, drawing a
  rectangle that fits gives every byte of a pixel inside it the byte of the colour, low byte
  first, and leaves every other byte of the screen and the rest of the state as they were.
\<close>

theorem rectangle_filled:
  assumes "screen_mapped s" and "unat (v_res s) < 2 ^ 16" and "unat x < unat (h_res s)"
    and "unat x + unat w \<le> unat (h_res s)" and "unat y + unat h \<le> unat (v_res s)"
  shows "\<exists>m. draw_rectangle x y w h color s = Some (0, s\<lparr>vmem := m\<rparr>) \<and> length m = length (vmem s) \<and>
    (\<forall>k < length m. m ! k =
      (let pixel = k div unat (pixel_size s); col = pixel mod unat (h_res s); row = pixel div unat (h_res s) in
       if unat x \<le> col \<and> col < unat x + unat w \<and> unat y \<le> row \<and> row < unat y + unat h
       then ucast (drop_bit (8 * (k mod unat (pixel_size s))) color) else vmem s ! k))"
proof -
  let ?K = "rectangle_bytes (unat (pixel_size s)) (unat (h_res s)) (unat x) (unat y) (unat w) (unat h)"
  have "draw_rectangle x y w h color s = Some (0, s\<lparr>vmem := paint (unat (pixel_size s)) color ?K (vmem s)\<rparr>)"
    using rectangle_loop_paints [OF assms(1,4,3,5)] assms(2,5) by (simp add: draw_rectangle_def)
  then show ?thesis by (intro exI [of _ "paint (unat (pixel_size s)) color ?K (vmem s)"]) (simp add: rectangle_bytes_def Let_def)
qed

text \<open>A screen of two rows of two pixels of two bytes.\<close>

definition tiny_screen :: "string lab_video_st" where
  "tiny_screen = lab_video_start\<lparr>vmem := replicate 8 0, h_res := 2, v_res := 2, pixel_size := 2\<rparr>"

theorem rectangle_filled_witness:
  "\<exists>m. draw_rectangle 1 0 1 2 0x1234 tiny_screen = Some (0, tiny_screen\<lparr>vmem := m\<rparr>) \<and> m ! 2 = 0x34 \<and> m ! 7 = 0x12 \<and> m ! 1 = 0"
proof -
  have s: "screen_mapped tiny_screen" "unat (v_res tiny_screen) = 2" "unat (h_res tiny_screen) = 2" "unat (pixel_size tiny_screen) = 2"
      "vmem tiny_screen = replicate 8 0"
    by (simp_all add: tiny_screen_def screen_mapped_def)
  obtain m where m: "draw_rectangle 1 0 1 2 0x1234 tiny_screen = Some (0, tiny_screen\<lparr>vmem := m\<rparr>)" "length m = 8"
      "\<And>k. k < 8 \<Longrightarrow> m ! k = (if 1 \<le> k div 2 mod 2 \<and> k div 2 mod 2 < 2 \<and> k div 2 div 2 < 2
         then ucast (drop_bit (8 * (k mod 2)) (0x1234 :: u32)) else replicate 8 0 ! k)"
    using rectangle_filled [of tiny_screen 1 1 0 2 "0x1234"] s by (auto simp: Let_def)
  then show ?thesis using m(3) [of 2] m(3) [of 7] m(3) [of 1] by (intro exI [of _ m]) simp
qed

section \<open>The second video exercise\<close>

text \<open>A card whose low memory holds a mode of two rows of four pixels of a byte.\<close>

definition small_mode :: vbe_mode_info_t where
  "small_mode = \<lparr>XResolution = 4, YResolution = 2, BitsPerPixel = 8, MemoryModel = 4, RedMaskSize = 0, RedFieldPosition = 0,
     GreenMaskSize = 0, GreenFieldPosition = 0, BlueMaskSize = 0, BlueFieldPosition = 0, PhysBasePtr = 0\<rparr>"

definition small_lm :: "string liblm" where
  "small_lm = \<lparr>lm_alloc = (\<lambda>d. (Some small_mode, d)), lm_free = (\<lambda>d. d)\<rparr>"

definition lab_mel_start :: "string lab_mel_st" where
  "lab_mel_start = \<lparr>dev = '''', lab_counter = 0, lab_hook_id = 0, lcf_calls = [], hook_id_kbc = 0, sc_byte = 0,
     inb_counter = 0, scan_size = 0, scan_bytes = [0, 0], bppixel_mel = 0, x_res_mel = 0, y_res_mel = 0, bytes_per_pixel_mel = 0,
     vram_base_mel = 0, vram_size_mel = 0, mode_info_mel = small_mode, video_mem_mel = [], aux_buffer_mel = []\<rparr>"

definition small_screen :: "string lab_mel_st" where
  "small_screen = lab_mel_start\<lparr>bppixel_mel := 8, x_res_mel := 4, y_res_mel := 2, bytes_per_pixel_mel := 1, vram_size_mel := 8,
     video_mem_mel := replicate 8 0, aux_buffer_mel := replicate 8 0\<rparr>"

text \<open>The keyboard controller holds the release of the escape key, and the kernel says so whenever it is asked.\<close>

definition esc_released :: "string env" where
  "esc_released = small_env\<lparr>sys_inb := \<lambda>port d. ((0, if port = KBC_ST_REG then 1 else 0x81), d),
     driver_receive := \<lambda>d. ((0, True, \<lparr>m_source_hardware = True, interrupts = 2\<rparr>), d)\<rparr>"

lemma small_screen_mapped: "get_mode_info_mel esc_released small_lm 0x105 lab_mel_start = Some (Inr (0, small_screen))"
  by (simp add: get_mode_info_mel_def vbe_get_mode_inf_def small_lm_def small_mode_def lab_mel_start_def small_screen_def
      esc_released_def small_env_def Let_def)

lemma esc_released_ends: "inb_counter s = 0 \<Longrightarrow> esc_loop_mel esc_released 1 s = Some (s\<lparr>inb_counter := 2, sc_byte := 0x81\<rparr>)"
  by (subst esc_loop_mel.simps)
    (simp add: esc_body_mel_def irq_message_def after_message_def esc_released_def kbc_ih_lab_def kbc_check_status_def
      kbc_read_status_def kbc_read_buf_def sys_inb_cnt_def error_bits_not_one kbc_consts KBC_OUT_BUF_def truth_def BIT_def Let_def)

lemma esc_released_fields [simp]:
  "sys_int86 esc_released ah al bx n d = (0, d)" "sys_irqsetpolicy esc_released irq pol hook d = ((0, hook), d)"
  "sys_irqrmpolicy esc_released hook d = (0, d)" "vg_exit esc_released d = (0, d)"
  by (simp_all add: esc_released_def small_env_def)

lemma small_screen_mode:
  "BitsPerPixel (mode_info_mel small_screen) \<noteq> 0" "1 = (unat (BitsPerPixel (mode_info_mel small_screen)) + 7) div 8"
  "4 = unat (XResolution (mode_info_mel small_screen))" "2 = unat (YResolution (mode_info_mel small_screen))" "(4 :: nat) * 2 * 1 < 2 ^ 32"
  by (simp_all add: small_screen_def lab_mel_start_def small_mode_def)

lemma small_test_returns: "\<exists>s'. video_test_rectangle_mel esc_released small_lm 0x105 x y w h color lab_mel_start = Some (Inr (0, s'))"
proof -
  have "mel_screen small_screen" by (rule mapped_mode(1) [OF small_screen_mapped small_screen_mode])
  moreover have "inb_counter (plot K color (small_screen\<lparr>hook_id_kbc := k\<rparr>)) = 0" for K k
    by (simp add: plot_def small_screen_def lab_mel_start_def)
  ultimately show ?thesis
    by (simp add: video_test_rectangle_mel_def in_mode_mel_def small_screen_mapped set_vbe_mode_mel_def kbc_subscribe_int_def
        rectangle_plots esc_and_exit_def esc_released_ends kbc_unsubscribe_int_def KBC_IRQ_def Let_def)
qed

text \<open>
  C34: Whatever low memory gave as the mode, once its memory is mapped (and its size does not wrap
  around) the second video exercise draws every rectangle without undefined behaviour, wherever
  its corner is and whatever its size. The coordinates wrap around at 16 bits: a pixel of the
  screen gets the colour, low byte first, exactly where its distance from the corner modulo
  \<open>2 ^ 16\<close> is below the width and the height; every other byte and the rest of the state are kept.
  Where the test of the rectangle returns 0, that is what the video memory holds.
\<close>

theorem rectangle_clipped:
  assumes "get_mode_info_mel E LM md s0 = Some (Inr (r, s))" and "BitsPerPixel (mode_info_mel s) \<noteq> 0"
    and "bpp = (unat (BitsPerPixel (mode_info_mel s)) + 7) div 8"
    and "xr = unat (XResolution (mode_info_mel s))" and "yr = unat (YResolution (mode_info_mel s))" and "xr * yr * bpp < 2 ^ 32"
  shows "\<exists>m. vg_draw_rectangle x y w h color s = Some (0, s\<lparr>video_mem_mel := m\<rparr>) \<and> length m = xr * yr * bpp \<and>
    (\<forall>k < length m. m ! k =
      (let px = k div bpp mod xr; py = k div bpp div xr in
       if (px + 2 ^ 16 - unat x) mod 2 ^ 16 < unat w \<and> (py + 2 ^ 16 - unat y) mod 2 ^ 16 < unat h
       then ucast (drop_bit (8 * (k mod bpp)) color) else video_mem_mel s ! k)) \<and>
    (\<forall>s'. video_test_rectangle_mel E LM md x y w h color s0 = Some (Inr (0, s')) \<longrightarrow> video_mem_mel s' = m)"
proof -
  note s = mapped_mode [OF assms]
  let ?m = "tint bpp (spots xr (rectangle_spots x y w h) color) (video_mem_mel s)"
  have "vg_draw_rectangle x y w h color s = Some (0, s\<lparr>video_mem_mel := ?m\<rparr>)"
    using rectangle_plots [OF s(1)] by (simp add: plot_def s)
  moreover have "\<forall>s'. video_test_rectangle_mel E LM md x y w h color s0 = Some (Inr (0, s')) \<longrightarrow> video_mem_mel s' = ?m"
    using rectangle_test_draws [OF assms(1) s(1)] by (simp add: plot_def s)
  ultimately show ?thesis
    by (intro exI [of _ ?m]) (simp add: s(6) spots_def rectangle_spots_def word_distance Let_def)
qed

theorem rectangle_clipped_witness:
  "\<exists>m. vg_draw_rectangle 0xFFFF 1 3 5 7 small_screen = Some (0, small_screen\<lparr>video_mem_mel := m\<rparr>) \<and> length m = 8 \<and>
     m ! 3 = 0 \<and> m ! 4 = 7 \<and> m ! 5 = 7 \<and> m ! 6 = 0 \<and>
     (\<exists>s'. video_test_rectangle_mel esc_released small_lm 0x105 0xFFFF 1 3 5 7 lab_mel_start = Some (Inr (0, s')) \<and> video_mem_mel s' = m)"
proof -
  let ?byte = "\<lambda>k. let px = k div 1 mod 4; py = k div 1 div 4 in
    if (px + 2 ^ 16 - unat (0xFFFF :: u16)) mod 2 ^ 16 < unat (3 :: u16) \<and> (py + 2 ^ 16 - unat (1 :: u16)) mod 2 ^ 16 < unat (5 :: u16)
    then ucast (drop_bit (8 * (k mod 1)) (7 :: u32)) else video_mem_mel small_screen ! k"
  obtain m where m: "vg_draw_rectangle 0xFFFF 1 3 5 7 small_screen = Some (0, small_screen\<lparr>video_mem_mel := m\<rparr>)"
      "length m = 4 * 2 * 1" "\<forall>k < length m. m ! k = ?byte k"
      "\<forall>s'. video_test_rectangle_mel esc_released small_lm 0x105 0xFFFF 1 3 5 7 lab_mel_start = Some (Inr (0, s')) \<longrightarrow> video_mem_mel s' = m"
    using rectangle_clipped [OF small_screen_mapped small_screen_mode] by blast
  have s: "video_mem_mel small_screen = replicate 8 0" by (simp add: small_screen_def)
  obtain s' where "video_test_rectangle_mel esc_released small_lm 0x105 0xFFFF 1 3 5 7 lab_mel_start = Some (Inr (0, s'))"
    using small_test_returns by blast
  then show ?thesis
    using m(1,2,4) s m(3) [rule_format, of 3] m(3) [rule_format, of 4] m(3) [rule_format, of 5] m(3) [rule_format, of 6]
    by (intro exI [of _ m]) simp
qed

text \<open>
  C35: The pattern of the second video exercise is defined exactly where there is a rectangle to
  draw and the shifts of its colours are defined (less than 31 bits per pixel in a packed mode,
  masks of less than 31 bits at places below 32 in a direct mode). It then divides the screen
  into \<open>n\<close> times \<open>n\<close> rectangles of the same size: a pixel gets the colour that belongs to the row and
  column of its rectangle, and the pixels to the right and below that no rectangle has are kept.
  Where the test of the pattern returns 0, that is what the video memory holds.
\<close>

theorem pattern_painted:
  assumes "get_mode_info_mel E LM md s0 = Some (Inr (r, s))" and "BitsPerPixel (mode_info_mel s) \<noteq> 0"
    and "bpp = (unat (BitsPerPixel (mode_info_mel s)) + 7) div 8"
    and "xr = unat (XResolution (mode_info_mel s))" and "yr = unat (YResolution (mode_info_mel s))" and "xr * yr * bpp < 2 ^ 32"
  shows "(draw_pattern n first step s = None \<longleftrightarrow> n = 0 \<or> \<not> colours_ok (mode_info_mel s)) \<and>
    (n \<noteq> 0 \<and> colours_ok (mode_info_mel s) \<longrightarrow>
      (\<exists>m. draw_pattern n first step s = Some (False, s\<lparr>video_mem_mel := m\<rparr>) \<and> length m = xr * yr * bpp \<and>
        (\<forall>k < length m.
          let px = k div bpp mod xr; py = k div bpp div xr; w = xr div unat n; h = yr div unat n in
          if px < unat n * w \<and> py < unat n * h
          then \<exists>c. pattern_color s n first step (word_of_nat (py div h)) (word_of_nat (px div w)) first = Some c \<and>
            m ! k = ucast (drop_bit (8 * (k mod bpp)) c)
          else m ! k = video_mem_mel s ! k) \<and>
        (\<forall>s'. video_test_pattern_mel E LM md n first step s0 = Some (Inr (0, s')) \<longrightarrow> video_mem_mel s' = m)))"
proof (cases "n \<noteq> 0 \<and> colours_ok (mode_info_mel s)")
  case True
  note s = mapped_mode [OF assms]
  obtain m where m: "draw_pattern n first step s = Some (False, s\<lparr>video_mem_mel := m\<rparr>)" "length m = xr * yr * bpp"
    "\<forall>k < length m.
          let px = k div bpp mod xr; py = k div bpp div xr; w = xr div unat n; h = yr div unat n in
          if px < unat n * w \<and> py < unat n * h
          then \<exists>c. pattern_color s n first step (word_of_nat (py div h)) (word_of_nat (px div w)) first = Some c \<and>
            m ! k = ucast (drop_bit (8 * (k mod bpp)) c)
          else m ! k = video_mem_mel s ! k"
    using draw_pattern_paints [OF s(1,2) conjunct2 [OF True] conjunct1 [OF True], of first step] unfolding s(3-6) by blast
  have "\<forall>s'. video_test_pattern_mel E LM md n first step s0 = Some (Inr (0, s')) \<longrightarrow> video_mem_mel s' = m"
    using pattern_test_draws [OF assms(1) s(1) conjunct2 [OF True] conjunct1 [OF True] m(1)] by simp
  moreover have "draw_pattern n first step s \<noteq> None" using m(1) by simp
  ultimately show ?thesis using True m by blast
next
  case False
  then show ?thesis using draw_pattern_undefined [OF mapped_mode(2) [OF assms]] by auto
qed

theorem pattern_painted_witness:
  "\<exists>m. draw_pattern 2 1 1 small_screen = Some (False, small_screen\<lparr>video_mem_mel := m\<rparr>) \<and> m ! 1 = 1 \<and> m ! 2 = 2 \<and> m ! 4 = 3"
proof -
  let ?n = "unat (2 :: u8)"
  have ok: "colours_ok (mode_info_mel small_screen)"
    by (simp add: small_screen_def lab_mel_start_def colours_ok_def small_mode_def)
  have c: "pattern_color small_screen 2 1 1 row col 1 = Some ((1 + (row * 2 + col)) mod 256)" for row col
    by (simp add: pattern_color_def indexed_color_def small_screen_def lab_mel_start_def small_mode_def)
  have n: "(2 :: u8) \<noteq> 0" by simp
  obtain m where m: "draw_pattern 2 1 1 small_screen = Some (False, small_screen\<lparr>video_mem_mel := m\<rparr>)" "length m = 4 * 2 * 1"
      "\<forall>k < length m.
          let px = k div 1 mod 4; py = k div 1 div 4; w = 4 div ?n; h = 2 div ?n in
          if px < ?n * w \<and> py < ?n * h
          then \<exists>c. pattern_color small_screen 2 1 1 (word_of_nat (py div h)) (word_of_nat (px div w)) 1 = Some c \<and>
            m ! k = ucast (drop_bit (8 * (k mod 1)) c)
          else m ! k = video_mem_mel small_screen ! k"
    using pattern_painted [OF small_screen_mapped small_screen_mode, of 2 1 1] ok n by blast
  then show ?thesis using m(3) [rule_format, of 1] m(3) [rule_format, of 2] m(3) [rule_format, of 4]
    by (intro exI [of _ m]) (simp add: c)
qed

text \<open>
  C37: After a video mode of at least four bits per pixel was set, drawing a pixel, a rectangle or a
  moving image is undefined: \<open>mode_get_info\<close> takes the bits of a pixel and one for the number of
  its bytes, so a colour is shifted by 32 bits and more. No test that draws a rectangle reaches its end.
\<close>

theorem video_drawing_undefined:
  assumes "mode_get_info E md s = Inr (r, s')" and "4 \<le> BitsPerPixel (fst (vbe_get_mode_info E md (dev s)))"
  shows "unat (pixel_size s') = unat (BitsPerPixel (fst (vbe_get_mode_info E md (dev s)))) + 1 \<and>
    draw_pixel_lab5 x y color s' = None \<and>
    (w \<noteq> 0 \<and> h \<noteq> 0 \<longrightarrow> draw_rectangle x y w h color s' = None \<and> video_test_rectangle E md x y w h color s = None) \<and>
    (blk_read (sprites s') i = Some sp \<and> width (sp_img sp) \<noteq> 0 \<and> height (sp_img sp) \<noteq> 0 \<longrightarrow> draw_sprite i s' = None)"
proof -
  let ?b = "BitsPerPixel (fst (vbe_get_mode_info E md (dev s)))"
  have sz: "unat (pixel_size s') = unat ?b + 1" by (rule mode_pixel_size [OF assms(1)])
  have b: "4 < unat (pixel_size s')" using assms(2) unfolding sz by (simp add: word_le_nat_alt)
  have "video_test_rectangle E md x y w h color s = None" if "w \<noteq> 0" "h \<noteq> 0"
  proof -
    have "pixel_size (snd (graphics_set_mode E md s')) = pixel_size s'" by (simp add: graphics_set_mode_def split_beta Let_def)
    then show ?thesis using b that draw_rectangle_undefined [of "snd (graphics_set_mode E md s')" w h x y color]
      by (simp add: video_test_rectangle_def in_mode_def assms(1))
  qed
  then show ?thesis
    using sz draw_pixel_undefined [OF b] draw_rectangle_undefined [OF b] draw_sprite_undefined [OF b] by blast
qed

theorem video_drawing_undefined_witness:
  "video_test_rectangle small_env 0x105 0 0 1 1 7 lab_video_start = None"
proof -
  have "\<not> isl (mode_get_info small_env 0x105 lab_video_start)" by code_simp
  then obtain r s' where "mode_get_info small_env 0x105 lab_video_start = Inr (r, s')"
    by (cases "mode_get_info small_env 0x105 lab_video_start") auto
  moreover have "4 \<le> BitsPerPixel (fst (vbe_get_mode_info small_env 0x105 (dev lab_video_start)))" by code_simp
  ultimately show ?thesis using video_drawing_undefined [of small_env "0x105" lab_video_start r s'] by simp
qed

text \<open>
  C36: An image that does not move back is, after any number of frames, on its path: at the start
  plus the frames times the speed, but never beyond its goal, in both directions; with a speed
  above zero it gets to the goal and stays there. The \<open>float\<close> variables lose nothing on the way.
\<close>

theorem image_path:
  assumes "blk_read (sprites s) i = Some sp" and "forward sp"
  shows "\<exists>b sp'. run_steps (\<lambda>_ s. map_option snd (move_sprite i s)) (replicate k ()) s = Some (s\<lparr>sprites := b\<rparr>) \<and>
    blk_read b i = Some sp' \<and>
    sp_xi sp' = min (sp_xi sp + int k * speed_x sp) (uint (sp_xf sp)) \<and>
    sp_yi sp' = min (sp_yi sp + int k * speed_y sp) (uint (sp_yf sp)) \<and>
    (0 < speed_x sp \<and> uint (sp_xf sp) \<le> int k \<longrightarrow> sp_xi sp' = uint (sp_xf sp))"
proof -
  obtain b where b: "run_steps (\<lambda>_ s. map_option snd (move_sprite i s)) (replicate k ()) s = Some (s\<lparr>sprites := b\<rparr>)"
      "blk_read b i = Some (moved k sp)"
    using move_sprite_steps [OF assms(1)] by blast
  have x: "sp_xi (moved k sp) = min (sp_xi sp + int k * speed_x sp) (uint (sp_xf sp))"
      "sp_yi (moved k sp) = min (sp_yi sp + int k * speed_y sp) (uint (sp_yf sp))"
    using move_path [OF assms(2)] by (simp_all add: on_path_def)
  have "int k \<le> int k * speed_x sp" if "0 < speed_x sp" using that by (simp add: mult_le_cancel_left1)
  then have "0 < speed_x sp \<and> uint (sp_xf sp) \<le> int k \<longrightarrow> sp_xi (moved k sp) = uint (sp_xf sp)"
    using x(1) assms(2) unfolding forward_def by linarith
  then show ?thesis using b x by blast
qed

text \<open>An image on its way from (3, 0) to (10, 0), four pixels a frame.\<close>

definition a_sprite :: sprite_mov_t where
  "a_sprite = \<lparr>sprite_id = 0, sp_xi = 3, sp_yi = 0, sp_xf = 10, sp_yf = 0, speed_x = 4, speed_y = 0, sp_img = dot\<rparr>"

theorem image_path_witness:
  "\<exists>b sp'. run_steps (\<lambda>_ s. map_option snd (move_sprite 0 s)) [(), ()] (lab_video_start\<lparr>sprites := Alloc [Some a_sprite]\<rparr>) =
     Some (lab_video_start\<lparr>sprites := b\<rparr>) \<and> blk_read b 0 = Some sp' \<and> sp_xi sp' = 10"
proof -
  have f: "forward a_sprite" by (simp add: forward_def a_sprite_def)
  have r: "replicate 2 () = [(), ()]" by (simp add: numeral_2_eq_2)
  let ?s = "lab_video_start\<lparr>sprites := Alloc [Some a_sprite]\<rparr>"
  have "blk_read (sprites ?s) 0 = Some a_sprite" by simp
  from image_path [OF this f, of 2] obtain b sp' where
    "run_steps (\<lambda>_ s. map_option snd (move_sprite 0 s)) [(), ()] ?s = Some (lab_video_start\<lparr>sprites := b\<rparr>)"
    "blk_read b 0 = Some sp'" "sp_xi sp' = min (sp_xi a_sprite + int 2 * speed_x a_sprite) (uint (sp_xf a_sprite))"
    unfolding r by auto
  then show ?thesis by (intro exI [of _ b] exI [of _ sp']) (simp add: a_sprite_def del: run_steps.simps)
qed

end
