(* ===== verification/Game_Properties.thy ===== *)
theory Game_Properties
  imports Program_Start
begin

text \<open>
  The claims about the two games, \<open>game.c\<close> and \<open>mp_game.c\<close>, each followed by an
  application to a concrete game where it has hypotheses.
\<close>

section \<open>Concrete games\<close>

text \<open>A game of two rounds at its start, and after the first button.\<close>

definition two_rounds :: "string simon_st" where
  "two_rounds = reset_game small_env 2 small_state"

lemma small_state_game [simp]:
  "dev small_state = ''''" "leaderboard small_state = replicate 5 zero_winner" "mode small_state = MENU"
  "received_no_bytes small_state = 0" "uart_has_data_to_send small_state = False"
  by (simp_all add: small_state_eq init_state_def)

lemma two_rounds_repeating: "repeating two_rounds [] 0" "max_buttons_size two_rounds = 2" "game_inv two_rounds"
  using reset_game_repeating [of small_env 2 small_state] by (simp_all add: two_rounds_def)

lemma two_rounds_fields [simp]:
  "time_left_for_click two_rounds = - 1" "\<not> game_end two_rounds" "is_player_1 two_rounds" "\<not> VS_was_pressed two_rounds"
  "\<not> is_vs_round two_rounds" "guessed two_rounds = 0" "buttons_size two_rounds = 0" "player_score two_rounds = 0"
  "mode two_rounds = MENU" "leaderboard two_rounds = replicate 5 zero_winner" "max_buttons_size two_rounds = 2"
  "buttons two_rounds = Alloc [None, None]"
  by (simp_all add: two_rounds_def reset_game_def is_VS_round_eq next_vs_def blk_malloc_def Let_def numeral_2_eq_2)

lemma two_rounds_live: "live two_rounds []"
  using two_rounds_repeating by (simp add: repeating_def)

text \<open>The second player's turn, with one button to repeat and the clock running.\<close>

definition one_button :: "string simon_st" where
  "one_button = two_rounds\<lparr>buttons := Alloc [Some RED_B, None], buttons_size := 1, is_player_1 := False,
     time_left_for_click := INTERVAL\<rparr>"

lemma one_button_live: "live one_button [RED_B]"
  by (simp add: one_button_def live_def blk_holds_def)

lemma one_button_fields [simp]:
  "guessed one_button = 0" "\<not> VS_was_pressed one_button" "\<not> is_player_1 one_button" "time_left_for_click one_button = 4"
  "player_score one_button = 0" "leaderboard one_button = replicate 5 zero_winner" "max_buttons_size one_button = 2"
  "buttons_size one_button = 1" "\<not> game_end one_button"
  by (simp_all add: one_button_def INTERVAL_def)

section \<open>The game at one computer\<close>

text \<open>
  C2: Every state the game reaches from a fresh one, by any sequence of mouse packets, key
  presses, timer and clock interrupts that avoids the two events described by
  \<open>survivable\<close>, satisfies the invariant (the sequence is held by a live block of the
  right size, or it was released exactly once), and every further such event has a defined
  outcome that satisfies it again.
\<close>

theorem game_events_safe:
  assumes "malloc E (n * 4) (dev s0) \<noteq> None" and "0 \<le> n"
    and "reaches (game_step E) survivable (reset_game E n s0) s" and "survivable e s"
  shows "game_inv s \<and> (\<exists>s'. game_step E e s = Some s' \<and> game_inv s')"
  using game_machine.reaches_inv [OF assms(3)] game_machine.reaches_defined [OF assms(3) _ assms(4)]
    reset_game_repeating(4) [OF assms(1,2)] by blast

theorem game_events_safe_witness:
  "game_inv two_rounds \<and> (\<exists>s'. game_step small_env Ev_rtc two_rounds = Some s' \<and> game_inv s')"
  using game_events_safe [of small_env 2 small_state two_rounds Ev_rtc]
  by (simp add: two_rounds_def [symmetric] reaches_start stale_timeout_def)

text \<open>
  C3: A click on a button, in any state of a running game where it does not overflow a versus
  round, has the outcome that the rules of the game give for the abstract state: the sequence
  as a list, the position in it, the player, the clock, the score and the versus mode, or the
  winner and the score of a game that is over.
\<close>

theorem click_refines_rules:
  assumes "live s xs" and "c \<noteq> NO_BUTTON" and "\<not> vs_overflow s"
  shows "\<exists>s'. click_button E c s = Some s' \<and> ((\<exists>ys. live s' ys) \<or> over s') \<and>
    abs_game s' = spec_click (nat (max_buttons_size s)) (next_vs E s) c (abs_simon s)"
  using assms by (rule click_refines)

theorem click_refines_rules_witness:
  "\<exists>s'. click_button small_env RED_B one_button = Some s' \<and> ((\<exists>ys. live s' ys) \<or> over s') \<and>
     abs_game s' = spec_click 2 False RED_B (abs_simon one_button)"
  using click_refines_rules [OF one_button_live, of RED_B small_env]
  by (simp add: vs_overflow_def next_vs_def)

text \<open>
  C7: Two players who never make a mistake play out all the rounds: after the clicks that build
  the sequence \<open>cs\<close> of as many plain buttons as there are rounds, repeating it whole and
  clicking once more ends the game in a tie with that score and the sequence released.
\<close>

theorem perfect_game_ties:
  assumes "malloc E (int n * 4) (dev s) \<noteq> None" and "length cs = n" and "list_all plain cs" and "c \<noteq> NO_BUTTON"
  shows "\<exists>s'. run_steps (click_button E) (rounds_from [] cs @ cs @ [c]) (reset_game E (int n) s) = Some s' \<and>
    game_end s' \<and> ws s' = TIE \<and> player_score s' = int n \<and> buttons s' = Freed"
proof -
  have r: "repeating (reset_game E (int n) s) [] 0" "max_buttons_size (reset_game E (int n) s) = int n"
    using reset_game_repeating [OF assms(1)] by simp_all
  obtain s1 where s1: "run_steps (click_button E) (rounds_from [] cs) (reset_game E (int n) s) = Some s1"
      "repeating s1 cs 0" "nat (max_buttons_size s1) = n"
    using local_game.rounds_ok [OF r(1), of cs E] assms r(2) by auto
  obtain s2 where s2: "run_steps (click_button E) cs s1 = Some s2" "repeating s2 cs (length cs)" "nat (max_buttons_size s2) = n"
    using local_game.replay [OF s1(2), of E] s1(3) by auto
  have l: "live s2 cs" and m: "max_buttons_size s2 = int n" and g: "guessed s2 = max_buttons_size s2"
    using s2 assms(2) by (auto simp: repeating_def live_def)
  show ?thesis using s1(1) s2(1) click_tie [OF l g assms(4), of E] m by (simp add: run_steps_append)
qed

theorem perfect_game_ties_witness:
  "\<exists>s'. run_steps (click_button small_env) [RED_B, RED_B, BLUE_B, RED_B, BLUE_B, RED_B]
      (reset_game small_env 2 small_state) = Some s' \<and>
    game_end s' \<and> ws s' = TIE \<and> player_score s' = 2 \<and> buttons s' = Freed"
  using perfect_game_ties [of small_env 2 small_state "[RED_B, BLUE_B]" RED_B] by (simp add: plain_def)

text \<open>
  C11: With \<open>t\<close> seconds left and no versus round going, \<open>t\<close> further clock interrupts leave
  the game running and the next one ends it: the player whose turn it is loses, and the screen
  changes to the high score if the score beats the lowest of the leaderboard, to the
  leaderboard otherwise.
\<close>

theorem countdown_ends_turn:
  assumes "live s xs" and "time_left_for_click s = int t" and "\<not> VS_was_pressed s"
  shows "rtc_ticks E t s = Some (s\<lparr>time_left_for_click := 0\<rparr>) \<and>
    (\<exists>s'. rtc_ticks E (t + 1) s = Some s' \<and> game_end s' \<and> buttons s' = Freed \<and>
       ws s' = (if is_player_1 s then WINNER2 else WINNER1) \<and>
       mode s' = (if getLowestHiScore s < player_score s then HIGHSCORE else LEADERBOARD))"
proof -
  let ?s = "s\<lparr>time_left_for_click := 0\<rparr>"
  have ne: "\<not> game_end s" using assms(1) by (simp add: live_def)
  have t: "rtc_ticks E t s = Some ?s" using rtc_ticks_count [OF ne assms(2)] .
  have "rtc_ticks E (t + 1) s = game_update_status_rtc E ?s"
    unfolding rtc_ticks_add using t by (simp add: rtc_ticks_def [abs_def])
  moreover have "live ?s xs" using assms(1) by simp
  ultimately show ?thesis using rtc_times_out [of ?s xs E] assms(3) t by (simp add: getLowestHiScore_def)
qed

theorem countdown_ends_turn_witness:
  "\<exists>s'. rtc_ticks small_env 5 one_button = Some s' \<and> game_end s' \<and> ws s' = WINNER1 \<and> mode s' = LEADERBOARD"
  using countdown_ends_turn [OF one_button_live, of 4 small_env]
  by (auto simp: getLowestHiScore_def zero_winner_def)

text \<open>
  C22: In a running game exactly one kind of click is undefined: a button while the versus mode
  is on, the sequence has as many buttons as there are rounds, and not all of them were repeated
  in this turn. It writes past the end of the block.
\<close>

theorem click_undefined_exactly:
  assumes "live s xs"
  shows "click_button E c s = None \<longleftrightarrow> c \<noteq> NO_BUTTON \<and> VS_was_pressed s \<and>
    buttons_size s = max_buttons_size s \<and> guessed s \<noteq> max_buttons_size s"
  using click_undefined_iff [OF assms, of E c] by (simp add: vs_overflow_def)

definition full_versus :: "string simon_st" where
  "full_versus = two_rounds\<lparr>buttons := Alloc [Some VS_B, Some RED_B], buttons_size := 2, is_vs_round := True,
     VS_was_pressed := True, time_left_for_click := 3\<rparr>"

theorem click_undefined_exactly_witness: "click_button small_env BLUE_B full_versus = None"
proof -
  have "live full_versus [VS_B, RED_B]" by (simp add: full_versus_def live_def blk_holds_def)
  then show ?thesis using click_undefined_exactly [of full_versus "[VS_B, RED_B]" small_env BLUE_B]
    by (simp add: full_versus_def)
qed

text \<open>
  C23: A clock interrupt is undefined in exactly one situation: the game is over, was lost with
  the clock at 0, and the versus mode was off. It releases the sequence a second time.
\<close>

theorem rtc_undefined_exactly:
  assumes "game_inv s"
  shows "game_update_status_rtc E s = None \<longleftrightarrow> game_end s \<and> time_left_for_click s = 0 \<and> \<not> VS_was_pressed s"
  using rtc_undefined_iff [OF assms, of E] by (simp add: stale_timeout_def)

theorem rtc_undefined_exactly_witness:
  "\<exists>s. click_button small_env BLUE_B (one_button\<lparr>time_left_for_click := 0\<rparr>) = Some s \<and>
     game_update_status_rtc small_env s = None"
proof -
  let ?s = "one_button\<lparr>time_left_for_click := 0\<rparr>"
  have l: "live ?s [RED_B]" using one_button_live by simp
  let ?e = "set_timed_alarm small_env 5 ((get_winner ?s)\<lparr>game_end := True, buttons := Freed\<rparr>)"
  have c: "click_button small_env BLUE_B ?s = Some ?e" using click_guess_wrong [OF l, of 0 BLUE_B small_env] by simp
  have "game_inv ?e" by (simp add: game_inv_def over_def get_winner_def)
  then show ?thesis using c rtc_undefined_exactly [of ?e small_env] by (simp add: get_winner_def)
qed

text \<open>
  A versus round that the clock ends right after its first button passes the turn with the
  position kept, not reset: of the sequence the other player has to repeat the versus button
  only, and one right click completes the turn.
\<close>

lemma versus_end_keeps_progress:
  assumes "live s xs" and "guessed s = buttons_size s" and "int (length xs) < max_buttons_size s"
    and "\<not> VS_was_pressed s" and "is_vs_round s"
  shows "\<exists>s1 s2 s3. click_button E VS_B s = Some s1 \<and>
    game_update_status_rtc E (s1\<lparr>time_left_for_click := 0\<rparr>) = Some s2 \<and>
    live s2 (xs @ [VS_B]) \<and> is_player_1 s2 = (\<not> is_player_1 s) \<and> guessed s2 = int (length xs) \<and>
    click_button E VS_B s2 = Some s3 \<and> guessed s3 = buttons_size s3"
proof -
  obtain b where b: "click_button E VS_B s =
      Some (s\<lparr>player_score := int (length xs), VS_was_pressed := True, buttons := b,
              buttons_size := int (length xs) + 1, time_left_for_click := VS_INTERVAL\<rparr>)"
      "blk_holds b (nat (max_buttons_size s)) (xs @ [VS_B])"
    using click_vs_start [OF assms, of E] by blast
  let ?s1 = "s\<lparr>player_score := int (length xs), VS_was_pressed := True, buttons := b,
    buttons_size := int (length xs) + 1, time_left_for_click := VS_INTERVAL\<rparr>"
  let ?s2 = "is_VS_round E (?s1\<lparr>is_player_1 := \<not> is_player_1 s, time_left_for_click := INTERVAL\<rparr>)"
  have f: "\<not> game_end s" "guessed s = int (length xs)" "list_all (\<lambda>c. c \<noteq> NO_BUTTON) xs" "0 \<le> max_buttons_size s"
    using assms(1,2) by (auto simp: live_def)
  have r: "game_update_status_rtc E (?s1\<lparr>time_left_for_click := 0\<rparr>) = Some ?s2"
    using assms(5) f(1) by (simp add: game_update_status_rtc_def is_VS_round_eq next_vs_def)
  have l2: "live ?s2 (xs @ [VS_B])" using b(2) f by (simp add: is_VS_round_eq live_def)
  have g2: "guessed ?s2 = int (length xs)" "\<not> VS_was_pressed ?s2" "is_player_1 ?s2 = (\<not> is_player_1 s)"
      "buttons_size ?s2 = int (length xs) + 1"
    using f by (simp_all add: is_VS_round_eq)
  have "click_button E VS_B ?s2 = Some (?s2\<lparr>guessed := int (length xs) + 1, time_left_for_click := - 1\<rparr>)"
    using click_guess_right [OF l2 g2(1) _ g2(2), of E] by simp
  then show ?thesis using b(1) r l2 g2 by auto
qed

text \<open>
  C19: The handlers of both games keep the cursor on the screen (at most 758 to the right and 556
  down), whatever the packet; and a packet clicks exactly when it is the first one of a press of
  the left button.
\<close>

theorem cursor_and_clicks:
  assumes "mouse_in_screen m"
  shows "mouse_in_screen (press_mouse pk (move_mouse pk m)) \<and>
    (left_click (press_mouse pk (move_mouse pk m)) \<longleftrightarrow> lb pk \<and> \<not> left_hold m) \<and>
    (left_hold (press_mouse pk (move_mouse pk m)) \<longleftrightarrow> lb pk)"
  using move_mouse_in_screen [OF assms, of pk]
  by (simp add: mouse_in_screen_def press_mouse_click) (simp add: move_mouse_def Let_def)

theorem cursor_and_clicks_witness:
  "mouse_in_screen (press_mouse zero_packet (move_mouse zero_packet zero_mouse)) \<and>
   \<not> left_click (press_mouse zero_packet (move_mouse zero_packet zero_mouse))"
  using cursor_and_clicks [of zero_mouse zero_packet] by (simp add: mouse_in_screen_def zero_mouse_def zero_packet_def)

text \<open>
  C20: The button under the cursor: each of the five colours is reported exactly inside its own
  disc, whatever the order of the tests, and the versus button exactly inside its disc and
  outside the red one, the only disc it meets.
\<close>

theorem hit_test_exact:
  "(get_button_click s = RED_B \<longleftrightarrow> in_disc RED_X RED_Y (mouse s)) \<and>
   (get_button_click s = GREEN_B \<longleftrightarrow> in_disc GREEN_X GREEN_Y (mouse s)) \<and>
   (get_button_click s = PURPLE_B \<longleftrightarrow> in_disc PURPLE_X PURPLE_Y (mouse s)) \<and>
   (get_button_click s = BLUE_B \<longleftrightarrow> in_disc BLUE_X BLUE_Y (mouse s)) \<and>
   (get_button_click s = YELLOW_B \<longleftrightarrow> in_disc YELLOW_X YELLOW_Y (mouse s)) \<and>
   (get_button_click s = VS_B \<longleftrightarrow> in_disc VS_X VS_Y (mouse s) \<and> \<not> in_disc RED_X RED_Y (mouse s))"
  using get_button_click_exact [of s] by simp

end
