(* ===== verification/Serial_Properties.thy ===== *)
theory Serial_Properties
  imports Program_Start Serial_Safety
begin

text \<open>
  The claims about the game over the serial line, \<open>mp_game.c\<close>, and about the driver that
  carries it, \<open>uart.c\<close>, each followed by an application where it has hypotheses.
\<close>

section \<open>Two concrete machines\<close>

definition host3 :: "string simon_st" where
  "host3 = host_mp_game small_env 3 small_state"

definition client3 :: "string simon_st" where
  "client3 = client_receives small_env 3 (connect_mp_game small_env small_state)"

lemma small_state_line [simp]: "dev small_state = ''''" "received_no_bytes small_state = 0"
  by (simp_all add: small_state_eq init_state_def)

lemma start_in_step: "in_step host3 client3 []"
  unfolding host3_def client3_def by (rule handshake_in_step) simp_all

lemma host3_fields [simp]:
  "is_host host3" "mp_is_player_1 host3" "mp_guessed host3 = 0" "\<not> mp_VS_was_pressed host3" "mp_max_buttons_size host3 = 3"
  "mp_is_vs_round host3" "\<not> mp_game_end host3" "mp_buttons host3 = Alloc [None, None, None]" "mp_buttons_size host3 = 0"
  by (simp_all add: host3_def host_mp_game_def blk_malloc_def numeral_3_eq_3)

lemma client3_fields [simp]:
  "\<not> is_host client3" "mp_is_player_1 client3" "mp_guessed client3 = 0" "\<not> mp_VS_was_pressed client3"
  "mp_max_buttons_size client3 = 3" "mp_is_vs_round client3"
  using start_in_step by (auto simp: in_step_def)

text \<open>The machines with one button in the sequence, at the client's turn.\<close>

definition host_red :: "string simon_st" where
  "host_red = host3\<lparr>mp_buttons := Alloc [Some RED_B, None, None], mp_buttons_size := 1, mp_is_player_1 := False\<rparr>"



text \<open>All three buttons repeated by the host, and a versus round of the client with no time left.\<close>

definition repeated_all :: "string simon_st \<Rightarrow> string simon_st" where
  "repeated_all s = s\<lparr>mp_buttons := Alloc [Some RED_B, Some RED_B, Some RED_B], mp_buttons_size := 3, mp_guessed := 3\<rparr>"

lemma repeated_all_in_step: "in_step (repeated_all host3) (repeated_all client3) [RED_B, RED_B, RED_B]"
  using start_in_step by (simp add: in_step_def mp_live_def blk_holds_def repeated_all_def)

definition client_versus :: "string simon_st \<Rightarrow> string simon_st" where
  "client_versus s = s\<lparr>mp_buttons := Alloc [Some VS_B, None, None], mp_buttons_size := 1,
     mp_is_player_1 := False, mp_VS_was_pressed := True, mp_time_left_for_click := 0\<rparr>"

lemma client_versus_in_step: "in_step (client_versus client3) (client_versus host3) [VS_B]"
  using start_in_step by (simp add: in_step_def mp_live_def blk_holds_def client_versus_def)

section \<open>The game over the line\<close>

text \<open>
  C4: Two machines in step stay in step: a click of the player whose turn it is that does not
  end the game sends bytes (handed to the transmitter or the queue one after the other) which,
  received by the peer in that order, bring it to the same sequence, position, player, number
  of rounds and versus mode.
\<close>

theorem mp_click_keeps_step:
  assumes "in_step s t xs" and "is_host s = mp_is_player_1 s" and "goes_on s c xs"
  shows "\<exists>bytes s' t' ys. mp_click_button E c s = Some s' \<and> line s' = send_all E bytes (line s) \<and>
    run_steps (play_game F) bytes t = Some t' \<and> in_step s' t' ys \<and> (ys = xs \<or> ys = xs @ [c])"
  using assms by (rule click_in_step)

theorem mp_click_keeps_step_witness:
  "\<exists>bytes s' t' ys. mp_click_button small_env RED_B host3 = Some s' \<and> line s' = send_all small_env bytes (line host3) \<and>
    run_steps (play_game small_env) bytes client3 = Some t' \<and> in_step s' t' ys \<and> (ys = [] \<or> ys = [RED_B])"
  using mp_click_keeps_step [OF start_in_step, of RED_B small_env small_env] by (simp add: goes_on_def)



text \<open>
  C13: The handshake: the host sends the two bytes of its number of rounds, but casts the number to
  a byte before it shifts it, so the second byte is 0 and the client that connected for the
  first time plays the number of rounds modulo 256. The two machines are then in step, agreeing
  on everything the game needs, exactly where the number is below 256.
\<close>

theorem mp_handshake:
  assumes "received_no_bytes t = 0" and "0 \<le> n" and "malloc E (n * 4) (dev s) \<noteq> None"
    and "malloc F (n mod 256 * 4) (dev (connect_mp_game F t)) \<noteq> None"
  shows "mp_max_buttons_size (client_receives F n (connect_mp_game F t)) = n mod 256 \<and>
    (in_step (host_mp_game E n s) (client_receives F n (connect_mp_game F t)) [] \<longleftrightarrow> n < 256)"
proof -
  have c: "\<not> is_host (connect_mp_game F t)" "received_no_bytes (connect_mp_game F t) = 0" using assms(1) by (simp_all add: connected)
  have m: "mp_max_buttons_size (client_receives F n (connect_mp_game F t)) = n mod 256"
    using client_receives_eq [OF c, of F n] by auto
  have "mp_max_buttons_size (host_mp_game E n s) = n" by (simp add: host_mp_game_def)
  then have "in_step (host_mp_game E n s) (client_receives F n (connect_mp_game F t)) [] \<Longrightarrow> n < 256"
    using m assms(2) pos_mod_bound [of 256 n] by (simp add: in_step_def)
  moreover have "n < 256 \<Longrightarrow> in_step (host_mp_game E n s) (client_receives F n (connect_mp_game F t)) []"
    using handshake_in_step [OF assms(1,2)] assms(2-4) by simp
  ultimately show ?thesis using m by blast
qed

theorem mp_handshake_witness:
  "in_step (host_mp_game small_env 200 small_state) (client_receives small_env 200 (connect_mp_game small_env small_state)) [] \<and>
   mp_max_buttons_size (client_receives small_env 300 (connect_mp_game small_env small_state)) = 44 \<and>
   \<not> in_step (host_mp_game small_env 300 small_state) (client_receives small_env 300 (connect_mp_game small_env small_state)) []"
proof -
  have "received_no_bytes small_state = 0" by (simp add: small_state_eq init_state_def)
  from mp_handshake [OF this, of _ small_env small_state small_env] show ?thesis by simp
qed

text \<open>
  C24: In a serial game that runs or is over, a byte of the peer has undefined behaviour exactly
  where it clicks into a full sequence of a versus round, or where the game is over and it
  clicks or ends the game: the sequence was released, and the click reads or writes it and the
  end releases it again.
\<close>

theorem mp_byte_undefined_exactly:
  assumes "running s \<or> mp_game_end s \<and> mp_buttons s = Freed"
  shows "play_game E data s = None \<longleftrightarrow>
    (if mp_game_end s then clicks data \<or> ends data else clicks data \<and> mp_overflow s)"
  using assms running_byte [of s E data] over_byte [of s E data] running_not_ended [of s] by auto

theorem mp_byte_undefined_exactly_witness:
  "play_game small_env (coms_code LOSE) (host_red\<lparr>mp_game_end := True, mp_buttons := Freed\<rparr>) = None \<and>
   play_game small_env (coms_code BLUE_REMOTE) (host_red\<lparr>mp_game_end := True, mp_buttons := Freed\<rparr>) = None \<and>
   play_game small_env (coms_code READY) (host_red\<lparr>mp_game_end := True, mp_buttons := Freed\<rparr>) \<noteq> None"
  using mp_byte_undefined_exactly [of "host_red\<lparr>mp_game_end := True, mp_buttons := Freed\<rparr>" small_env]
  by (simp add: clicks_def ends_def)

text \<open>
  C25: A tie ends the game on the machine that clicked only: the byte it sends has no effect on
  the peer, whose game goes on.
\<close>

theorem mp_tie_unseen:
  assumes "in_step s t xs" and "mp_guessed s = mp_max_buttons_size s" and "c \<noteq> NO_BUTTON"
  shows "\<exists>s' l. mp_click_button E c s = Some s' \<and> mp_game_end s' \<and> mp_ws s' = TIE \<and>
    line s' = send_all E [coms_code TIE_REMOTE] l \<and>
    run_steps (play_game F) [coms_code TIE_REMOTE] t = Some t \<and> \<not> mp_game_end t"
  using assms by (rule tie_not_seen)

theorem mp_tie_unseen_witness:
  "\<exists>s'. mp_click_button small_env RED_B (repeated_all host3) = Some s' \<and> mp_game_end s' \<and> mp_ws s' = TIE \<and>
    run_steps (play_game small_env) [coms_code TIE_REMOTE] (repeated_all client3) = Some (repeated_all client3) \<and>
    \<not> mp_game_end (repeated_all client3)"
proof -
  have "mp_guessed (repeated_all host3) = mp_max_buttons_size (repeated_all host3)" by (simp add: repeated_all_def)
  from mp_tie_unseen [OF repeated_all_in_step this, of RED_B small_env small_env] show ?thesis by blast
qed

text \<open>
  C26: When the clock ends a versus round of the client, the client does not leave the versus
  mode: the host's next right button, which the host only counts, is added to the client's
  sequence, and the two sequences differ from then on.
\<close>

theorem mp_client_versus_diverges:
  assumes "in_step s t xs" and "\<not> is_host s" and "\<not> mp_is_player_1 s" and "mp_VS_was_pressed s"
    and "mp_time_left_for_click s = 0" and "xs \<noteq> []" and "int (length xs) < mp_max_buttons_size s"
  shows "\<exists>s' t' s'' t''. mp_game_update_status_rtc E s = Some s' \<and> play_game F (coms_code READY) t = Some t' \<and>
    mp_click_button F (hd xs) t' = Some t'' \<and> play_game E (button_byte (hd xs)) s' = Some s'' \<and>
    mp_live t'' xs \<and> mp_live s'' (xs @ [hd xs])"
  using assms by (rule client_versus_diverges)

theorem mp_client_versus_diverges_witness:
  "\<exists>s' t' s'' t''. mp_game_update_status_rtc small_env (client_versus client3) = Some s' \<and>
    play_game small_env (coms_code READY) (client_versus host3) = Some t' \<and>
    mp_click_button small_env VS_B t' = Some t'' \<and> play_game small_env (button_byte VS_B) s' = Some s'' \<and>
    mp_live t'' [VS_B] \<and> mp_live s'' [VS_B, VS_B]"
  using mp_client_versus_diverges [OF client_versus_in_step, of small_env small_env]
  by (simp add: client_versus_def del: coms_code.simps)

text \<open>
  While the transmitter is busy only one byte waits: of the bytes sent in the meantime the
  last one is kept and the others are lost.
\<close>

lemma mp_one_byte_queue:
  assumes "\<And>d. \<not> fst (check_thr_emtpy E \<lparr>dev = d\<rparr>)" and "bs \<noteq> []"
  shows "line (fold (send_or_queue E) bs s) = (fst (line (fold (send_or_queue E) bs s)), True, last bs)"
proof -
  have "line (fold (send_or_queue E) bs s) = send_all E bs (line s)" for s :: "('a, 'b) mp_st_scheme"
    by (induction bs arbitrary: s) (simp_all add: send_or_queue_line)
  then show ?thesis using send_all_busy [OF assms, of "line s"] by (metis prod.collapse)
qed

text \<open>The machine with a transmitter that is never free.\<close>

definition busy_env :: "string env" where
  "busy_env = small_env\<lparr>sys_inb := \<lambda>port d. ((0, 0), d)\<rparr>"

text \<open>
  A mouse packet while it is the other player's turn moves the cursor and nothing else: no
  button is counted, added or sent.
\<close>

lemma mp_turn_guard:
  assumes "is_host s \<noteq> mp_is_player_1 s"
  shows "\<exists>m. mp_game_update_status_mouse E pk s = Some (s\<lparr>mp_mouse := m\<rparr>)"
  using assms by (rule not_our_turn)

section \<open>The driver\<close>

text \<open>
  A byte is written in three steps whatever the line control register held: the register is
  rewritten with its divisor latch bit clear and its other bits kept, the line status is read,
  and the byte goes to the data register exactly when the transmitter is free, which is also
  the result.
\<close>

lemma serial_write_effect:
  "serial_write_byte E b s =
     (let (lcr, s1) = inb E (COM1 + LCR) (snd (inb E (COM1 + LCR) s));
          (lsr, s2) = inb E (COM1 + LSR) (out E (COM1 + LCR) (lcr AND NOT LCR_DLAB) s1)
      in if bit lsr 5 then (True, out E (COM1 + SER_DATA) b s2) else (False, s2)) \<and>
   (bit (v AND NOT LCR_DLAB) i \<longleftrightarrow> bit v i \<and> i \<noteq> 7)"
  by (auto simp: serial_write_byte_eq check_data_dlab_def set_data_dlab_def check_thr_emtpy_def LSR_THR_def
      LCR_DLAB_def truth_and_BIT bit_and_not_BIT split_beta Let_def)

text \<open>
  The two operations that should switch an interrupt off write the interrupt enable register
  back as they read it, since they clear the bits of \<open>!mask\<close>, which is 0.
\<close>

lemma interrupts_not_disabled:
  "disable_received_data_int E s = (let (ier, s) = inb E (COM1 + IER) s in out E (COM1 + IER) ier s) \<and>
   disable_trans_empty_int E s = (let (ier, s) = inb E (COM1 + IER) s in out E (COM1 + IER) ier s)"
  by (simp add: disable_received_data_int_def disable_trans_empty_int_def IER_DATA_INT_def IER_TRANS_EMPTY_INT_def
      split_beta Let_def)

end
