(* ===== verification/Device_Properties.thy ===== *)
theory Device_Properties
  imports Program_Start
begin

text \<open>
  The claims about the drivers of the keyboard, the mouse, the real-time clock and the video
  card, each followed by an application where it has hypotheses.
\<close>

section \<open>Keyboard\<close>



text \<open>
  A character is delivered on the release of a key only: when the handler completes a
  one-byte code without an error and the key it reports is not 0, the code is one of the break
  codes of its tables, the character is the one listed there, and the key is up.
\<close>

theorem keys_on_release:
  assumes "keyboard_handler E k0 s = ((r, k), s')" and "\<not> kbc_ih_err s'" and "kbc_ih_obf s'"
    and "assemblied_word s'" and "fst (kbd_bytes s') \<noteq> TWO_BYTE_SCANCODE_PREFIX" and "key k \<noteq> CHR 0x00"
  shows "r \<and> \<not> down k \<and> (fst (kbd_bytes s'), key k) \<in> set (letter_keys @ digit_keys @ special_keys)"
proof -
  let ?s = "kbc_ih E s"
  obtain w bs where g: "keyboard_get_scancode (kbd_bytes ?s) (kbc_ih_output ?s) (assemblied_word ?s) = (w, bs)"
    by (cases "keyboard_get_scancode (kbd_bytes ?s) (kbc_ih_output ?s) (assemblied_word ?s)") blast
  have ok: "\<not> (kbc_ih_err ?s \<or> \<not> kbc_ih_obf ?s)"
  proof
    assume "kbc_ih_err ?s \<or> \<not> kbc_ih_obf ?s"
    then have "s' = ?s" using assms(1) by (simp add: keyboard_handler_def Let_def)
    then show False using assms(2,3) \<open>kbc_ih_err ?s \<or> \<not> kbc_ih_obf ?s\<close> by simp
  qed
  let ?j = "int_char (uint (uninit E (dev ?s)))"
  have s': "s' = ?s\<lparr>assemblied_word := w, kbd_bytes := bs\<rparr>"
    using assms(1) ok g by (auto simp: keyboard_handler_def Let_def split: if_splits)
  have w: "w" and b: "fst bs \<noteq> TWO_BYTE_SCANCODE_PREFIX" using assms(4,5) s' by simp_all
  then have k: "r" "k = assemble_key_press ?j (scancode_is_make (fst bs)) 1 bs"
    using assms(1) ok g by (simp_all add: keyboard_handler_def Let_def scancode_get_size_def)
  have "key (assemble_key_press ?j (scancode_is_make (fst bs)) 1 (fst bs, snd bs)) = key k" using k by simp
  then have mem: "(fst bs, key k) \<in> set (letter_keys @ digit_keys @ special_keys)"
    using assms(6) by (rule assemble_one_byte)
  have "down k = scancode_is_make (fst bs)" using k(2) by (simp add: assemble_key_press_def split: option.splits)
  then show ?thesis using k(1) mem one_byte_keys_break [OF mem] s' by (simp add: scancode_is_make_bit)
qed

text \<open>The machine whose keyboard controller holds the release of the key A.\<close>

definition key_env :: "string env" where
  "key_env = small_env\<lparr>sys_inb := \<lambda>port d. ((0, if port = KBC_STAT_REG then 1 else 0x9e), d)\<rparr>"

theorem keys_on_release_witness:
  "\<exists>k s'. keyboard_handler key_env \<lparr>key = NUL, down = False\<rparr> (init_state '''') = ((True, k), s') \<and>
     key k = CHR ''a'' \<and> \<not> down k"
proof -
  let ?h = "keyboard_handler key_env \<lparr>key = NUL, down = False\<rparr> (init_state '''')"
  have h: "snd (fst ?h) = \<lparr>key = CHR ''a'', down = False\<rparr>" "fst (fst ?h) = True"
      "kbd_bytes (snd ?h) = (0x9e, 0)" "assemblied_word (snd ?h)" "\<not> kbc_ih_err (snd ?h)" "kbc_ih_obf (snd ?h)"
    by code_simp+
  have e: "?h = ((fst (fst ?h), snd (fst ?h)), snd ?h)" by simp
  have "fst (fst ?h) \<and> \<not> down (snd (fst ?h)) \<and>
      (fst (kbd_bytes (snd ?h)), key (snd (fst ?h))) \<in> set (letter_keys @ digit_keys @ special_keys)"
    by (rule keys_on_release [OF e]) (simp_all add: h TWO_BYTE_SCANCODE_PREFIX_def)
  then show ?thesis using e h by (intro exI [of _ "snd (fst ?h)"] exI [of _ "snd ?h"]) simp
qed

section \<open>Mouse\<close>

text \<open>
  C18: Three bytes of which the first has bit 3 set make one packet, reported with the third byte:
  its displacements are the 9-bit two's complement numbers of the protocol, between -256 and
  255, its flags are the bits of the first byte, and the next packet can start.
\<close>

theorem mouse_packet_decoded:
  assumes "mouse_inv s" and "byte_count s = 0" and "bit b0 3"
  shows "\<exists>p s'. feed_bytes [b0, b1, b2] pk s = Some ([False, False, True], p, s') \<and>
    sint (delta_x p) = (if bit b0 4 then uint b1 - 256 else uint b1) \<and>
    sint (delta_y p) = (if bit b0 5 then uint b2 - 256 else uint b2) \<and>
    lb p = bit b0 0 \<and> rb p = bit b0 1 \<and> mb p = bit b0 2 \<and> x_ov p = bit b0 6 \<and> y_ov p = bit b0 7 \<and>
    - 256 \<le> sint (delta_x p) \<and> sint (delta_x p) \<le> 255 \<and> mouse_inv s' \<and> byte_count s' = 0"
  using feed_packet [OF assms, of b1 b2 pk] assembly_packet_deltas [of "[b0, b1, b2]"]
    assembly_packet_flags [of "[b0, b1, b2]"] assembly_packet_bounds [of "[b0, b1, b2]"]
  by (intro exI [of _ "assembly_packet [b0, b1, b2]"]) auto

theorem mouse_packet_decoded_witness:
  "\<exists>p s'. feed_bytes [0x19, 0xff, 2] zero_packet (init_state '''') = Some ([False, False, True], p, s') \<and>
    sint (delta_x p) = - 1 \<and> sint (delta_y p) = 2 \<and> lb p"
proof -
  have "bit (0x19 :: u8) 3" "bit (0x19 :: u8) 4" "\<not> bit (0x19 :: u8) 5" "bit (0x19 :: u8) 0" by code_simp+
  moreover have "mouse_inv (init_state '''')" "byte_count (init_state '''') = 0"
    by (simp_all add: mouse_inv_def init_state_def MOUSE_PACKET_SIZE_def)
  ultimately show ?thesis
    using mouse_packet_decoded [of "init_state ''''" "0x19" "0xff" 2 zero_packet] by auto
qed

section \<open>Real-time clock\<close>

text \<open>
  The alarm for \<open>n\<close> seconds from now: the seconds register is read, and the alarm is
  programmed to go off in any hour and minute at the second which, read as binary-coded
  decimal, is the current one plus \<open>n\<close>, modulo 60.
\<close>

lemma timed_alarm_programmed:
  "\<exists>a. set_timed_alarm E n s =
      (let (now, s1) = rtc_read E SECONDS_REG s in
       rtc_write E HOURS_ALARM 0xC0 (rtc_write E MINUTES_ALARM 0xC0 (rtc_write E SECONDS_ALARM a s1))) \<and>
    bcd_to_int a = (bcd_to_int (fst (rtc_read E SECONDS_REG s)) + uint n) mod 60"
proof -
  let ?now = "bcd_to_int (fst (rtc_read E SECONDS_REG s))"
  have nn: "0 \<le> ?now + uint n" by (simp add: bcd_to_int_def)
  have "bcd_to_int (int_to_bcd ((?now + uint n) mod 60)) = (?now + uint n) mod 60"
  proof (rule bcd_roundtrip)
    show "0 \<le> (?now + uint n) mod 60" by simp
    have "(?now + uint n) mod 60 < 60" by simp
    then show "(?now + uint n) mod 60 < 100" by linarith
  qed
  then show ?thesis using nn
    by (intro exI [of _ "int_to_bcd ((?now + uint n) mod 60)"])
      (simp add: set_timed_alarm_def split_beta Let_def)
qed



section \<open>Video card\<close>

text \<open>
  C9: Drawing an image anywhere, on or off the screen, is memory safe: with buffers of the size
  of the screen and an image with two bytes per pixel, the routine reads inside the image and
  writes inside the secondary buffer, and changes nothing but the contents of that buffer.
\<close>

theorem drawing_safe:
  assumes "gfx_ok s" and "img_ok img"
  shows "\<exists>s'. draw_xpm_x_y E img x y s = Some s' \<and> only_buffer s s' \<and> gfx_ok s'"
  using draw_xpm_x_y_safe [OF assms] gfx_ok_only_buffer assms(1) by blast

theorem drawing_safe_witness:
  "\<exists>s'. draw_xpm_x_y small_env dot 700 5 small_state = Some s' \<and> only_buffer small_state s' \<and> gfx_ok s'"
  by (rule drawing_safe [OF small_gfx_ok]) (simp add: img_ok_def dot_def)

text \<open>
  A character that was added to a centred text box and is removed again leaves the box with
  its size, its cursor and its left end where they were, the text box routines being defined
  throughout.
\<close>

lemma text_box_add_remove:
  assumes "gfx_ok s" and "box_ok s b" and "c \<noteq> CHR ''/''" and "add_to_centered_text_box s c b = Some (True, b')"
  shows "\<exists>b'' s'. remove_from_centered_text_box E b' s = Some (b'', s') \<and> only_buffer s s' \<and> box_ok s b'' \<and>
    char_size b'' = char_size b \<and> cursor_x b'' = cursor_x b \<and> xi b'' = xi b"
  using assms(1,2,3)
proof (rule add_to_centered_cases)
  assume "add_to_centered_text_box s c b = Some (False, b)"
  then show ?thesis using assms(4) by simp
next
  fix img b1
  assume img: "deref s (get_prop_from_char c) = Some img" and b1: "add_to_centered_text_box s c b = Some (True, b1)"
    and ok: "box_ok s b1" and lt: "char_size b < char_max_size b"
    and eq: "b1 = b\<lparr>char_prop := (char_prop b)[nat (char_size b) := Some (get_prop_from_char c)],
              char_size := char_size b + 1,
              cursor_x := cursor_x b + word_of_int (uint (width img) div 2),
              xi := xi b - word_of_int ((uint (width img) + 1) div 2)\<rparr>"
  have b': "b' = b1" using b1 assms(4) by simp
  have pos: "0 < char_size b1" and sz: "char_size b1 - 1 = char_size b" and rng: "0 \<le> char_size b" "char_size b < 20"
      "length (char_prop b) = 20"
    using eq assms(2) lt by (auto simp: box_ok_def MAX_TEXT_BOX_SIZE_def)
  have last: "get_prop s (char_size b1 - 1) b1 = Some img"
    using img rng unfolding sz by (simp add: eq get_prop_def)
  show ?thesis
  proof (rule remove_from_centered_cases [OF assms(1) ok, of E])
    assume "char_size b1 = 0"
    then show ?thesis using pos by simp
  next
    fix s' img'
    assume g: "get_prop s (char_size b1 - 1) b1 = Some img'" and o: "only_buffer s s'"
      and rm: "remove_from_centered_text_box E b1 s =
         Some (b1\<lparr>char_size := char_size b1 - 1, cursor_x := cursor_x b1 - word_of_int (uint (width img') div 2),
                 xi := xi b1 + word_of_int ((uint (width img') + 1) div 2)\<rparr>, s')"
    have "img' = img" using g last by simp
    let ?b2 = "b1\<lparr>char_size := char_size b1 - 1, cursor_x := cursor_x b1 - word_of_int (uint (width img') div 2),
                 xi := xi b1 + word_of_int ((uint (width img') + 1) div 2)\<rparr>"
    have "box_ok s ?b2" by (rule box_ok_remove [OF ok pos])
    moreover have "char_size ?b2 = char_size b \<and> cursor_x ?b2 = cursor_x b \<and> xi ?b2 = xi b"
      using eq \<open>img' = img\<close> by simp
    ultimately show ?thesis unfolding b' using rm o by blast
  qed
qed

end
