(* ===== verification/Screen_Properties.thy ===== *)
theory Screen_Properties
  imports Program_Start
begin

text \<open>
  The properties of the screens around the game: the high scores in memory and on disk, the
  screen where a name is typed, and the one where the number of rounds is typed. A theorem with
  hypotheses is followed by its application to a concrete state.
\<close>

section \<open>The leaderboard\<close>

text \<open>
  C5: Registering a score that beats the lowest one puts the entry at its rank: the five scores
  are those of the sorted insertion with the last one dropped, they are ranked again, the new
  entry is among them, the best score is the maximum and the lowest one does not fall.
\<close>

theorem leaderboard_insertion:
  assumes "length (leaderboard s) = SIZE" and "getLowestHiScore s < int_score (newWinner s)" and "ranked (leaderboard s)"
  shows "leaderboard (updateData s) = take SIZE (hi_insert (newWinner s) (leaderboard s)) \<and>
    ranked (leaderboard (updateData s)) \<and> newWinner s \<in> set (leaderboard (updateData s)) \<and>
    int_score (hd (leaderboard (updateData s))) = max (int_score (newWinner s)) (int_score (hd (leaderboard s))) \<and>
    getLowestHiScore s \<le> getLowestHiScore (updateData s)"
  using board.register_entries [OF assms(1,2)] board.register_ranked [OF assms] board.register_present [OF assms(1,2)]
    board.register_champion [OF assms] board.register_lowest [OF assms] by simp

theorem leaderboard_insertion_witness:
  "int_score (hd (leaderboard (updateData (small_state\<lparr>newWinner := zero_winner\<lparr>int_score := 7\<rparr>\<rparr>)))) = 7"
proof -
  let ?s = "small_state\<lparr>newWinner := zero_winner\<lparr>int_score := 7\<rparr>\<rparr>"
  have l: "leaderboard ?s = [zero_winner, zero_winner, zero_winner, zero_winner, zero_winner]"
    by (simp add: small_state_eq init_state_def eval_nat_numeral)
  have z: "int_score zero_winner = 0" by (simp add: zero_winner_def)
  have "getLowestHiScore ?s < int_score (newWinner ?s)" unfolding getLowestHiScore_def l by (simp add: z)
  moreover have "length (leaderboard ?s) = SIZE" "ranked (leaderboard ?s)" unfolding l by (simp_all add: SIZE_def ranked_def)
  ultimately have "int_score (hd (leaderboard (updateData ?s))) = max (int_score (newWinner ?s)) (int_score (hd (leaderboard ?s)))"
    using leaderboard_insertion [of ?s] by blast
  then show ?thesis unfolding l by (simp add: z)
qed

definition ana :: cont_winner where
  "ana = \<lparr>w_date = ''3/10/2020'' @ replicate 2 NUL, w_name = ''ana'' @ replicate 8 NUL, int_score = 12\<rparr>"

definition ana_board :: "string simon_st" where
  "ana_board = small_state\<lparr>leaderboard := replicate 5 ana\<rparr>"

text \<open>
  C8: The leaderboard survives a restart: where the file system returns what was written and the
  names and dates are single words, saving the scores and reading them into any five entries
  gives the names, scores and dates that were saved, in their order.
\<close>

theorem leaderboard_file_roundtrip:
  fixes s :: "('d, 'y) board_st_scheme"
  assumes "list_all entry_ok (leaderboard s)"
    and "\<And>text. write_file E leaderboard_txt text (dev s) = Some (written text)"
    and "\<And>text. read_file E leaderboard_txt (written text) = Some text"
  shows "\<exists>s1. saveData E s = Some s1 \<and>
    (\<forall>s2 :: ('d, 'z) board_st_scheme. dev s2 = dev s1 \<and> length (leaderboard s2) = length (leaderboard s) \<longrightarrow>
      (\<exists>s3. retrieveData E s2 = Some s3 \<and> map entry_view (leaderboard s3) = map entry_view (leaderboard s)))"
proof -
  obtain t where t: "board_text (leaderboard s) = Some t"
    using retrieve_board_text [OF assms(1), of "replicate 11 NUL" "replicate 11 NUL"] by (metis length_replicate)
  have save: "saveData E s = Some (s\<lparr>dev := written t\<rparr>)" using t assms(2) by (simp add: saveData_def)
  have "\<exists>s3. retrieveData E s2 = Some s3 \<and> map entry_view (leaderboard s3) = map entry_view (leaderboard s)"
    if s2: "dev s2 = written t" "length (leaderboard s2) = length (leaderboard s)" for s2 :: "('d, 'z) board_st_scheme"
  proof -
    obtain ws where "retrieveData E s2 = Some ((loadDummySt s2)\<lparr>leaderboard := ws\<rparr>)"
        "map entry_view ws = map entry_view (leaderboard s)"
      using retrieveData_text [OF assms(1) t, of E s2] s2 assms(3) by auto
    then show ?thesis by (auto simp: loadDummySt_def)
  qed
  then show ?thesis using save by auto
qed

theorem leaderboard_file_roundtrip_witness:
  "\<exists>s1 s3. saveData small_env ana_board = Some s1 \<and> retrieveData small_env s1 = Some s3 \<and>
     map entry_view (leaderboard s3) = replicate 5 (Some ''ana'', 12, Some ''3/10/2020'')"
proof -
  have v: "entry_view ana = (Some ''ana'', 12, Some ''3/10/2020'')"
    by (simp add: ana_def entry_view_def cstr_def eval_nat_numeral)
  have b: "leaderboard ana_board = replicate 5 ana" by (simp add: ana_board_def)
  have "list_all entry_ok (leaderboard ana_board)"
    by (simp add: b list_all_iff) (simp add: ana_def entry_ok_def word_array_def cstr_def is_space_def eval_nat_numeral)
  from leaderboard_file_roundtrip [OF this, of small_env "\<lambda>t. t"]
  obtain s1 where s1: "saveData small_env ana_board = Some s1"
    and r: "dev s2 = dev s1 \<and> length (leaderboard s2) = 5 \<Longrightarrow>
      \<exists>s3. retrieveData small_env s2 = Some s3 \<and> map entry_view (leaderboard s3) = replicate 5 (entry_view ana)"
      for s2 :: "string simon_st"
    by (auto simp: b)
  have "length (leaderboard s1) = 5" using s1 by (auto simp: saveData_def b split: Option.bind_splits)
  then show ?thesis using s1 r [of s1] v by auto
qed

text \<open>
  C40: A name with a space in it does not survive: the name screen accepts the space, the file
  holds the name on one line, but reading it back stops at the space, so whatever the entries
  after the restart are, they are not the ones that were saved.
\<close>

theorem name_with_space_lost:
  assumes "leaderboard s = w # rest" and "cstr (w_name w) = Some (n1 @ CHR '' '' # n2)"
    and "n1 \<noteq> []" and "list_all (\<lambda>c. \<not> is_space c) n1"
    and "saveData E s = Some s1"
    and "\<And>text. write_file E leaderboard_txt text (dev s) = Some (dev s1) \<Longrightarrow>
           read_file E leaderboard_txt (dev s1) = Some text"
  shows "is_alpha_numberical CHR '' '' \<and>
    \<not> (\<exists>s3. retrieveData E s1 = Some s3 \<and> map entry_view (leaderboard s3) = map entry_view (leaderboard s))"
proof -
  obtain t where t: "board_text (leaderboard s) = Some t" "write_file E leaderboard_txt t (dev s) = Some (dev s1)"
      "leaderboard s1 = leaderboard s"
    using assms(5) by (auto simp: saveData_def split: Option.bind_splits)
  then obtain r where r: "t = n1 @ CHR '' '' # r"
    using assms(1,2) by (auto simp: entry_text_def split: Option.bind_splits)
  have sp: "is_space CHR '' ''" by (simp add: is_space_def)
  have sc: "scan_s t = (Some n1, dropWhile is_space r)"
    using assms(3,4) sp unfolding r scan_s_def
    by (simp add: dropWhile_space_word takeWhile_all dropWhile_all Let_def)
  have nn: "NUL \<notin> set n1" using cstr_no_NUL [OF assms(2)] by simp
  have "cstr (w_name (hd entries)) = Some n1"
    if "retrieve_loop (replicate 11 j) d t (w # rest) = Some entries" for j d entries
    using that sc nn by (auto simp: store_s_def cstr_append_NUL split: Option.bind_splits prod.splits if_splits)
  then have "entry_view (hd entries) \<noteq> entry_view w"
    if "retrieve_loop (replicate 11 j) d t (w # rest) = Some entries" for j d entries
    using that assms(2) by (fastforce simp: entry_view_def)
  then have "\<not> (\<exists>s3. retrieveData E s1 = Some s3 \<and> map entry_view (leaderboard s3) = map entry_view (leaderboard s))"
    using assms(1) t assms(6) [OF t(2)]
    by (fastforce simp: retrieveData_def loadDummySt_def Let_def split: Option.bind_splits)
  moreover have "is_alpha_numberical CHR '' ''" by code_simp
  ultimately show ?thesis by blast
qed

definition ana_p :: cont_winner where
  "ana_p = ana\<lparr>w_name := ''ana p'' @ replicate 6 NUL\<rparr>"

theorem name_with_space_lost_witness:
  "\<exists>s1. saveData small_env (ana_board\<lparr>leaderboard := [ana_p, ana, ana, ana, ana]\<rparr>) = Some s1 \<and>
     \<not> (\<exists>s3. retrieveData small_env s1 = Some s3 \<and>
           map entry_view (leaderboard s3) = map entry_view [ana_p, ana, ana, ana, ana])"
proof -
  let ?s = "ana_board\<lparr>leaderboard := [ana_p, ana, ana, ana, ana]\<rparr>"
  have c: "cstr (w_name ana_p) = Some (''ana'' @ CHR '' '' # ''p'')" "cstr (w_name ana) = Some ''ana''"
      "cstr (w_date ana) = Some ''3/10/2020''" "w_date ana_p = w_date ana"
    by (simp_all add: ana_p_def ana_def cstr_def eval_nat_numeral)
  then obtain s1 where s1: "saveData small_env ?s = Some s1" by (simp add: saveData_def entry_text_def)
  have "read_file small_env leaderboard_txt (dev s1) = Some t"
    if "write_file small_env leaderboard_txt t (dev ?s) = Some (dev s1)" for t using that by simp
  from name_with_space_lost [OF _ c(1) _ _ s1 this] show ?thesis using s1 by (auto simp: is_space_def)
qed

section \<open>The name screen\<close>


definition name_state :: "string simon_st" where
  "name_state = reset_hiscore 5 small_state"

lemma name_state_fields [simp]:
  "player name_state = replicate 11 NUL" "leaderboard name_state = replicate 5 zero_winner"
  "int_score (newWinner name_state) = 5" "dev name_state = ''''"
  by (simp_all add: name_state_def reset_hiscore_def create_name_box_def small_state_eq init_state_def Let_def)

lemma name_state_gfx: "gfx_ok name_state"
  by (rule gfx_ok_frame [THEN iffD1, OF _ small_gfx_ok])
    (simp add: name_state_def reset_hiscore_def create_name_box_def vc_st.truncate_def Let_def)

lemma name_state_empty: "name_ok name_state []"
proof -
  have "new_hiscore name_state = create_writeable_text_box 400 330 0 (- 1) 10"
    by (simp add: name_state_def reset_hiscore_def create_name_box_def Let_def)
  then show ?thesis by (simp add: name_ok_def cstr_def box_ok_create) (simp add: create_writeable_text_box_def)
qed






text \<open>
  C39: Three keys of the name screen are undefined: Enter on a name where the allocator gives exactly
  the ten bytes that are asked for, since eleven are copied out of the block of the date,
  whatever the date is; the first character of a name after one of ten characters, since the
  array is not cleared when the screen opens again and the character is written outside it; and
  backspace on an empty name, which writes before the array.
\<close>

theorem name_screen_undefined:
  assumes "gfx_ok s" and "cstr (player s) = Some w"
  shows "(w \<noteq> [] \<and> malloc E 10 (dev s) = Some 10 \<longrightarrow> highscore_update_status E \<lparr>key = ENTER, down = False\<rparr> s = None) \<and>
    (length (player s) = 11 \<and> length w = 10 \<and> is_alpha_numberical c \<and>
       deref s (get_prop_from_char c) = Some img \<and> uint (width img) \<le> 400 \<longrightarrow>
       highscore_update_status E \<lparr>key = c, down = False\<rparr> (reset_hiscore n s) = None) \<and>
    (name_ok s [] \<longrightarrow> highscore_update_status E \<lparr>key = BACKSPACE, down = False\<rparr> s = None)"
  using highscore_enter_overrun [OF assms(2), of E] stale_name_overflow [OF assms(1) _ assms(2), of c img E n]
    backspace_empty [OF assms(1), of E] by blast

theorem name_screen_undefined_witness:
  "highscore_update_status (small_env\<lparr>malloc := \<lambda>n d. Some (nat n)\<rparr>) \<lparr>key = ENTER, down = False\<rparr>
     (small_state\<lparr>player := ''abcdefghij'' @ [NUL]\<rparr>) = None \<and>
   highscore_update_status small_env \<lparr>key = CHR ''a'', down = False\<rparr>
     (reset_hiscore 7 (small_state\<lparr>player := ''abcdefghij'' @ [NUL]\<rparr>)) = None \<and>
   highscore_update_status small_env \<lparr>key = BACKSPACE, down = False\<rparr> name_state = None"
proof -
  let ?s = "small_state\<lparr>player := ''abcdefghij'' @ [NUL]\<rparr>"
  have g: "gfx_ok ?s" using small_gfx_ok by simp
  have d: "deref ?s (get_prop_from_char CHR ''a'') = Some dot"
    by (simp add: small_state_eq init_state_def get_prop_from_char_def nth_img_def)
  have a: "is_alpha_numberical CHR ''a''" by code_simp
  have c: "cstr (player ?s) = Some ''abcdefghij''" by (simp add: cstr_def)
  have n: "cstr (player name_state) = Some []" using name_state_empty by (simp add: name_ok_def)
  show ?thesis
    using name_screen_undefined [OF g c, of "small_env\<lparr>malloc := \<lambda>n d. Some (nat n)\<rparr>" "CHR ''a''" dot 7]
      name_screen_undefined [OF g c, of small_env "CHR ''a''" dot 7] d a
      name_screen_undefined [OF name_state_gfx n, of small_env] name_state_empty
    by (auto simp: dot_def)
qed

section \<open>The cursors of the menus\<close>

text \<open>
  C27: The two cursors are enumerations kept in unsigned words: after any keys on the menu and on the
  host screen, each still has the value of one of its members, so a screen is drawn for it; the
  step back from the first member does not wrap to another value.
\<close>

theorem cursors_typed:
  assumes "cursors_ok s0" and "reaches (cursor_step E) (\<lambda>_ _. True) s0 s"
  shows "position s \<in> {SELECT_ONEPC, SELECT_TWOPC, SELECT_HOW_TO_PLAY, SELECT_LEADERBOARD, SELECT_EXIT} \<and>
    host_position s \<in> {HOST_SELECT_HOST, HOST_SELECT_CONNECT}"
  using cursor_machine.reaches_inv [OF assms(2,1)] menu_positions [of s] host_positions [of s]
  by (simp add: cursors_ok_def menu_consts host_consts)

theorem cursors_typed_witness:
  "host_position (host_update_status small_env \<lparr>key = UP_ARROW, down = False\<rparr> small_state) \<in> {HOST_SELECT_HOST, HOST_SELECT_CONNECT}"
proof -
  have "cursors_ok small_state" by (simp add: small_state_eq init_state_def cursors_ok_def menu_consts host_consts)
  moreover have "reaches (cursor_step small_env) (\<lambda>_ _. True) small_state
      (host_update_status small_env \<lparr>key = UP_ARROW, down = False\<rparr> small_state)"
    by (rule reaches_step [OF reaches_start, where e = "Host_key \<lparr>key = UP_ARROW, down = False\<rparr>"]) simp_all
  ultimately show ?thesis using cursors_typed by blast
qed

section \<open>The number of rounds\<close>





text \<open>
  Enter on a number that is not zero starts the game at one computer with that many rounds:
  between 1 and 999, with an empty sequence in a block of the right size, the first player to
  move, and the invariant of the game.
\<close>

lemma rounds_start_game:
  assumes "rounds_ok s" and "num_rounds_value s \<noteq> 0" and "\<not> is_mp s"
    and "malloc E (uint (num_rounds_value s) * 4) (dev s) \<noteq> None"
  shows "\<exists>s'. number_of_rounds_update_status E \<lparr>key = ENTER, down = False\<rparr> s = Some s' \<and> mode s' = GAME \<and>
    max_buttons_size s' = uint (num_rounds_value s) \<and> 1 \<le> max_buttons_size s' \<and> max_buttons_size s' \<le> 999 \<and>
    repeating s' [] 0 \<and> is_player_1 s' \<and> game_inv s'"
proof -
  let ?n = "uint (num_rounds_value s)"
  have e: "number_of_rounds_update_status E \<lparr>key = ENTER, down = False\<rparr> s = Some (reset_game E ?n (s\<lparr>mode := GAME\<rparr>))"
    and b: "1 \<le> ?n" "?n \<le> 999"
    using rounds_enter_ok [OF assms(1,2), of E] assms(3) by auto
  have m: "malloc E (?n * 4) (dev (s\<lparr>mode := GAME\<rparr>)) \<noteq> None" "0 \<le> ?n" using assms(4) by simp_all
  note r = reset_game_repeating [OF m]
  have "mode (reset_game E ?n (s\<lparr>mode := GAME\<rparr>)) = GAME" by (simp add: reset_game_def Let_def)
  then show ?thesis using e b r by simp
qed

end
