(* ===== verification/Spec2Isabelle.thy ===== *)
theory Spec2Isabelle
  imports Program_Run Program_Entry Lab_Properties Game_Properties Serial_Properties Device_Properties Screen_Properties
begin

text \<open>
  A verification of Simon Says VS, a game for one or two computers that runs on Minix, from the
  sources in \<open>src/proj\<close>, and of the exercises in \<open>src/lab2\<close> to \<open>src/lab5\<close> that its drivers grew from.

  \<^bold>\<open>The program.\<close> \<open>main\<close> hands control to the course framework, LCF, which calls \<open>proj_main_loop\<close>. It reads the leaderboard from a file, runs \<open>run\<close> of \<open>simon.c\<close>
  and writes the leaderboard back. \<open>run\<close> sets a video mode, loads the images, subscribes to the
  interrupts of keyboard, timer, mouse, real-time clock and serial port, and then, once per
  notification, calls the handlers of the interrupts that are pending and \<open>event_handler\<close>, a
  switch over the screen that is shown: it draws the screen into a secondary buffer, passes the
  events to the screen's \<open>..._update_status\<close> functions and copies the buffer to the video
  memory. In the game two players repeat and extend a sequence of coloured buttons by turns, at
  one computer (\<open>game.c\<close>) or at two that exchange one byte per click (\<open>mp_game.c\<close>).

  \<^bold>\<open>The state.\<close> The globals of every file are the fields of one record, which each theory extends
  by those of its file: \<open>machine\<close> (Platform), \<open>kbd\<close>, \<open>mouse_drv\<close>, \<open>props_st\<close>, \<open>vc_st\<close>,
  \<open>screen_st\<close>, \<open>board_st\<close>, \<open>hiscore_st\<close>, \<open>game_st\<close>, \<open>mp_st\<close>, \<open>menu_st\<close>, \<open>simon_st\<close>. An operation
  takes the record extended by any further fields, so a driver can be seen not to touch a screen.
  Static locals are fields too. Where two files have a global of the same name, that of
  \<open>mp_game.c\<close> has the prefix \<open>mp_\<close>. Machine integers are words, \<open>int\<close> is \<open>int\<close> with the overflow
  written out where it can occur; a heap block is the type \<open>block\<close> (null, allocated with its
  cells, freed); a C string is a character array read up to its NUL.

  \<^bold>\<open>Undefined behaviour.\<close> Operations that can read or write outside an array, use a freed block
  or overflow an \<open>int\<close> return an option, and \<open>None\<close> stands for undefined behaviour and nothing
  else, except in the loops defined by \<open>partial_function\<close> (\<open>get_date\<close>, \<open>run_loop\<close>,
  \<open>run1_loop\<close>, and the polling and interrupt loops of the exercises), where it also stands for not returning. No definition uses fuel; the retry loops
  of the mouse driver have the ten attempts of the code.

  \<^bold>\<open>The environment.\<close> The kernel calls, the ports, the C library's \<open>rand\<close>, \<open>time\<close> and \<open>malloc\<close>,
  the file system, and the LCF library's \<open>xpm_load\<close>, \<open>vbe_get_mode_info\<close> and \<open>driver_receive\<close>
  are the fields of the record \<open>env\<close>, which every operation that needs them takes as an
  argument (the allocator of low memory is the record \<open>liblm\<close>, the entry points of LCF the record
  \<open>lcf_entry\<close>); \<open>dev\<close> is the state of all devices and is opaque. Theorems assume of it only what
  they name, such as that an allocation succeeds or that a file reads as it was written.

  \<^bold>\<open>The theories.\<close>
  \<^item> Simon_Prelude: bits, C truth values, C strings, decimal text, heap blocks, the locale
    \<open>safe_machine\<close> of event handlers with an invariant.
  \<^item> Platform: \<open>utils.c\<close>, the environment, the locales \<open>driver_op\<close> and \<open>driver_cmd\<close>
    of operations that change only the device, which every driver routine interprets.
  \<^item> Uart, Rtc, Keyboard, Mouse: the drivers \<open>uart.c\<close>, \<open>rtc.c\<close>, \<open>keyboard.c\<close>, \<open>mouse.c\<close>.
  \<^item> Props, Vc, Screen: \<open>timer.c\<close>, the glyphs of \<open>num_and_letters.c\<close>, the drawing routines and text boxes of
    \<open>vc.c\<close> (locale \<open>drawing\<close>: defined, and changing the buffer only), the images of \<open>screen.c\<close>.
  \<^item> Leaderboard, Highscore: \<open>leaderboard.c\<close> (locale \<open>score_board\<close>), \<open>highscore.c\<close>.
  \<^item> Game, Game_Rules: \<open>game.c\<close>, and its rules: the locale \<open>simon_turn\<close> of a turn, interpreted
    for both games, the invariant of the handlers, the abstract game they refine.
  \<^item> Mp_Game, Mp_Rules: \<open>mp_game.c\<close>, and two machines at the ends of a line.
  \<^item> Menus: \<open>number_of_rounds.c\<close>, \<open>host.c\<close>, \<open>menu.c\<close>, \<open>how_to_play.c\<close>.
  \<^item> Simon, Simon_Rules, Main_Loop: \<open>simon.c\<close> and \<open>proj.c\<close>, the graph of the screens, the loop.
  \<^item> Game_Drawing, Mp_Drawing: drawing either game is defined and leaves its state alone.
  \<^item> Program_Safety: the invariant of the screens and the local game, kept by each case of the event
    handler. Serial_Safety, Serial_Event: the invariant of the serial game, its handlers, the bytes
    of the peer, and the case of the serial game. Loop_Safety: the other screens keep the serial
    game, so every iteration of the loop keeps both (locale \<open>safe_machine\<close> interpreted for the
    main loop). Program_Run: the program up to the loop, which is entered in the invariant, and
    the end of the program.
  \<^item> Lab_Timer, Lab_Kbc, Lab_Mouse, Lab_Video: the exercises in \<open>src/lab2\<close>, \<open>src/lab3\<close>, \<open>src/lab4\<close> and
    \<open>src/lab5\<close>, each with the record of its globals; the functions of the course library that print are
    recorded with their arguments. Lab_Mel: the second video exercise, \<open>src/lab5/mel\<close>, on the keyboard
    driver of \<open>src/lab3\<close>; drawing is a map from pixels to colours (\<open>tint\<close>). The locale \<open>frame_reader\<close> of loops that assemble frames of bytes is
    interpreted for scancodes and for mouse packets. The locale \<open>flag_loop\<close> of
    interrupt loops that a flag ends is interpreted for the scan test and for the escape loop.
  \<^item> Program_Entry: \<open>main\<close> of the game and of the exercises; under a framework that calls the loop of
    the game, \<open>main\<close> is that loop (\<open>main_is_loop\<close>).
  \<^item> Program_Start: the globals at program start and a small machine for concrete states.
  \<^item> Game_Properties, Serial_Properties, Device_Properties, Screen_Properties, Lab_Properties and this theory:
    the claims, each after its statement in words and followed by an application to a concrete
    state where it has hypotheses.

  \<^bold>\<open>What is shown.\<close> The game at one computer: every sequence of events but two kinds keeps the
  invariant, clicks refine the rules, the clock ends a turn, perfect play ends in a tie; the two
  kinds of events with undefined behaviour are characterised exactly. The serial game: a click
  and its byte keep two machines in step, the ways in which they lose step, and the bytes with
  undefined behaviour, exactly. The drivers: scancodes, mouse packets, alarms, dates, the transmitter. Drawing stays inside the
  buffers. The leaderboard is a sorted insertion and its file a round trip, but for names with
  spaces; the name and number screens agree with what they show, and the places where the name
  screen leaves its arrays are exhibited; the cursors of the menus stay inside them. The
  exercises: the divisor and the interrupt test of the timer, scancodes and packets read frame by
  frame, the dialogue with the mouse, what a gesture takes and where it divides by zero, filled
  rectangles, the path of an image, the video modes in which no drawing is defined, and, in the
  second video exercise, rectangles that are clipped and the exact picture of the pattern. This theory:
  from its start the program has no undefined behaviour but for the events that \<open>tame\<close> names, and
  it returns with the leaderboard written or runs for ever; the graph of the screens.

  \<^bold>\<open>Not modelled.\<close> Messages printed to the terminal; the images; the uncompiled copies \<open>backup.c\<close> and
  \<open>mock.c\<close>; \<open>video_test_xpm\<close> and \<open>video_test_move\<close> of \<open>src/lab5/mel\<close>, which call an undeclared function
  with an argument of the wrong type and do not compile; the prototype in \<open>src/lab4/proj\<close>, of which
  only a function that prints a word is built and whose other files repeat the exercises;
  \<open>src/lab0\<close>, a program that prints a line; the headers of Minix and of its libraries under \<open>src/.minix-src\<close>,
  which declare the functions that are parameters here.
\<close>

section \<open>The main loop\<close>

text \<open>
  C6: Whatever interrupts arrive, the screens follow the graph \<open>next_modes\<close>: the screen of every
  state the main loop continues with is reached along its edges, the next iteration takes one
  edge more (the interrupt handlers change no screen), and it asks for the end of the program
  only on the exit screen.
\<close>

theorem screen_graph:
  assumes "loop_to E irqs s s1" and "run_body E irqs False s1 = Some (exit, s2)"
  shows "(\<lambda>m m'. m' \<in> next_modes m)\<^sup>*\<^sup>* (mode s) (mode s1) \<and> mode s2 \<in> next_modes (mode s1) \<and>
    (exit \<longrightarrow> mode s2 = EXIT)"
  using loop_to_modes [OF assms(1)] run_body_mode [OF assms(2)] by blast

text \<open>The keyboard controller holds the release of Enter, and the menu shows its last entry.\<close>

definition enter_env :: "string env" where
  "enter_env = small_env\<lparr>sys_inb := \<lambda>port d. ((0, if port = KBC_STAT_REG then 1 else 0x9c), d),
     driver_receive := \<lambda>d. ((0, True, \<lparr>m_source_hardware = True, interrupts = 1\<rparr>), d)\<rparr>"

definition kbd_irqs :: irq_sets where
  "kbd_irqs = \<lparr>keyboard_irq_set = 1, timer_irq_set = 0, mouse_irq_set = 0, rtc_irq_set = 0, uart_irq_set = 0\<rparr>"

definition exit_menu :: "string simon_st" where
  "exit_menu = small_state\<lparr>count := 1, position := SELECT_EXIT, assemblied_word := True\<rparr>"

theorem screen_graph_witness:
  "\<exists>s2. run_body enter_env kbd_irqs False exit_menu = Some (True, s2) \<and> mode s2 = EXIT \<and> mode s2 \<in> next_modes MENU"
proof -
  have "map_option fst (run_body enter_env kbd_irqs False exit_menu) = Some True" by code_simp
  then obtain s2 where s2: "run_body enter_env kbd_irqs False exit_menu = Some (True, s2)" by auto
  have "mode exit_menu = MENU" by code_simp
  then show ?thesis using s2 screen_graph [OF loop_start s2] by simp
qed

text \<open>
  C1: From the start of the program every iteration of the main loop has a defined outcome, in the
  invariant of the program: no read or write outside an array or a block, no use of a released
  block, no integer overflow. The machine is assumed to have a video mode with whole bytes per
  pixel, images of the right size, memory for the buffer and a score file as the program writes
  it; the program is the one that reads the file, sets up (\<open>boot\<close>), runs the loop and writes the
  file. The iterations are those that are tame. The events that are not are named in \<open>tame\<close>: a
  click that overflows a versus round, a tick of the clock after a local game lost with no time
  left, a name key the name array has no room for, a failed or short allocation, the largest
  value of the menu's counter, and bytes of the peer that click in or end a game that is over,
  that start one with more than 999 rounds, or that act in the same notification as the mouse or
  the clock.
\<close>

theorem program_safe:
  assumes "machine_ok E d" and "boot E (init_state d) = Some (Some ((irqs, k, m, r), s0))"
    and "reaches (loop_step E irqs) (tame_iteration E irqs) s0 s" and "tame_iteration E irqs exit s"
  shows "proj_main_loop E (init_state d) =
      do { s \<leftarrow> run_loop E irqs False s0; map_option Inr (saveData E (unsubscribe_all E k m r s)) } \<and>
    (\<exists>exit' s'. run_body E irqs exit s = Some (exit', s') \<and> all_ok s')"
proof
  show "proj_main_loop E (init_state d) =
      do { s \<leftarrow> run_loop E irqs False s0; map_option Inr (saveData E (unsubscribe_all E k m r s)) }"
    by (rule proj_main_loop_boot [OF assms(2)])
  have "loop_inv E s0" using boot_ok [OF assms(1)] assms(2) by auto
  then show "\<exists>exit' s'. run_body E irqs exit s = Some (exit', s') \<and> all_ok s'"
    using main_loop.reaches_defined [OF assms(3) _ assms(4)] by (auto simp: loop_step_def loop_inv_def)
qed

definition start_disk :: string where
  "start_disk = the (board_text (replicate 5 ana))"

text \<open>The small machine, whatever its ports read and its kernel sends, starts the program with five entries on its disk.\<close>

lemma small_machine:
  assumes E_def: "E = small_env\<lparr>sys_inb := ports, driver_receive := recv\<rparr>"
  shows "machine_ok E start_disk \<and> (\<exists>irqs k m r s0. boot E (init_state start_disk) = Some (Some ((irqs, k, m, r), s0)) \<and>
    keyboard_irq_set irqs = 2 \<and> mode s0 = MENU \<and> count s0 = 0)"
proof -
  have e: "entry_ok ana" "0 \<le> int_score ana \<and> int_score ana < 1000"
    by (simp_all add: ana_def entry_ok_def word_array_def cstr_def is_space_def eval_nat_numeral)
  have "list_all entry_ok (replicate 5 ana)" using e by (simp add: list_all_iff)
  then obtain t where t: "board_text (replicate 5 ana) = Some t"
    using retrieve_board_text [of "replicate 5 ana" "replicate 11 NUL" "replicate 11 NUL" "replicate 5 ana"] by auto
  have "stored_board E start_disk"
    unfolding stored_board_def using e t
    by (intro exI [of _ "replicate 5 ana"] exI [of _ t]) (simp add: list_all_iff SIZE_def start_disk_def E_def)
  moreover have i: "vbe_get_mode_info E = vbe_get_mode_info small_env" "xpm_load E = xpm_load small_env"
      "malloc E = malloc small_env" by (simp_all add: E_def)
  moreover have "mode_bytes (fst (vbe_get_mode_info small_env 0x114 start_disk)) = 2" "video_ok E start_disk"
    by (simp_all add: video_ok_def i) (simp_all add: mode_bytes_def small_env_def)
  ultimately have m: "machine_ok E start_disk"
    by (auto simp: machine_ok_def images_ok_def load_xpms_def img_ok_def dot_def list_all_iff)
  obtain q where q: "boot E (init_state start_disk) = Some q" using boot_ok [OF m] by blast
  obtain s1 where s1: "retrieveData E (init_state start_disk) = Some s1"
    using q by (cases "retrieveData E (init_state start_disk)") (simp_all add: boot_def)
  obtain s2 where s2: "get_mode_info E 0x114 s1 = Inr (0, s2)" by (simp add: get_mode_info_def E_def small_env_def)
  have v: "fst (set_vbe_mode E 0x114 s2) = 0" by (simp add: set_vbe_mode_def E_def small_env_def)
  let ?x = "subscribe_all E (load_props E (snd (set_vbe_mode E 0x114 s2)))"
  have b: "boot E (init_state start_disk) = Some (Some ?x)" using s1 s2 v by (simp add: boot_def split_beta)
  obtain irqs k n r s0 where x: "?x = ((irqs, k, n, r), s0)" by (metis surj_pair)
  have "keyboard_irq_set irqs = 2" using subscribed_keyboard [of E "load_props E (snd (set_vbe_mode E 0x114 s2))"] x by simp
  moreover have "mode s0 = MENU" "count s0 = 0" using boot_ok [OF m] b x by auto
  ultimately show ?thesis using m b x by auto
qed

theorem program_safe_witness:
  "\<exists>irqs n s0 exit' s'. boot enter_env (init_state start_disk) = Some (Some ((irqs, n), s0)) \<and>
     run_body enter_env irqs False s0 = Some (exit', s') \<and> all_ok s'"
proof -
  obtain irqs k m' r s0 where m: "machine_ok enter_env start_disk"
      and b: "boot enter_env (init_state start_disk) = Some (Some ((irqs, k, m', r), s0))" and "mode s0 = MENU" "count s0 = 0"
    using small_machine [OF enter_env_def] by blast
  then have "tame_iteration enter_env irqs False s0" by (simp add: menu_tame)
  then show ?thesis using program_safe [OF m b reaches_start] b by blast
qed

text \<open>
  C10: On the same machine, with a file that can be written, and where the iterations the loop comes
  to are tame, the program either returns, after an iteration that chose the exit screen or
  read the release of the escape key, with the leaderboard of the last state written to the
  file, or its loop goes on for ever: it is never stuck.
\<close>

theorem program_returns:
  assumes "machine_ok E d" and "boot E (init_state d) = Some (Some ((irqs, k, m, r), s0))"
    and "\<And>s. loop_to E irqs s0 s \<Longrightarrow> tame_iteration E irqs False s"
    and "\<And>text d. write_file E leaderboard_txt text d \<noteq> None"
  shows "(\<exists>s1 s2 t d1 s3. loop_to E irqs s0 s1 \<and> stops_at E irqs s1 s2 \<and> board_text (leaderboard s2) = Some t \<and>
      write_file E leaderboard_txt t d1 = Some (dev s3) \<and> proj_main_loop E (init_state d) = Some (Inr s3)) \<or>
    (proj_main_loop E (init_state d) = None \<and> (\<forall>n. loop_n E irqs n s0 \<noteq> None))"
proof -
  note p = proj_main_loop_boot [OF assms(2)]
  have "loop_inv E s0" using boot_ok [OF assms(1)] assms(2) by auto
  from run_ends [OF this assms(3)] show ?thesis
  proof
    assume "\<exists>s1 s2. loop_to E irqs s0 s1 \<and> stops_at E irqs s1 s2 \<and> run_loop E irqs False s0 = Some s2 \<and> all_ok s2"
    then obtain s1 s2 where s: "loop_to E irqs s0 s1" "stops_at E irqs s1 s2" "run_loop E irqs False s0 = Some s2" "all_ok s2" by blast
    then show ?thesis using save_ok [OF s(4) assms(4), of k m r] p by fastforce
  next
    assume "run_loop E irqs False s0 = None \<and> (\<forall>n. loop_n E irqs n s0 \<noteq> None)"
    then show ?thesis unfolding p by simp
  qed
qed

text \<open>A keyboard on which the escape key is released.\<close>

definition esc_env :: "string env" where
  "esc_env = small_env\<lparr>sys_inb := \<lambda>port d. ((0, if port = KBC_STAT_REG then 1 else 0x81), d),
     driver_receive := \<lambda>d. ((0, True, \<lparr>m_source_hardware = True, interrupts = 2\<rparr>), d)\<rparr>"

theorem program_returns_witness:
  "\<exists>s. proj_main_loop esc_env (init_state start_disk) = Some (Inr s)"
proof -
  obtain irqs k m' r s0 where m: "machine_ok esc_env start_disk"
      and b: "boot esc_env (init_state start_disk) = Some (Some ((irqs, k, m', r), s0))"
      and s0: "keyboard_irq_set irqs = 2" "mode s0 = MENU" "count s0 = 0"
    using small_machine [OF esc_env_def] by blast
  have byte: "kbc_ih_output (kbc_ih esc_env s) = ESC_BREAK_CODE" for s :: "string simon_st"
    by (simp add: kbc_ih_def inb_def util_sys_inb_def esc_env_def KBC_STAT_REG_def KBC_OUT_BUF_def KBC_STAT_REG_OBF_def ESC_BREAK_CODE_def BIT_def truth_def Let_def split_beta)
  have sent: "driver_receive esc_env d = ((0, True, \<lparr>m_source_hardware = True, interrupts = 2\<rparr>), d)" for d by (simp add: esc_env_def)
  have esc: "scancode_is_esc_break s" if "run_body esc_env irqs False s0 = Some (exit, s)" for exit s
    by (rule menu_escape [OF that s0(2) sent]) (simp_all add: s0(1) truth_def byte)
  have only: "s = s0" if "loop_to esc_env irqs s0 s" for s using that by cases (use esc in auto)
  have "\<not> (\<forall>n. loop_n esc_env irqs n s0 \<noteq> None)"
    using esc by (auto intro!: exI [of _ "Suc 0"] split: Option.bind_splits)
  moreover have t: "tame_iteration esc_env irqs False s" if "loop_to esc_env irqs s0 s" for s
    using only [OF that] s0 by (simp add: menu_tame)
  moreover have w: "write_file esc_env leaderboard_txt t d \<noteq> None" for t d by (simp add: esc_env_def)
  ultimately show ?thesis using program_returns [OF m b t w] by blast
qed

end
